(* ===== verification/Prelude.thy ===== *)
theory Prelude
  imports Main "HOL-Library.Word"
begin

text \<open>
  What every theory of the development shares: the fact collections, the error values of the Go
  code, Go's int64 arithmetic and its clock, and the string and byte-slice functions of the Go
  standard library that the source calls. Strings are byte strings (\<open>char list\<close>), byte slices
  are lists of \<open>8 word\<close>.
\<close>

named_theorems effect_simps \<open>how the external calls of the model extend the request log\<close>
named_theorems transform_defs \<open>the unfolding equations of the controllers' transform functions\<close>
named_theorems emit_intros \<open>composition rules of the request log\<close>

type_synonym byte = "8 word"
type_synonym resource_id = string

section \<open>Errors\<close>

text \<open>
  A Go error as far as the code looks at it: its text, whether it is a state "not found" or
  "conflict" error, its gRPC status code, the two context errors, the runtime's two control errors
  (skip this reconcile, requeue after an interval), and wrapping by \<open>fmt.Errorf\<close> with the percent-w
  verb. Errors of libraries carry their text.
\<close>

datatype grpc_code = Canceled | UnknownCode | DeadlineExceeded | Unavailable | Internal | OtherCode nat

datatype err =
    Plain string
  | NotFoundErr string
  | ConflictErr string
  | GrpcErr grpc_code string
  | CtxCanceled
  | CtxDeadlineExceeded
  | SkipReconcile string
  | RequeueInterval int
  | Wrapped string err

text \<open>\<open>err.Error()\<close>. The text of a requeue request is never read by the code.\<close>

fun err_text :: "err \<Rightarrow> string" where
  "err_text (Plain s) = s"
| "err_text (NotFoundErr s) = s"
| "err_text (ConflictErr s) = s"
| "err_text (GrpcErr c s) = s"
| "err_text CtxCanceled = ''context canceled''"
| "err_text CtxDeadlineExceeded = ''context deadline exceeded''"
| "err_text (SkipReconcile s) = s"
| "err_text (RequeueInterval n) = ''requeue''"
| "err_text (Wrapped s e) = s @ '': '' @ err_text e"

text \<open>\<open>state.IsNotFoundError\<close>: it looks through wrapping.\<close>

fun is_not_found :: "err \<Rightarrow> bool" where
  "is_not_found (NotFoundErr s) = True"
| "is_not_found (Wrapped s e) = is_not_found e"
| "is_not_found _ = False"

text \<open>\<open>status.Code\<close>: the code of a gRPC status error, \<open>Unknown\<close> for any other error.\<close>

fun status_code :: "err \<Rightarrow> grpc_code" where
  "status_code (GrpcErr c s) = c"
| "status_code (Wrapped s e) = status_code e"
| "status_code _ = UnknownCode"

text \<open>\<open>errors.Is\<close>: the error itself, or one it wraps.\<close>

fun err_is :: "err \<Rightarrow> err \<Rightarrow> bool" where
  "err_is (Wrapped s e) t = (Wrapped s e = t \<or> err_is e t)"
| "err_is e t = (e = t)"

text \<open>
  The idiom every controller reads its inputs with:
  \<open>x, err := safe.ReaderGetByID(...); if err != nil \<and> not state.IsNotFoundError(err) then return err\<close>.
  A missing resource is a nil pointer, any other failure ends the reconcile.
\<close>

definition get_or_nil :: "err + 'r \<Rightarrow> err + 'r option" where
  "get_or_nil x = (case x of Inl e \<Rightarrow> if is_not_found e then Inr None else Inl e | Inr r \<Rightarrow> Inr (Some r))"

lemma get_or_nil_simps [simp]:
  "get_or_nil (Inr r) = Inr (Some r)"
  "get_or_nil (Inl (NotFoundErr s)) = Inr None"
  by (simp_all add: get_or_nil_def)

section \<open>Deferred closing\<close>

text \<open>
  \<open>internal/util\<close>: \<open>defer util.LogErr(f)\<close> runs \<open>f\<close> in the state \<open>x\<close> ended in, on every return path; its error is only logged. A closer
  is its \<open>Close\<close> method.
\<close>

definition LogErr :: "('w \<Rightarrow> err option \<times> 'w) \<Rightarrow> 'a \<times> 'w \<Rightarrow> 'a \<times> 'w" where
  "LogErr f x = (case x of (r, w) \<Rightarrow> (case f w of (_, w') \<Rightarrow> (r, w')))"

definition LogClose :: "('w \<Rightarrow> err option \<times> 'w) \<Rightarrow> 'a \<times> 'w \<Rightarrow> 'a \<times> 'w" where
  "LogClose closer x = (case x of (r, w) \<Rightarrow> (case closer w of (_, w') \<Rightarrow> (r, w')))"

lemma LogErr_fst [simp]: "fst (LogErr f x) = fst x" "fst (LogClose f x) = fst x"
  by (simp_all add: LogErr_def LogClose_def split: prod.splits)

section \<open>int64 arithmetic and the clock\<close>

text \<open>
  A \<open>time.Duration\<close> is an int64 number of nanoseconds, and its \<open>+\<close> and \<open>-\<close> wrap. A \<open>time.Time\<close> is
  modelled as the number of nanoseconds since the Unix epoch; Go's zero time is 1 January of year 1.
  \<open>Time.Sub\<close> saturates instead of wrapping.
\<close>

definition int64_wrap :: "int \<Rightarrow> int" where
  "int64_wrap x = (x + 2 ^ 63) mod 2 ^ 64 - 2 ^ 63"

definition max_duration :: int where "max_duration = 2 ^ 63 - 1"
definition min_duration :: int where "min_duration = - (2 ^ 63)"
definition second :: int where "second = 1000000000"
definition zero_time :: int where "zero_time = - 62135596800 * 1000000000"

definition time_Sub :: "int \<Rightarrow> int \<Rightarrow> int" where
  "time_Sub t u = max min_duration (min max_duration (t - u))"

lemma int64_wrap_id: "- (2 ^ 63) \<le> x \<Longrightarrow> x < 2 ^ 63 \<Longrightarrow> int64_wrap x = x"
  by (simp add: int64_wrap_def)

lemma int64_wrap_bounds: "- (2 ^ 63) \<le> int64_wrap x \<and> int64_wrap x < 2 ^ 63"
  by (auto simp: int64_wrap_def)

lemma time_Sub_bounds: "min_duration \<le> time_Sub t u \<and> time_Sub t u \<le> max_duration"
  by (auto simp: time_Sub_def min_duration_def max_duration_def)

lemma time_Sub_antimono: "u \<le> u' \<Longrightarrow> time_Sub t u' \<le> time_Sub t u"
  by (auto simp: time_Sub_def)

lemma time_Sub_exact: "\<bar>t - u\<bar> < 2 ^ 63 \<Longrightarrow> time_Sub t u = t - u"
  by (auto simp: time_Sub_def min_duration_def max_duration_def)

lemma time_Sub_zero_time: "0 \<le> now \<Longrightarrow> time_Sub now zero_time = max_duration"
  by (simp add: time_Sub_def zero_time_def max_duration_def min_duration_def)

section \<open>Strings and byte slices\<close>

text \<open>The conversions between strings and byte slices.\<close>

definition bytes_of :: "string \<Rightarrow> byte list" where
  "bytes_of s = map (\<lambda>c. word_of_nat (of_char c)) s"

definition string_of :: "byte list \<Rightarrow> string" where
  "string_of bs = map (\<lambda>b. char_of (unat b)) bs"

lemma string_of_bytes_of [simp]: "string_of (bytes_of s) = s"
proof -
  have "char_of (unat (word_of_nat (of_char c) :: byte)) = c" for c
    by (simp add: unat_of_nat)
  then show ?thesis by (simp add: string_of_def bytes_of_def comp_def)
qed

lemma length_bytes_of [simp]: "length (bytes_of s) = length s"
  by (simp add: bytes_of_def)

lemma bytes_of_Nil [simp]: "bytes_of s = [] \<longleftrightarrow> s = []"
  by (simp add: bytes_of_def)

text \<open>
  \<open>strings.HasPrefix\<close>, \<open>TrimPrefix\<close>, \<open>HasSuffix\<close>, \<open>Contains\<close>, \<open>Join\<close>, \<open>Split\<close> (on a one-character
  separator), \<open>ToLower\<close>, \<open>Fields\<close> and \<open>TrimSpace\<close> (on the ASCII white space), and
  \<open>bytes.Index\<close>/\<open>strings.Index\<close>, which share one definition.
\<close>

definition has_prefix :: "'a list \<Rightarrow> 'a list \<Rightarrow> bool" where
  "has_prefix s p \<longleftrightarrow> take (length p) s = p"

definition trim_prefix :: "'a list \<Rightarrow> 'a list \<Rightarrow> 'a list" where
  "trim_prefix s p = (if has_prefix s p then drop (length p) s else s)"

definition has_suffix :: "'a list \<Rightarrow> 'a list \<Rightarrow> bool" where
  "has_suffix s p \<longleftrightarrow> length p \<le> length s \<and> drop (length s - length p) s = p"

fun index_of :: "'a list \<Rightarrow> 'a list \<Rightarrow> nat option" where
  "index_of [] p = (if p = [] then Some 0 else None)"
| "index_of (x # xs) p = (if has_prefix (x # xs) p then Some 0 else map_option Suc (index_of xs p))"

definition contains_sub :: "'a list \<Rightarrow> 'a list \<Rightarrow> bool" where
  "contains_sub s p \<longleftrightarrow> index_of s p \<noteq> None"

fun join :: "string \<Rightarrow> string list \<Rightarrow> string" where
  "join sep [] = []"
| "join sep [x] = x"
| "join sep (x # y # xs) = x @ sep @ join sep (y # xs)"

fun split_at :: "'a \<Rightarrow> 'a list \<Rightarrow> 'a list list" where
  "split_at c [] = [[]]"
| "split_at c (x # xs) =
     (if x = c then [] # split_at c xs
      else (case split_at c xs of [] \<Rightarrow> [[x]] | y # ys \<Rightarrow> (x # y) # ys))"

definition char_lower :: "char \<Rightarrow> char" where
  "char_lower c = (if 65 \<le> (of_char c :: nat) \<and> (of_char c :: nat) \<le> 90 then char_of ((of_char c :: nat) + 32) else c)"

definition to_lower :: "string \<Rightarrow> string" where
  "to_lower s = map char_lower s"

definition is_space :: "char \<Rightarrow> bool" where
  "is_space c \<longleftrightarrow> (of_char c :: nat) \<in> {9, 10, 11, 12, 13, 32}"

fun fields :: "string \<Rightarrow> string list" where
  "fields [] = []"
| "fields (c # s) =
     (if is_space c then fields s
      else (case s of [] \<Rightarrow> [[c]]
            | d # _ \<Rightarrow> if is_space d then [c] # fields s
                      else (case fields s of [] \<Rightarrow> [[c]] | w # ws \<Rightarrow> (c # w) # ws)))"

definition trim_space :: "string \<Rightarrow> string" where
  "trim_space s = rev (dropWhile is_space (rev (dropWhile is_space s)))"

text \<open>\<open>strconv.Itoa\<close> and the \<open>%d\<close> verb.\<close>

fun nat_digits :: "nat \<Rightarrow> string" where
  "nat_digits n = (if n < 10 then [char_of (48 + n)] else nat_digits (n div 10) @ [char_of (48 + n mod 10)])"

declare nat_digits.simps [simp del]

definition itoa :: "int \<Rightarrow> string" where
  "itoa n = (if n < 0 then ''-'' @ nat_digits (nat (- n)) else nat_digits (nat n))"

lemma has_prefix_Nil [simp]: "has_prefix s []"
  by (simp add: has_prefix_def)

lemma has_prefix_code [code]:
  "has_prefix s [] = True"
  "has_prefix [] (y # ys) = False"
  "has_prefix (x # xs) (y # ys) = (x = y \<and> has_prefix xs ys)"
  by (simp_all add: has_prefix_def)

lemma has_prefix_iff: "has_prefix s p \<longleftrightarrow> (\<exists>r. s = p @ r)"
  by (auto simp: has_prefix_def) (metis append_take_drop_id)

lemma has_prefix_append [simp]: "has_prefix (p @ r) p"
  by (auto simp: has_prefix_iff)

lemma trim_prefix_append [simp]: "trim_prefix (p @ r) p = r"
  by (simp add: trim_prefix_def)

lemma index_of_Some:
  "index_of s p = Some i \<Longrightarrow> i + length p \<le> length s \<and> take (length p) (drop i s) = p"
proof (induction s arbitrary: i)
  case Nil
  then show ?case by (auto split: if_splits)
next
  case (Cons x xs)
  show ?case
  proof (cases "has_prefix (x # xs) p")
    case True
    with Cons.prems have "i = 0" by simp
    moreover from True obtain r where r: "x # xs = p @ r" by (auto simp: has_prefix_iff)
    then have "length p \<le> length (x # xs)" by simp
    ultimately show ?thesis using r by simp
  next
    case False
    with Cons.prems obtain j where "index_of xs p = Some j" "i = Suc j" by auto
    with Cons.IH show ?thesis by simp
  qed
qed

lemma index_of_first:
  "index_of s p = Some i \<Longrightarrow> j < i \<Longrightarrow> \<not> has_prefix (drop j s) p"
proof (induction s arbitrary: i j)
  case Nil
  then show ?case by (auto split: if_splits)
next
  case (Cons x xs)
  then show ?case by (cases j) (auto split: if_splits)
qed

lemma index_of_None: "index_of s p = None \<longleftrightarrow> (\<forall>j \<le> length s. \<not> has_prefix (drop j s) p)"
proof (induction s)
  case Nil
  then show ?case by (auto simp: has_prefix_def)
next
  case (Cons x xs)
  have "(\<forall>j \<le> length (x # xs). \<not> has_prefix (drop j (x # xs)) p)
        \<longleftrightarrow> \<not> has_prefix (x # xs) p \<and> (\<forall>j \<le> length xs. \<not> has_prefix (drop j xs) p)"
    by (metis (no_types, lifting) One_nat_def Suc_le_mono drop0 drop_Suc_Cons length_Cons less_eq_nat.simps(1) not0_implies_Suc)
  with Cons show ?case by simp
qed

lemma contains_sub_iff: "contains_sub s p \<longleftrightarrow> (\<exists>a b. s = a @ p @ b)"
proof
  assume "contains_sub s p"
  then obtain i where "index_of s p = Some i" by (auto simp: contains_sub_def)
  then have "s = take i s @ p @ drop (i + length p) s"
    using index_of_Some by (metis append_take_drop_id drop_drop add.commute)
  then show "\<exists>a b. s = a @ p @ b" by blast
next
  assume "\<exists>a b. s = a @ p @ b"
  then obtain a b where s: "s = a @ p @ b" by blast
  then have "has_prefix (drop (length a) s) p" "length a \<le> length s" by simp_all
  then show "contains_sub s p" unfolding contains_sub_def using index_of_None by blast
qed

lemma contains_sub_trans: "contains_sub s t \<Longrightarrow> contains_sub t u \<Longrightarrow> contains_sub s u"
proof -
  assume "contains_sub s t" and "contains_sub t u"
  then obtain a b a' b' where "s = a @ t @ b" "t = a' @ u @ b'" by (auto simp: contains_sub_iff)
  then have "s = (a @ a') @ u @ (b' @ b)" by simp
  then show ?thesis unfolding contains_sub_iff by blast
qed

lemma contains_sub_append: "contains_sub s t \<Longrightarrow> contains_sub (a @ s @ b) t"
  by (rule contains_sub_trans) (auto simp: contains_sub_iff)

end
