(* ===== verification/Paths.thy ===== *)
theory Paths
  imports Prelude
begin

text \<open>
  Go's lexical path functions, \<open>path.Clean\<close> and \<open>filepath.Join\<close> of a directory and a name, and the file maps
  of the boot services, keyed by the path a file is served under.
\<close>

type_synonym file_map = "string \<rightharpoonup> byte list"

text \<open>The elements of a path, with the ones kept so far reversed: empty and dot elements are dropped, a dot-dot
  element removes the one before it.\<close>

fun clean_elements :: "bool \<Rightarrow> string list \<Rightarrow> string list \<Rightarrow> string list" where
  "clean_elements rooted [] kept = rev kept"
| "clean_elements rooted (e # es) kept =
     (if e = [] \<or> e = ''.'' then clean_elements rooted es kept
      else if e = ''..'' then
        (case kept of
           [] \<Rightarrow> if rooted then clean_elements rooted es [] else clean_elements rooted es [''..'']
         | k # ks \<Rightarrow> if k = ''..'' then clean_elements rooted es (''..'' # kept) else clean_elements rooted es ks)
      else clean_elements rooted es (e # kept))"

definition path_Clean :: "string \<Rightarrow> string" where
  "path_Clean p =
     (if p = [] then ''.''
      else (let rooted = (hd p = CHR ''/'');
                elements = clean_elements rooted (split_at CHR ''/'' p) []
            in if rooted then CHR ''/'' # join ''/'' elements
               else if elements = [] then ''.''
               else join ''/'' elements))"

definition filepath_Join :: "string \<Rightarrow> string \<Rightarrow> string" where
  "filepath_Join dir name =
     (if dir = [] then (if name = [] then [] else path_Clean name)
      else if name = [] then path_Clean dir
      else path_Clean (dir @ ''/'' @ name))"

text \<open>How the TFTP server and the HTTP file handler turn a request into a key.\<close>

definition request_key :: "string \<Rightarrow> string" where
  "request_key filename = trim_prefix (path_Clean (CHR ''/'' # filename)) ''/''"

section \<open>Clean names\<close>

definition clean_name :: "string \<Rightarrow> bool" where
  "clean_name s \<longleftrightarrow> (\<forall>e \<in> set (split_at CHR ''/'' s). e \<noteq> [] \<and> e \<noteq> ''.'' \<and> e \<noteq> ''..'')"

lemma split_at_ne [simp]: "split_at c s \<noteq> []"
  by (induction s) (auto split: list.splits)

lemma join_Cons: "xs \<noteq> [] \<Longrightarrow> join sep (x # xs) = x @ sep @ join sep xs"
  by (cases xs) auto

lemma join_split_at: "join [c] (split_at c s) = s"
proof (induction s)
  case Nil
  then show ?case by simp
next
  case (Cons x s)
  obtain y ys where y: "split_at c s = y # ys" by (cases "split_at c s") auto
  show ?case
  proof (cases "x = c")
    case True
    then show ?thesis using Cons.IH by (simp add: join_Cons)
  next
    case False
    then show ?thesis using Cons.IH y by (cases ys) auto
  qed
qed

lemma split_at_Cons_sep [simp]: "split_at c (c # s) = [] # split_at c s"
  by simp

lemma clean_elements_clean:
  "\<forall>e \<in> set es. e \<noteq> [] \<and> e \<noteq> ''.'' \<and> e \<noteq> ''..'' \<Longrightarrow> clean_elements rooted es kept = rev kept @ es"
  by (induction es arbitrary: kept) auto

lemma path_Clean_rooted: "path_Clean (CHR ''/'' # s) = CHR ''/'' # join ''/'' (clean_elements True (split_at CHR ''/'' s) [])"
  by (simp add: path_Clean_def)

lemma request_key_join: "request_key s = join ''/'' (clean_elements True (split_at CHR ''/'' s) [])"
proof -
  have "trim_prefix (''/'' @ r) ''/'' = r" for r by (rule trim_prefix_append)
  then show ?thesis by (simp add: request_key_def path_Clean_rooted)
qed

text \<open>A clean name is served under itself, and with any number of leading slashes.\<close>

lemma request_key_clean:
  assumes "clean_name s"
  shows "request_key s = s" and "request_key (CHR ''/'' # s) = s"
proof -
  have c: "clean_elements True (split_at CHR ''/'' s) [] = split_at CHR ''/'' s"
    using assms clean_elements_clean [of "split_at CHR ''/'' s" True "[]"] by (simp add: clean_name_def)
  then show "request_key s = s" by (simp add: request_key_join join_split_at)
  show "request_key (CHR ''/'' # s) = s" using c by (simp add: request_key_join join_split_at)
qed

text \<open>Whatever the request, its key has no dot-dot element left, so a key never leaves the served tree.\<close>

lemma clean_elements_inv:
  assumes "\<forall>e \<in> set kept. P e" and "\<forall>e \<in> set es. e \<noteq> [] \<and> e \<noteq> ''.'' \<and> e \<noteq> ''..'' \<longrightarrow> P e"
  shows "\<forall>e \<in> set (clean_elements True es kept). P e"
  using assms
proof (induction es arbitrary: kept)
  case Nil
  then show ?case by simp
next
  case (Cons e es)
  note IH = Cons.IH [OF _ Cons.prems(2) [unfolded list.set ball_simps, THEN conjunct2]]
  consider (skip) "e = [] \<or> e = ''.''" | (up) "e = ''..''" | (keep) "e \<noteq> []" "e \<noteq> ''.''" "e \<noteq> ''..''" by blast
  then show ?case
  proof cases
    case skip
    have "clean_elements True (e # es) kept = clean_elements True es kept" using skip by (simp only: clean_elements.simps if_True)
    with IH [OF Cons.prems(1)] show ?thesis by (simp only:)
  next
    case up
    show ?thesis
    proof (cases kept)
      case Nil
      with up have "clean_elements True (e # es) kept = clean_elements True es []" by simp
      moreover have "\<forall>e \<in> set (clean_elements True es []). P e" by (rule IH) simp
      ultimately show ?thesis by (simp only:)
    next
      case (Cons k ks)
      with up have "clean_elements True (e # es) kept =
        (if k = ''..'' then clean_elements True es (''..'' # kept) else clean_elements True es ks)" by simp
      moreover have "\<forall>e \<in> set ks. P e" "k = ''..'' \<Longrightarrow> \<forall>e \<in> set (''..'' # kept). P e"
        using Cons Cons.prems(1) by simp_all
      ultimately show ?thesis using IH by presburger
    qed
  next
    case keep
    then have "clean_elements True (e # es) kept = clean_elements True es (e # kept)" by (simp only: clean_elements.simps if_False simp_thms)
    moreover have "\<forall>x \<in> set (e # kept). P x" using keep Cons.prems by simp
    ultimately show ?thesis using IH by presburger
  qed
qed

lemma split_at_join:
  assumes "es \<noteq> []" "\<forall>e \<in> set es. c \<notin> set e"
  shows "split_at c (join [c] es) = es"
proof -
  have plain: "c \<notin> set e \<Longrightarrow> split_at c e = [e]" for e
    by (induction e) auto
  have app: "c \<notin> set e \<Longrightarrow> split_at c (e @ c # s) = e # split_at c s" for e s
    by (induction e) auto
  show ?thesis using assms
  proof (induction es)
    case Nil
    then show ?case by simp
  next
    case (Cons e es)
    then show ?case by (cases "es = []") (auto simp: plain join_Cons app)
  qed
qed

lemma split_at_elements: "\<forall>e \<in> set (split_at c s). c \<notin> set e"
  by (induction s) (auto split: list.splits)

lemma request_key_is_clean: "request_key s = [] \<or> clean_name (request_key s)"
proof -
  define es where "es = clean_elements True (split_at CHR ''/'' s) []"
  have sub: "\<forall>e \<in> set es. CHR ''/'' \<notin> set e"
    unfolding es_def using split_at_elements [of "CHR ''/''" s] by (intro clean_elements_inv) simp_all
  have dots: "\<forall>e \<in> set es. e \<noteq> [] \<and> e \<noteq> ''.'' \<and> e \<noteq> ''..''"
    unfolding es_def by (rule clean_elements_inv) simp_all
  show ?thesis
  proof (cases "es = []")
    case True
    then show ?thesis by (simp add: request_key_join es_def)
  next
    case False
    with sub dots show ?thesis
      by (simp add: request_key_join clean_name_def es_def [symmetric] split_at_join)
  qed
qed

lemma request_key_idem: "request_key (request_key s) = request_key s"
proof (cases "request_key s = []")
  case True
  then show ?thesis by (simp add: request_key_join)
next
  case False
  then show ?thesis using request_key_is_clean request_key_clean(1) by blast
qed

end
