(* ===== verification/IpxePatch.thy ===== *)
theory IpxePatch
  imports Paths
begin

text \<open>
  \<open>internal/provider/ipxe/patch.go\<close>: the embedded iPXE binaries are patched with the provider's script and,
  when the operator asks for it, with the fingerprint of another root certificate. The embedded file system,
  the compressor of the zbin library, the PEM decoder and SHA-256 are parameters.
\<close>

definition newline :: string where "newline = [CHR 0x0A]"
definition tab :: string where "tab = [CHR 0x09]"

fun unlines :: "string list \<Rightarrow> string" where
  "unlines [] = []"
| "unlines (l # ls) = l @ newline @ unlines ls"

definition IPXEURLPath :: string where "IPXEURLPath = ''ipxe''"
definition ConfigURLPath :: string where "ConfigURLPath = ''config''"
definition AssetsURLPath :: string where "AssetsURLPath = ''assets''"
definition initScriptName :: string where "initScriptName = ''init.ipxe''"
definition bootScriptName :: string where "bootScriptName = ''boot.ipxe''"

section \<open>The embedded script\<close>

text \<open>The executed template; its comments leave the rest of their line, and executing it cannot fail.\<close>

definition buildInitScript :: "string \<Rightarrow> int \<Rightarrow> string" where
  "buildInitScript endpoint port = unlines
     [''#!ipxe'',
      ''prompt --key 0x02 --timeout 2000 Press Ctrl-B for the iPXE command line... && shell ||'',
      [],
      [],
      ''ifstat'',
      [],
      [],
      ''set attempts:int32 10'',
      ''set x:int32 0'',
      [],
      '':retry_loop'',
      [],
      tab @ ''set idx:int32 0'',
      [],
      tab @ '':loop'',
      tab @ tab,
      tab @ tab @ ''isset ${net${idx}/mac} || goto exhausted'',
      [],
      tab @ tab @ ''ifclose'',
      tab @ tab @ ''iflinkwait --timeout 5000 net${idx} || goto next_iface'',
      tab @ tab @ ''dhcp net${idx} || goto next_iface'',
      tab @ tab @ ''goto boot'',
      [],
      tab @ '':next_iface'',
      tab @ tab @ ''inc idx && goto loop'',
      [],
      tab @ '':boot'',
      tab @ tab,
      tab @ tab @ ''route'',
      [],
      tab @ tab @ ''chain --replace http://'' @ endpoint @ '':'' @ itoa port @ ''/'' @ IPXEURLPath @ ''/'' @ bootScriptName @
        ''?uuid=${uuid}&mac=${net${idx}/mac:hexhyp}&domain=${domain}&hostname=${hostname}&serial=${serial}&arch=${buildarch}'' @
        '' || goto next_iface'',
      [],
      '':exhausted'',
      tab @ ''echo'',
      tab @ ''echo Failed to iPXE boot successfully via all interfaces'',
      [],
      tab @ ''iseq ${x} ${attempts} && goto fail ||'',
      [],
      tab @ ''echo Retrying...'',
      tab @ ''echo'',
      [],
      tab @ ''inc x'',
      tab @ ''goto retry_loop'',
      [],
      '':fail'',
      tab @ ''echo'',
      tab @ ''echo Failed to get a valid response after ${attempts} attempts'',
      tab @ ''echo'',
      [],
      tab @ ''echo Rebooting in 5 seconds...'',
      tab @ ''sleep 5'',
      tab @ ''reboot'']"

lemma contains_line: "l \<in> set ls \<Longrightarrow> contains_sub (unlines ls) l"
proof (induction ls)
  case (Cons x ls)
  show ?case
  proof (cases "l = x")
    case True
    then show ?thesis unfolding contains_sub_iff by (intro exI [of _ "[]"] exI [of _ "newline @ unlines ls"]) simp
  next
    case False
    with Cons have "contains_sub (unlines ls) l" by simp
    then show ?thesis using contains_sub_append [of "unlines ls" l "x @ newline" "[]"] by simp
  qed
qed simp

section \<open>Patching one binary\<close>

definition placeholderStart :: "byte list" where "placeholderStart = bytes_of ''# *PLACEHOLDER START*''"
definition placeholderEnd :: "byte list" where "placeholderEnd = bytes_of ''# *PLACEHOLDER END*''"

definition ipxeRootCAHash :: "byte list" where
  "ipxeRootCAHash =
     [0x9f, 0xaf, 0x71, 0x7b, 0x7f, 0x8c, 0xa2, 0xf9, 0x3c, 0x25,
      0x6c, 0x79, 0xf8, 0xac, 0x55, 0x91, 0x89, 0x5d, 0x66, 0xd1,
      0xff, 0x3b, 0xee, 0x63, 0x97, 0xa7, 0x0d, 0x29, 0xc6, 0x5e,
      0xed, 0x1a]"

definition sha256_Size :: nat where "sha256_Size = 32"

text \<open>\<open>copy(dst[from:from+n], src)\<close> for a source of length \<open>n\<close> that fits.\<close>

definition copy_at :: "'a list \<Rightarrow> nat \<Rightarrow> 'a list \<Rightarrow> 'a list" where
  "copy_at dst from src = take from dst @ src @ drop (from + length src) dst"

text \<open>
  The loop of \<open>replaceCA\<close>: search on from \<open>startIdx\<close>, overwrite what is found, move past it. \<open>None\<close> is the
  error of the first search that finds nothing.
\<close>

function replace_loop :: "byte list \<Rightarrow> byte list \<Rightarrow> nat \<Rightarrow> byte list option" where
  "replace_loop customCAHash fileContents startIdx =
     (case index_of (drop startIdx fileContents) ipxeRootCAHash of
        None \<Rightarrow> if startIdx = 0 then None else Some fileContents
      | Some caStart \<Rightarrow>
          if length customCAHash \<noteq> length ipxeRootCAHash then None
          else replace_loop customCAHash (copy_at fileContents (caStart + startIdx) customCAHash)
                 (caStart + startIdx + length customCAHash))"
  by auto

definition replaceCA :: "byte list \<Rightarrow> byte list \<Rightarrow> err + byte list" where
  "replaceCA fileContents customCAHash =
     (if length customCAHash \<noteq> sha256_Size
      then Inl (Plain (''CA hash must be '' @ itoa (int sha256_Size) @ '' bytes, but got '' @ itoa (int (length customCAHash))))
      else (case replace_loop customCAHash fileContents 0 of
              None \<Rightarrow> Inl (Plain ''iPXE root CA hash was not found in file'')
            | Some contents \<Rightarrow> Inr contents))"

definition patchBytes :: "byte list \<Rightarrow> byte list \<Rightarrow> byte list \<Rightarrow> err + byte list" where
  "patchBytes contents script customCAHash =
     (case index_of contents placeholderStart of
        None \<Rightarrow> Inl (Plain ''placeholder start not found'')
      | Some start \<Rightarrow>
     (case index_of contents placeholderEnd of
        None \<Rightarrow> Inl (Plain ''placeholder end not found'')
      | Some end0 \<Rightarrow>
          if end0 < start then Inl (Plain ''placeholder end before start'')
          else (let end1 = end0 + length placeholderEnd;
                    len = end1 - start
                in if length script > len
                   then Inl (Plain (''script size '' @ itoa (int (length script)) @ '' is larger than placeholder space '' @ itoa (int len)))
                   else (let script' = script @ replicate (len - length script) 10;
                             contents' = copy_at contents start script'
                         in if length customCAHash > 0
                            then (case replaceCA contents' customCAHash of
                                    Inl e \<Rightarrow> Inl (Wrapped ''failed to replace CA'' e)
                                  | Inr c \<Rightarrow> Inr c)
                            else Inr contents'))))"

section \<open>All binaries\<close>

record ipxe_env =
  read_data :: "string \<Rightarrow> err + byte list"
  zbin_Compress :: "byte list \<Rightarrow> byte list \<Rightarrow> err + byte list"
  read_file :: "string \<Rightarrow> err + byte list"
  pem_Decode :: "byte list \<Rightarrow> (string \<times> byte list) option"
  sha256_Sum :: "byte list \<Rightarrow> byte list"

definition getCAHash :: "ipxe_env \<Rightarrow> string \<Rightarrow> err + byte list" where
  "getCAHash io customCAPEMFile =
     (case read_file io customCAPEMFile of
        Inl e \<Rightarrow> Inl (Wrapped ''failed to read custom CA file'' e)
      | Inr pemBytes \<Rightarrow>
          (case pem_Decode io pemBytes of
             None \<Rightarrow> Inl (Plain ''failed to decode PEM block'')
           | Some (typ, bytes) \<Rightarrow>
               if typ \<noteq> ''CERTIFICATE'' then Inl (Plain ''expected PEM type CERTIFICATE'')
               else Inr (sha256_Sum io bytes)))"

text \<open>The two nested loops over architectures and names, flattened into their list of iterations.\<close>

fun patch_efis ::
  "ipxe_env \<Rightarrow> byte list \<Rightarrow> byte list \<Rightarrow> (string \<times> string \<times> string) list \<Rightarrow> file_map \<Rightarrow> err + file_map" where
  "patch_efis io initScript customCAHash [] files = Inr files"
| "patch_efis io initScript customCAHash ((arch, suffix, name) # rest) files =
     (let source = ''data/'' @ arch @ ''/'' @ name @ ''.efi''
      in case read_data io source of
           Inl e \<Rightarrow> Inl e
         | Inr contents \<Rightarrow>
             (case patchBytes contents initScript customCAHash of
                Inl e \<Rightarrow> Inl (Wrapped (''failed to patch '' @ source) e)
              | Inr patched \<Rightarrow>
                  patch_efis io initScript customCAHash rest
                    (files(name @ suffix @ ''.efi'' \<mapsto> patched, arch @ ''/'' @ name @ ''.efi'' \<mapsto> patched))))"

definition efi_iterations :: "(string \<times> string \<times> string) list" where
  "efi_iterations = [(''amd64'', [], ''ipxe''), (''amd64'', [], ''snp''),
                     (''arm64'', ''-arm64'', ''ipxe''), (''arm64'', ''-arm64'', ''snp'')]"

definition patchBinaries :: "ipxe_env \<Rightarrow> byte list \<Rightarrow> string \<Rightarrow> err + file_map" where
  "patchBinaries io initScript customCAFile =
     (case (if customCAFile \<noteq> []
            then (case getCAHash io customCAFile of
                    Inl e \<Rightarrow> Inl (Wrapped ''failed to get CA hash'' e) | Inr h \<Rightarrow> Inr h)
            else Inr []) of
        Inl e \<Rightarrow> Inl e
      | Inr customCAHash \<Rightarrow>
     (case patch_efis io initScript customCAHash efi_iterations Map.empty of
        Inl e \<Rightarrow> Inl e
      | Inr files \<Rightarrow>
     (case read_data io ''data/amd64/kpxe/undionly.kpxe.bin'' of
        Inl e \<Rightarrow> Inl e
      | Inr bin \<Rightarrow>
     (case read_data io ''data/amd64/kpxe/undionly.kpxe.zinfo'' of
        Inl e \<Rightarrow> Inl e
      | Inr zinfo \<Rightarrow>
     (case patchBytes bin initScript customCAHash of
        Inl e \<Rightarrow> Inl (Wrapped ''failed to patch undionly.kpxe.bin'' e)
      | Inr patched \<Rightarrow>
     (case zbin_Compress io patched zinfo of
        Inl e \<Rightarrow> Inl (Wrapped ''failed to compress undionly.kpxe'' e)
      | Inr compressed \<Rightarrow>
          if length compressed = 0 then Inl (Plain ''compressing undionly.kpxe produced an empty file'')
          else Inr (files(''undionly.kpxe'' \<mapsto> compressed, ''undionly.kpxe.0'' \<mapsto> compressed))))))))"

section \<open>The loop ends and replaces every occurrence\<close>

lemma length_ipxeRootCAHash [simp]: "length ipxeRootCAHash = 32"
  by (simp add: ipxeRootCAHash_def)

lemma length_copy_at: "from + length src \<le> length dst \<Longrightarrow> length (copy_at dst from src) = length dst"
  by (simp add: copy_at_def)

termination replace_loop
proof (relation "measure (\<lambda>(h, c, i). length c - i)")
  show "wf (measure (\<lambda>(h, c, i). length c - i))" by simp
next
  fix h c :: "byte list" and i k
  assume k: "index_of (drop i c) ipxeRootCAHash = Some k" and l: "\<not> length h \<noteq> length ipxeRootCAHash"
  from index_of_Some [OF k] have b: "k + 32 \<le> length c - i" by simp
  with l have "length (copy_at c (k + i) h) = length c" by (intro length_copy_at) simp
  with b l show "((h, copy_at c (k + i) h, k + i + length h), h, c, i) \<in> measure (\<lambda>(h, c, i). length c - i)" by simp
qed

text \<open>The reference: read from the left, replace the fingerprint wherever it stands, never inside what was just
  written.\<close>

function replace_all :: "byte list \<Rightarrow> byte list \<Rightarrow> byte list" where
  "replace_all h c =
     (case index_of c ipxeRootCAHash of
        None \<Rightarrow> c
      | Some k \<Rightarrow> take k c @ h @ replace_all h (drop (k + 32) c))"
  by auto
termination
proof (relation "measure (length \<circ> snd)")
  fix h c :: "byte list" and k
  assume "index_of c ipxeRootCAHash = Some k"
  from index_of_Some [OF this] show "((h, drop (k + 32) c), h, c) \<in> measure (length \<circ> snd)" by auto
qed simp

declare replace_loop.simps [simp del] replace_all.simps [simp del]

lemma replace_loop_rest:
  assumes "length h = 32" "0 < i" "i \<le> length c"
  shows "replace_loop h c i = Some (take i c @ replace_all h (drop i c))"
  using assms
proof (induction h c i rule: replace_loop.induct)
  case (1 h c i)
  show ?case
  proof (cases "index_of (drop i c) ipxeRootCAHash")
    case None
    with 1 show ?thesis by (simp add: replace_loop.simps [of h c i] replace_all.simps [of h "drop i c"])
  next
    case (Some k)
    from index_of_Some [OF Some] 1(4) have b: "k + i + 32 \<le> length c" by auto
    define c' where "c' = copy_at c (k + i) h"
    from b 1(2) have l: "length c' = length c" unfolding c'_def by (intro length_copy_at) simp
    have t: "take (k + i + 32) c' = take (k + i) c @ h" "drop (k + i + 32) c' = drop (k + i + 32) c"
      using 1(2) b by (simp_all add: c'_def copy_at_def)
    have "replace_loop h c i = replace_loop h c' (k + i + 32)"
      using Some 1(2) by (simp add: replace_loop.simps [of h c i] c'_def)
    also have "\<dots> = Some (take (k + i + 32) c' @ replace_all h (drop (k + i + 32) c'))"
      using 1(1) [OF Some] 1(2) b l by (simp add: c'_def)
    also have "take (k + i + 32) c' @ replace_all h (drop (k + i + 32) c') = take i c @ replace_all h (drop i c)"
    proof -
      have "take (k + i) c = take i c @ take k (drop i c)" using take_add [of i k c] by (simp add: add.commute)
      moreover have "drop (k + i + 32) c = drop (k + 32) (drop i c)"
        unfolding drop_drop by (rule arg_cong [of _ _ "\<lambda>n. drop n c"]) simp
      ultimately have "take (k + i + 32) c' = take i c @ take k (drop i c) @ h"
        "drop (k + i + 32) c' = drop (k + 32) (drop i c)" unfolding t by (simp_all only: append_assoc)
      with Some show ?thesis by (simp add: replace_all.simps [of h "drop i c"])
    qed
    finally show ?thesis .
  qed
qed

lemma replaceCA_eq:
  assumes "length h = 32"
  shows "replaceCA c h =
    (if contains_sub c ipxeRootCAHash then Inr (replace_all h c) else Inl (Plain ''iPXE root CA hash was not found in file''))"
proof (cases "index_of c ipxeRootCAHash")
  case None
  then show ?thesis using assms by (simp add: replaceCA_def sha256_Size_def replace_loop.simps [of h c 0] contains_sub_def)
next
  case (Some k)
  from index_of_Some [OF Some] have b: "k + 32 \<le> length c" by simp
  have "replace_loop h c 0 = replace_loop h (copy_at c k h) (k + 32)"
    using Some assms by (simp add: replace_loop.simps [of h c 0])
  also have "\<dots> = Some (take (k + 32) (copy_at c k h) @ replace_all h (drop (k + 32) (copy_at c k h)))"
    using assms b by (intro replace_loop_rest) (auto simp: length_copy_at)
  also have "\<dots> = Some (replace_all h c)"
    using assms b Some by (simp add: replace_all.simps [of h c] copy_at_def)
  finally show ?thesis using Some assms by (simp add: replaceCA_def sha256_Size_def contains_sub_def)
qed

lemma length_replace_all: "length h = 32 \<Longrightarrow> length (replace_all h c) = length c"
proof (induction h c rule: replace_all.induct)
  case (1 h c)
  show ?case
  proof (cases "index_of c ipxeRootCAHash")
    case None
    then show ?thesis by (simp add: replace_all.simps [of h c])
  next
    case (Some k)
    with 1 index_of_Some [OF Some] show ?thesis by (simp add: replace_all.simps [of h c])
  qed
qed

lemma copy_at_split:
  assumes "length mid = length src"
  shows "copy_at (a @ mid @ b) (length a) src = a @ src @ b"
  using assms by (simp add: copy_at_def)

lemma index_of_split:
  assumes "index_of s p = Some i"
  shows "s = take i s @ p @ drop (i + length p) s"
proof -
  from index_of_Some [OF assms] have "drop i s = p @ drop (length p) (drop i s)" by (metis append_take_drop_id)
  then show ?thesis by (metis append_take_drop_id drop_drop add.commute)
qed

lemma patchBinaries_files:
  assumes "patchBinaries io script ca = Inr files"
  shows "dom files = {''ipxe.efi'', ''snp.efi'', ''ipxe-arm64.efi'', ''snp-arm64.efi'',
      ''amd64/ipxe.efi'', ''amd64/snp.efi'', ''arm64/ipxe.efi'', ''arm64/snp.efi'', ''undionly.kpxe'', ''undionly.kpxe.0''} \<and>
    files ''amd64/snp.efi'' = files ''snp.efi'' \<and> files ''arm64/snp.efi'' = files ''snp-arm64.efi'' \<and>
    files ''amd64/ipxe.efi'' = files ''ipxe.efi'' \<and> files ''arm64/ipxe.efi'' = files ''ipxe-arm64.efi'' \<and>
    files ''undionly.kpxe.0'' = files ''undionly.kpxe'' \<and> files ''undionly.kpxe'' \<noteq> Some []"
proof -
  from assms obtain h efis comp where
    e: "patch_efis io script h efi_iterations Map.empty = Inr efis" and c: "comp \<noteq> []"
    and f: "files = efis(''undionly.kpxe'' \<mapsto> comp, ''undionly.kpxe.0'' \<mapsto> comp)"
    by (auto simp: patchBinaries_def split: sum.splits if_splits)
  from e obtain p1 p2 p3 p4 where "efis = (((((((Map.empty(''ipxe.efi'' \<mapsto> p1))(''amd64/ipxe.efi'' \<mapsto> p1))(''snp.efi'' \<mapsto> p2))
      (''amd64/snp.efi'' \<mapsto> p2))(''ipxe-arm64.efi'' \<mapsto> p3))(''arm64/ipxe.efi'' \<mapsto> p3))(''snp-arm64.efi'' \<mapsto> p4))(''arm64/snp.efi'' \<mapsto> p4)"
    by (auto simp: efi_iterations_def Let_def split: sum.splits)
  with c f show ?thesis by auto
qed

section \<open>Properties\<close>

text \<open>
  C22. Patching a binary changes the placeholder and nothing else. When it succeeds, the contents split into what
  comes before the first start marker, the placeholder from there to the end of the first end marker, and the
  rest; the result has the same length, and is these contents with the placeholder replaced by the script and
  newlines up to its length, in which, if a custom CA is given, every occurrence of the iPXE root fingerprint,
  read from the left, is replaced by the custom one.
\<close>

theorem patchBytes_exact:
  assumes "patchBytes contents script h = Inr c" and "length h \<in> {0, 32}"
  shows "\<exists>a mid b. contents = a @ mid @ b \<and>
    index_of contents placeholderStart = Some (length a) \<and>
    index_of contents placeholderEnd = Some (length a + length mid - length placeholderEnd) \<and>
    length script \<le> length mid \<and> length c = length contents \<and>
    (let patched = a @ script @ replicate (length mid - length script) 10 @ b
     in c = (if h = [] then patched else replace_all h patched))"
proof -
  obtain st en where st: "index_of contents placeholderStart = Some st" and en: "index_of contents placeholderEnd = Some en"
    and le: "\<not> en < st"
    using assms(1) by (auto simp: patchBytes_def split: option.splits if_splits)
  define end1 where "end1 = en + length placeholderEnd"
  define a where "a = take st contents"
  define mid where "mid = take (end1 - st) (drop st contents)"
  define b where "b = drop end1 contents"
  define patched where "patched = copy_at contents st (script @ replicate (end1 - st - length script) 10)"
  from index_of_Some [OF en] have e: "end1 \<le> length contents" by (simp add: end1_def)
  have la: "length a = st" and lm: "length mid = end1 - st" and em: "st \<le> end1"
    using e le by (simp_all add: a_def mid_def end1_def)
  have c3: "contents = a @ mid @ b"
    using em by (simp add: a_def mid_def b_def) (metis append_take_drop_id drop_drop le_add_diff_inverse2)
  have ls: "length script \<le> end1 - st"
    using assms(1) st en le by (auto simp: patchBytes_def Let_def end1_def split: if_splits)
  have p: "patched = a @ script @ replicate (end1 - st - length script) 10 @ b"
    unfolding patched_def by (subst c3) (use copy_at_split [of mid "script @ replicate (end1 - st - length script) 10" a b] la lm ls in simp)
  have lp: "length patched = length contents" using arg_cong [OF c3, of length] la lm ls by (simp add: p)
  have "c = (if h = [] then patched else replace_all h patched)"
  proof (cases "h = []")
    case True
    with assms(1) st en le ls show ?thesis by (simp add: patchBytes_def Let_def end1_def [symmetric] patched_def)
  next
    case False
    with assms(2) have "length h = 32" by auto
    with assms(1) st en le ls False show ?thesis
      by (auto simp: patchBytes_def Let_def end1_def [symmetric] patched_def replaceCA_eq split: if_splits)
  qed
  moreover have "length c = length contents" using calculation assms(2) lp by (auto simp: length_replace_all)
  moreover have "index_of contents placeholderEnd = Some (length a + length mid - length placeholderEnd)"
    using en la lm em by (simp add: end1_def)
  ultimately show ?thesis
    using c3 st la lm ls p by (intro exI [of _ a] exI [of _ mid] exI [of _ b]) (simp add: Let_def)
qed

definition sample_binary :: "byte list" where
  "sample_binary = [1, 2] @ placeholderStart @ [32, 32] @ placeholderEnd @ [3] @ ipxeRootCAHash @ [4]"

lemma placeholderStart_code [code]:
  "placeholderStart = [35, 32, 42, 80, 76, 65, 67, 69, 72, 79, 76, 68, 69, 82, 32, 83, 84, 65, 82, 84, 42]"
  by (simp add: placeholderStart_def bytes_of_def)

lemma placeholderEnd_code [code]:
  "placeholderEnd = [35, 32, 42, 80, 76, 65, 67, 69, 72, 79, 76, 68, 69, 82, 32, 69, 78, 68, 42]"
  by (simp add: placeholderEnd_def bytes_of_def)

lemma sample_script: "bytes_of ''#!ipxe'' = [35, 33, 105, 112, 120, 101]"
  by (simp add: bytes_of_def)

lemma sample_binary_start: "index_of sample_binary placeholderStart = Some 2"
  by (simp add: sample_binary_def placeholderStart_code has_prefix_code)

lemma sample_binary_end: "index_of sample_binary placeholderEnd = Some 25"
  by (simp add: sample_binary_def placeholderStart_code placeholderEnd_code has_prefix_code)

lemma sample_binary_patched:
  "patchBytes sample_binary (bytes_of ''#!ipxe'') [] =
     Inr ([1, 2] @ bytes_of ''#!ipxe'' @ replicate 36 10 @ [3] @ ipxeRootCAHash @ [4])"
  by (simp add: patchBytes_def sample_binary_start sample_binary_end sample_script)
     (simp add: copy_at_def sample_binary_def placeholderStart_code placeholderEnd_code)

theorem patchBytes_exact_witness:
  "\<exists>a mid b. sample_binary = a @ mid @ b \<and> length (bytes_of ''#!ipxe'') \<le> length mid"
  using patchBytes_exact [OF sample_binary_patched] by auto

text \<open>
  C23. The search-and-overwrite loop for the root fingerprint ends on every input and does what the left-to-right
  replacement does; it reports an error exactly when the fingerprint does not occur.
\<close>

theorem replaceCA_replaces_all:
  assumes "length h = 32"
  shows "replaceCA c h = (if contains_sub c ipxeRootCAHash then Inr (replace_all h c)
    else Inl (Plain ''iPXE root CA hash was not found in file''))"
  using assms by (rule replaceCA_eq)

theorem replaceCA_replaces_all_witness:
  "replaceCA ([9] @ ipxeRootCAHash) (replicate 32 7) = Inr (replace_all (replicate 32 7) ([9] @ ipxeRootCAHash))"
proof -
  have "contains_sub ([9] @ ipxeRootCAHash) ipxeRootCAHash"
    unfolding contains_sub_iff by (intro exI [of _ "[9]"] exI [of _ "[]"]) simp
  then show ?thesis using replaceCA_replaces_all [of "replicate 32 7" "[9] @ ipxeRootCAHash"] by simp
qed

text \<open>
  The patched binaries are served under exactly ten names, the flat ones of TFTP and the per-architecture ones
  of HTTP, with the same bytes under the two names of a binary, and the BIOS loader is never empty.
\<close>

theorem patchBinaries_names:
  assumes "patchBinaries io script ca = Inr files"
  shows "dom files = {''ipxe.efi'', ''snp.efi'', ''ipxe-arm64.efi'', ''snp-arm64.efi'',
      ''amd64/ipxe.efi'', ''amd64/snp.efi'', ''arm64/ipxe.efi'', ''arm64/snp.efi'', ''undionly.kpxe'', ''undionly.kpxe.0''} \<and>
    files ''amd64/snp.efi'' = files ''snp.efi'' \<and> files ''arm64/snp.efi'' = files ''snp-arm64.efi'' \<and>
    files ''amd64/ipxe.efi'' = files ''ipxe.efi'' \<and> files ''arm64/ipxe.efi'' = files ''ipxe-arm64.efi'' \<and>
    files ''undionly.kpxe.0'' = files ''undionly.kpxe'' \<and> files ''undionly.kpxe'' \<noteq> Some []"
  using assms by (rule patchBinaries_files)

definition sample_io :: ipxe_env where
  "sample_io = \<lparr>read_data = (\<lambda>p. Inr sample_binary), zbin_Compress = (\<lambda>b z. Inr b), read_file = (\<lambda>p. Inr []),
     pem_Decode = (\<lambda>b. None), sha256_Sum = (\<lambda>b. replicate 32 0)\<rparr>"

lemma sample_io_patched: "\<not> isl (patchBinaries sample_io (bytes_of ''#!ipxe'') [])"
proof -
  have p: "patchBytes sample_binary (bytes_of ''#!ipxe'') [] = Inr ([1, 2] @ bytes_of ''#!ipxe'' @ replicate 36 10 @ [3] @ ipxeRootCAHash @ [4])"
    by (rule sample_binary_patched)
  obtain x xs where x: "[1, 2] @ bytes_of ''#!ipxe'' @ replicate 36 10 @ [3] @ ipxeRootCAHash @ [4] = x # xs" by simp
  have r: "read_data sample_io s = Inr sample_binary" "zbin_Compress sample_io b z = Inr b" for s b z
    by (simp_all add: sample_io_def)
  show ?thesis unfolding patchBinaries_def efi_iterations_def by (simp only: patch_efis.simps r Let_def p x) (simp add: r p x)
qed

theorem patchBinaries_names_witness:
  "\<exists>files. patchBinaries sample_io (bytes_of ''#!ipxe'') [] = Inr files \<and> ''snp.efi'' \<in> dom files"
proof -
  obtain files where f: "patchBinaries sample_io (bytes_of ''#!ipxe'') [] = Inr files"
    using sample_io_patched by (cases "patchBinaries sample_io (bytes_of ''#!ipxe'') []") auto
  from patchBinaries_names [OF f] have "dom files = {''ipxe.efi'', ''snp.efi'', ''ipxe-arm64.efi'', ''snp-arm64.efi'',
      ''amd64/ipxe.efi'', ''amd64/snp.efi'', ''arm64/ipxe.efi'', ''arm64/snp.efi'', ''undionly.kpxe'', ''undionly.kpxe.0''}"
    by (rule conjunct1)
  then have "''snp.efi'' \<in> dom files" by (simp only:) (rule insertI2, rule insertI1)
  with f show ?thesis by (intro exI [of _ files] conjI)
qed

end
