(* ===== verification/BootFiles.thy ===== *)
theory BootFiles
  imports IpxePatch
begin

text \<open>
  The boot files and their two services: \<open>rpi/firmware.go\<close> loads the Raspberry Pi firmware directory,
  \<open>Provider.bootFiles\<close> of \<open>provider.go\<close> merges it with the patched iPXE binaries, \<open>tftp/tftp_server.go\<close> and the
  file handler of \<open>server/server.go\<close> serve the result. The locale \<open>file_service\<close> states what the rest of the
  provider relies on when it hands out a file name.
\<close>

section \<open>The Raspberry Pi firmware directory\<close>

text \<open>An entry of \<open>os.ReadDir\<close>: its name, whether it is a directory, and what \<open>Info\<close> answers, regularity and size.\<close>

record dir_entry =
  entry_name :: string
  entry_is_dir :: bool
  entry_info :: "err + (bool \<times> int)"

definition maxFileSize :: int where "maxFileSize = 64 * 2 ^ 20"

definition requiredFiles :: "string list" where
  "requiredFiles = [''config.txt'', ''start4.elf'', ''fixup4.dat'']"

fun load_entries ::
  "(string \<Rightarrow> err + byte list) \<Rightarrow> string \<Rightarrow> dir_entry list \<Rightarrow> file_map \<Rightarrow> err + file_map" where
  "load_entries readFile dir [] files = Inr files"
| "load_entries readFile dir (entry # rest) files =
     (if entry_is_dir entry then load_entries readFile dir rest files
      else (case entry_info entry of
              Inl e \<Rightarrow> Inl (Wrapped ''failed to stat'' e)
            | Inr (regular, fileSize) \<Rightarrow>
                if \<not> regular then load_entries readFile dir rest files
                else if fileSize > maxFileSize
                then Inl (Plain (''firmware file '' @ entry_name entry @ '' is '' @ itoa fileSize @ '' bytes, which exceeds the limit''))
                else (case readFile (filepath_Join dir (entry_name entry)) of
                        Inl e \<Rightarrow> Inl (Wrapped ''failed to read'' e)
                      | Inr contents \<Rightarrow> load_entries readFile dir rest (files(entry_name entry \<mapsto> contents)))))"

definition rpi_Load ::
  "(string \<Rightarrow> err + dir_entry list) \<Rightarrow> (string \<Rightarrow> err + byte list) \<Rightarrow> string \<Rightarrow> err + file_map" where
  "rpi_Load readDir readFile dir =
     (case readDir dir of
        Inl e \<Rightarrow> Inl (Wrapped ''failed to read the Raspberry Pi firmware directory'' e)
      | Inr entries \<Rightarrow>
     (case load_entries readFile dir entries Map.empty of
        Inl e \<Rightarrow> Inl e
      | Inr files \<Rightarrow>
          (let missing = filter (\<lambda>r. files r = None) requiredFiles
           in if missing \<noteq> []
              then Inl (Plain (''firmware directory '' @ dir @ '' is missing '' @ join '' '' missing))
              else Inr files)))"

section \<open>Everything served\<close>

text \<open>
  The loop of \<open>bootFiles\<close> over the firmware map, given as its names in the order the runtime visits them; any
  order is possible.
\<close>

fun merge_firmware :: "string list \<Rightarrow> file_map \<Rightarrow> file_map \<Rightarrow> err + file_map" where
  "merge_firmware [] firmware files = Inr files"
| "merge_firmware (name # names) firmware files =
     (if files name \<noteq> None
      then Inl (Plain (''firmware file '' @ name @ '' for Raspberry Pi collides with an iPXE boot file of the same name''))
      else merge_firmware names firmware (files(name := firmware name)))"

definition bootFiles ::
  "(file_map \<Rightarrow> string list) \<Rightarrow> (string \<Rightarrow> err + file_map) \<Rightarrow> string \<Rightarrow> file_map \<Rightarrow> err + file_map" where
  "bootFiles rangeOrder load rpiFirmwarePath ipxeFiles =
     (if rpiFirmwarePath = [] then Inr ipxeFiles
      else (case load rpiFirmwarePath of
              Inl e \<Rightarrow> Inl e
            | Inr firmware \<Rightarrow> merge_firmware (rangeOrder firmware) firmware ipxeFiles))"

section \<open>TFTP\<close>

definition hex_digit :: "char \<Rightarrow> bool" where
  "hex_digit c \<longleftrightarrow> (let n = (of_char c :: nat) in 48 \<le> n \<and> n \<le> 57 \<or> 65 \<le> n \<and> n \<le> 70 \<or> 97 \<le> n \<and> n \<le> 102)"

text \<open>The two alternatives of the regular expression \<open>boardDirectory\<close>, without the slash.\<close>

definition serial_dir :: "string \<Rightarrow> bool" where
  "serial_dir d \<longleftrightarrow> length d = 8 \<and> list_all hex_digit d"

definition mac_dir :: "string \<Rightarrow> bool" where
  "mac_dir d \<longleftrightarrow> length d = 17 \<and> (\<forall>i < 17. if i mod 3 = 2 then d ! i = CHR ''-'' else hex_digit (d ! i))"

definition boardDirectory :: "string \<Rightarrow> string" where
  "boardDirectory name =
     (if serial_dir (take 8 name) \<and> take 1 (drop 8 name) = ''/'' then take 9 name
      else if mac_dir (take 17 name) \<and> take 1 (drop 17 name) = ''/'' then take 18 name
      else [])"

definition stripBoardDirectory :: "string \<Rightarrow> string \<times> bool" where
  "stripBoardDirectory name =
     (let prefix = boardDirectory name
      in if prefix = [] then (name, False) else (drop (length prefix) name, True))"

definition tftp_lookup :: "file_map \<Rightarrow> string \<Rightarrow> byte list option" where
  "tftp_lookup files filename =
     (let name = request_key filename
      in case files name of
           Some contents \<Rightarrow> Some contents
         | None \<Rightarrow> (let (stripped, isBoardDir) = stripBoardDirectory name
                    in if isBoardDir then files stripped else None))"

text \<open>\<open>handleRead\<close>; \<open>readFrom\<close> is the transfer by the TFTP library. The result is what was transferred.\<close>

definition handleRead :: "file_map \<Rightarrow> (byte list \<Rightarrow> err option) \<Rightarrow> string \<Rightarrow> err + byte list" where
  "handleRead files readFrom filename =
     (case tftp_lookup files filename of
        None \<Rightarrow> Inl (Plain (''file '' @ filename @ '' not found''))
      | Some contents \<Rightarrow> (case readFrom contents of Some e \<Rightarrow> Inl e | None \<Rightarrow> Inr contents))"

text \<open>\<open>NewServer\<close>, and the address its \<open>Run\<close> listens on.\<close>

record tftp_server =
  tf_files :: file_map
  tf_listenAddress :: string

definition tftp_NewServer :: "string \<Rightarrow> file_map \<Rightarrow> tftp_server" where
  "tftp_NewServer listenAddress files = \<lparr>tf_files = files, tf_listenAddress = listenAddress\<rparr>"

section \<open>HTTP\<close>

text \<open>
  \<open>multiHandler\<close> sends a cleartext HTTP/2 gRPC request to the gRPC server and everything else to the mux of
  \<open>NewMultiHandler\<close>. The mux redirects a path that is not clean and, for the two subtree patterns, a path
  without the trailing slash. Paths are decoded paths; a path with escaped slashes is not modelled.
\<close>

record http_request =
  req_method :: string
  req_path :: string
  req_proto_major :: int
  req_content_type :: string

datatype http_target =
    ToGrpc
  | ToConfig
  | ToIpxe string
  | ToFiles string
  | ToAssets string
  | RedirectTo string
  | ToNotFound

definition mux_cleanPath :: "string \<Rightarrow> string" where
  "mux_cleanPath p =
     (if p = [] then ''/''
      else (let p' = (if hd p = CHR ''/'' then p else CHR ''/'' # p); np = path_Clean p'
            in if last p' = CHR ''/'' \<and> np \<noteq> ''/'' then np @ ''/'' else np))"

definition mux_route :: "string \<Rightarrow> string \<Rightarrow> http_target" where
  "mux_route assetsDir urlPath =
     (let path = mux_cleanPath urlPath;
          ipxePrefix = ''/'' @ IPXEURLPath @ ''/'';
          assetsPrefix = ''/'' @ AssetsURLPath @ ''/''
      in if path @ ''/'' = ''/tftp/'' \<or> assetsDir \<noteq> [] \<and> path @ ''/'' = assetsPrefix then RedirectTo (path @ ''/'')
         else if path \<noteq> urlPath then RedirectTo path
         else if path = ''/'' @ ConfigURLPath then ToConfig
         else if has_prefix path ipxePrefix \<and> drop (length ipxePrefix) path \<noteq> []
                 \<and> CHR ''/'' \<notin> set (drop (length ipxePrefix) path)
         then ToIpxe (drop (length ipxePrefix) path)
         else if has_prefix path ''/tftp/'' then ToFiles (trim_prefix path ''/tftp/'')
         else if assetsDir \<noteq> [] \<and> has_prefix path assetsPrefix then ToAssets (trim_prefix path assetsPrefix)
         else ToNotFound)"

definition multiHandler_route :: "string \<Rightarrow> http_request \<Rightarrow> http_target" where
  "multiHandler_route assetsDir req =
     (if req_proto_major req = 2 \<and> has_prefix (req_content_type req) ''application/grpc'' then ToGrpc
      else mux_route assetsDir (req_path req))"

datatype http_file_reply = FileNotFound | ServeFile string "byte list"

definition filesHandler :: "file_map \<Rightarrow> string \<Rightarrow> http_file_reply" where
  "filesHandler files urlPath =
     (case files (request_key urlPath) of
        None \<Rightarrow> FileNotFound
      | Some contents \<Rightarrow> ServeFile ''application/octet-stream'' contents)"

definition http_get_file :: "string \<Rightarrow> file_map \<Rightarrow> string \<Rightarrow> byte list option" where
  "http_get_file assetsDir files urlPath =
     (case mux_route assetsDir urlPath of
        ToFiles rest \<Rightarrow> (case filesHandler files rest of ServeFile t c \<Rightarrow> Some c | FileNotFound \<Rightarrow> None)
      | _ \<Rightarrow> None)"

text \<open>\<open>recoveryHandler\<close>: what the client of a gRPC handler that panicked is told; \<open>p\<close> is the text of the panic.\<close>

definition recoveryHandler :: "string \<Rightarrow> err" where
  "recoveryHandler p = GrpcErr Internal p"

section \<open>Lemmas\<close>

lemma split_at_append: "split_at c (t @ c # s) = split_at c t @ split_at c s"
  by (induction t) (auto split: list.splits)

lemma clean_name_ne: "clean_name s \<Longrightarrow> s \<noteq> [] \<and> last s \<noteq> CHR ''/''"
proof (rule ccontr)
  assume c: "clean_name s" and "\<not> (s \<noteq> [] \<and> last s \<noteq> CHR ''/'')"
  then consider "s = []" | t where "s = t @ [CHR ''/'']" by (metis append_butlast_last_id)
  then show False using c by cases (auto simp: clean_name_def split_at_append)
qed

lemma split_at_append_sep: "c \<notin> set e \<Longrightarrow> split_at c (e @ c # s) = e # split_at c s"
  by (induction e) auto

lemma clean_name_append:
  "CHR ''/'' \<notin> set d \<Longrightarrow> d \<notin> {[], ''.'', ''..''} \<Longrightarrow> clean_name n \<Longrightarrow> clean_name (d @ CHR ''/'' # n)"
  unfolding clean_name_def by (simp add: split_at_append_sep)

lemma path_Clean_clean: "clean_name s \<Longrightarrow> path_Clean (CHR ''/'' # s) = CHR ''/'' # s"
  using clean_elements_clean [of "split_at CHR ''/'' s" True "[]"]
  by (simp add: path_Clean_rooted clean_name_def join_split_at)

lemma mux_cleanPath_clean: "clean_name n \<Longrightarrow> mux_cleanPath (CHR ''/'' # n) = CHR ''/'' # n"
  using path_Clean_clean [of n] clean_name_ne [of n] by (simp add: mux_cleanPath_def Let_def)

lemma mux_route_tftp:
  assumes "clean_name n"
  shows "mux_route assetsDir (''/tftp/'' @ n) = ToFiles n"
proof -
  have c: "clean_name (''tftp/'' @ n)" using clean_name_append [of "''tftp''" n] assms by simp
  have "mux_cleanPath (''/tftp/'' @ n) = ''/tftp/'' @ n"
    using mux_cleanPath_clean [OF c] by simp
  then show ?thesis using clean_name_ne [OF assms]
    by (simp add: mux_route_def Let_def IPXEURLPath_def ConfigURLPath_def AssetsURLPath_def has_prefix_def trim_prefix_def)
qed

lemma mux_route_assets:
  assumes "clean_name n" and "assetsDir \<noteq> []"
  shows "mux_route assetsDir (''/'' @ AssetsURLPath @ ''/'' @ n) = ToAssets n"
proof -
  have c: "clean_name (''assets/'' @ n)" using clean_name_append [of "''assets''" n] assms by simp
  have "mux_cleanPath (''/assets/'' @ n) = ''/assets/'' @ n" using mux_cleanPath_clean [OF c] by simp
  then show ?thesis using clean_name_ne [OF assms(1)] assms(2)
    by (simp add: mux_route_def Let_def IPXEURLPath_def ConfigURLPath_def AssetsURLPath_def has_prefix_def trim_prefix_def)
qed

lemma mux_route_fixed:
  "mux_route assetsDir (''/'' @ ConfigURLPath) = ToConfig"
  "mux_route assetsDir (''/'' @ IPXEURLPath @ ''/'' @ bootScriptName) = ToIpxe bootScriptName"
  "mux_route assetsDir (''/'' @ IPXEURLPath @ ''/'' @ initScriptName) = ToIpxe initScriptName"
proof -
  have c: "clean_name ''config''" "clean_name ''ipxe/boot.ipxe''" "clean_name ''ipxe/init.ipxe''" by (simp_all add: clean_name_def)
  show "mux_route assetsDir (''/'' @ ConfigURLPath) = ToConfig"
    "mux_route assetsDir (''/'' @ IPXEURLPath @ ''/'' @ bootScriptName) = ToIpxe bootScriptName"
    "mux_route assetsDir (''/'' @ IPXEURLPath @ ''/'' @ initScriptName) = ToIpxe initScriptName"
    using c [THEN mux_cleanPath_clean]
    by (simp_all add: mux_route_def Let_def IPXEURLPath_def ConfigURLPath_def AssetsURLPath_def bootScriptName_def
        initScriptName_def has_prefix_def)
qed

section \<open>What a boot file name promises\<close>

locale file_service =
  fixes serve :: "file_map \<Rightarrow> string \<Rightarrow> byte list option" and locator :: "string \<Rightarrow> string"
  assumes serves_names: "clean_name n \<Longrightarrow> files n = Some c \<Longrightarrow> serve files (locator n) = Some c"
    and serves_only: "serve files r = Some c \<Longrightarrow> c \<in> ran files"
begin

lemma serves_extension: "ipxe \<subseteq>\<^sub>m files \<Longrightarrow> clean_name n \<Longrightarrow> ipxe n = Some c \<Longrightarrow> serve files (locator n) = Some c"
  by (rule serves_names) (auto simp: map_le_def dom_def)

lemma serves_nothing_else: "c \<notin> ran files \<Longrightarrow> serve files r \<noteq> Some c"
  using serves_only by blast

end

interpretation tftp: file_service tftp_lookup "\<lambda>n. n"
  by unfold_locales
     (auto simp: tftp_lookup_def request_key_clean stripBoardDirectory_def Let_def ran_def split: option.splits if_splits)

interpretation tftp_rooted: file_service tftp_lookup "\<lambda>n. CHR ''/'' # n"
  by unfold_locales
     (auto simp: tftp_lookup_def request_key_clean stripBoardDirectory_def Let_def ran_def split: option.splits if_splits)

interpretation http: file_service "http_get_file assetsDir" "\<lambda>n. ''/tftp/'' @ n"
proof
  show "clean_name n \<Longrightarrow> files n = Some c \<Longrightarrow> http_get_file assetsDir files (''/tftp/'' @ n) = Some c" for files n c
    by (simp only: http_get_file_def mux_route_tftp) (simp add: filesHandler_def request_key_clean)
  show "http_get_file assetsDir files r = Some c \<Longrightarrow> c \<in> ran files" for files r c
    by (auto simp: http_get_file_def filesHandler_def ran_def split: http_target.splits option.splits http_file_reply.splits)
qed

lemma merge_firmware_Inr:
  "merge_firmware names firmware files = Inr result \<Longrightarrow> distinct names \<Longrightarrow>
     set names \<inter> dom files = {} \<and> result = files ++ (firmware |` set names)"
proof (induction names arbitrary: files)
  case Nil
  then show ?case by (simp add: fun_eq_iff map_add_def)
next
  case (Cons n ns)
  then have f: "files n = None" and m: "merge_firmware ns firmware (files(n := firmware n)) = Inr result"
    by (auto split: if_splits)
  from Cons.prems(2) have "distinct ns" by simp
  note IH = Cons.IH [OF m this]
  note d = IH [THEN conjunct1] and r = IH [THEN conjunct2]
  have "result = files ++ (firmware |` set (n # ns))"
    unfolding r using f Cons.prems(2) by (auto simp: fun_eq_iff map_add_def restrict_map_def split: option.splits)
  moreover have "set (n # ns) \<inter> dom files = {}" using d f Cons.prems(2) by (auto simp: dom_def split: if_splits)
  ultimately show ?case by simp
qed

lemma merge_firmware_extends: "merge_firmware names firmware files = Inr result \<Longrightarrow> files \<subseteq>\<^sub>m result"
proof (induction names arbitrary: files)
  case (Cons n ns)
  have "files n = None" using Cons.prems by (auto split: if_splits)
  moreover have "files(n := firmware n) \<subseteq>\<^sub>m result" using Cons by (auto split: if_splits)
  moreover have "files \<subseteq>\<^sub>m files(n := firmware n)" using calculation(1) by (auto simp: map_le_def)
  ultimately show ?case using map_le_trans by blast
qed simp

lemma bootFiles_extends: "bootFiles order load path ipxe = Inr files \<Longrightarrow> ipxe \<subseteq>\<^sub>m files"
  by (auto simp: bootFiles_def split: if_splits sum.splits intro: merge_firmware_extends)

lemma merge_firmware_ok:
  "distinct names \<Longrightarrow> set names \<inter> dom files = {} \<Longrightarrow> \<exists>result. merge_firmware names firmware files = Inr result"
proof (induction names arbitrary: files)
  case (Cons n ns)
  then have "files n = None" by (auto simp: dom_def)
  moreover have "set ns \<inter> dom (files(n := firmware n)) = {}" using Cons.prems by (auto simp: dom_def split: if_splits)
  ultimately show ?case using Cons by simp
qed simp

lemma load_entries_Inr:
  assumes "load_entries readFile dir entries files = Inr result" and "distinct (map entry_name entries)"
  shows "result n = Some c \<longleftrightarrow>
     (\<exists>e \<in> set entries. entry_name e = n \<and> \<not> entry_is_dir e \<and>
        (\<exists>size. entry_info e = Inr (True, size) \<and> size \<le> maxFileSize) \<and> readFile (filepath_Join dir n) = Inr c)
     \<or> (files n = Some c \<and> \<not> (\<exists>e \<in> set entries. entry_name e = n \<and> \<not> entry_is_dir e \<and> (\<exists>size. entry_info e = Inr (True, size))))"
  using assms
proof (induction entries arbitrary: files)
  case Nil
  then show ?case by simp
next
  case (Cons e es)
  from Cons.prems(2) have d: "distinct (map entry_name es)" and "entry_name e \<notin> entry_name ` set es" by simp_all
  then have fresh: "\<forall>x \<in> set es. entry_name x \<noteq> entry_name e" by (metis image_eqI)
  show ?case
  proof (cases "entry_is_dir e \<or> (\<exists>size. entry_info e = Inr (False, size))")
    case True
    with Cons.prems(1) have "load_entries readFile dir es files = Inr result" by (auto split: if_splits)
    from Cons.IH [OF this d] True show ?thesis by auto
  next
    case False
    with Cons.prems(1) obtain size c0 where i: "entry_info e = Inr (True, size)" "size \<le> maxFileSize"
      and c0: "readFile (filepath_Join dir (entry_name e)) = Inr c0"
      and r: "load_entries readFile dir es (files(entry_name e \<mapsto> c0)) = Inr result"
      by (auto split: sum.splits if_splits)
    note IH = Cons.IH [OF r d]
    show ?thesis
    proof (cases "n = entry_name e")
      case True
      with fresh IH i c0 False show ?thesis by auto
    next
      case nn: False
      then show ?thesis by (simp add: IH)
    qed
  qed
qed

text \<open>The names of a directory's entries, as the file system has them.\<close>

definition file_name :: "string \<Rightarrow> bool" where
  "file_name n \<longleftrightarrow> n \<noteq> [] \<and> n \<noteq> ''.'' \<and> n \<noteq> ''..'' \<and> CHR ''/'' \<notin> set n"

lemma split_at_notin: "c \<notin> set s \<Longrightarrow> split_at c s = [s]"
  by (induction s) auto

lemma file_name_clean: "file_name n \<Longrightarrow> clean_name n"
  by (simp add: file_name_def clean_name_def split_at_notin)

definition board_dir :: "string \<Rightarrow> bool" where
  "board_dir d \<longleftrightarrow> serial_dir d \<or> mac_dir d"

lemma hex_digit_not_slash: "hex_digit c \<Longrightarrow> c \<noteq> CHR ''/''"
  by (auto simp: hex_digit_def Let_def)

lemma board_dir_name: "board_dir d \<Longrightarrow> file_name d \<and> 8 \<le> length d"
proof -
  assume b: "board_dir d"
  have "\<forall>i < length d. d ! i \<noteq> CHR ''/''"
  proof (intro allI impI)
    fix i assume i: "i < length d"
    have "hex_digit (d ! i) \<or> d ! i = CHR ''-''"
    proof (cases "serial_dir d")
      case True
      with i show ?thesis by (auto simp: serial_dir_def list_all_length)
    next
      case False
      with b have "mac_dir d" by (simp add: board_dir_def)
      with i show ?thesis by (cases "i mod 3 = 2") (auto simp: mac_dir_def)
    qed
    then show "d ! i \<noteq> CHR ''/''" using hex_digit_not_slash [of "d ! i"] by auto
  qed
  then have "CHR ''/'' \<notin> set d" by (auto simp: in_set_conv_nth)
  then show ?thesis using b by (auto simp: board_dir_def serial_dir_def mac_dir_def file_name_def)
qed

lemma boardDirectory_strip:
  assumes "board_dir d" shows "stripBoardDirectory (d @ CHR ''/'' # n) = (n, True)"
proof (cases "serial_dir d")
  case True
  then have "length d = 8" by (simp add: serial_dir_def)
  with True show ?thesis by (simp add: stripBoardDirectory_def boardDirectory_def Let_def)
next
  case False
  with assms have m: "mac_dir d" by (simp add: board_dir_def)
  then have l: "length d = 17" and "d ! 2 = CHR ''-''" by (auto simp: mac_dir_def)
  moreover have "take 8 d ! 2 \<in> set (take 8 d)" using l by (intro nth_mem) simp
  moreover have "\<not> hex_digit CHR ''-''" by (simp add: hex_digit_def)
  ultimately have "\<not> list_all hex_digit (take 8 d)" by (auto simp: list_all_iff)
  then have "\<not> serial_dir (take 8 (d @ CHR ''/'' # n))" using l by (simp add: serial_dir_def)
  with l m show ?thesis by (simp add: stripBoardDirectory_def boardDirectory_def Let_def)
qed

lemma tftp_lookup_board:
  assumes "board_dir d" "clean_name n" "files n = Some c" "files (d @ CHR ''/'' # n) = None"
  shows "tftp_lookup files (d @ CHR ''/'' # n) = Some c"
proof -
  have "clean_name (d @ CHR ''/'' # n)"
    using board_dir_name [OF assms(1)] assms(2) by (intro clean_name_append) (auto simp: file_name_def)
  then show ?thesis using assms by (simp add: tftp_lookup_def request_key_clean boardDirectory_strip)
qed

lemma load_entries_names:
  "load_entries readFile dir entries files = Inr result \<Longrightarrow> dom result \<subseteq> dom files \<union> entry_name ` set entries"
proof (induction entries arbitrary: files)
  case Nil
  then show ?case by simp
next
  case (Cons e es)
  show ?case
  proof (cases "load_entries readFile dir es files = Inr result")
    case True
    from Cons.IH [OF this] show ?thesis by auto
  next
    case False
    with Cons.prems obtain c where "load_entries readFile dir es (files(entry_name e \<mapsto> c)) = Inr result"
      by (auto split: if_splits sum.splits)
    from Cons.IH [OF this] show ?thesis by auto
  qed
qed

lemma rpi_Load_names:
  "rpi_Load readDir readFile dir = Inr files \<Longrightarrow> \<exists>entries. readDir dir = Inr entries \<and> dom files \<subseteq> entry_name ` set entries"
  by (auto simp: rpi_Load_def Let_def dest!: load_entries_names split: sum.splits if_splits)

text \<open>The names of the binaries are clean, and none lies in a directory a board could ask for.\<close>

definition plain_key :: "string \<Rightarrow> bool" where
  "plain_key n \<longleftrightarrow> clean_name n \<and> (CHR ''/'' \<in> set n \<longrightarrow> CHR ''/'' \<in> set (take 6 n))"

lemma plain_key_board: "plain_key n \<Longrightarrow> board_dir d \<Longrightarrow> n \<noteq> d @ CHR ''/'' # m"
  using board_dir_name [of d] by (auto simp: plain_key_def file_name_def dest: in_set_takeD)

lemma ipxe_names_plain:
  "n \<in> {''ipxe.efi'', ''snp.efi'', ''ipxe-arm64.efi'', ''snp-arm64.efi'',
      ''amd64/ipxe.efi'', ''amd64/snp.efi'', ''arm64/ipxe.efi'', ''arm64/snp.efi'', ''undionly.kpxe'', ''undionly.kpxe.0''}
   \<Longrightarrow> plain_key n"
  by (elim insertE emptyE) (simp_all add: plain_key_def clean_name_def)

lemma file_name_plain: "file_name n \<Longrightarrow> plain_key n"
  by (auto simp: plain_key_def file_name_clean) (simp add: file_name_def)

lemma boot_keys_plain:
  assumes "patchBinaries io script ca = Inr ipxe" and "bootFiles order (rpi_Load readDir readFile) path ipxe = Inr files"
    and "\<And>entries. readDir path = Inr entries \<Longrightarrow> \<forall>e \<in> set entries. file_name (entry_name e)"
    and "\<And>fw. rpi_Load readDir readFile path = Inr fw \<Longrightarrow> distinct (order fw) \<and> set (order fw) = dom fw"
    and "n \<in> dom files"
  shows "plain_key n"
proof -
  have i: "dom ipxe = {''ipxe.efi'', ''snp.efi'', ''ipxe-arm64.efi'', ''snp-arm64.efi'',
      ''amd64/ipxe.efi'', ''amd64/snp.efi'', ''arm64/ipxe.efi'', ''arm64/snp.efi'', ''undionly.kpxe'', ''undionly.kpxe.0''}"
    using patchBinaries_files [OF assms(1)] by (rule conjunct1)
  show ?thesis
  proof (cases "path = [] \<or> n \<in> dom ipxe")
    case True
    with assms(2,5) have "n \<in> dom ipxe" by (auto simp: bootFiles_def)
    then show ?thesis unfolding i by (rule ipxe_names_plain)
  next
    case False
    with assms(2) obtain fw where fw: "rpi_Load readDir readFile path = Inr fw"
      and m: "merge_firmware (order fw) fw ipxe = Inr files"
      by (auto simp: bootFiles_def split: sum.splits)
    from merge_firmware_Inr [OF m] assms(4) [OF fw] have "files = ipxe ++ (fw |` dom fw)" by simp
    with assms(5) False have "n \<in> dom fw" by auto
    with rpi_Load_names [OF fw] assms(3) have "file_name n" by blast
    then show ?thesis by (rule file_name_plain)
  qed
qed

section \<open>Properties\<close>

text \<open>
  Loading the firmware directory, when it succeeds, holds exactly the regular files of the directory with the
  contents read for them, none larger than the limit, and the three files without which a Raspberry Pi 4 hangs
  are among them.
\<close>

theorem rpi_Load_exact:
  assumes "rpi_Load readDir readFile dir = Inr files" and "readDir dir = Inr entries" and "distinct (map entry_name entries)"
  shows "(\<forall>n c. files n = Some c \<longleftrightarrow>
      (\<exists>e \<in> set entries. entry_name e = n \<and> \<not> entry_is_dir e \<and>
        (\<exists>size. entry_info e = Inr (True, size) \<and> size \<le> maxFileSize) \<and> readFile (filepath_Join dir n) = Inr c)) \<and>
    {''config.txt'', ''start4.elf'', ''fixup4.dat''} \<subseteq> dom files"
proof
  have l: "load_entries readFile dir entries Map.empty = Inr files" and
    m: "filter (\<lambda>r. files r = None) requiredFiles = []"
    using assms(1,2) by (auto simp: rpi_Load_def Let_def split: sum.splits if_splits)
  show "\<forall>n c. files n = Some c \<longleftrightarrow>
      (\<exists>e \<in> set entries. entry_name e = n \<and> \<not> entry_is_dir e \<and>
        (\<exists>size. entry_info e = Inr (True, size) \<and> size \<le> maxFileSize) \<and> readFile (filepath_Join dir n) = Inr c)"
    using load_entries_Inr [OF l assms(3)] by simp
  show "{''config.txt'', ''start4.elf'', ''fixup4.dat''} \<subseteq> dom files"
    using m unfolding filter_empty_conv by (simp add: requiredFiles_def dom_def)
qed

definition sample_entries :: "dir_entry list" where
  "sample_entries =
     [\<lparr>entry_name = ''config.txt'', entry_is_dir = False, entry_info = Inr (True, 1)\<rparr>,
      \<lparr>entry_name = ''overlays'', entry_is_dir = True, entry_info = Inr (False, 0)\<rparr>,
      \<lparr>entry_name = ''start4.elf'', entry_is_dir = False, entry_info = Inr (True, 2)\<rparr>,
      \<lparr>entry_name = ''fixup4.dat'', entry_is_dir = False, entry_info = Inr (True, 67108864)\<rparr>]"

definition sample_firmware :: file_map where
  "sample_firmware = [''config.txt'' \<mapsto> [1], ''start4.elf'' \<mapsto> [1], ''fixup4.dat'' \<mapsto> [1]]"

lemma sample_loaded: "rpi_Load (\<lambda>d. Inr sample_entries) (\<lambda>p. Inr [1]) ''fw'' = Inr sample_firmware"
  by (simp add: rpi_Load_def sample_entries_def requiredFiles_def maxFileSize_def Let_def sample_firmware_def)

lemma sample_entries_distinct: "distinct (map entry_name sample_entries)"
  by (simp add: sample_entries_def)

theorem rpi_Load_exact_witness: "''start4.elf'' \<in> dom sample_firmware"
  using rpi_Load_exact [OF sample_loaded refl sample_entries_distinct] by blast

text \<open>
  The boot files are the iPXE binaries, with the firmware added when a directory is configured: nothing of
  either is lost or overwritten, and a name both of them have is refused, in whatever order the runtime visits the
  map.
\<close>

theorem bootFiles_merges:
  assumes "path \<noteq> []" and "load path = Inr firmware"
    and "distinct (order firmware)" and "set (order firmware) = dom firmware"
  shows "if dom ipxe \<inter> dom firmware = {} then bootFiles order load path ipxe = Inr (ipxe ++ firmware)
    else isl (bootFiles order load path ipxe)"
proof -
  have b: "bootFiles order load path ipxe = merge_firmware (order firmware) firmware ipxe"
    using assms(1,2) by (simp add: bootFiles_def)
  have r: "firmware |` dom firmware = firmware" by (auto simp: fun_eq_iff restrict_map_def dom_def)
  show ?thesis
  proof (cases "dom ipxe \<inter> dom firmware = {}")
    case True
    then have "set (order firmware) \<inter> dom ipxe = {}" using assms(4) by blast
    from merge_firmware_ok [OF assms(3) this, of firmware] obtain result where
      m: "merge_firmware (order firmware) firmware ipxe = Inr result" by blast
    from merge_firmware_Inr [OF m assms(3)] assms(4) r True m b show ?thesis by simp
  next
    case False
    have "isl (merge_firmware (order firmware) firmware ipxe)"
    proof (rule ccontr)
      assume "\<not> isl (merge_firmware (order firmware) firmware ipxe)"
      then obtain result where "merge_firmware (order firmware) firmware ipxe = Inr result" by (auto simp: isl_def split: sum.splits) (metis sum.exhaust)
      from merge_firmware_Inr [OF this assms(3)] assms(4) False show False by blast
    qed
    with False b show ?thesis by simp
  qed
qed

definition sample_order :: "file_map \<Rightarrow> string list" where
  "sample_order m = [''start4.elf'', ''config.txt'', ''fixup4.dat'']"

lemma sample_order_ok: "distinct (sample_order sample_firmware) \<and> set (sample_order sample_firmware) = dom sample_firmware"
  by (auto simp: sample_order_def sample_firmware_def)

theorem bootFiles_merges_witness:
  "bootFiles sample_order (rpi_Load (\<lambda>d. Inr sample_entries) (\<lambda>p. Inr [1])) ''fw'' [''snp.efi'' \<mapsto> [2]] =
     Inr ([''snp.efi'' \<mapsto> [2]] ++ sample_firmware)"
proof -
  note ord = sample_order_ok [THEN conjunct1] sample_order_ok [THEN conjunct2]
  have d: "dom [''snp.efi'' \<mapsto> [2]] \<inter> dom sample_firmware = {}" by (simp add: sample_firmware_def)
  show ?thesis
    using bootFiles_merges [of "''fw''" "rpi_Load (\<lambda>d. Inr sample_entries) (\<lambda>p. Inr [1])" sample_firmware sample_order "[''snp.efi'' \<mapsto> [2]]", OF _ sample_loaded ord]
    unfolding if_P [OF d] by simp
qed

text \<open>
  Every boot file is reachable under its name: over TFTP as the name itself, with a leading slash, and under
  any directory a Raspberry Pi prefixes it with (its serial number or MAC address); over HTTP below the path tftp.
\<close>

theorem boot_files_reachable:
  assumes "patchBinaries io script ca = Inr ipxe" and "bootFiles order (rpi_Load readDir readFile) path ipxe = Inr files"
    and "\<And>entries. readDir path = Inr entries \<Longrightarrow> \<forall>e \<in> set entries. file_name (entry_name e)"
    and "\<And>fw. rpi_Load readDir readFile path = Inr fw \<Longrightarrow> distinct (order fw) \<and> set (order fw) = dom fw"
    and "files n = Some c" and "readFrom c = None"
  shows "handleRead files readFrom n = Inr c \<and> handleRead files readFrom (CHR ''/'' # n) = Inr c \<and>
    http_get_file assetsDir files (''/tftp/'' @ n) = Some c \<and>
    (\<forall>d. board_dir d \<longrightarrow> handleRead files readFrom (d @ CHR ''/'' # n) = Inr c)"
proof -
  note keys = boot_keys_plain [OF assms(1-4)]
  have "plain_key n" using keys assms(5) by blast
  then have c: "clean_name n" by (simp add: plain_key_def)
  have board: "files (d @ CHR ''/'' # n) = None" if "board_dir d" for d
    using plain_key_board [OF keys that, of "d @ CHR ''/'' # n"] by blast
  have "tftp_lookup files n = Some c" by (rule tftp.serves_names [OF c]) (rule assms(5))
  moreover have "tftp_lookup files (CHR ''/'' # n) = Some c" by (rule tftp_rooted.serves_names [OF c]) (rule assms(5))
  moreover have "http_get_file assetsDir files (''/tftp/'' @ n) = Some c" by (rule http.serves_names [OF c]) (rule assms(5))
  moreover have "tftp_lookup files (d @ CHR ''/'' # n) = Some c" if "board_dir d" for d
    by (rule tftp_lookup_board [OF that c]) (rule assms(5), rule board [OF that])
  ultimately show ?thesis using assms(6) by (simp add: handleRead_def)
qed

lemma sample_boot_files:
  assumes "patchBinaries io script ca = Inr ipxe"
  shows "\<exists>files. bootFiles sample_order (rpi_Load (\<lambda>d. Inr sample_entries) (\<lambda>p. Inr [1])) ''fw'' ipxe = Inr files \<and>
    files ''start4.elf'' = Some [1]"
proof -
  have i: "dom ipxe = {''ipxe.efi'', ''snp.efi'', ''ipxe-arm64.efi'', ''snp-arm64.efi'',
      ''amd64/ipxe.efi'', ''amd64/snp.efi'', ''arm64/ipxe.efi'', ''arm64/snp.efi'', ''undionly.kpxe'', ''undionly.kpxe.0''}"
    using patchBinaries_files [OF assms] by (rule conjunct1)
  have d: "distinct (sample_order sample_firmware)" and "set (sample_order sample_firmware) \<inter> dom ipxe = {}"
    unfolding i by (simp_all add: sample_order_def)
  from merge_firmware_ok [OF this] obtain files where m: "merge_firmware (sample_order sample_firmware) sample_firmware ipxe = Inr files"
    by blast
  with merge_firmware_Inr [OF m d] have "files ''start4.elf'' = Some [1]"
    by (simp add: sample_order_def sample_firmware_def restrict_map_def map_add_def)
  with m show ?thesis by (simp add: bootFiles_def sample_loaded)
qed

lemma sample_board: "board_dir ''1a2b3c4d''"
  by (simp add: board_dir_def serial_dir_def hex_digit_def)

lemma sample_entries_names: "\<forall>e \<in> set sample_entries. file_name (entry_name e)"
  by (simp add: sample_entries_def file_name_def)

theorem boot_files_reachable_witness:
  "\<exists>files. handleRead files (\<lambda>c. None) (''1a2b3c4d'' @ ''/start4.elf'') = Inr [1]"
proof -
  obtain ipxe where p: "patchBinaries sample_io (bytes_of ''#!ipxe'') [] = Inr ipxe"
    using sample_io_patched by (cases "patchBinaries sample_io (bytes_of ''#!ipxe'') []") auto
  obtain files where b: "bootFiles sample_order (rpi_Load (\<lambda>d. Inr sample_entries) (\<lambda>p. Inr [1])) ''fw'' ipxe = Inr files"
    and f: "files ''start4.elf'' = Some [1]" using sample_boot_files [OF p] by blast
  have "\<forall>d. board_dir d \<longrightarrow> handleRead files (\<lambda>c. None) (d @ CHR ''/'' # ''start4.elf'') = Inr [1]"
  proof (rule boot_files_reachable [OF p b _ _ f, THEN conjunct2, THEN conjunct2, THEN conjunct2])
    show "\<forall>e \<in> set entries. file_name (entry_name e)" if "Inr sample_entries = Inr entries" for entries
      using that sample_entries_names by simp
    show "distinct (sample_order fw) \<and> set (sample_order fw) = dom fw"
      if "rpi_Load (\<lambda>d. Inr sample_entries) (\<lambda>p. Inr [1]) ''fw'' = Inr fw" for fw
      using that sample_order_ok unfolding sample_loaded by simp
  qed simp
  then have "handleRead files (\<lambda>c. None) (''1a2b3c4d'' @ CHR ''/'' # ''start4.elf'') = Inr [1]" using sample_board by blast
  then show ?thesis by (intro exI [of _ files]) simp
qed

end
