(* ===== verification/ImageFactory.thy ===== *)
theory ImageFactory
  imports Prelude
begin

text \<open>
  \<open>internal/provider/imagefactory/client.go\<close>: the schematic and the media request behind an iPXE URL. The
  schematic's YAML encoder and Omni's installation media call are parameters. The locale \<open>image_factory\<close> is the
  Go interface \<open>ImageFactoryClient\<close> with what the iPXE handler needs of it.
\<close>

definition agentModeExtensions :: "string list" where
  "agentModeExtensions =
     [''siderolabs/amd-ucode'', ''siderolabs/amdgpu-firmware'', ''siderolabs/bnx2-bnx2x'', ''siderolabs/chelsio-firmware'',
      ''siderolabs/i915-ucode'', ''siderolabs/intel-ice-firmware'', ''siderolabs/intel-ucode'', ''siderolabs/qlogic-firmware'',
      ''siderolabs/realtek-firmware'', ''siderolabs/metal-agent'']"

definition agentModeExtensionsArm64 :: "string list" where
  "agentModeExtensionsArm64 = [''siderolabs/realtek-firmware'', ''siderolabs/metal-agent'']"

definition archArm64 :: string where "archArm64 = ''arm64''"
definition archAmd64 :: string where "archAmd64 = ''amd64''"

definition agentModeExtensionsForArch :: "string \<Rightarrow> string list" where
  "agentModeExtensionsForArch arch = (if arch = archArm64 then agentModeExtensionsArm64 else agentModeExtensions)"

text \<open>The parts of the libraries' types the code fills in; the meta values of the schematic stay empty.\<close>

record schematic =
  sch_ExtraKernelArgs :: "string list"
  sch_OfficialExtensions :: "string list"

datatype media_kind = InstallationMediaKindPXE | OtherMediaKind
datatype platform = PlatformMetal | OtherPlatform

record media_request =
  mr_TalosVersion :: string
  mr_Schematic :: schematic
  mr_Kind :: media_kind
  mr_Platform :: platform
  mr_Architecture :: string
  mr_SecureBoot :: bool
  mr_StandaloneURL :: bool

record omni_factory =
  sch_Marshal :: "schematic \<Rightarrow> err + byte list"
  EnsureInstallationMedia :: "media_request \<Rightarrow> err + string"

record factory_client =
  fc_agentModeTalosVersion :: string
  fc_secureBootEnabled :: bool

definition SchematicIPXEURL ::
  "omni_factory \<Rightarrow> factory_client \<Rightarrow> bool \<Rightarrow> string \<Rightarrow> string \<Rightarrow> string list \<Rightarrow> string list \<Rightarrow> err + string" where
  "SchematicIPXEURL omni c agentMode talosVersion arch extensions extraKernelArgs =
     (if \<not> agentMode \<and> talosVersion = []
      then Inl (Plain ''talosVersion is required when not booting into agent mode'')
      else (let talosVersion' = (if agentMode then fc_agentModeTalosVersion c else talosVersion);
                extensions' = (if agentMode then agentModeExtensionsForArch arch else extensions);
                sch = \<lparr>sch_ExtraKernelArgs = extraKernelArgs, sch_OfficialExtensions = extensions'\<rparr>
            in case sch_Marshal omni sch of
                 Inl e \<Rightarrow> Inl (Wrapped ''failed to marshal schematic'' e)
               | Inr marshaled \<Rightarrow>
                   (case EnsureInstallationMedia omni
                           \<lparr>mr_TalosVersion = talosVersion', mr_Schematic = sch, mr_Kind = InstallationMediaKindPXE,
                            mr_Platform = PlatformMetal, mr_Architecture = arch,
                            mr_SecureBoot = fc_secureBootEnabled c, mr_StandaloneURL = True\<rparr> of
                      Inl e \<Rightarrow> Inl (Wrapped ''failed to resolve the iPXE installation media'' e)
                    | Inr url \<Rightarrow> Inr url)))"

locale image_factory =
  fixes url :: "bool \<Rightarrow> string \<Rightarrow> string \<Rightarrow> string list \<Rightarrow> string list \<Rightarrow> err + string"
  assumes version_required: "isl (url False [] arch extensions args)"
    and agent_fixed: "url True v arch extensions args = url True v' arch extensions' args"
begin

lemma url_version: "url False v arch extensions args = Inr u \<Longrightarrow> v \<noteq> []"
  using version_required [of arch extensions args] by auto

end

interpretation factory: image_factory "SchematicIPXEURL omni c"
  by unfold_locales (simp_all add: SchematicIPXEURL_def)

text \<open>Every agent image carries the agent.\<close>

lemma agent_has_metal_agent: "''siderolabs/metal-agent'' \<in> set (agentModeExtensionsForArch arch)"
  by (simp add: agentModeExtensionsForArch_def agentModeExtensions_def agentModeExtensionsArm64_def)

end
