(* ===== verification/Net.thy ===== *)
theory Net
  imports Prelude
begin

text \<open>
  The parts of Go's \<open>net\<close> package the source calls on host and port strings: \<open>net.JoinHostPort\<close> and
  \<open>net.SplitHostPort\<close>, with the latter's error cases as \<open>None\<close>.
\<close>

definition join_host_port :: "string \<Rightarrow> string \<Rightarrow> string" where
  "join_host_port host port =
     (if CHR '':'' \<in> set host then ''['' @ host @ '']:'' @ port else host @ '':'' @ port)"

fun index_byte :: "'a list \<Rightarrow> 'a \<Rightarrow> nat option" where
  "index_byte [] c = None"
| "index_byte (x # xs) c = (if x = c then Some 0 else map_option Suc (index_byte xs c))"

definition last_index_byte :: "'a list \<Rightarrow> 'a \<Rightarrow> nat option" where
  "last_index_byte xs c = map_option (\<lambda>k. length xs - 1 - k) (index_byte (rev xs) c)"

definition split_host_port :: "string \<Rightarrow> (string \<times> string) option" where
  "split_host_port hp =
     (case last_index_byte hp CHR '':'' of
        None \<Rightarrow> None
      | Some i \<Rightarrow>
          if has_prefix hp ''['' then
            (case index_byte hp CHR '']'' of
               None \<Rightarrow> None
             | Some e \<Rightarrow>
                 if Suc e = i
                    \<and> CHR ''['' \<notin> set (drop 1 hp) \<and> CHR '']'' \<notin> set (drop (Suc e) hp)
                 then Some (take (e - 1) (drop 1 hp), drop (Suc i) hp)
                 else None)
          else if CHR '':'' \<in> set (take i hp) then None
          else if CHR ''['' \<in> set hp \<or> CHR '']'' \<in> set hp then None
          else Some (take i hp, drop (Suc i) hp))"

lemma index_byte_append_notin:
  "c \<notin> set xs \<Longrightarrow> index_byte (xs @ c # ys) c = Some (length xs)"
  by (induction xs) auto

lemma index_byte_None [simp]: "index_byte xs c = None \<longleftrightarrow> c \<notin> set xs"
  by (induction xs) auto

lemma last_index_byte_append:
  "c \<notin> set ys \<Longrightarrow> last_index_byte (xs @ c # ys) c = Some (length xs)"
  using index_byte_append_notin [of c "rev ys" "rev xs"] by (simp add: last_index_byte_def)

lemma last_index_byte_None [simp]: "last_index_byte xs c = None \<longleftrightarrow> c \<notin> set xs"
  by (simp add: last_index_byte_def)

lemma last_index_byte_Some:
  "last_index_byte xs c = Some i \<Longrightarrow>
     \<exists>ys zs. xs = ys @ c # zs \<and> length ys = i \<and> c \<notin> set zs"
proof -
  assume i: "last_index_byte xs c = Some i"
  then have "c \<in> set xs" by (metis last_index_byte_None option.distinct(1))
  then obtain ys zs where "xs = ys @ c # zs" "c \<notin> set zs" by (meson split_list_last)
  with i show ?thesis by (auto simp: last_index_byte_append)
qed

text \<open>Splitting undoes joining, for a host and port that hold no brackets and a port without a colon.\<close>

lemma split_join_host_port:
  assumes "CHR ''['' \<notin> set host" "CHR '']'' \<notin> set host"
    and "CHR ''['' \<notin> set port" "CHR '']'' \<notin> set port" "CHR '':'' \<notin> set port"
  shows "split_host_port (join_host_port host port) = Some (host, port)"
proof (cases "CHR '':'' \<in> set host")
  case False
  then have j: "join_host_port host port = host @ CHR '':'' # port"
    by (simp add: join_host_port_def)
  have l: "last_index_byte (host @ CHR '':'' # port) CHR '':'' = Some (length host)"
    by (rule last_index_byte_append) (rule assms(5))
  have np: "\<not> has_prefix (host @ CHR '':'' # port) ''[''"
    using assms(1) by (cases host) (auto simp: has_prefix_def)
  show ?thesis using False assms by (simp add: j split_host_port_def l np)
next
  case True
  define hp where "hp = ''['' @ host @ '']:'' @ port"
  have l: "last_index_byte hp CHR '':'' = Some (Suc (Suc (length host)))"
    using last_index_byte_append [OF assms(5), of "''['' @ host @ '']''"] by (simp add: hp_def)
  have e: "index_byte hp CHR '']'' = Some (Suc (length host))"
    using index_byte_append_notin [of "CHR '']''" "''['' @ host" "CHR '':'' # port"] assms(2)
    by (simp add: hp_def)
  have "has_prefix hp ''[''" by (simp add: hp_def has_prefix_def)
  moreover have "join_host_port host port = hp" using True by (simp add: join_host_port_def hp_def)
  moreover have "CHR ''['' \<notin> set (drop 1 hp)" "CHR '']'' \<notin> set (drop (Suc (Suc (length host))) hp)"
    using assms by (auto simp: hp_def)
  moreover have "take (length host) (drop 1 hp) = host" "drop (Suc (Suc (Suc (length host)))) hp = port"
    by (simp_all add: hp_def)
  ultimately show ?thesis by (simp add: split_host_port_def l e)
qed

end
