(* ===== verification/Ip.thy ===== *)
theory Ip
  imports Net
begin

text \<open>
  \<open>internal/provider/ip/ip.go\<close>, with the parts of Go's \<open>net.IP\<close> it and the DHCP proxy use. A \<open>net.IP\<close> is a
  byte slice: 4 bytes for IPv4, 16 bytes for IPv6 and for IPv4 in its mapped form, none for the nil address.
  \<open>net.InterfaceAddrs\<close> lists the interfaces' networks, or fails; the textual form of an IPv6 address is a
  parameter.
\<close>

type_synonym net_ip = "byte list"

definition v4InV6Prefix :: "byte list" where
  "v4InV6Prefix = [0, 0, 0, 0, 0, 0, 0, 0, 0, 0, 0xff, 0xff]"

definition ip_IPv4 :: "byte \<Rightarrow> byte \<Rightarrow> byte \<Rightarrow> byte \<Rightarrow> net_ip" where
  "ip_IPv4 a b c d = v4InV6Prefix @ [a, b, c, d]"

definition ip_To4 :: "net_ip \<Rightarrow> net_ip option" where
  "ip_To4 ip =
     (if length ip = 4 then Some ip
      else if length ip = 16 \<and> take 12 ip = v4InV6Prefix then Some (drop 12 ip)
      else None)"

definition ip_To16 :: "net_ip \<Rightarrow> net_ip option" where
  "ip_To16 ip =
     (if length ip = 4 then Some (v4InV6Prefix @ ip)
      else if length ip = 16 then Some ip
      else None)"

definition ip_Equal :: "net_ip \<Rightarrow> net_ip \<Rightarrow> bool" where
  "ip_Equal ip x =
     (if length ip = length x then ip = x
      else if length ip = 4 \<and> length x = 16 then take 12 x = v4InV6Prefix \<and> ip = drop 12 x
      else if length ip = 16 \<and> length x = 4 then take 12 ip = v4InV6Prefix \<and> drop 12 ip = x
      else False)"

definition IPv6zero :: net_ip where
  "IPv6zero = [0, 0, 0, 0, 0, 0, 0, 0, 0, 0, 0, 0, 0, 0, 0, 0]"

definition IPv6loopback :: net_ip where
  "IPv6loopback = [0, 0, 0, 0, 0, 0, 0, 0, 0, 0, 0, 0, 0, 0, 0, 1]"

definition ip_IsUnspecified :: "net_ip \<Rightarrow> bool" where
  "ip_IsUnspecified ip \<longleftrightarrow> ip_Equal ip (ip_IPv4 0 0 0 0) \<or> ip_Equal ip IPv6zero"

definition ip_IsLoopback :: "net_ip \<Rightarrow> bool" where
  "ip_IsLoopback ip =
     (case ip_To4 ip of Some ip4 \<Rightarrow> ip4 ! 0 = 127 | None \<Rightarrow> ip_Equal ip IPv6loopback)"

definition ip_IsMulticast :: "net_ip \<Rightarrow> bool" where
  "ip_IsMulticast ip =
     (case ip_To4 ip of
        Some ip4 \<Rightarrow> and (ip4 ! 0) 0xf0 = 0xe0
      | None \<Rightarrow> length ip = 16 \<and> ip ! 0 = 0xff)"

definition ip_IsLinkLocalMulticast :: "net_ip \<Rightarrow> bool" where
  "ip_IsLinkLocalMulticast ip =
     (case ip_To4 ip of
        Some ip4 \<Rightarrow> ip4 ! 0 = 224 \<and> ip4 ! 1 = 0 \<and> ip4 ! 2 = 0
      | None \<Rightarrow> length ip = 16 \<and> ip ! 0 = 0xff \<and> and (ip ! 1) 0x0f = 0x02)"

definition ip_IsLinkLocalUnicast :: "net_ip \<Rightarrow> bool" where
  "ip_IsLinkLocalUnicast ip =
     (case ip_To4 ip of
        Some ip4 \<Rightarrow> ip4 ! 0 = 169 \<and> ip4 ! 1 = 254
      | None \<Rightarrow> length ip = 16 \<and> ip ! 0 = 0xfe \<and> and (ip ! 1) 0xc0 = 0x80)"

definition ip_dotted :: "net_ip \<Rightarrow> string" where
  "ip_dotted ip4 = join ''.'' (map (\<lambda>b. nat_digits (unat b)) ip4)"

text \<open>\<open>IP.String\<close>: \<open>text6\<close> stands for the textual form of a real IPv6 address.\<close>

definition ip_String :: "(net_ip \<Rightarrow> string) \<Rightarrow> net_ip \<Rightarrow> string" where
  "ip_String text6 ip =
     (if ip = [] then ''<nil>''
      else (case ip_To4 ip of Some ip4 \<Rightarrow> ip_dotted ip4 | None \<Rightarrow> text6 ip))"

section \<open>Which addresses count as routable\<close>

definition isReservedIPv4 :: "net_ip \<Rightarrow> bool" where
  "isReservedIPv4 ip \<longleftrightarrow> ip ! 0 \<ge> 240"

definition isRoutableIP :: "net_ip \<Rightarrow> bool" where
  "isRoutableIP ip =
     (if ip_IsLoopback ip \<or> ip_IsLinkLocalUnicast ip \<or> ip_IsLinkLocalMulticast ip \<or>
         ip_IsMulticast ip \<or> ip_IsUnspecified ip
      then False
      else if ip_To4 ip \<noteq> None then \<not> isReservedIPv4 ip
      else True)"

text \<open>An interface address is an \<open>IPNet\<close> with its address, or something else.\<close>

definition RoutableIPs :: "(net_ip \<Rightarrow> string) \<Rightarrow> err + net_ip option list \<Rightarrow> err + string list" where
  "RoutableIPs text6 interfaceAddrs =
     (case interfaceAddrs of
        Inl e \<Rightarrow> Inl (Wrapped ''failed to get interfaces'' e)
      | Inr addresses \<Rightarrow>
          Inr (concat (map (\<lambda>addr. case addr of
                              None \<Rightarrow> []
                            | Some ip \<Rightarrow> if isRoutableIP ip then [ip_String text6 ip] else []) addresses)))"

text \<open>\<open>Provider.determineAPIAdvertiseAddress\<close>.\<close>

definition determineAPIAdvertiseAddress ::
  "(net_ip \<Rightarrow> string) \<Rightarrow> string \<Rightarrow> err + net_ip option list \<Rightarrow> err + string" where
  "determineAPIAdvertiseAddress text6 configured interfaceAddrs =
     (if configured \<noteq> [] then Inr configured
      else (case RoutableIPs text6 interfaceAddrs of
              Inl e \<Rightarrow> Inl (Wrapped ''failed to get routable IPs'' e)
            | Inr routableIPs \<Rightarrow>
                if length routableIPs \<noteq> 1
                then Inl (Plain (''expected exactly one routable IP, got '' @ itoa (int (length routableIPs)) @ '': ['' @
                       join '' '' routableIPs @ '']. specify API advertise address explicitly''))
                else Inr (routableIPs ! 0)))"

section \<open>What counts as routable\<close>

lemma ip_To4_mapped [simp]: "ip_To4 (ip_IPv4 a b c d) = Some [a, b, c, d]"
  by (simp add: ip_To4_def ip_IPv4_def v4InV6Prefix_def)

lemma ip_To4_short [simp]: "ip_To4 [a, b, c, d] = Some [a, b, c, d]"
  by (simp add: ip_To4_def)

text \<open>The two forms of an IPv4 address agree on every test but the one for reserved addresses.\<close>

lemma routable_tests_mapped:
  "ip_IsLoopback (ip_IPv4 a b c d) = ip_IsLoopback [a, b, c, d]"
  "ip_IsLinkLocalUnicast (ip_IPv4 a b c d) = ip_IsLinkLocalUnicast [a, b, c, d]"
  "ip_IsLinkLocalMulticast (ip_IPv4 a b c d) = ip_IsLinkLocalMulticast [a, b, c, d]"
  "ip_IsMulticast (ip_IPv4 a b c d) = ip_IsMulticast [a, b, c, d]"
  "ip_IsUnspecified (ip_IPv4 a b c d) = ip_IsUnspecified [a, b, c, d]"
  by (auto simp: ip_IsLoopback_def ip_IsLinkLocalUnicast_def ip_IsLinkLocalMulticast_def ip_IsMulticast_def
      ip_IsUnspecified_def ip_Equal_def ip_IPv4_def v4InV6Prefix_def ip_To4_def IPv6zero_def)

text \<open>
  An IPv4 address counts as routable exactly when it is none of loopback, link-local, multicast, the
  unspecified address, and, only when it comes in the 4-byte form, reserved (240 and above). In the 16-byte form
  the reserved check looks at the first byte of the mapping prefix, which is 0, so it never rejects anything:
  240.0.0.1 counts as routable in one form and not in the other.
\<close>

theorem isRoutableIP_IPv4:
  "isRoutableIP [a, b, c, d] =
     (a \<noteq> 127 \<and> \<not> (a = 169 \<and> b = 254) \<and> and a 0xf0 \<noteq> 0xe0 \<and> [a, b, c, d] \<noteq> [0, 0, 0, 0] \<and> a < 240) \<and>
   isRoutableIP (ip_IPv4 a b c d) =
     (a \<noteq> 127 \<and> \<not> (a = 169 \<and> b = 254) \<and> and a 0xf0 \<noteq> 0xe0 \<and> [a, b, c, d] \<noteq> [0, 0, 0, 0]) \<and>
   isRoutableIP (ip_IPv4 240 0 0 1) \<and> \<not> isRoutableIP [240, 0, 0, 1]"
proof -
  have u: "ip_IsUnspecified [a, b, c, d] \<longleftrightarrow> [a, b, c, d] = [0, 0, 0, 0]" for a b c d
    by (simp add: ip_IsUnspecified_def ip_Equal_def ip_IPv4_def v4InV6Prefix_def IPv6zero_def)
  have m: "ip_IsLinkLocalMulticast [a, b, c, d] \<Longrightarrow> ip_IsMulticast [a, b, c, d]" for a b c d
    by (auto simp: ip_IsLinkLocalMulticast_def ip_IsMulticast_def)
  have r: "\<not> isReservedIPv4 (ip_IPv4 a b c d)" for a b c d
    by (simp add: isReservedIPv4_def ip_IPv4_def v4InV6Prefix_def)
  have 1: "isRoutableIP [a, b, c, d] =
     (a \<noteq> 127 \<and> \<not> (a = 169 \<and> b = 254) \<and> and a 0xf0 \<noteq> 0xe0 \<and> [a, b, c, d] \<noteq> [0, 0, 0, 0] \<and> a < 240)" for a b c d
    using m [of a b c d]
    by (auto simp: isRoutableIP_def u ip_IsLoopback_def ip_IsLinkLocalUnicast_def ip_IsMulticast_def isReservedIPv4_def)
  have 2: "isRoutableIP (ip_IPv4 a b c d) =
     (a \<noteq> 127 \<and> \<not> (a = 169 \<and> b = 254) \<and> and a 0xf0 \<noteq> 0xe0 \<and> [a, b, c, d] \<noteq> [0, 0, 0, 0])" for a b c d
    using m [of a b c d] r [of a b c d]
    by (auto simp: isRoutableIP_def routable_tests_mapped u ip_IsLoopback_def ip_IsLinkLocalUnicast_def ip_IsMulticast_def)
  show ?thesis unfolding 1 2 by simp
qed

end
