(* ===== verification/Resources.thy ===== *)
theory Resources
  imports Prelude
begin

text \<open>
  The data the controllers keep: the provider's own COSI resources (the messages of
  \<open>api/specs/specs.pb.go\<close>, wrapped into resources by \<open>internal/provider/resources\<close>), and the fields
  the code reads and writes of the resources Omni owns (\<open>infra.Machine\<close>, \<open>infra.MachineStatus\<close>,
  \<open>infra.BMCConfig\<close>), whose types are not part of the repository. A nil message pointer is \<open>None\<close>.
  Every provider message keeps the bytes of the fields it does not know (\<open>unknownFields\<close>).
\<close>

section \<open>Protobuf messages of the provider\<close>

text \<open>\<open>PowerState\<close> is an int32 in Go: any number other than the three named ones is kept as it is.\<close>

datatype power_state = POWER_STATE_UNKNOWN | POWER_STATE_OFF | POWER_STATE_ON | POWER_STATE_OTHER "32 word"

record timestamp =
  ts_seconds :: int
  ts_nanos :: int

text \<open>
  \<open>timestamppb.New\<close> splits a time into seconds and nanoseconds (floor division, the nanoseconds are
  never negative), \<open>Timestamp.AsTime\<close> joins them.
\<close>

definition timestamp_New :: "int \<Rightarrow> timestamp" where
  "timestamp_New t = \<lparr>ts_seconds = t div 1000000000, ts_nanos = t mod 1000000000\<rparr>"

definition AsTime :: "timestamp \<Rightarrow> int" where
  "AsTime ts = ts_seconds ts * 1000000000 + ts_nanos ts"

lemma AsTime_New [simp]: "AsTime (timestamp_New t) = t"
  by (simp add: AsTime_def timestamp_New_def)

record power_operation_spec =
  LastPowerOperation :: power_state
  LastPowerOnTimestamp :: "timestamp option"
  LastPowerOffId :: string
  WipeIdAtPowerOff :: string
  po_unknownFields :: "byte list"

record bmc_ipmi =
  Ipmi_Address :: string
  Ipmi_Port :: "32 word"
  Ipmi_Username :: string
  Ipmi_Password :: string
  ipmi_unknownFields :: "byte list"

record bmc_api =
  Api_Address :: string
  api_unknownFields :: "byte list"

record bmc_manual =
  manual_unknownFields :: "byte list"

record bmc_configuration_spec =
  Ipmi :: "bmc_ipmi option"
  Api :: "bmc_api option"
  ManuallyConfigured :: bool
  Manual :: "bmc_manual option"
  bc_unknownFields :: "byte list"

record machine_status_spec =
  AgentAccessible :: bool
  PowerState :: power_state
  Initialized :: bool
  ms_unknownFields :: "byte list"

record wipe_status_spec =
  LastWipeId :: string
  LastWipeInstallEventId :: "64 word"
  InitialWipeDone :: bool
  WipedNodeUniqueToken :: string
  ws_unknownFields :: "byte list"

record reboot_status_spec =
  LastRebootId :: string
  LastRebootTimestamp :: "timestamp option"
  rs_unknownFields :: "byte list"

record tls_config_spec =
  CaCert :: string
  CaKey :: string
  tls_unknownFields :: "byte list"

section \<open>Resources\<close>

text \<open>
  The part of a COSI resource the code looks at: its ID, its phase, the finalizers on it, its labels,
  its owner, and its typed spec.
\<close>

datatype phase = PhaseRunning | PhaseTearingDown

record 'spec resource =
  ID :: resource_id
  Phase :: phase
  Finalizers :: "string list"
  Labels :: "string \<rightharpoonup> string"
  Owner :: string
  Spec :: 'spec

type_synonym power_operation = "power_operation_spec resource"
type_synonym bmc_configuration = "bmc_configuration_spec resource"
type_synonym machine_status = "machine_status_spec resource"
type_synonym wipe_status = "wipe_status_spec resource"
type_synonym reboot_status = "reboot_status_spec resource"
type_synonym tls_config = "tls_config_spec resource"

definition new_resource :: "resource_id \<Rightarrow> 's \<Rightarrow> 's resource" where
  "new_resource i s = \<lparr>ID = i, Phase = PhaseRunning, Finalizers = [], Labels = Map.empty, Owner = [], Spec = s\<rparr>"

definition NewPowerOperation :: "resource_id \<Rightarrow> power_operation" where
  "NewPowerOperation i = new_resource i
     \<lparr>LastPowerOperation = POWER_STATE_UNKNOWN, LastPowerOnTimestamp = None, LastPowerOffId = [],
      WipeIdAtPowerOff = [], po_unknownFields = []\<rparr>"

definition NewBMCConfiguration :: "resource_id \<Rightarrow> bmc_configuration" where
  "NewBMCConfiguration i = new_resource i
     \<lparr>Ipmi = None, Api = None, ManuallyConfigured = False, Manual = None, bc_unknownFields = []\<rparr>"

definition NewMachineStatus :: "resource_id \<Rightarrow> machine_status" where
  "NewMachineStatus i = new_resource i
     \<lparr>AgentAccessible = False, PowerState = POWER_STATE_UNKNOWN, Initialized = False, ms_unknownFields = []\<rparr>"

definition NewWipeStatus :: "resource_id \<Rightarrow> wipe_status" where
  "NewWipeStatus i = new_resource i
     \<lparr>LastWipeId = [], LastWipeInstallEventId = 0, InitialWipeDone = False, WipedNodeUniqueToken = [],
      ws_unknownFields = []\<rparr>"

definition NewRebootStatus :: "resource_id \<Rightarrow> reboot_status" where
  "NewRebootStatus i = new_resource i
     \<lparr>LastRebootId = [], LastRebootTimestamp = None, rs_unknownFields = []\<rparr>"

text \<open>The TLS configuration is a singleton, so its constructor takes no ID.\<close>

definition TLSConfigID :: resource_id where "TLSConfigID = ''tls-config''"

definition NewTLSConfig :: tls_config where
  "NewTLSConfig = new_resource TLSConfigID \<lparr>CaCert = [], CaKey = [], tls_unknownFields = []\<rparr>"

section \<open>Omni's resources, as far as the code uses them\<close>

text \<open>
  The enums are int32 in Go as well, so a value Omni may add later is kept as \<open>ACCEPTANCE_OTHER\<close> or
  \<open>PREFERRED_OTHER\<close>.
\<close>

datatype acceptance_status = PENDING | ACCEPTED | REJECTED | ACCEPTANCE_OTHER "32 word"

datatype preferred_power_state = PREFERRED_OFF | PREFERRED_ON | PREFERRED_OTHER "32 word"

record infra_machine_spec =
  AcceptanceStatus :: acceptance_status
  ClusterTalosVersion :: string
  Cordoned :: bool
  ExtraKernelArgs :: string
  Extensions :: "string list"
  InstallEventId :: "64 word"
  NodeUniqueToken :: string
  PowerOffRequestId :: string
  PreferredPowerState :: preferred_power_state
  RequestedRebootId :: string
  WipeId :: string

type_synonym infra_machine = "infra_machine_spec resource"

text \<open>\<open>infra.MachineStatus\<close>, which the provider reports back to Omni.\<close>

record infra_machine_status_spec =
  ims_PowerState :: power_state
  ims_LastRebootId :: string
  ims_LastRebootTimestamp :: "timestamp option"
  ims_Installed :: bool
  ims_ReadyToUse :: bool
  ims_WipedNodeUniqueToken :: string
  ims_LastPowerOffId :: string

type_synonym infra_machine_status = "infra_machine_status_spec resource"

text \<open>\<open>infra.BMCConfig\<close>: the BMC access an operator typed in, possibly empty.\<close>

record user_ipmi =
  UserIpmi_Address :: string
  UserIpmi_Port :: "32 word"
  UserIpmi_Username :: string
  UserIpmi_Password :: string

record user_api =
  UserApi_Address :: string

record user_bmc_config =
  UserIpmi :: "user_ipmi option"
  UserApi :: "user_api option"

record infra_bmc_config_spec =
  Config :: "user_bmc_config option"

type_synonym infra_bmc_config = "infra_bmc_config_spec resource"

definition NewMachine :: "resource_id \<Rightarrow> infra_machine" where
  "NewMachine i = new_resource i
     \<lparr>AcceptanceStatus = PENDING, ClusterTalosVersion = [], Cordoned = False, ExtraKernelArgs = [],
      Extensions = [], InstallEventId = 0, NodeUniqueToken = [], PowerOffRequestId = [],
      PreferredPowerState = PREFERRED_OFF, RequestedRebootId = [], WipeId = []\<rparr>"

lemmas new_resource_defs =
  new_resource_def NewPowerOperation_def NewBMCConfiguration_def NewMachineStatus_def NewWipeStatus_def
  NewRebootStatus_def NewTLSConfig_def NewMachine_def

section \<open>Reading the inputs of a reconcile\<close>

text \<open>
  \<open>controller.Reader\<close> as the transforms use it: one lookup per resource type, each of which may fail.
\<close>

record reader =
  rd_infra_machine :: "resource_id \<Rightarrow> err + infra_machine"
  rd_bmc_configuration :: "resource_id \<Rightarrow> err + bmc_configuration"
  rd_machine_status :: "resource_id \<Rightarrow> err + machine_status"
  rd_wipe_status :: "resource_id \<Rightarrow> err + wipe_status"
  rd_reboot_status :: "resource_id \<Rightarrow> err + reboot_status"
  rd_power_operation :: "resource_id \<Rightarrow> err + power_operation"
  rd_bmc_config :: "resource_id \<Rightarrow> err + infra_bmc_config"

end
