(* ===== verification/World.thy ===== *)
theory World
  imports Resources
begin

text \<open>
  The outside world of the provider: every message it sends to a BMC, to an agent or to the resource
  store is a \<open>request\<close>. The world keeps the list of requests sent so far, oldest first, and the
  answers come from an environment that may look at that whole history, so a theorem over every
  environment covers every behaviour of the machines, of the network and of the libraries that talk
  to them. The world also holds the one piece of state the BMC client factory keeps, its Redfish
  availability cache.
\<close>

section \<open>Requests\<close>

record ipmi_target =
  tgt_Address :: string
  tgt_Port :: "32 word"
  tgt_Username :: string
  tgt_Password :: string

datatype chassis_control = ChassisControlPowerCycle | ChassisControlPowerUp | ChassisControlPowerDown
datatype boot_device_selector = BootDeviceSelectorForcePXE | BootDeviceSelectorNoOverride
datatype bios_boot_type = BIOSBootTypeLegacy | BIOSBootTypeEFI

record redfish_config =
  cfg_Endpoint :: string
  cfg_Username :: string
  cfg_Password :: string
  cfg_Insecure :: bool
  cfg_BasicAuth :: bool

datatype redfish_reset = ForceRestartResetType | OnResetType | ForceOffResetType
datatype boot_override_enabled = OnceBootSourceOverrideEnabled | DisabledBootSourceOverrideEnabled
datatype boot_source = PxeBootSource | NoneBootSource
datatype boot_override_mode = LegacyBootSourceOverrideMode | UEFIBootSourceOverrideMode

record redfish_boot =
  BootSourceOverrideEnabled :: boot_override_enabled
  BootSourceOverrideTarget :: boot_source
  BootSourceOverrideMode :: "boot_override_mode option"

record redfish_system =
  sys_ID :: string
  sys_ODataID :: string
  sys_PowerState :: string

record set_power_management =
  spm_Api :: bool
  spm_Ipmi :: "(string \<times> string) option"

datatype resource_kind = MachineStatusKind | BMCConfigurationKind | InfraMachineKind

datatype request =
    HttpPost string string
  | HttpGet string string
  | IpmiConnect ipmi_target
  | IpmiChassisControl ipmi_target chassis_control
  | IpmiSetBootDevice ipmi_target boot_device_selector bios_boot_type bool
  | IpmiGetChassisStatus ipmi_target
  | IpmiClose ipmi_target
  | RedfishConnect redfish_config
  | RedfishGetSystems redfish_config
  | RedfishReset redfish_config string redfish_reset
  | RedfishSetBoot redfish_config string redfish_boot
  | RedfishGet redfish_config string
  | RedfishPatch redfish_config string redfish_boot string
  | RedfishLogout redfish_config
  | AgentHello resource_id
  | AgentGetPowerManagement resource_id
  | AgentSetPowerManagement resource_id set_power_management
  | AgentReboot resource_id
  | AgentWipeDisks resource_id bool int
  | ListTunnels
  | AddFinalizer resource_kind resource_id string
  | RemoveFinalizer resource_kind resource_id string
  | TeardownStatus resource_id
  | DestroyStatus resource_id

section \<open>Answers\<close>

text \<open>The status code of an HTTP answer, and its JSON body as \<open>json.Decode\<close> reads the \<open>PoweredOn\<close> field.\<close>

record http_answer =
  http_StatusCode :: int
  http_PoweredOn :: "err + bool"

text \<open>\<open>agentpb.GetPowerManagementResponse\<close>: an API entry, and an IPMI entry with address and port.\<close>

record power_management =
  pm_Api :: bool
  pm_Ipmi :: "(string \<times> 32 word) option"

record env =
  answer_act :: "request list \<Rightarrow> request \<Rightarrow> err option"
  answer_flag :: "request list \<Rightarrow> request \<Rightarrow> err + bool"
  answer_http :: "request list \<Rightarrow> request \<Rightarrow> err + http_answer"
  answer_systems :: "request list \<Rightarrow> request \<Rightarrow> err + redfish_system list"
  answer_etag :: "request list \<Rightarrow> request \<Rightarrow> err + string"
  answer_pm :: "request list \<Rightarrow> request \<Rightarrow> err + power_management"
  answer_tunnels :: "request list \<Rightarrow> string list option list"
  check_url :: "string \<Rightarrow> err option"
  check_ipmi :: "ipmi_target \<Rightarrow> err option"
  clock :: "request list \<Rightarrow> int"
  write_error :: "request list \<Rightarrow> resource_id \<Rightarrow> err option"

record world =
  requests :: "request list"
  redfish_cache :: "string \<rightharpoonup> bool"

definition act :: "env \<Rightarrow> request \<Rightarrow> world \<Rightarrow> err option \<times> world" where
  "act env q w = (answer_act env (requests w) q, w\<lparr>requests := requests w @ [q]\<rparr>)"

definition ask_flag :: "env \<Rightarrow> request \<Rightarrow> world \<Rightarrow> (err + bool) \<times> world" where
  "ask_flag env q w = (answer_flag env (requests w) q, w\<lparr>requests := requests w @ [q]\<rparr>)"

definition ask_http :: "env \<Rightarrow> request \<Rightarrow> world \<Rightarrow> (err + http_answer) \<times> world" where
  "ask_http env q w = (answer_http env (requests w) q, w\<lparr>requests := requests w @ [q]\<rparr>)"

definition ask_systems :: "env \<Rightarrow> request \<Rightarrow> world \<Rightarrow> (err + redfish_system list) \<times> world" where
  "ask_systems env q w = (answer_systems env (requests w) q, w\<lparr>requests := requests w @ [q]\<rparr>)"

definition ask_etag :: "env \<Rightarrow> request \<Rightarrow> world \<Rightarrow> (err + string) \<times> world" where
  "ask_etag env q w = (answer_etag env (requests w) q, w\<lparr>requests := requests w @ [q]\<rparr>)"

definition ask_pm :: "env \<Rightarrow> request \<Rightarrow> world \<Rightarrow> (err + power_management) \<times> world" where
  "ask_pm env q w = (answer_pm env (requests w) q, w\<lparr>requests := requests w @ [q]\<rparr>)"

lemmas ask_defs [effect_simps] =
  act_def ask_flag_def ask_http_def ask_systems_def ask_etag_def ask_pm_def

section \<open>What a stretch of execution sent\<close>

text \<open>
  \<open>emits P w w'\<close>: the execution from \<open>w\<close> to \<open>w'\<close> only appended requests that satisfy \<open>P\<close>.
\<close>

definition emits :: "(request \<Rightarrow> bool) \<Rightarrow> world \<Rightarrow> world \<Rightarrow> bool" where
  "emits P w w' \<longleftrightarrow> (\<exists>qs. requests w' = requests w @ qs \<and> list_all P qs)"

lemma emits_refl [simp, intro]: "emits P w w"
  by (simp add: emits_def)

lemma emits_trans [trans, emit_intros]: "emits P w1 w2 \<Longrightarrow> emits P w2 w3 \<Longrightarrow> emits P w1 w3"
  by (fastforce simp: emits_def)

lemma emits_mono: "emits P w w' \<Longrightarrow> (\<And>q. P q \<Longrightarrow> Q q) \<Longrightarrow> emits Q w w'"
  by (auto simp: emits_def list_all_iff)

lemma emits_step [simp]: "emits P w (w\<lparr>requests := requests w @ [q]\<rparr>) \<longleftrightarrow> P q"
  by (auto simp: emits_def)

lemma emits_same_requests: "requests w' = requests w \<Longrightarrow> emits P w w'"
  by (simp add: emits_def)

text \<open>
  The BMC commands among the requests, as the machine sees them: each protocol's way of powering on,
  powering off, power-cycling, arming a one-time network boot and clearing the boot override.
\<close>

datatype power_command = CmdPowerOn | CmdPowerOff | CmdReboot | CmdArmPXE | CmdClearBoot

fun command_of :: "request \<Rightarrow> power_command option" where
  "command_of (HttpPost a p) =
     (if p = ''/poweron'' then Some CmdPowerOn
      else if p = ''/poweroff'' then Some CmdPowerOff
      else if p = ''/reboot'' then Some CmdReboot
      else if p = ''/pxeboot'' then Some CmdArmPXE
      else None)"
| "command_of (IpmiChassisControl t ChassisControlPowerCycle) = Some CmdReboot"
| "command_of (IpmiChassisControl t ChassisControlPowerUp) = Some CmdPowerOn"
| "command_of (IpmiChassisControl t ChassisControlPowerDown) = Some CmdPowerOff"
| "command_of (IpmiSetBootDevice t BootDeviceSelectorForcePXE b p) = Some CmdArmPXE"
| "command_of (IpmiSetBootDevice t BootDeviceSelectorNoOverride b p) = Some CmdClearBoot"
| "command_of (RedfishReset c i ForceRestartResetType) = Some CmdReboot"
| "command_of (RedfishReset c i OnResetType) = Some CmdPowerOn"
| "command_of (RedfishReset c i ForceOffResetType) = Some CmdPowerOff"
| "command_of (RedfishSetBoot c i b) =
     (case BootSourceOverrideTarget b of PxeBootSource \<Rightarrow> Some CmdArmPXE | NoneBootSource \<Rightarrow> Some CmdClearBoot)"
| "command_of (RedfishPatch c u b e) =
     (case BootSourceOverrideTarget b of PxeBootSource \<Rightarrow> Some CmdArmPXE | NoneBootSource \<Rightarrow> Some CmdClearBoot)"
| "command_of _ = None"

fun commands :: "request list \<Rightarrow> power_command list" where
  "commands [] = []"
| "commands (q # qs) = (case command_of q of None \<Rightarrow> commands qs | Some c \<Rightarrow> c # commands qs)"

lemma commands_append [simp]: "commands (qs @ rs) = commands qs @ commands rs"
  by (induction qs) (auto split: option.splits)

text \<open>\<open>issued w w' cs\<close>: the execution from \<open>w\<close> to \<open>w'\<close> sent exactly the BMC commands \<open>cs\<close>, in this order,
  and sent nothing to the agent.\<close>

fun to_agent :: "request \<Rightarrow> bool" where
  "to_agent (AgentHello i) = True"
| "to_agent (AgentGetPowerManagement i) = True"
| "to_agent (AgentSetPowerManagement i p) = True"
| "to_agent (AgentReboot i) = True"
| "to_agent (AgentWipeDisks i z t) = True"
| "to_agent ListTunnels = True"
| "to_agent _ = False"

definition issued :: "world \<Rightarrow> world \<Rightarrow> power_command list \<Rightarrow> bool" where
  "issued w w' cs \<longleftrightarrow>
     (\<exists>qs. requests w' = requests w @ qs \<and> commands qs = cs \<and> list_all (\<lambda>q. \<not> to_agent q) qs)"

lemma issued_refl [simp, intro]: "issued w w []"
  by (simp add: issued_def)

lemma issued_trans [emit_intros]: "issued w1 w2 cs \<Longrightarrow> issued w2 w3 ds \<Longrightarrow> issued w1 w3 (cs @ ds)"
  by (fastforce simp: issued_def)

lemma issued_step [simp]:
  "issued w (w\<lparr>requests := requests w @ [q]\<rparr>) cs \<longleftrightarrow>
     cs = (case command_of q of None \<Rightarrow> [] | Some c \<Rightarrow> [c]) \<and> \<not> to_agent q"
  by (auto simp: issued_def split: option.splits)

lemma issued_same_requests: "requests w' = requests w \<Longrightarrow> issued w w' []"
  by (simp add: issued_def)

lemma issued_unique: "issued w w' cs \<Longrightarrow> issued w w' ds \<Longrightarrow> cs = ds"
  by (auto simp: issued_def)

lemma issued_emits_no_agent: "issued w w' cs \<Longrightarrow> emits (\<lambda>q. \<not> to_agent q) w w'"
  by (auto simp: issued_def emits_def)

text \<open>The requests to an agent other than the greeting, by the machine they go to.\<close>

fun agent_action :: "request \<Rightarrow> resource_id option" where
  "agent_action (AgentGetPowerManagement i) = Some i"
| "agent_action (AgentSetPowerManagement i p) = Some i"
| "agent_action (AgentReboot i) = Some i"
| "agent_action (AgentWipeDisks i z t) = Some i"
| "agent_action q = None"

abbreviation quiet_agent :: "request \<Rightarrow> bool" where
  "quiet_agent q \<equiv> agent_action q = None"

abbreviation only_agent :: "resource_id \<Rightarrow> request \<Rightarrow> bool" where
  "only_agent i q \<equiv> quiet_agent q \<or> agent_action q = Some i"

lemma not_to_agent_quiet: "\<not> to_agent q \<Longrightarrow> quiet_agent q"
  by (cases q) auto

lemma issued_quiet: "issued w w' cs \<Longrightarrow> emits quiet_agent w w'"
  by (rule emits_mono [OF issued_emits_no_agent]) (auto intro: not_to_agent_quiet)

lemma issued_not_agent: "issued w w' cs \<Longrightarrow> to_agent q \<Longrightarrow> q \<in> set (requests w') \<Longrightarrow> q \<in> set (requests w)"
  by (auto simp: issued_def list_all_iff)

end
