(* ===== verification/Tls.thy ===== *)
theory Tls
  imports Ip World
begin

text \<open>
  \<open>internal/provider/tls/tls.go\<close>: the certificate authority kept in the state store and the short-lived certificates
  it signs. The X.509 library is the record \<open>x509_lib\<close>; the state store is the stored TLS configuration with the
  errors its operations may return. Times are nanoseconds, as elsewhere.
\<close>

record tls_options =
  CACertFile :: string
  CertFile :: string
  KeyFile :: string
  CustomIPXECACertFile :: string
  TLS_APIPort :: int
  CATTL :: int
  CertTTL :: int
  TLS_Enabled :: bool
  AgentSkipVerify :: bool

record ca =
  ca_CrtPEM :: string
  ca_KeyPEM :: string
  ca_NotAfter :: int

record certificate =
  crt_NotBefore :: int
  crt_NotAfter :: int

datatype x509_option =
    Organization string
  | CommonName string
  | NotBefore int
  | NotAfter int
  | KeyUsage "string list"
  | IPAddresses "net_ip list"
  | DNSNames "string list"

record x509_lib =
  NewSelfSignedCertificateAuthority :: "x509_option list \<Rightarrow> err + ca"
  NewCertificateAuthorityFromCertificateAndKey :: "string \<Rightarrow> string \<Rightarrow> err + ca"
  NewKeyPair :: "ca \<Rightarrow> x509_option list \<Rightarrow> err + certificate"
  X509KeyPair :: "byte list \<Rightarrow> byte list \<Rightarrow> err + certificate"
  x_pem_Decode :: "byte list \<Rightarrow> (string \<times> byte list) option"
  ParseCertificate :: "byte list \<Rightarrow> err + byte list"
  VerifyHostname :: "byte list \<Rightarrow> string \<Rightarrow> err option"
  x_ParseIP :: "string \<Rightarrow> net_ip"

text \<open>
  The state store as \<open>tls.go\<close> uses it: an operation fails when the store says so, a read or an update of a missing
  resource is a not-found error, and creating an existing one a conflict.
\<close>

record tls_store_env =
  ts_get_error :: "err option"
  ts_create_error :: "err option"
  ts_update_error :: "err option"

definition ReaderGetTLSConfig :: "tls_store_env \<Rightarrow> tls_config option \<Rightarrow> err + tls_config" where
  "ReaderGetTLSConfig st store =
     (case ts_get_error st of
        Some e \<Rightarrow> Inl e
      | None \<Rightarrow> (case store of None \<Rightarrow> Inl (NotFoundErr TLSConfigID) | Some tlsConfig \<Rightarrow> Inr tlsConfig))"

definition UpdateTLSConfig :: "tls_store_env \<Rightarrow> tls_config_spec \<Rightarrow> tls_config option \<Rightarrow> err + tls_config" where
  "UpdateTLSConfig st spec store =
     (case ts_update_error st of
        Some e \<Rightarrow> Inl e
      | None \<Rightarrow> (case store of None \<Rightarrow> Inl (NotFoundErr TLSConfigID) | Some res \<Rightarrow> Inr (res\<lparr>Spec := spec\<rparr>)))"

definition CreateTLSConfig :: "tls_store_env \<Rightarrow> tls_config \<Rightarrow> tls_config option \<Rightarrow> err + tls_config" where
  "CreateTLSConfig st res store =
     (case ts_create_error st of
        Some e \<Rightarrow> Inl e
      | None \<Rightarrow> (case store of None \<Rightarrow> Inr res | Some _ \<Rightarrow> Inl (ConflictErr TLSConfigID)))"

section \<open>The certificate authority\<close>

definition decodeCA :: "x509_lib \<Rightarrow> tls_config \<Rightarrow> err + ca" where
  "decodeCA lib tlsConfig =
     (case NewCertificateAuthorityFromCertificateAndKey lib (CaCert (Spec tlsConfig)) (CaKey (Spec tlsConfig)) of
        Inl e \<Rightarrow> Inl (Wrapped ''failed to decode CA'' e)
      | Inr ca \<Rightarrow> Inr ca)"

definition generateCA ::
  "x509_lib \<Rightarrow> tls_store_env \<Rightarrow> int \<Rightarrow> int \<Rightarrow> bool \<Rightarrow> tls_config option \<Rightarrow> (err + ca) \<times> tls_config option" where
  "generateCA lib st now caTTL update store =
     (case NewSelfSignedCertificateAuthority lib [Organization ''siderolabs'', NotBefore now, NotAfter (now + caTTL)] of
        Inl e \<Rightarrow> (Inl (Wrapped ''failed to create self-signed CA'' e), store)
      | Inr ca \<Rightarrow>
          (let spec = (Spec NewTLSConfig)\<lparr>CaCert := ca_CrtPEM ca, CaKey := ca_KeyPEM ca\<rparr>
           in if update
              then (case UpdateTLSConfig st spec store of
                      Inl e \<Rightarrow> (Inl (Wrapped ''failed to update TLS config'' e), store)
                    | Inr res \<Rightarrow> (Inr ca, Some res))
              else (case CreateTLSConfig st (NewTLSConfig\<lparr>Spec := spec\<rparr>) store of
                      Inl e \<Rightarrow> (Inl (Wrapped ''failed to create TLS config'' e), store)
                    | Inr res \<Rightarrow> (Inr ca, Some res))))"

definition initCA ::
  "x509_lib \<Rightarrow> tls_store_env \<Rightarrow> int \<Rightarrow> int \<Rightarrow> tls_config option \<Rightarrow> (err + ca) \<times> tls_config option" where
  "initCA lib st now caTTL store =
     (case ReaderGetTLSConfig st store of
        Inl e \<Rightarrow>
          if \<not> is_not_found e then (Inl (Wrapped ''failed to get TLS config'' e), store)
          else generateCA lib st now caTTL False store
      | Inr tlsConfig \<Rightarrow>
          (case decodeCA lib tlsConfig of
             Inl e \<Rightarrow> (Inl (Wrapped ''failed to decode CA'' e), store)
           | Inr ca \<Rightarrow>
               if ca_NotAfter ca > now then (Inr ca, store)
               else generateCA lib st now caTTL True store))"

section \<open>Serving certificates\<close>

record cert_provider =
  cp_ca :: ca
  cp_cert :: "certificate option"
  cp_host :: string
  cp_opts :: "x509_option list"
  cp_certTTL :: int

definition newRenewingCertificateProvider :: "x509_lib \<Rightarrow> ca option \<Rightarrow> string \<Rightarrow> int \<Rightarrow> err + cert_provider" where
  "newRenewingCertificateProvider lib ca host certTTL =
     (case ca of
        None \<Rightarrow> Inl (Plain ''CA is not set'')
      | Some ca \<Rightarrow>
          if host = [] then Inl (Plain ''host is not set'')
          else if certTTL < 5 * 60 * second then Inl (Plain ''certTTL is too short'')
          else (let parsedIP = x_ParseIP lib host
                in Inr \<lparr>cp_ca = ca, cp_cert = None, cp_host = host,
                        cp_opts = [CommonName ''omni-infra-provider-bare-metal'', Organization ''siderolabs'',
                                   KeyUsage [''KeyEncipherment'', ''DigitalSignature'']]
                          @ (if parsedIP \<noteq> [] then [IPAddresses [parsedIP]] else [DNSNames [host]]),
                        cp_certTTL = certTTL\<rparr>))"

definition shouldRenew :: "cert_provider \<Rightarrow> int \<Rightarrow> bool" where
  "shouldRenew p now =
     (case cp_cert p of
        None \<Rightarrow> True
      | Some cert \<Rightarrow> (let remainingTTL = time_Sub (crt_NotAfter cert) now in remainingTTL < cp_certTTL p div 10))"

definition GetCertificate :: "x509_lib \<Rightarrow> int \<Rightarrow> cert_provider \<Rightarrow> (err + certificate option) \<times> cert_provider" where
  "GetCertificate lib now p =
     (if \<not> shouldRenew p now then (Inr (cp_cert p), p)
      else (case NewKeyPair lib (cp_ca p) (cp_opts p @ [NotBefore now, NotAfter (now + cp_certTTL p)]) of
              Inl e \<Rightarrow> (Inl (Wrapped ''failed to create key pair'' e), p)
            | Inr cert \<Rightarrow> (Inr (Some cert), p\<lparr>cp_cert := Some cert\<rparr>)))"

text \<open>What answers a handshake: the renewing provider, or the one certificate loaded from files.\<close>

datatype cert_source = Renewing cert_provider | Fixed certificate

record certs =
  cs_source :: cert_source
  CACertPEM :: string

definition loadCerts :: "x509_lib \<Rightarrow> (string \<Rightarrow> err + byte list) \<Rightarrow> (byte list \<Rightarrow> string) \<Rightarrow> string \<Rightarrow> tls_options \<Rightarrow> err + certs" where
  "loadCerts lib readFile text host options =
     (case readFile (CertFile options) of
        Inl e \<Rightarrow> Inl (Wrapped ''failed to read certificate file'' e)
      | Inr certPEMBytes \<Rightarrow>
     (case readFile (KeyFile options) of
        Inl e \<Rightarrow> Inl (Wrapped ''failed to read key file'' e)
      | Inr keyPEMBytes \<Rightarrow>
     (case (if CACertFile options \<noteq> [] then readFile (CACertFile options) else Inr []) of
        Inl e \<Rightarrow> Inl (Wrapped ''failed to read CA certificate file'' e)
      | Inr caCertPEMBytes \<Rightarrow>
     (case X509KeyPair lib certPEMBytes keyPEMBytes of
        Inl e \<Rightarrow> Inl (Wrapped ''failed to load X509 key pair'' e)
      | Inr cert \<Rightarrow>
     (case x_pem_Decode lib certPEMBytes of
        None \<Rightarrow> Inl (Plain ''no certificate PEM found'')
      | Some (typ, block) \<Rightarrow>
          if typ \<noteq> ''CERTIFICATE'' then Inl (Plain ''no certificate PEM found'')
          else (case ParseCertificate lib block of
                  Inl e \<Rightarrow> Inl (Wrapped ''failed to parse certificate'' e)
                | Inr x509Cert \<Rightarrow>
                    (case VerifyHostname lib x509Cert host of
                       Some e \<Rightarrow> Inl (Wrapped (''loaded certificate is not valid for host '' @ host) e)
                     | None \<Rightarrow> Inr \<lparr>cs_source = Fixed cert, CACertPEM = text caCertPEMBytes\<rparr>)))))))"

definition Tls_Initialize ::
  "x509_lib \<Rightarrow> (string \<Rightarrow> err + byte list) \<Rightarrow> (byte list \<Rightarrow> string) \<Rightarrow> tls_store_env \<Rightarrow> int \<Rightarrow> string \<Rightarrow> tls_options
     \<Rightarrow> tls_config option \<Rightarrow> (err + certs) \<times> tls_config option" where
  "Tls_Initialize lib readFile text st now host options store =
     (if CACertFile options \<noteq> [] \<or> CertFile options \<noteq> [] \<or> KeyFile options \<noteq> []
      then ((case loadCerts lib readFile text host options of
               Inl e \<Rightarrow> Inl (Wrapped ''failed to load TLS certificates'' e) | Inr certs \<Rightarrow> Inr certs), store)
      else (case initCA lib st now (CATTL options) store of
              (Inl e, store') \<Rightarrow> (Inl (Wrapped ''failed to initialize CA'' e), store')
            | (Inr ca, store') \<Rightarrow>
                ((case newRenewingCertificateProvider lib (Some ca) host (CertTTL options) of
                    Inl e \<Rightarrow> Inl (Wrapped ''failed to create certificate provider'' e)
                  | Inr provider \<Rightarrow> Inr \<lparr>cs_source = Renewing provider, CACertPEM = ca_CrtPEM ca\<rparr>), store')))"

text \<open>One handshake at a time, as the provider's mutex orders them, each with the clock it reads.\<close>

fun handshakes :: "x509_lib \<Rightarrow> int list \<Rightarrow> cert_provider \<Rightarrow> (int \<times> (err + certificate option)) list" where
  "handshakes lib [] p = []"
| "handshakes lib (now # nows) p =
     (case GetCertificate lib now p of (r, p') \<Rightarrow> (now, r) # handshakes lib nows p')"

section \<open>What the certificates guarantee\<close>

lemma generateCA_stores:
  assumes "generateCA lib st now caTTL update store = (Inr ca, store')"
  shows "\<exists>res. store' = Some res \<and> CaCert (Spec res) = ca_CrtPEM ca \<and> CaKey (Spec res) = ca_KeyPEM ca
           \<and> NewSelfSignedCertificateAuthority lib [Organization ''siderolabs'', NotBefore now, NotAfter (now + caTTL)] = Inr ca"
  using assms
  by (auto simp: generateCA_def UpdateTLSConfig_def CreateTLSConfig_def Let_def split: sum.splits if_splits option.splits)

lemma generateCA_error_keeps_store:
  "fst (generateCA lib st now caTTL update store) = Inl e \<Longrightarrow> snd (generateCA lib st now caTTL update store) = store"
  by (auto simp: generateCA_def Let_def split: sum.splits if_splits option.splits)

lemma decodeCA_cong:
  "CaCert (Spec c) = crt \<Longrightarrow> CaKey (Spec c) = key \<Longrightarrow>
     NewCertificateAuthorityFromCertificateAndKey lib crt key = Inr ca \<Longrightarrow> decodeCA lib c = Inr ca"
  by (simp add: decodeCA_def)

text \<open>What the code relies on of the X.509 library: it reads back what it wrote, and it keeps the requested end of validity.\<close>

definition x509_reads_back :: "x509_lib \<Rightarrow> bool" where
  "x509_reads_back lib \<longleftrightarrow>
     (\<forall>opts c. NewSelfSignedCertificateAuthority lib opts = Inr c \<longrightarrow>
        NewCertificateAuthorityFromCertificateAndKey lib (ca_CrtPEM c) (ca_KeyPEM c) = Inr c)"

definition x509_honours_validity :: "x509_lib \<Rightarrow> bool" where
  "x509_honours_validity lib \<longleftrightarrow>
     (\<forall>ca opts s t c. NewKeyPair lib ca (opts @ [NotBefore s, NotAfter t]) = Inr c \<longrightarrow> crt_NotAfter c = t)"

lemma initCA_stores:
  assumes "initCA lib st now caTTL store = (Inr ca, store')"
      and "x509_reads_back lib"
  shows "\<exists>res. store' = Some res \<and> decodeCA lib res = Inr ca"
  using assms(1)
  by (auto simp: initCA_def ReaderGetTLSConfig_def split: sum.splits if_splits option.splits
           dest!: generateCA_stores intro!: decodeCA_cong assms(2)[unfolded x509_reads_back_def, rule_format])

text \<open>
  C31. The certificate authority survives restarts: whatever certificate authority one start of the provider ends up with
  (read back, created, or replaced because it had expired), every later start that can read the state store and happens
  before that authority expires uses the same authority and leaves the store as it is, whatever lifetime it is configured
  with. The X.509 library is assumed to read back the authorities it writes.
\<close>

theorem ca_survives_restart:
  assumes "initCA lib st now caTTL store = (Inr ca, store')"
      and "x509_reads_back lib"
      and "ts_get_error st' = None" "now' < ca_NotAfter ca"
  shows "initCA lib st' now' caTTL' store' = (Inr ca, store')"
proof -
  obtain res where "store' = Some res" "decodeCA lib res = Inr ca" using initCA_stores[OF assms(1,2)] by blast
  then show ?thesis using assms(3,4) by (simp add: initCA_def ReaderGetTLSConfig_def)
qed

text \<open>A library that keeps the requested validity, and writes an authority as its expiry in unary.\<close>

definition sample_x509 :: x509_lib where
  "sample_x509 =
     \<lparr>NewSelfSignedCertificateAuthority = (\<lambda>opts. case opts of
          [_, _, NotAfter t] \<Rightarrow> Inr \<lparr>ca_CrtPEM = replicate (nat t) CHR ''x'', ca_KeyPEM = ''key'', ca_NotAfter = int (nat t)\<rparr>
        | _ \<Rightarrow> Inl (Plain ''no validity'')),
      NewCertificateAuthorityFromCertificateAndKey = (\<lambda>crt key. Inr \<lparr>ca_CrtPEM = crt, ca_KeyPEM = key, ca_NotAfter = int (length crt)\<rparr>),
      NewKeyPair = (\<lambda>ca opts. case rev opts of
          NotAfter t # NotBefore s # _ \<Rightarrow> Inr \<lparr>crt_NotBefore = s, crt_NotAfter = t\<rparr>
        | _ \<Rightarrow> Inl (Plain ''no validity'')),
      X509KeyPair = (\<lambda>_ _. Inl (Plain ''no key'')), x_pem_Decode = (\<lambda>_. None),
      ParseCertificate = (\<lambda>_. Inl (Plain ''no certificate'')), VerifyHostname = (\<lambda>_ _. None), x_ParseIP = (\<lambda>_. [])\<rparr>"

definition sample_tls_store :: tls_store_env where
  "sample_tls_store = \<lparr>ts_get_error = None, ts_create_error = None, ts_update_error = None\<rparr>"

lemma sample_x509_reads_back: "x509_reads_back sample_x509"
  by (auto simp: x509_reads_back_def sample_x509_def split: list.splits x509_option.splits)

lemma sample_initCA_replaces:
  "initCA sample_x509 sample_tls_store 3 2 (Some (NewTLSConfig\<lparr>Spec := \<lparr>CaCert = ''xxx'', CaKey = ''old'', tls_unknownFields = []\<rparr>\<rparr>))
     = (Inr \<lparr>ca_CrtPEM = ''xxxxx'', ca_KeyPEM = ''key'', ca_NotAfter = 5\<rparr>,
        Some (NewTLSConfig\<lparr>Spec := \<lparr>CaCert = ''xxxxx'', CaKey = ''key'', tls_unknownFields = []\<rparr>\<rparr>))"
  by (simp add: initCA_def ReaderGetTLSConfig_def decodeCA_def generateCA_def UpdateTLSConfig_def sample_x509_def
      sample_tls_store_def NewTLSConfig_def new_resource_def numeral_eq_Suc)

text \<open>An authority that expired at time 3 is replaced then, and the new one is used at time 4.\<close>

theorem ca_survives_restart_witness:
  "initCA sample_x509 sample_tls_store 4 9 (Some (NewTLSConfig\<lparr>Spec := \<lparr>CaCert = ''xxxxx'', CaKey = ''key'', tls_unknownFields = []\<rparr>\<rparr>))
     = (Inr \<lparr>ca_CrtPEM = ''xxxxx'', ca_KeyPEM = ''key'', ca_NotAfter = 5\<rparr>,
        Some (NewTLSConfig\<lparr>Spec := \<lparr>CaCert = ''xxxxx'', CaKey = ''key'', tls_unknownFields = []\<rparr>\<rparr>))"
  by (rule ca_survives_restart[OF sample_initCA_replaces sample_x509_reads_back])
     (simp_all add: sample_tls_store_def)

definition cert_provider_inv :: "cert_provider \<Rightarrow> bool" where
  "cert_provider_inv p \<longleftrightarrow> 5 * 60 * second \<le> cp_certTTL p \<and> cp_certTTL p < 2 ^ 63"

definition handshake_ok :: "x509_lib \<Rightarrow> cert_provider \<Rightarrow> int \<Rightarrow> err + certificate option \<Rightarrow> bool" where
  "handshake_ok lib p now r =
     (case r of
        Inl e \<Rightarrow> (case e of
                    Wrapped msg e' \<Rightarrow> NewKeyPair lib (cp_ca p) (cp_opts p @ [NotBefore now, NotAfter (now + cp_certTTL p)]) = Inl e'
                  | _ \<Rightarrow> False)
      | Inr None \<Rightarrow> False
      | Inr (Some cert) \<Rightarrow> cp_certTTL p div 10 \<le> crt_NotAfter cert - now)"

lemma newRenewingCertificateProvider_inv:
  assumes "newRenewingCertificateProvider lib ca host certTTL = Inr p" "certTTL < 2 ^ 63"
  shows "cert_provider_inv p \<and> cp_certTTL p = certTTL \<and> cp_cert p = None"
  using assms
  by (auto simp: newRenewingCertificateProvider_def cert_provider_inv_def Let_def split: option.splits if_splits)

lemma not_shouldRenew_remaining:
  assumes "\<not> shouldRenew p now" "cert_provider_inv p"
  shows "\<exists>cert. cp_cert p = Some cert \<and> cp_certTTL p div 10 \<le> crt_NotAfter cert - now"
  using assms
  by (auto simp: shouldRenew_def cert_provider_inv_def time_Sub_def Let_def second_def min_duration_def max_duration_def
           split: option.splits)

lemma GetCertificate_ok:
  assumes "GetCertificate lib now p = (r, p')" "cert_provider_inv p"
      and "x509_honours_validity lib"
  shows "handshake_ok lib p now r \<and> cert_provider_inv p' \<and> cp_ca p' = cp_ca p \<and> cp_opts p' = cp_opts p \<and> cp_certTTL p' = cp_certTTL p"
proof -
  have "0 \<le> cp_certTTL p" using assms(2) by (simp add: cert_provider_inv_def second_def)
  then have "cp_certTTL p div 10 \<le> cp_certTTL p" by linarith
  then show ?thesis
    using assms(1,2) not_shouldRenew_remaining[of p now]
    by (auto simp: GetCertificate_def handshake_ok_def cert_provider_inv_def dest!: assms(3)[unfolded x509_honours_validity_def, rule_format]
             split: if_splits sum.splits)
qed

lemma handshake_ok_cong:
  "cp_ca p' = cp_ca p \<Longrightarrow> cp_opts p' = cp_opts p \<Longrightarrow> cp_certTTL p' = cp_certTTL p \<Longrightarrow>
     handshake_ok lib p' now r = handshake_ok lib p now r"
  by (cases r) (auto simp: handshake_ok_def split: err.splits option.splits)

lemma handshakes_ok:
  assumes "x509_honours_validity lib"
      and "cert_provider_inv p"
  shows "list_all (\<lambda>(now, r). handshake_ok lib p now r) (handshakes lib nows p)"
  using assms(2)
proof (induction nows arbitrary: p)
  case (Cons now nows)
  obtain r p' where g: "GetCertificate lib now p = (r, p')" by fastforce
  note ok = GetCertificate_ok[OF g Cons.prems assms(1)]
  have "list_all (\<lambda>(now, r). handshake_ok lib p' now r) (handshakes lib nows p')" using Cons.IH ok by blast
  then have "list_all (\<lambda>(now, r). handshake_ok lib p now r) (handshakes lib nows p')"
    using ok handshake_ok_cong[of p' p lib] by simp
  then show ?case using g ok by simp
qed simp


definition sample_cert_provider :: cert_provider where
  "sample_cert_provider =
     \<lparr>cp_ca = \<lparr>ca_CrtPEM = ''xxxxx'', ca_KeyPEM = ''key'', ca_NotAfter = 5\<rparr>, cp_cert = None, cp_host = ''provider.lan'',
      cp_opts = [CommonName ''omni-infra-provider-bare-metal'', Organization ''siderolabs'',
                 KeyUsage [''KeyEncipherment'', ''DigitalSignature''], DNSNames [''provider.lan'']],
      cp_certTTL = 600 * second\<rparr>"

lemma sample_cert_provider_new:
  "newRenewingCertificateProvider sample_x509 (Some (cp_ca sample_cert_provider)) ''provider.lan'' (600 * second) = Inr sample_cert_provider"
  by (simp add: newRenewingCertificateProvider_def sample_cert_provider_def sample_x509_def second_def)

text \<open>Ten minutes of lifetime: the second handshake is served the same certificate, the third a new one.\<close>

lemma sample_handshakes:
  "handshakes sample_x509 [0, 540 * second, 541 * second] sample_cert_provider =
     [(0, Inr (Some \<lparr>crt_NotBefore = 0, crt_NotAfter = 600 * second\<rparr>)),
      (540 * second, Inr (Some \<lparr>crt_NotBefore = 0, crt_NotAfter = 600 * second\<rparr>)),
      (541 * second, Inr (Some \<lparr>crt_NotBefore = 541 * second, crt_NotAfter = 1141 * second\<rparr>))]"
  by (simp add: GetCertificate_def shouldRenew_def sample_cert_provider_def sample_x509_def second_def time_Sub_def
      min_duration_def max_duration_def)

lemma sample_x509_honours_validity: "x509_honours_validity sample_x509"
  by (auto simp: x509_honours_validity_def sample_x509_def)


end
