(* ===== verification/Machine.thy ===== *)
theory Machine
  imports Resources
begin

text \<open>
  \<open>internal/provider/machine/machine.go\<close>: what a machine should boot and whether it has to be on,
  computed from the Omni machine, the BMC configuration, the wipe status and the power operation.
  A nil resource pointer is \<open>None\<close>. Log calls have no effect on the result and are left out.
\<close>

datatype boot_mode = BootModeAgentPXE | BootModeTalosPXE | BootModeTalosDisk

definition IsManuallyPowered :: "bmc_configuration option \<Rightarrow> bool" where
  "IsManuallyPowered bmcConfiguration =
     (case bmcConfiguration of None \<Rightarrow> False | Some b \<Rightarrow> Manual (Spec b) \<noteq> None)"

definition IsInstalled :: "infra_machine option \<Rightarrow> wipe_status option \<Rightarrow> bool" where
  "IsInstalled infraMachine wipeStatus =
     (case infraMachine of
        None \<Rightarrow> False
      | Some m \<Rightarrow>
          (let installEventID = InstallEventId (Spec m);
               lastWipeInstallEventID = (case wipeStatus of None \<Rightarrow> 0 | Some w \<Rightarrow> LastWipeInstallEventId (Spec w))
           in installEventID > lastWipeInstallEventID))"

definition RequiresWipe :: "infra_machine option \<Rightarrow> wipe_status option \<Rightarrow> bool" where
  "RequiresWipe infraMachine wipeStatus =
     (case (infraMachine, wipeStatus) of
        (Some m, Some w) \<Rightarrow>
          (if \<not> InitialWipeDone (Spec w) then True else WipeId (Spec m) \<noteq> LastWipeId (Spec w))
      | _ \<Rightarrow> True)"

record boot_options =
  AlwaysNetboot :: bool

definition RequiredBootMode ::
  "infra_machine option \<Rightarrow> bmc_configuration option \<Rightarrow> wipe_status option \<Rightarrow> boot_options \<Rightarrow> boot_mode" where
  "RequiredBootMode infraMachine bmcConfiguration wipeStatus options =
     (let installed = IsInstalled infraMachine wipeStatus;
          requiresWipe = RequiresWipe infraMachine wipeStatus;
          acceptanceStatus = (case infraMachine of None \<Rightarrow> PENDING | Some m \<Rightarrow> AcceptanceStatus (Spec m));
          infraMachineTearingDown = (case infraMachine of None \<Rightarrow> False | Some m \<Rightarrow> Phase m = PhaseTearingDown);
          allocated = (case infraMachine of None \<Rightarrow> False | Some m \<Rightarrow> ClusterTalosVersion (Spec m) \<noteq> []);
          acceptancePending = (acceptanceStatus = PENDING);
          rejected = (acceptanceStatus = REJECTED);
          requiresPowerMgmtConfig = (bmcConfiguration = None);
          bootIntoAgentMode =
            (infraMachineTearingDown \<or> acceptancePending \<or> \<not> allocated \<or> requiresPowerMgmtConfig \<or> requiresWipe)
      in if rejected then BootModeTalosDisk
         else if bootIntoAgentMode then BootModeAgentPXE
         else if installed \<and> \<not> AlwaysNetboot options then BootModeTalosDisk
         else BootModeTalosPXE)"

definition RequiresPXEBoot :: "boot_mode \<Rightarrow> bool" where
  "RequiresPXEBoot requiredBootMode \<longleftrightarrow>
     requiredBootMode = BootModeAgentPXE \<or> requiredBootMode = BootModeTalosPXE"

text \<open>Dereferences the machine, so it takes one.\<close>

definition RequiresPowerOn :: "infra_machine \<Rightarrow> wipe_status option \<Rightarrow> bool" where
  "RequiresPowerOn infraMachine wipeStatus =
     (let allocated = ClusterTalosVersion (Spec infraMachine) \<noteq> [];
          installed = IsInstalled (Some infraMachine) wipeStatus;
          requiresWipe = RequiresWipe (Some infraMachine) wipeStatus
      in allocated \<or> installed \<or> requiresWipe)"

definition IsPowerOffActive :: "infra_machine option \<Rightarrow> power_operation option \<Rightarrow> bool" where
  "IsPowerOffActive infraMachine powerOperation =
     (case (infraMachine, powerOperation) of
        (Some m, Some p) \<Rightarrow>
          LastPowerOffId (Spec p) \<noteq> [] \<and>
          LastPowerOffId (Spec p) = PowerOffRequestId (Spec m) \<and>
          WipeIdAtPowerOff (Spec p) = WipeId (Spec m)
      | _ \<Rightarrow> False)"

section \<open>The wipe gate\<close>

text \<open>
  The disks are clean for the machine's current lifecycle: the initial wipe was done, and the last
  wipe was done for the wipe ID Omni asks for now.
\<close>

definition wiped_for :: "infra_machine \<Rightarrow> wipe_status \<Rightarrow> bool" where
  "wiped_for m w \<longleftrightarrow> InitialWipeDone (Spec w) \<and> LastWipeId (Spec w) = WipeId (Spec m)"

lemma RequiresWipe_iff:
  "RequiresWipe im ws \<longleftrightarrow> \<not> (\<exists>m w. im = Some m \<and> ws = Some w \<and> wiped_for m w)"
  by (cases im; cases ws) (auto simp: RequiresWipe_def wiped_for_def)

lemma RequiresWipe_None [simp]: "RequiresWipe None ws" "RequiresWipe im None"
  by (simp_all add: RequiresWipe_iff)

text \<open>A machine may be handed to Talos: it exists, is neither pending, rejected nor being torn down, is
  allocated to a cluster, has a BMC configuration, and its disks are wiped for this lifecycle.\<close>

definition handover_ready :: "infra_machine option \<Rightarrow> bmc_configuration option \<Rightarrow> wipe_status option \<Rightarrow> bool" where
  "handover_ready im bmc ws \<longleftrightarrow>
     (\<exists>m w. im = Some m \<and> ws = Some w \<and> bmc \<noteq> None \<and> wiped_for m w \<and>
        AcceptanceStatus (Spec m) \<noteq> PENDING \<and> AcceptanceStatus (Spec m) \<noteq> REJECTED \<and>
        Phase m \<noteq> PhaseTearingDown \<and> ClusterTalosVersion (Spec m) \<noteq> [])"

definition is_rejected :: "infra_machine option \<Rightarrow> bool" where
  "is_rejected im \<longleftrightarrow> (\<exists>m. im = Some m \<and> AcceptanceStatus (Spec m) = REJECTED)"

lemma not_ready_if_rejected: "is_rejected im \<Longrightarrow> \<not> handover_ready im bmc ws"
  by (auto simp: is_rejected_def handover_ready_def)

lemma RequiredBootMode_cases:
  "RequiredBootMode im bmc ws opts =
     (if is_rejected im then BootModeTalosDisk
      else if \<not> handover_ready im bmc ws then BootModeAgentPXE
      else if IsInstalled im ws \<and> \<not> AlwaysNetboot opts then BootModeTalosDisk
      else BootModeTalosPXE)"
proof (cases im)
  case None
  then show ?thesis by (simp add: RequiredBootMode_def is_rejected_def handover_ready_def)
next
  case (Some m)
  then show ?thesis
    by (cases ws; cases bmc)
      (auto simp: RequiredBootMode_def Let_def is_rejected_def handover_ready_def RequiresWipe_iff)
qed

lemma RequiredBootMode_TalosPXE_ready:
  "RequiredBootMode im bmc ws opts = BootModeTalosPXE \<Longrightarrow> handover_ready im bmc ws"
  by (simp add: RequiredBootMode_cases split: if_splits)

lemma RequiredBootMode_AgentPXE_iff:
  "RequiredBootMode im bmc ws opts = BootModeAgentPXE \<longleftrightarrow> \<not> is_rejected im \<and> \<not> handover_ready im bmc ws"
  by (simp add: RequiredBootMode_cases)

lemma handover_ready_RequiresPowerOn:
  "handover_ready (Some m) bmc ws \<Longrightarrow> RequiresPowerOn m ws"
  by (auto simp: handover_ready_def RequiresPowerOn_def)

lemma IsPowerOffActive_Some:
  "IsPowerOffActive (Some m) (Some p) \<longleftrightarrow>
     PowerOffRequestId (Spec m) \<noteq> [] \<and> LastPowerOffId (Spec p) = PowerOffRequestId (Spec m) \<and>
     WipeIdAtPowerOff (Spec p) = WipeId (Spec m)"
  by (auto simp: IsPowerOffActive_def)

section \<open>Properties\<close>

text \<open>
  C5. A machine is sent to Talos, over the network or from its disk, only when nobody rejected it and it is
  ready for it (or it was rejected, in which case it is left to its disk): a machine whose disks were
  not wiped for its current lifecycle, that is unallocated, pending, being torn down or without a BMC
  configuration boots into agent mode. The three modes are characterised exactly.
\<close>

theorem RequiredBootMode_exact:
  "(RequiredBootMode im bmc ws opts = BootModeAgentPXE \<longleftrightarrow> \<not> is_rejected im \<and> \<not> handover_ready im bmc ws) \<and>
   (RequiredBootMode im bmc ws opts = BootModeTalosPXE \<longleftrightarrow>
      handover_ready im bmc ws \<and> \<not> (IsInstalled im ws \<and> \<not> AlwaysNetboot opts)) \<and>
   (RequiredBootMode im bmc ws opts = BootModeTalosDisk \<longleftrightarrow>
      is_rejected im \<or> (handover_ready im bmc ws \<and> IsInstalled im ws \<and> \<not> AlwaysNetboot opts))"
  using not_ready_if_rejected [of im bmc ws] by (auto simp: RequiredBootMode_cases)

end
