(* ===== verification/Bmc.thy ===== *)
theory Bmc
  imports World
begin

text \<open>
  \<open>internal/provider/bmc\<close>: the four ways of driving a machine's BMC (the HTTP API of a virtual machine
  launcher, IPMI, Redfish, and no BMC at all), the client that logs and forwards, and the factory that
  picks one of them from a BMC configuration. Go's \<open>error\<close> result is an \<open>err option\<close>.
\<close>

section \<open>PXE boot modes (bmc/pxe/pxe.go)\<close>

text \<open>\<open>pxe.BootMode\<close> is a string type with two named values; its users still handle any other string.\<close>

type_synonym pxe_boot_mode = string

definition BootModeBIOS :: pxe_boot_mode where "BootModeBIOS = ''bios''"
definition BootModeUEFI :: pxe_boot_mode where "BootModeUEFI = ''uefi''"

definition ParseBootMode :: "string \<Rightarrow> err + pxe_boot_mode" where
  "ParseBootMode mode =
     (if mode = BootModeBIOS then Inr BootModeBIOS
      else if mode = BootModeUEFI then Inr BootModeUEFI
      else Inl (Plain (''unknown boot mode: '' @ mode)))"

section \<open>The HTTP API backend (bmc/api/api.go)\<close>

definition quoted :: "string \<Rightarrow> string" where
  "quoted s = CHR 0x22 # s @ [CHR 0x22]"

definition api_doPost :: "env \<Rightarrow> string \<Rightarrow> string \<Rightarrow> world \<Rightarrow> err option \<times> world" where
  "api_doPost env address path w =
     (case check_url env (''http://'' @ address @ path) of
        Some e \<Rightarrow> (Some (Wrapped (''failed to create request '' @ quoted path) e), w)
      | None \<Rightarrow>
          (case ask_http env (HttpPost address path) w of
             (Inl e, w1) \<Rightarrow> (Some (Wrapped (''failed to make request '' @ quoted path) e), w1)
           | (Inr resp, w1) \<Rightarrow>
               if http_StatusCode resp \<noteq> 200
               then (Some (Plain (''unexpected status code while resetting machine: '' @ itoa (http_StatusCode resp))), w1)
               else (None, w1)))"

definition api_Close :: "env \<Rightarrow> string \<Rightarrow> world \<Rightarrow> err option \<times> world" where
  "api_Close env address w = (None, w)"

definition api_Reboot :: "env \<Rightarrow> string \<Rightarrow> world \<Rightarrow> err option \<times> world" where
  "api_Reboot env address w = api_doPost env address ''/reboot'' w"

definition api_PowerOn :: "env \<Rightarrow> string \<Rightarrow> world \<Rightarrow> err option \<times> world" where
  "api_PowerOn env address w = api_doPost env address ''/poweron'' w"

definition api_PowerOff :: "env \<Rightarrow> string \<Rightarrow> world \<Rightarrow> err option \<times> world" where
  "api_PowerOff env address w = api_doPost env address ''/poweroff'' w"

definition api_SetPXEBootOnce :: "env \<Rightarrow> string \<Rightarrow> pxe_boot_mode \<Rightarrow> world \<Rightarrow> err option \<times> world" where
  "api_SetPXEBootOnce env address mode w = api_doPost env address ''/pxeboot'' w"

definition api_ResetBootDevice :: "env \<Rightarrow> string \<Rightarrow> world \<Rightarrow> err option \<times> world" where
  "api_ResetBootDevice env address w = (None, w)"

definition api_IsPoweredOn :: "env \<Rightarrow> string \<Rightarrow> world \<Rightarrow> (err + bool) \<times> world" where
  "api_IsPoweredOn env address w =
     (case check_url env (''http://'' @ address @ ''/status'') of
        Some e \<Rightarrow> (Inl e, w)
      | None \<Rightarrow>
          (case ask_http env (HttpGet address ''/status'') w of
             (Inl e, w1) \<Rightarrow> (Inl e, w1)
           | (Inr resp, w1) \<Rightarrow> (http_PoweredOn resp, w1)))"

definition api_NewClient :: "bmc_api \<Rightarrow> err + string" where
  "api_NewClient info = Inr (Api_Address info)"

section \<open>The IPMI backend (bmc/ipmi/ipmi.go)\<close>

definition ipmi_Close :: "env \<Rightarrow> ipmi_target \<Rightarrow> world \<Rightarrow> err option \<times> world" where
  "ipmi_Close env t w = act env (IpmiClose t) w"

definition ipmi_Reboot :: "env \<Rightarrow> ipmi_target \<Rightarrow> world \<Rightarrow> err option \<times> world" where
  "ipmi_Reboot env t w = act env (IpmiChassisControl t ChassisControlPowerCycle) w"

definition ipmi_PowerOn :: "env \<Rightarrow> ipmi_target \<Rightarrow> world \<Rightarrow> err option \<times> world" where
  "ipmi_PowerOn env t w = act env (IpmiChassisControl t ChassisControlPowerUp) w"

definition ipmi_PowerOff :: "env \<Rightarrow> ipmi_target \<Rightarrow> world \<Rightarrow> err option \<times> world" where
  "ipmi_PowerOff env t w = act env (IpmiChassisControl t ChassisControlPowerDown) w"

definition ipmi_SetPXEBootOnce :: "env \<Rightarrow> ipmi_target \<Rightarrow> pxe_boot_mode \<Rightarrow> world \<Rightarrow> err option \<times> world" where
  "ipmi_SetPXEBootOnce env t mode w =
     (if mode = BootModeBIOS
      then act env (IpmiSetBootDevice t BootDeviceSelectorForcePXE BIOSBootTypeLegacy False) w
      else if mode = BootModeUEFI
      then act env (IpmiSetBootDevice t BootDeviceSelectorForcePXE BIOSBootTypeEFI False) w
      else (Some (Plain (''unsupported mode '' @ quoted mode)), w))"

definition ipmi_ResetBootDevice :: "env \<Rightarrow> ipmi_target \<Rightarrow> world \<Rightarrow> err option \<times> world" where
  "ipmi_ResetBootDevice env t w = act env (IpmiSetBootDevice t BootDeviceSelectorNoOverride BIOSBootTypeEFI False) w"

definition ipmi_IsPoweredOn :: "env \<Rightarrow> ipmi_target \<Rightarrow> world \<Rightarrow> (err + bool) \<times> world" where
  "ipmi_IsPoweredOn env t w = ask_flag env (IpmiGetChassisStatus t) w"

text \<open>Building the library's client may fail without any traffic; connecting to the BMC is a request.\<close>

definition ipmi_NewClient :: "env \<Rightarrow> bmc_ipmi \<Rightarrow> world \<Rightarrow> (err + ipmi_target) \<times> world" where
  "ipmi_NewClient env info w =
     (let t = \<lparr>tgt_Address = Ipmi_Address info, tgt_Port = Ipmi_Port info,
               tgt_Username = Ipmi_Username info, tgt_Password = Ipmi_Password info\<rparr>
      in case check_ipmi env t of
           Some e \<Rightarrow> (Inl (Wrapped ''failed to create IPMI client'' e), w)
         | None \<Rightarrow>
             (case act env (IpmiConnect t) w of
                (Some e, w1) \<Rightarrow> (Inl (Wrapped ''failed to connect IPMI client'' e), w1)
              | (None, w1) \<Rightarrow> (Inr t, w1)))"

section \<open>No BMC (bmc/manual/manual.go)\<close>

definition ErrNotSupported :: err where
  "ErrNotSupported = Plain ''machine has no BMC: power management is manual''"

definition manual_Close :: "env \<Rightarrow> world \<Rightarrow> err option \<times> world" where
  "manual_Close env w = (None, w)"
definition manual_Reboot :: "env \<Rightarrow> world \<Rightarrow> err option \<times> world" where
  "manual_Reboot env w = (Some ErrNotSupported, w)"
definition manual_IsPoweredOn :: "env \<Rightarrow> world \<Rightarrow> (err + bool) \<times> world" where
  "manual_IsPoweredOn env w = (Inl ErrNotSupported, w)"
definition manual_PowerOn :: "env \<Rightarrow> world \<Rightarrow> err option \<times> world" where
  "manual_PowerOn env w = (Some ErrNotSupported, w)"
definition manual_PowerOff :: "env \<Rightarrow> world \<Rightarrow> err option \<times> world" where
  "manual_PowerOff env w = (Some ErrNotSupported, w)"
definition manual_SetPXEBootOnce :: "env \<Rightarrow> pxe_boot_mode \<Rightarrow> world \<Rightarrow> err option \<times> world" where
  "manual_SetPXEBootOnce env mode w = (Some ErrNotSupported, w)"
definition manual_ResetBootDevice :: "env \<Rightarrow> world \<Rightarrow> err option \<times> world" where
  "manual_ResetBootDevice env w = (Some ErrNotSupported, w)"

end
