(* ===== verification/Redfish.thy ===== *)
theory Redfish
  imports Bmc Net
begin

text \<open>
  \<open>internal/provider/bmc/redfish\<close>: the Redfish client. Every operation opens a session, does its work on
  the first system the service lists, and logs out. Setting a one-time PXE boot has a second attempt
  for the firmware that answers with the AMI future-state error.
\<close>

record redfish_options =
  UseAlways :: bool
  UseWhenAvailable :: bool
  UseHTTPS :: bool
  InsecureSkipTLSVerify :: bool
  SetBootSourceOverrideMode :: bool
  Rf_Port :: int

definition Redfish_DefaultOptions :: redfish_options where
  "Redfish_DefaultOptions =
     \<lparr>UseAlways = False, UseWhenAvailable = True, UseHTTPS = True, InsecureSkipTLSVerify = True,
      SetBootSourceOverrideMode = True, Rf_Port = 443\<rparr>"

record redfish_client =
  rc_config :: redfish_config
  rc_setBootSourceOverrideMode :: bool

definition redfish_NewClient :: "redfish_options \<Rightarrow> string \<Rightarrow> string \<Rightarrow> string \<Rightarrow> redfish_client" where
  "redfish_NewClient options address username password =
     (let host = (case split_host_port address of Some (h, p) \<Rightarrow> h | None \<Rightarrow> address);
          protocol = (if UseHTTPS options then ''https'' else ''http'');
          endpoint = protocol @ ''://'' @ join_host_port host (itoa (Rf_Port options))
      in \<lparr>rc_config = \<lparr>cfg_Endpoint = endpoint, cfg_Username = username, cfg_Password = password,
                       cfg_Insecure = InsecureSkipTLSVerify options, cfg_BasicAuth = True\<rparr>,
          rc_setBootSourceOverrideMode = SetBootSourceOverrideMode options\<rparr>)"

text \<open>\<open>withClient\<close>: connect, run the body, log out on every path of the body.\<close>

definition redfish_withClient ::
  "env \<Rightarrow> redfish_client \<Rightarrow> (world \<Rightarrow> (err + 'a) \<times> world) \<Rightarrow> world \<Rightarrow> (err + 'a) \<times> world" where
  "redfish_withClient env c f w =
     (case act env (RedfishConnect (rc_config c)) w of
        (Some e, w1) \<Rightarrow> (Inl e, w1)
      | (None, w1) \<Rightarrow>
          (case f w1 of (r, w2) \<Rightarrow> (case act env (RedfishLogout (rc_config c)) w2 of (_, w3) \<Rightarrow> (r, w3))))"

definition redfish_getSystem :: "env \<Rightarrow> redfish_client \<Rightarrow> world \<Rightarrow> (err + redfish_system) \<times> world" where
  "redfish_getSystem env c w =
     (case ask_systems env (RedfishGetSystems (rc_config c)) w of
        (Inl e, w1) \<Rightarrow> (Inl e, w1)
      | (Inr [], w1) \<Rightarrow> (Inl (Plain ''no systems found''), w1)
      | (Inr (s # ss), w1) \<Rightarrow> (Inr s, w1))"

text \<open>An error result seen as a result that carries no value.\<close>

definition as_unit :: "err option \<times> world \<Rightarrow> (err + unit) \<times> world" where
  "as_unit x = (case x of (Some e, w) \<Rightarrow> (Inl e, w) | (None, w) \<Rightarrow> (Inr (), w))"

definition as_error :: "(err + unit) \<times> world \<Rightarrow> err option \<times> world" where
  "as_error x = (case x of (Inl e, w) \<Rightarrow> (Some e, w) | (Inr u, w) \<Rightarrow> (None, w))"

definition redfish_doComputerSystemReset ::
  "env \<Rightarrow> redfish_client \<Rightarrow> redfish_reset \<Rightarrow> world \<Rightarrow> (err + unit) \<times> world" where
  "redfish_doComputerSystemReset env c resetType w =
     (case redfish_getSystem env c w of
        (Inl e, w1) \<Rightarrow> (Inl e, w1)
      | (Inr system, w1) \<Rightarrow> as_unit (act env (RedfishReset (rc_config c) (sys_ID system) resetType) w1))"

definition redfish_Close :: "env \<Rightarrow> redfish_client \<Rightarrow> world \<Rightarrow> err option \<times> world" where
  "redfish_Close env c w = (None, w)"

definition redfish_Reboot :: "env \<Rightarrow> redfish_client \<Rightarrow> world \<Rightarrow> err option \<times> world" where
  "redfish_Reboot env c w =
     as_error (redfish_withClient env c (redfish_doComputerSystemReset env c ForceRestartResetType) w)"

definition redfish_PowerOn :: "env \<Rightarrow> redfish_client \<Rightarrow> world \<Rightarrow> err option \<times> world" where
  "redfish_PowerOn env c w =
     as_error (redfish_withClient env c (redfish_doComputerSystemReset env c OnResetType) w)"

definition redfish_PowerOff :: "env \<Rightarrow> redfish_client \<Rightarrow> world \<Rightarrow> err option \<times> world" where
  "redfish_PowerOff env c w =
     as_error (redfish_withClient env c (redfish_doComputerSystemReset env c ForceOffResetType) w)"

definition redfish_IsPoweredOn :: "env \<Rightarrow> redfish_client \<Rightarrow> world \<Rightarrow> (err + bool) \<times> world" where
  "redfish_IsPoweredOn env c w =
     redfish_withClient env c
       (\<lambda>w. case redfish_getSystem env c w of
              (Inl e, w1) \<Rightarrow> (Inl e, w1)
            | (Inr system, w1) \<Rightarrow> (Inr (sys_PowerState system = ''On''), w1)) w"

definition redfish_isAMIFutureStateError :: "err \<Rightarrow> bool" where
  "redfish_isAMIFutureStateError e = contains_sub (err_text e) ''Ami.1.0.OperationSupportedInFutureStateURI''"

definition redfish_setBootAMIFutureState ::
  "env \<Rightarrow> redfish_client \<Rightarrow> redfish_system \<Rightarrow> redfish_boot \<Rightarrow> world \<Rightarrow> (err + unit) \<times> world" where
  "redfish_setBootAMIFutureState env c system boot w =
     (let futureStateURI = sys_ODataID system @ ''/SD''
      in case ask_etag env (RedfishGet (rc_config c) futureStateURI) w of
           (Inl e, w1) \<Rightarrow> (Inl (Wrapped ''failed to get current FutureState'' e), w1)
         | (Inr etag, w1) \<Rightarrow>
             if etag = [] then (Inl (Plain ''no ETag found in FutureState response''), w1)
             else (case act env (RedfishPatch (rc_config c) futureStateURI boot etag) w1 of
                     (Some e, w2) \<Rightarrow> (Inl (Wrapped ''failed to set boot via AMI FutureState URI'' e), w2)
                   | (None, w2) \<Rightarrow> (Inr (), w2)))"

text \<open>The boot settings for a mode: the override mode is only set when the options ask for it.\<close>

definition redfish_pxe_boot :: "redfish_client \<Rightarrow> pxe_boot_mode \<Rightarrow> err + redfish_boot" where
  "redfish_pxe_boot c mode =
     (let boot = \<lparr>BootSourceOverrideEnabled = OnceBootSourceOverrideEnabled,
                  BootSourceOverrideTarget = PxeBootSource, BootSourceOverrideMode = None\<rparr>
      in if rc_setBootSourceOverrideMode c
         then (if mode = BootModeBIOS
               then Inr (boot\<lparr>BootSourceOverrideMode := Some LegacyBootSourceOverrideMode\<rparr>)
               else if mode = BootModeUEFI
               then Inr (boot\<lparr>BootSourceOverrideMode := Some UEFIBootSourceOverrideMode\<rparr>)
               else Inl (Plain (''unknown boot mode: '' @ mode)))
         else Inr boot)"

text \<open>The closure \<open>SetPXEBootOnce\<close> runs inside its session.\<close>

definition redfish_SetPXEBootOnce_body ::
  "env \<Rightarrow> redfish_client \<Rightarrow> pxe_boot_mode \<Rightarrow> world \<Rightarrow> (err + unit) \<times> world" where
  "redfish_SetPXEBootOnce_body env c mode w =
     (case redfish_getSystem env c w of
        (Inl e, w1) \<Rightarrow> (Inl e, w1)
      | (Inr system, w1) \<Rightarrow>
          (case redfish_pxe_boot c mode of
             Inl e \<Rightarrow> (Inl e, w1)
           | Inr boot \<Rightarrow>
               (case act env (RedfishSetBoot (rc_config c) (sys_ID system) boot) w1 of
                  (None, w2) \<Rightarrow> (Inr (), w2)
                | (Some e, w2) \<Rightarrow>
                    if redfish_isAMIFutureStateError e
                    then redfish_setBootAMIFutureState env c system boot w2
                    else (Inl e, w2))))"

definition redfish_SetPXEBootOnce :: "env \<Rightarrow> redfish_client \<Rightarrow> pxe_boot_mode \<Rightarrow> world \<Rightarrow> err option \<times> world" where
  "redfish_SetPXEBootOnce env c mode w =
     as_error (redfish_withClient env c (redfish_SetPXEBootOnce_body env c mode) w)"

definition redfish_ResetBootDevice :: "env \<Rightarrow> redfish_client \<Rightarrow> world \<Rightarrow> err option \<times> world" where
  "redfish_ResetBootDevice env c w =
     as_error (redfish_withClient env c
       (\<lambda>w. case redfish_getSystem env c w of
              (Inl e, w1) \<Rightarrow> (Inl e, w1)
            | (Inr system, w1) \<Rightarrow>
                as_unit (act env (RedfishSetBoot (rc_config c) (sys_ID system)
                  \<lparr>BootSourceOverrideEnabled = DisabledBootSourceOverrideEnabled,
                   BootSourceOverrideTarget = NoneBootSource, BootSourceOverrideMode = None\<rparr>) w1)) w)"

end
