(* ===== verification/BmcClient.thy ===== *)
theory BmcClient
  imports Redfish
begin

text \<open>
  \<open>internal/provider/bmc/bmc.go\<close>: capabilities, the logging client over a backend, and the factory with
  its Redfish availability cache. The contract every transport keeps is the locale \<open>bmc_transport\<close>,
  interpreted for each backend and for the client that dispatches to them; the controllers use that last
  interpretation.
\<close>

section \<open>The client\<close>

record capabilities =
  cap_PowerState :: bool
  cap_PowerControl :: bool
  cap_BootDeviceControl :: bool
  cap_Reboot :: bool

definition FullCapabilities :: capabilities where
  "FullCapabilities =
     \<lparr>cap_PowerState = True, cap_PowerControl = True, cap_BootDeviceControl = True, cap_Reboot = True\<rparr>"

text \<open>The zero value of the struct, which the manual client keeps.\<close>

definition NoCapabilities :: capabilities where
  "NoCapabilities =
     \<lparr>cap_PowerState = False, cap_PowerControl = False, cap_BootDeviceControl = False, cap_Reboot = False\<rparr>"

datatype backend =
    ManualBackend
  | ApiBackend string
  | IpmiBackend ipmi_target
  | RedfishBackend redfish_client

record bmc_client =
  client :: backend
  Capabilities :: capabilities

text \<open>The methods of \<open>loggingClient\<close>: each forwards to its backend.\<close>

definition client_Close :: "bmc_client \<Rightarrow> env \<Rightarrow> world \<Rightarrow> err option \<times> world" where
  "client_Close c env w =
     (case client c of ManualBackend \<Rightarrow> manual_Close env w | ApiBackend a \<Rightarrow> api_Close env a w
      | IpmiBackend t \<Rightarrow> ipmi_Close env t w | RedfishBackend r \<Rightarrow> redfish_Close env r w)"

definition client_Reboot :: "bmc_client \<Rightarrow> env \<Rightarrow> world \<Rightarrow> err option \<times> world" where
  "client_Reboot c env w =
     (case client c of ManualBackend \<Rightarrow> manual_Reboot env w | ApiBackend a \<Rightarrow> api_Reboot env a w
      | IpmiBackend t \<Rightarrow> ipmi_Reboot env t w | RedfishBackend r \<Rightarrow> redfish_Reboot env r w)"

definition client_IsPoweredOn :: "bmc_client \<Rightarrow> env \<Rightarrow> world \<Rightarrow> (err + bool) \<times> world" where
  "client_IsPoweredOn c env w =
     (case client c of ManualBackend \<Rightarrow> manual_IsPoweredOn env w | ApiBackend a \<Rightarrow> api_IsPoweredOn env a w
      | IpmiBackend t \<Rightarrow> ipmi_IsPoweredOn env t w | RedfishBackend r \<Rightarrow> redfish_IsPoweredOn env r w)"

definition client_PowerOn :: "bmc_client \<Rightarrow> env \<Rightarrow> world \<Rightarrow> err option \<times> world" where
  "client_PowerOn c env w =
     (case client c of ManualBackend \<Rightarrow> manual_PowerOn env w | ApiBackend a \<Rightarrow> api_PowerOn env a w
      | IpmiBackend t \<Rightarrow> ipmi_PowerOn env t w | RedfishBackend r \<Rightarrow> redfish_PowerOn env r w)"

definition client_PowerOff :: "bmc_client \<Rightarrow> env \<Rightarrow> world \<Rightarrow> err option \<times> world" where
  "client_PowerOff c env w =
     (case client c of ManualBackend \<Rightarrow> manual_PowerOff env w | ApiBackend a \<Rightarrow> api_PowerOff env a w
      | IpmiBackend t \<Rightarrow> ipmi_PowerOff env t w | RedfishBackend r \<Rightarrow> redfish_PowerOff env r w)"

definition client_SetPXEBootOnce :: "bmc_client \<Rightarrow> env \<Rightarrow> pxe_boot_mode \<Rightarrow> world \<Rightarrow> err option \<times> world" where
  "client_SetPXEBootOnce c env mode w =
     (case client c of ManualBackend \<Rightarrow> manual_SetPXEBootOnce env mode w
      | ApiBackend a \<Rightarrow> api_SetPXEBootOnce env a mode w
      | IpmiBackend t \<Rightarrow> ipmi_SetPXEBootOnce env t mode w
      | RedfishBackend r \<Rightarrow> redfish_SetPXEBootOnce env r mode w)"

definition client_ResetBootDevice :: "bmc_client \<Rightarrow> env \<Rightarrow> world \<Rightarrow> err option \<times> world" where
  "client_ResetBootDevice c env w =
     (case client c of ManualBackend \<Rightarrow> manual_ResetBootDevice env w
      | ApiBackend a \<Rightarrow> api_ResetBootDevice env a w
      | IpmiBackend t \<Rightarrow> ipmi_ResetBootDevice env t w
      | RedfishBackend r \<Rightarrow> redfish_ResetBootDevice env r w)"

text \<open>\<open>defer util.LogCloseContext(...)\<close>: the client is closed on every return path, its error only logged.\<close>

definition LogCloseContext :: "bmc_client \<Rightarrow> env \<Rightarrow> 'a \<times> world \<Rightarrow> 'a \<times> world" where
  "LogCloseContext c env x = (case x of (r, w) \<Rightarrow> (case client_Close c env w of (_, w') \<Rightarrow> (r, w')))"

section \<open>The factory\<close>

text \<open>
  \<open>redfishAvailable\<close>: probe once per machine and address, then answer from the cache. The cache is part
  of the world; the mutex around it makes the lookup, the probe and the store one step.
\<close>

definition redfishAvailable ::
  "redfish_options \<Rightarrow> env \<Rightarrow> resource_id \<Rightarrow> bmc_ipmi \<Rightarrow> world \<Rightarrow> bool \<times> world" where
  "redfishAvailable options env machineID ipmiInfo w =
     (let address = Ipmi_Address ipmiInfo;
          key = machineID @ ''@'' @ address
      in case redfish_cache w key of
           Some available \<Rightarrow> (available, w)
         | None \<Rightarrow>
             (let redfishClient = redfish_NewClient options address (Ipmi_Username ipmiInfo) (Ipmi_Password ipmiInfo)
              in case redfish_IsPoweredOn env redfishClient w of
                   (Inl e, w1) \<Rightarrow> (False, w1\<lparr>redfish_cache := (redfish_cache w1)(key \<mapsto> False)\<rparr>)
                 | (Inr b, w1) \<Rightarrow> (True, w1\<lparr>redfish_cache := (redfish_cache w1)(key \<mapsto> True)\<rparr>)))"

text \<open>
  \<open>GetClient\<close>. The IPMI entry is dereferenced after the API and manual cases; the check before them
  makes that safe, so the last case of a missing IPMI entry is the panic of a nil dereference and is
  shown not to happen.
\<close>

definition GetClient ::
  "redfish_options \<Rightarrow> env \<Rightarrow> bmc_configuration option \<Rightarrow> world \<Rightarrow> (err + bmc_client) \<times> world" where
  "GetClient options env config w =
     (case config of
        None \<Rightarrow> (Inl (Plain ''cannot get BMC client: config is nil''), w)
      | Some cfg \<Rightarrow>
          (let spec = Spec cfg
           in if Ipmi spec = None \<and> Api spec = None \<and> Manual spec = None
              then (Inl (Plain ''invalid BMC config: IPMI, API and manual fields are all nil''), w)
              else if Manual spec \<noteq> None
              then (Inr \<lparr>client = ManualBackend, Capabilities = NoCapabilities\<rparr>, w)
              else (case Api spec of
                Some api \<Rightarrow>
                  (case api_NewClient api of
                     Inl e \<Rightarrow> (Inl e, w)
                   | Inr address \<Rightarrow> (Inr \<lparr>client = ApiBackend address, Capabilities = FullCapabilities\<rparr>, w))
              | None \<Rightarrow>
                  (case Ipmi spec of
                     None \<Rightarrow> (Inl (Plain ''runtime error: invalid memory address or nil pointer dereference''), w)
                   | Some ipmi \<Rightarrow>
                       (case (if UseAlways options then (True, w)
                              else if UseWhenAvailable options then redfishAvailable options env (ID cfg) ipmi w
                              else (False, w)) of
                          (useRedfish, w1) \<Rightarrow>
                            if useRedfish
                            then (Inr \<lparr>client = RedfishBackend (redfish_NewClient options (Ipmi_Address ipmi)
                                                 (Ipmi_Username ipmi) (Ipmi_Password ipmi)),
                                       Capabilities = FullCapabilities\<rparr>, w1)
                            else (case ipmi_NewClient env ipmi w1 of
                                    (Inl e, w2) \<Rightarrow> (Inl e, w2)
                                  | (Inr t, w2) \<Rightarrow>
                                      (Inr \<lparr>client = IpmiBackend t, Capabilities = FullCapabilities\<rparr>, w2)))))))"

section \<open>The contract of a BMC transport\<close>

text \<open>
  What a caller may rely on, whatever the transport: an operation sends at most its own BMC command, and
  when it reports success the command was really sent; arming the network boot may send its command more
  than once; reading the power state and closing send no command. Nothing goes to the agent.
\<close>

definition sends_one :: "power_command \<Rightarrow> (env \<Rightarrow> world \<Rightarrow> err option \<times> world) \<Rightarrow> bool" where
  "sends_one cmd f \<longleftrightarrow>
     (\<forall>env w. \<exists>cs. issued w (snd (f env w)) cs \<and> set cs \<subseteq> {cmd} \<and> length cs \<le> 1 \<and>
        (fst (f env w) = None \<longrightarrow> cs = [cmd]))"

definition sends_some :: "power_command \<Rightarrow> (env \<Rightarrow> world \<Rightarrow> err option \<times> world) \<Rightarrow> bool" where
  "sends_some cmd f \<longleftrightarrow>
     (\<forall>env w. \<exists>cs. issued w (snd (f env w)) cs \<and> set cs \<subseteq> {cmd} \<and> (fst (f env w) = None \<longrightarrow> cs \<noteq> []))"

definition sends_none :: "(env \<Rightarrow> world \<Rightarrow> 'a \<times> world) \<Rightarrow> bool" where
  "sends_none f \<longleftrightarrow> (\<forall>env w. issued w (snd (f env w)) [])"

lemma sends_oneE:
  assumes "sends_one cmd f" "f env w = (r, w')"
  obtains "issued w w' []" "r \<noteq> None" | "issued w w' [cmd]"
proof -
  from assms(1) obtain cs where cs: "issued w (snd (f env w)) cs" "set cs \<subseteq> {cmd}" "length cs \<le> 1"
    "fst (f env w) = None \<longrightarrow> cs = [cmd]" unfolding sends_one_def by blast
  from cs(2,3) have "cs = [] \<or> cs = [cmd]" by (cases cs) auto
  with cs assms(2) that show ?thesis by auto
qed

lemma sends_someE:
  assumes "sends_some cmd f" "f env w = (r, w')"
  obtains cs where "issued w w' cs" "set cs \<subseteq> {cmd}" "r = None \<Longrightarrow> cs \<noteq> []"
  using assms unfolding sends_some_def by (metis fst_conv snd_conv)

lemma sends_noneD: "sends_none f \<Longrightarrow> f env w = (r, w') \<Longrightarrow> issued w w' []"
  unfolding sends_none_def by (metis snd_conv)

locale bmc_transport =
  fixes Reboot PowerOn PowerOff :: "env \<Rightarrow> world \<Rightarrow> err option \<times> world"
    and SetPXEBootOnce :: "env \<Rightarrow> pxe_boot_mode \<Rightarrow> world \<Rightarrow> err option \<times> world"
    and IsPoweredOn :: "env \<Rightarrow> world \<Rightarrow> (err + bool) \<times> world"
    and Close :: "env \<Rightarrow> world \<Rightarrow> err option \<times> world"
  assumes reboot_one: "sends_one CmdReboot Reboot"
    and power_on_one: "sends_one CmdPowerOn PowerOn"
    and power_off_one: "sends_one CmdPowerOff PowerOff"
    and set_pxe_some: "sends_some CmdArmPXE (\<lambda>env. SetPXEBootOnce env mode)"
    and is_powered_on_none: "sends_none IsPoweredOn"
    and close_none: "sends_none Close"
begin

lemma closed_command:
  assumes "f env w = (r, w1)" "issued w w1 cs" "Close env w1 = (r', w2)"
  shows "issued w w2 cs"
  using issued_trans [OF assms(2) sends_noneD [OF close_none assms(3)]] by simp

lemma arm_then_command:
  assumes arm: "(if pxe then SetPXEBootOnce env mode w else (None, w)) = (x, w1)"
    and run: "(case x of Some e \<Rightarrow> (Some e, w1) | None \<Rightarrow> f env w1) = (r, w2)"
    and one: "sends_one cmd f" and cmd: "cmd \<noteq> CmdArmPXE"
  obtains cs where "issued w w2 cs" "set cs \<subseteq> {CmdArmPXE, cmd}"
    "cmd \<in> set cs \<Longrightarrow> pxe \<Longrightarrow> hd cs = CmdArmPXE"
    "r = None \<Longrightarrow> \<exists>n. cs = replicate n CmdArmPXE @ [cmd] \<and> (0 < n \<longleftrightarrow> pxe)"
proof -
  obtain as where as: "issued w w1 as" "set as \<subseteq> {CmdArmPXE}" "x = None \<Longrightarrow> as \<noteq> [] \<longleftrightarrow> pxe"
  proof (cases pxe)
    case True
    with arm show ?thesis by (auto elim: sends_someE [OF set_pxe_some] intro: that)
  next
    case False
    with arm show ?thesis by (auto intro: that [of "[]"])
  qed
  from as(2) have rep: "as = replicate (length as) CmdArmPXE"
    by (metis replicate_length_same singletonD subsetD)
  show ?thesis
  proof (cases x)
    case (Some e)
    with run have "w2 = w1" "r = Some e" by auto
    with as cmd show ?thesis by (intro that [of as]) auto
  next
    case None
    with run have "f env w1 = (r, w2)" by simp
    with one show ?thesis
    proof (rule sends_oneE)
      assume "issued w1 w2 []" "r \<noteq> None"
      with issued_trans [OF as(1), of w2 "[]"] as(2) cmd show ?thesis by (intro that [of as]) auto
    next
      assume "issued w1 w2 [cmd]"
      with issued_trans [OF as(1)] have i: "issued w w2 (as @ [cmd])" by blast
      from as(2,3) None have hd: "pxe \<Longrightarrow> hd (as @ [cmd]) = CmdArmPXE" by (cases as) auto
      show ?thesis
      proof (rule that [OF i])
        show "\<exists>n. as @ [cmd] = replicate n CmdArmPXE @ [cmd] \<and> (0 < n \<longleftrightarrow> pxe)"
          using rep as(3) [OF None] by (intro exI [of _ "length as"]) auto
      qed (use as(2) hd in auto)
    qed
  qed
qed

end

section \<open>The transports keep the contract\<close>

lemma sends_one_act:
  "command_of q = Some cmd \<Longrightarrow> \<not> to_agent q \<Longrightarrow> sends_one cmd (\<lambda>env. act env q)"
  by (auto simp: sends_one_def act_def)

lemma sends_one_fail: "sends_one cmd (\<lambda>env w. (Some e, w))"
  by (auto simp: sends_one_def)

lemma sends_some_if_one: "sends_one cmd f \<Longrightarrow> sends_some cmd f"
  unfolding sends_one_def sends_some_def by (metis list.distinct(1))

lemma sends_one_doPost:
  assumes "command_of (HttpPost a p) = Some cmd"
  shows "sends_one cmd (\<lambda>env. api_doPost env a p)"
  unfolding sends_one_def
proof (intro allI)
  fix env w
  show "\<exists>cs. issued w (snd (api_doPost env a p w)) cs \<and> set cs \<subseteq> {cmd} \<and> length cs \<le> 1 \<and>
          (fst (api_doPost env a p w) = None \<longrightarrow> cs = [cmd])"
  proof (cases "check_url env (''http://'' @ a @ p)")
    case (Some e)
    then show ?thesis by (auto simp: api_doPost_def)
  next
    case None
    have i: "issued w (w\<lparr>requests := requests w @ [HttpPost a p]\<rparr>) [cmd]" using assms by simp
    have "snd (api_doPost env a p w) = w\<lparr>requests := requests w @ [HttpPost a p]\<rparr>"
      using None by (simp add: api_doPost_def ask_http_def split: sum.split)
    with i show ?thesis by (intro exI [of _ "[cmd]"]) (simp only: list.set list.size, simp)
  qed
qed

text \<open>Redfish: the session's own requests carry no command, so an operation issues what its body does.\<close>

lemma getSystem_issued: "redfish_getSystem env c w = (r, w') \<Longrightarrow> issued w w' []"
  by (auto simp: redfish_getSystem_def ask_systems_def split: sum.splits list.splits prod.splits)

lemma withClient_issued:
  assumes "redfish_withClient env c f w = (r, w')"
    and "\<And>w1 r1 w2. f w1 = (r1, w2) \<Longrightarrow> \<exists>cs. issued w1 w2 cs \<and> Q r1 cs"
    and "\<And>e. Q (Inl e) []"
  shows "\<exists>cs. issued w w' cs \<and> Q r cs"
proof -
  define w1 where "w1 = w\<lparr>requests := requests w @ [RedfishConnect (rc_config c)]\<rparr>"
  have w1: "issued w w1 []" by (simp add: w1_def)
  show ?thesis
  proof (cases "answer_act env (requests w) (RedfishConnect (rc_config c))")
    case (Some e)
    with assms(1) have "r = Inl e" "w' = w1" by (auto simp: redfish_withClient_def act_def w1_def)
    with assms(3) w1 show ?thesis by blast
  next
    case None
    obtain r2 w2 where f: "f w1 = (r2, w2)" by fastforce
    with None assms(1) have r: "r = r2"
      and w': "w' = w2\<lparr>requests := requests w2 @ [RedfishLogout (rc_config c)]\<rparr>"
      by (auto simp: redfish_withClient_def act_def w1_def)
    from assms(2) [OF f] obtain cs where cs: "issued w1 w2 cs" "Q r2 cs" by blast
    have "issued w2 w' []" by (simp add: w')
    with issued_trans [OF issued_trans [OF w1 cs(1)]] cs(2) r show ?thesis by fastforce
  qed
qed

lemma reset_issued:
  assumes "redfish_doComputerSystemReset env c rt w = (r, w')"
    and "command_of (RedfishReset (rc_config c) [] rt) = Some cmd"
  shows "\<exists>cs. issued w w' cs \<and> set cs \<subseteq> {cmd} \<and> length cs \<le> 1 \<and> (\<forall>u. r = Inr u \<longrightarrow> cs = [cmd])"
proof -
  obtain r1 w1 where g: "redfish_getSystem env c w = (r1, w1)" by fastforce
  then have i: "issued w w1 []" by (rule getSystem_issued)
  show ?thesis
  proof (cases r1)
    case (Inl e)
    with g assms(1) i show ?thesis by (auto simp: redfish_doComputerSystemReset_def)
  next
    case (Inr s)
    have "command_of (RedfishReset (rc_config c) (sys_ID s) rt) = Some cmd" using assms(2) by (cases rt) auto
    then have "issued w1 (w1\<lparr>requests := requests w1 @ [RedfishReset (rc_config c) (sys_ID s) rt]\<rparr>) [cmd]" by simp
    with issued_trans [OF i] have
      "issued w (w1\<lparr>requests := requests w1 @ [RedfishReset (rc_config c) (sys_ID s) rt]\<rparr>) [cmd]" by fastforce
    with Inr g assms(1) show ?thesis
      by (auto simp: redfish_doComputerSystemReset_def as_unit_def act_def split: option.splits)
  qed
qed

lemma redfish_reset_one:
  assumes "command_of (RedfishReset (rc_config c) [] rt) = Some cmd"
  shows "sends_one cmd (\<lambda>env w. as_error (redfish_withClient env c (redfish_doComputerSystemReset env c rt) w))"
  unfolding sends_one_def
proof (intro allI)
  fix env w
  obtain r w' where x: "redfish_withClient env c (redfish_doComputerSystemReset env c rt) w = (r, w')" by fastforce
  from withClient_issued [OF x, where Q = "\<lambda>r cs. set cs \<subseteq> {cmd} \<and> length cs \<le> 1 \<and> (\<forall>u. r = Inr u \<longrightarrow> cs = [cmd])"]
    reset_issued [OF _ assms]
  have "\<exists>cs. issued w w' cs \<and> set cs \<subseteq> {cmd} \<and> length cs \<le> 1 \<and> (\<forall>u. r = Inr u \<longrightarrow> cs = [cmd])" by fastforce
  then show "\<exists>cs. issued w (snd (as_error (redfish_withClient env c (redfish_doComputerSystemReset env c rt) w))) cs \<and>
      set cs \<subseteq> {cmd} \<and> length cs \<le> 1 \<and>
      (fst (as_error (redfish_withClient env c (redfish_doComputerSystemReset env c rt) w)) = None \<longrightarrow> cs = [cmd])"
    by (auto simp: x as_error_def split: sum.splits)
qed

lemma setBootAMI_issued:
  assumes "redfish_setBootAMIFutureState env c s boot w = (r, w')"
    and "BootSourceOverrideTarget boot = PxeBootSource"
  shows "\<exists>cs. issued w w' cs \<and> set cs \<subseteq> {CmdArmPXE}"
proof -
  define q where "q = RedfishGet (rc_config c) (sys_ODataID s @ ''/SD'')"
  define w1 where "w1 = w\<lparr>requests := requests w @ [q]\<rparr>"
  have i: "issued w w1 []" by (simp add: w1_def q_def)
  have "issued w1 (w1\<lparr>requests := requests w1 @ [RedfishPatch (rc_config c) u boot e]\<rparr>) [CmdArmPXE]" for u e
    using assms(2) by simp
  with issued_trans [OF i] have "\<exists>cs. issued w (w1\<lparr>requests := requests w1 @ [RedfishPatch (rc_config c) u boot e]\<rparr>) cs
     \<and> set cs \<subseteq> {CmdArmPXE}" for u e by fastforce
  with assms(1) i show ?thesis
    by (fastforce simp: redfish_setBootAMIFutureState_def ask_etag_def act_def Let_def w1_def q_def
        split: sum.splits option.splits if_splits)
qed

lemma SetPXEBootOnce_body_issued:
  assumes "redfish_SetPXEBootOnce_body env c mode w = (r, w')"
  shows "\<exists>cs. issued w w' cs \<and> set cs \<subseteq> {CmdArmPXE} \<and> (\<forall>u. r = Inr u \<longrightarrow> cs \<noteq> [])"
proof -
  obtain r1 w1 where g: "redfish_getSystem env c w = (r1, w1)" by fastforce
  then have i: "issued w w1 []" by (rule getSystem_issued)
  show ?thesis
  proof (cases "\<exists>e. r1 = Inl e \<or> redfish_pxe_boot c mode = Inl e")
    case True
    with assms g i show ?thesis by (auto simp: redfish_SetPXEBootOnce_body_def split: sum.splits)
  next
    case False
    then obtain s boot where s: "r1 = Inr s" and boot: "redfish_pxe_boot c mode = Inr boot"
      by (metis sum.exhaust)
    from boot have t: "BootSourceOverrideTarget boot = PxeBootSource"
      by (auto simp: redfish_pxe_boot_def Let_def split: if_splits)
    define q where "q = RedfishSetBoot (rc_config c) (sys_ID s) boot"
    define w2 where "w2 = w1\<lparr>requests := requests w1 @ [q]\<rparr>"
    have "issued w1 w2 [CmdArmPXE]" by (simp add: w2_def q_def t)
    with i issued_trans have i2: "issued w w2 [CmdArmPXE]" by fastforce
    show ?thesis
    proof (cases "\<exists>e. answer_act env (requests w1) q = Some e \<and> redfish_isAMIFutureStateError e")
      case True
      with assms g s boot have "redfish_setBootAMIFutureState env c s boot w2 = (r, w')"
        by (auto simp: redfish_SetPXEBootOnce_body_def act_def w2_def q_def)
      from setBootAMI_issued [OF this t] issued_trans [OF i2] show ?thesis by fastforce
    next
      case False
      with assms g s boot have "w' = w2"
        by (auto simp: redfish_SetPXEBootOnce_body_def act_def w2_def q_def split: option.splits if_splits)
      with i2 show ?thesis by (intro exI [of _ "[CmdArmPXE]"]) simp
    qed
  qed
qed

lemma redfish_SetPXEBootOnce_some: "sends_some CmdArmPXE (\<lambda>env. redfish_SetPXEBootOnce env c mode)"
  unfolding sends_some_def
proof (intro allI)
  fix env w
  obtain r w' where x: "redfish_withClient env c (redfish_SetPXEBootOnce_body env c mode) w = (r, w')" by fastforce
  from withClient_issued [OF x, where Q = "\<lambda>r cs. set cs \<subseteq> {CmdArmPXE} \<and> (\<forall>u. r = Inr u \<longrightarrow> cs \<noteq> [])"]
    SetPXEBootOnce_body_issued
  have "\<exists>cs. issued w w' cs \<and> set cs \<subseteq> {CmdArmPXE} \<and> (\<forall>u. r = Inr u \<longrightarrow> cs \<noteq> [])" by fastforce
  then show "\<exists>cs. issued w (snd (redfish_SetPXEBootOnce env c mode w)) cs \<and> set cs \<subseteq> {CmdArmPXE} \<and>
      (fst (redfish_SetPXEBootOnce env c mode w) = None \<longrightarrow> cs \<noteq> [])"
    by (auto simp: x redfish_SetPXEBootOnce_def as_error_def split: sum.splits)
qed

lemma redfish_IsPoweredOn_none: "sends_none (\<lambda>env. redfish_IsPoweredOn env c)"
  unfolding sends_none_def
proof (intro allI)
  fix env w
  obtain r w' where x: "redfish_IsPoweredOn env c w = (r, w')" by fastforce
  have "\<exists>cs. issued w w' cs \<and> cs = []"
    by (rule withClient_issued [OF x [unfolded redfish_IsPoweredOn_def], where Q = "\<lambda>r cs. cs = []"])
      (auto split: prod.splits sum.splits dest: getSystem_issued)
  then show "issued w (snd (redfish_IsPoweredOn env c w)) []" using x by auto
qed

text \<open>The four backends.\<close>

lemma ipmi_SetPXEBootOnce_some: "sends_some CmdArmPXE (\<lambda>env. ipmi_SetPXEBootOnce env t mode)"
proof -
  have "sends_one CmdArmPXE (\<lambda>env. ipmi_SetPXEBootOnce env t mode)"
  proof (cases "mode = BootModeBIOS \<or> mode = BootModeUEFI")
    case True
    then show ?thesis by (auto simp: sends_one_def ipmi_SetPXEBootOnce_def act_def)
  next
    case False
    then show ?thesis by (auto simp: sends_one_def ipmi_SetPXEBootOnce_def)
  qed
  then show ?thesis by (rule sends_some_if_one)
qed

interpretation api: bmc_transport "\<lambda>env. api_Reboot env a" "\<lambda>env. api_PowerOn env a" "\<lambda>env. api_PowerOff env a"
  "\<lambda>env. api_SetPXEBootOnce env a" "\<lambda>env. api_IsPoweredOn env a" "\<lambda>env. api_Close env a" for a
  by unfold_locales
    (auto simp: api_Reboot_def [abs_def] api_PowerOn_def [abs_def] api_PowerOff_def [abs_def]
      api_SetPXEBootOnce_def [abs_def] api_IsPoweredOn_def api_Close_def sends_none_def ask_http_def split: option.splits sum.splits
      intro!: sends_one_doPost sends_some_if_one)

interpretation ipmi: bmc_transport "\<lambda>env. ipmi_Reboot env t" "\<lambda>env. ipmi_PowerOn env t" "\<lambda>env. ipmi_PowerOff env t"
  "\<lambda>env. ipmi_SetPXEBootOnce env t" "\<lambda>env. ipmi_IsPoweredOn env t" "\<lambda>env. ipmi_Close env t" for t
  by unfold_locales
    (auto simp: ipmi_Reboot_def ipmi_PowerOn_def ipmi_PowerOff_def ipmi_IsPoweredOn_def ipmi_Close_def
      sends_none_def ask_flag_def act_def [abs_def] sends_one_def ipmi_SetPXEBootOnce_some)

interpretation redfish: bmc_transport "\<lambda>env. redfish_Reboot env c" "\<lambda>env. redfish_PowerOn env c"
  "\<lambda>env. redfish_PowerOff env c" "\<lambda>env. redfish_SetPXEBootOnce env c" "\<lambda>env. redfish_IsPoweredOn env c"
  "\<lambda>env. redfish_Close env c" for c
  by unfold_locales
    (auto simp: redfish_Reboot_def [abs_def] redfish_PowerOn_def [abs_def] redfish_PowerOff_def [abs_def]
      redfish_IsPoweredOn_none redfish_SetPXEBootOnce_some redfish_Close_def sends_none_def intro!: redfish_reset_one)

interpretation manual: bmc_transport manual_Reboot manual_PowerOn manual_PowerOff manual_SetPXEBootOnce
  manual_IsPoweredOn manual_Close
  by unfold_locales
    (auto simp: manual_Reboot_def manual_PowerOn_def manual_PowerOff_def manual_SetPXEBootOnce_def
      manual_IsPoweredOn_def manual_Close_def sends_one_def sends_some_def sends_none_def)

text \<open>The logging client, whatever backend it holds.\<close>

interpretation bmc: bmc_transport "client_Reboot c" "client_PowerOn c" "client_PowerOff c"
  "client_SetPXEBootOnce c" "client_IsPoweredOn c" "client_Close c" for c
proof
  show "sends_one CmdReboot (client_Reboot c)"
    using api.reboot_one ipmi.reboot_one redfish.reboot_one manual.reboot_one
    by (cases "client c") (simp_all add: client_Reboot_def [abs_def])
  show "sends_one CmdPowerOn (client_PowerOn c)"
    using api.power_on_one ipmi.power_on_one redfish.power_on_one manual.power_on_one
    by (cases "client c") (simp_all add: client_PowerOn_def [abs_def])
  show "sends_one CmdPowerOff (client_PowerOff c)"
    using api.power_off_one ipmi.power_off_one redfish.power_off_one manual.power_off_one
    by (cases "client c") (simp_all add: client_PowerOff_def [abs_def])
  show "sends_some CmdArmPXE (\<lambda>env. client_SetPXEBootOnce c env mode)" for mode
    using api.set_pxe_some ipmi.set_pxe_some redfish.set_pxe_some manual.set_pxe_some
    by (cases "client c") (simp_all add: client_SetPXEBootOnce_def [abs_def])
  show "sends_none (client_IsPoweredOn c)"
    using api.is_powered_on_none ipmi.is_powered_on_none redfish.is_powered_on_none manual.is_powered_on_none
    by (cases "client c") (simp_all add: client_IsPoweredOn_def [abs_def])
  show "sends_none (client_Close c)"
    using api.close_none ipmi.close_none redfish.close_none manual.close_none
    by (cases "client c") (simp_all add: client_Close_def [abs_def])
qed

lemma LogCloseContext_fst [simp]: "fst (LogCloseContext c env x) = fst x"
  by (simp add: LogCloseContext_def split: prod.splits)

lemma LogCloseContext_issued:
  assumes "issued w (snd x) cs"
  shows "issued w (snd (LogCloseContext c env x)) cs"
proof -
  obtain r w1 r' w2 where "x = (r, w1)" "client_Close c env w1 = (r', w2)" by (metis surj_pair)
  with bmc.closed_command [of "\<lambda>_ _. x" env w r w1 cs c r' w2] assms show ?thesis
    by (simp add: LogCloseContext_def)
qed

section \<open>What the factory hands out\<close>

lemma redfishAvailable_issued: "redfishAvailable opts env i ipmi w = (b, w') \<Longrightarrow> issued w w' []"
proof -
  assume a: "redfishAvailable opts env i ipmi w = (b, w')"
  define c where "c = redfish_NewClient opts (Ipmi_Address ipmi) (Ipmi_Username ipmi) (Ipmi_Password ipmi)"
  obtain r w1 where p: "redfish_IsPoweredOn env c w = (r, w1)" by fastforce
  from sends_noneD [OF redfish.is_powered_on_none p] have "issued w w1 []" .
  then have "issued w (w1\<lparr>redfish_cache := f\<rparr>) []" for f by (simp add: issued_def)
  with a p show ?thesis
    by (auto simp: redfishAvailable_def Let_def c_def [symmetric] split: option.splits sum.splits)
qed

lemma ipmi_NewClient_issued: "ipmi_NewClient env ipmi w = (r, w') \<Longrightarrow> issued w w' []"
  by (auto simp: ipmi_NewClient_def Let_def act_def split: option.splits)

text \<open>\<open>GetClient\<close>, one configuration at a time.\<close>

lemma GetClient_None [simp]: "GetClient opts env None w = (Inl (Plain ''cannot get BMC client: config is nil''), w)"
  by (simp add: GetClient_def)

lemma GetClient_manual:
  "Manual (Spec cfg) \<noteq> None \<Longrightarrow>
     GetClient opts env (Some cfg) w = (Inr \<lparr>client = ManualBackend, Capabilities = NoCapabilities\<rparr>, w)"
  by (simp add: GetClient_def Let_def)

lemma GetClient_api:
  "Manual (Spec cfg) = None \<Longrightarrow> Api (Spec cfg) = Some a \<Longrightarrow>
     GetClient opts env (Some cfg) w =
       (Inr \<lparr>client = ApiBackend (Api_Address a), Capabilities = FullCapabilities\<rparr>, w)"
  by (simp add: GetClient_def Let_def api_NewClient_def)

lemma GetClient_invalid:
  "Manual (Spec cfg) = None \<Longrightarrow> Api (Spec cfg) = None \<Longrightarrow> Ipmi (Spec cfg) = None \<Longrightarrow>
     GetClient opts env (Some cfg) w =
       (Inl (Plain ''invalid BMC config: IPMI, API and manual fields are all nil''), w)"
  by (simp add: GetClient_def Let_def)

definition use_redfish :: "redfish_options \<Rightarrow> env \<Rightarrow> resource_id \<Rightarrow> bmc_ipmi \<Rightarrow> world \<Rightarrow> bool \<times> world" where
  "use_redfish opts env i ipmi w =
     (if UseAlways opts then (True, w)
      else if UseWhenAvailable opts then redfishAvailable opts env i ipmi w
      else (False, w))"

lemma GetClient_ipmi:
  assumes "Manual (Spec cfg) = None" "Api (Spec cfg) = None" "Ipmi (Spec cfg) = Some ipmi"
    and "use_redfish opts env (ID cfg) ipmi w = (b, w1)"
  shows "GetClient opts env (Some cfg) w =
     (if b then (Inr \<lparr>client = RedfishBackend (redfish_NewClient opts (Ipmi_Address ipmi)
                        (Ipmi_Username ipmi) (Ipmi_Password ipmi)), Capabilities = FullCapabilities\<rparr>, w1)
      else (case ipmi_NewClient env ipmi w1 of
              (Inl e, w2) \<Rightarrow> (Inl e, w2)
            | (Inr t, w2) \<Rightarrow> (Inr \<lparr>client = IpmiBackend t, Capabilities = FullCapabilities\<rparr>, w2)))"
  using assms by (simp add: GetClient_def Let_def use_redfish_def)

lemma use_redfish_issued: "use_redfish opts env i ipmi w = (b, w1) \<Longrightarrow> issued w w1 []"
  by (auto simp: use_redfish_def split: if_splits dest: redfishAvailable_issued)

text \<open>The outcomes of \<open>GetClient\<close>: an error, a manual client, or a full client; no BMC command is sent, and
  the nil dereference of a missing IPMI entry cannot happen.\<close>

lemma GetClient_outcome:
  assumes "GetClient opts env (Some cfg) w = (r, w')"
  shows "issued w w' [] \<and>
     (case r of
        Inl e \<Rightarrow> Manual (Spec cfg) = None \<and>
          e \<noteq> Plain ''runtime error: invalid memory address or nil pointer dereference''
      | Inr c \<Rightarrow> (client c = ManualBackend \<longleftrightarrow> Manual (Spec cfg) \<noteq> None) \<and>
          Capabilities c = (if Manual (Spec cfg) \<noteq> None then NoCapabilities else FullCapabilities))"
proof (cases "Manual (Spec cfg)")
  case (Some m)
  with assms show ?thesis by (simp add: GetClient_manual) auto
next
  case None
  note manual = this
  show ?thesis
  proof (cases "Api (Spec cfg)")
    case (Some a)
    with assms manual show ?thesis by (simp add: GetClient_api) auto
  next
    case None
    note api = this
    show ?thesis
    proof (cases "Ipmi (Spec cfg)")
      case None
      with assms manual api show ?thesis by (simp add: GetClient_invalid) auto
    next
      case (Some ipmi)
      obtain b w1 where u: "use_redfish opts env (ID cfg) ipmi w = (b, w1)" by fastforce
      then have i: "issued w w1 []" by (rule use_redfish_issued)
      obtain x w2 where n: "ipmi_NewClient env ipmi w1 = (x, w2)" by fastforce
      from issued_trans [OF i ipmi_NewClient_issued [OF n]] have i2: "issued w w2 []" by simp
      have "x \<noteq> Inl (Plain m)" for m
        using n by (auto simp: ipmi_NewClient_def Let_def split: option.splits prod.splits)
      with i i2 n assms manual show ?thesis
        by (cases b; cases x) (auto simp: GetClient_ipmi [OF manual api Some u])
    qed
  qed
qed

text \<open>The configuration is called invalid only when it has no entry at all.\<close>

lemma GetClient_not_invalid:
  assumes "Ipmi (Spec cfg) \<noteq> None \<or> Api (Spec cfg) \<noteq> None \<or> Manual (Spec cfg) \<noteq> None"
  shows "fst (GetClient opts env (Some cfg) w) \<noteq> Inl (Plain ''invalid BMC config: IPMI, API and manual fields are all nil'')"
proof (cases "Manual (Spec cfg) = None \<and> Api (Spec cfg) = None")
  case False
  then show ?thesis by (cases "Manual (Spec cfg)") (auto simp: GetClient_manual GetClient_api)
next
  case True
  with assms obtain ipmi where i: "Ipmi (Spec cfg) = Some ipmi" by auto
  obtain b w1 where u: "use_redfish opts env (ID cfg) ipmi w = (b, w1)" by fastforce
  obtain x w2 where n: "ipmi_NewClient env ipmi w1 = (x, w2)" by fastforce
  have "x \<noteq> Inl (Plain s)" for s
    using n by (auto simp: ipmi_NewClient_def Let_def split: option.splits prod.splits)
  with True n show ?thesis by (cases b; cases x) (auto simp: GetClient_ipmi [OF _ _ i u])
qed

lemmas GetClient_issued = GetClient_outcome [THEN conjunct1]

lemma GetClient_capabilities:
  assumes "GetClient opts env (Some cfg) w = (Inr c, w')"
  shows "Capabilities c = (if Manual (Spec cfg) \<noteq> None then NoCapabilities else FullCapabilities)"
    and "client c = ManualBackend \<longleftrightarrow> Manual (Spec cfg) \<noteq> None"
  using GetClient_outcome [OF assms] by simp_all

lemma redfish_IsPoweredOn_cache [simp]:
  "redfish_IsPoweredOn env c w = (r, w') \<Longrightarrow> redfish_cache w' = redfish_cache w"
  by (auto simp: redfish_IsPoweredOn_def redfish_withClient_def redfish_getSystem_def ask_systems_def act_def
      split: sum.splits list.splits option.splits prod.splits)

lemma redfishAvailable_caches:
  assumes "redfishAvailable opts env i ipmi w = (b, w1)"
  shows "redfish_cache w1 (i @ ''@'' @ Ipmi_Address ipmi) = Some b"
    and "k \<noteq> i @ ''@'' @ Ipmi_Address ipmi \<Longrightarrow> redfish_cache w1 k = redfish_cache w k"
  using assms
  by (auto simp: redfishAvailable_def Let_def split: option.splits sum.splits prod.splits)

end
