(* ===== verification/Agent.thy ===== *)
theory Agent
  imports World
begin

text \<open>
  \<open>internal/provider/agent\<close>: the client of the Talos agents, which reach the provider over reverse gRPC
  tunnels. The tunnel library is a parameter: a call is a request the environment answers, and a tunnel is
  known to the code by the incoming metadata of its context (\<open>None\<close>: no metadata; otherwise the values of
  the machine ID key).
\<close>

record agent_options =
  WipeWithZeroes :: bool
  CallTimeout :: int
  FastWipeTimeout :: int
  ZeroesWipeTimeout :: int

definition Agent_DefaultClientOptions :: agent_options where
  "Agent_DefaultClientOptions =
     \<lparr>WipeWithZeroes = False, CallTimeout = 30 * second, FastWipeTimeout = 5 * 60 * second,
      ZeroesWipeTimeout = 24 * 3600 * second\<rparr>"

section \<open>Calls\<close>

definition agent_IsAccessible :: "env \<Rightarrow> resource_id \<Rightarrow> world \<Rightarrow> (err + bool) \<times> world" where
  "agent_IsAccessible env i w =
     (case act env (AgentHello i) w of
        (Some e, w1) \<Rightarrow> (if status_code e = Unavailable then Inr False else Inl e, w1)
      | (None, w1) \<Rightarrow> (Inr True, w1))"

definition agent_GetPowerManagement :: "env \<Rightarrow> resource_id \<Rightarrow> world \<Rightarrow> (err + power_management) \<times> world" where
  "agent_GetPowerManagement env i w = ask_pm env (AgentGetPowerManagement i) w"

definition agent_SetPowerManagement ::
  "env \<Rightarrow> resource_id \<Rightarrow> set_power_management \<Rightarrow> world \<Rightarrow> err option \<times> world" where
  "agent_SetPowerManagement env i req w = act env (AgentSetPowerManagement i req) w"

definition agent_Reboot :: "env \<Rightarrow> resource_id \<Rightarrow> world \<Rightarrow> err option \<times> world" where
  "agent_Reboot env i w = act env (AgentReboot i) w"

definition agent_WipeDisks :: "agent_options \<Rightarrow> env \<Rightarrow> resource_id \<Rightarrow> world \<Rightarrow> err option \<times> world" where
  "agent_WipeDisks options env i w =
     (let wipeTimeout = (if WipeWithZeroes options then ZeroesWipeTimeout options else FastWipeTimeout options)
      in act env (AgentWipeDisks i (WipeWithZeroes options) wipeTimeout) w)"

section \<open>Tunnels\<close>

definition machineIDAffinityKey :: "string list option \<Rightarrow> string option" where
  "machineIDAffinityKey md =
     (case md of
        None \<Rightarrow> None
      | Some machineID \<Rightarrow> (if length machineID = 0 then None else Some (machineID ! 0)))"

text \<open>The key the tunnel library files a tunnel under.\<close>

definition agent_affinity_key :: "string list option \<Rightarrow> string" where
  "agent_affinity_key md = (case machineIDAffinityKey md of None \<Rightarrow> ''invalid'' | Some i \<Rightarrow> i)"

fun collect_machines :: "string list option list \<Rightarrow> string set \<Rightarrow> string set" where
  "collect_machines [] machines = machines"
| "collect_machines (tunnel # tunnels) machines =
     (case machineIDAffinityKey tunnel of
        None \<Rightarrow> collect_machines tunnels machines
      | Some affinityKey \<Rightarrow> collect_machines tunnels (insert affinityKey machines))"

definition agent_AllConnectedMachines :: "env \<Rightarrow> world \<Rightarrow> string set \<times> world" where
  "agent_AllConnectedMachines env w =
     (collect_machines (answer_tunnels env (requests w)) {}, w\<lparr>requests := requests w @ [ListTunnels]\<rparr>)"

text \<open>
  A tunnel opened or closed: the event for the machine status controller, unless the tunnel has no machine
  ID, its context has already failed, or the context ends before the event is taken.
\<close>

record agent_connection_event =
  ev_MachineID :: resource_id
  ev_Connected :: bool

definition handleTunnelEvent ::
  "string list option \<Rightarrow> bool \<Rightarrow> bool \<Rightarrow> bool \<Rightarrow> agent_connection_event option" where
  "handleTunnelEvent md connected ctxFailed doneFirst =
     (case machineIDAffinityKey md of
        None \<Rightarrow> None
      | Some affinityKey \<Rightarrow>
          if ctxFailed then None
          else if doneFirst then None
          else Some \<lparr>ev_MachineID = affinityKey, ev_Connected = connected\<rparr>)"

text \<open>
  The client: its options, and what its tunnel handler calls when a tunnel opens or closes, and files a tunnel under.
\<close>

record agent_client =
  ac_options :: agent_options
  ac_OnReverseTunnelOpen :: "string list option \<Rightarrow> bool \<Rightarrow> bool \<Rightarrow> agent_connection_event option"
  ac_OnReverseTunnelClose :: "string list option \<Rightarrow> bool \<Rightarrow> bool \<Rightarrow> agent_connection_event option"
  ac_AffinityKey :: "string list option \<Rightarrow> string"

definition agent_NewClient :: "agent_options \<Rightarrow> agent_client" where
  "agent_NewClient options =
     \<lparr>ac_options = options,
      ac_OnReverseTunnelOpen = (\<lambda>channel. handleTunnelEvent channel True),
      ac_OnReverseTunnelClose = (\<lambda>channel. handleTunnelEvent channel False),
      ac_AffinityKey = agent_affinity_key\<rparr>"

section \<open>What the client guarantees\<close>

lemma collect_machines_eq:
  "collect_machines ts ms = ms \<union> {i. \<exists>t \<in> set ts. machineIDAffinityKey t = Some i}"
  by (induction ts arbitrary: ms) (auto split: option.splits)

lemma machineIDAffinityKey_Some:
  "machineIDAffinityKey md = Some i \<longleftrightarrow> (\<exists>rest. md = Some (i # rest))"
  by (cases md) (auto simp: machineIDAffinityKey_def neq_Nil_conv split: if_splits)

text \<open>A machine counts as connected only when one of the open tunnels is filed under its ID.\<close>

lemma connected_has_tunnel:
  assumes "agent_AllConnectedMachines env w = (ms, w')" "i \<in> ms"
  shows "\<exists>t \<in> set (answer_tunnels env (requests w)). agent_affinity_key t = i"
proof -
  from assms obtain t where "t \<in> set (answer_tunnels env (requests w))" "machineIDAffinityKey t = Some i"
    by (auto simp: agent_AllConnectedMachines_def collect_machines_eq)
  then show ?thesis by (intro bexI [of _ t]) (simp_all add: agent_affinity_key_def)
qed

text \<open>An open tunnel announces the machine under the same ID it is later listed with.\<close>

lemma tunnel_event_listed:
  assumes "handleTunnelEvent md connected ctxFailed doneFirst = Some ev"
    and "md \<in> set (answer_tunnels env (requests w))"
  shows "ev_MachineID ev \<in> fst (agent_AllConnectedMachines env w) \<and> agent_affinity_key md = ev_MachineID ev"
  using assms
  by (auto simp: handleTunnelEvent_def agent_AllConnectedMachines_def collect_machines_eq agent_affinity_key_def
      split: option.splits if_splits)

text \<open>What a tunnel reports under its machine's ID is what it is filed under, open and closed alike.\<close>

lemma tunnel_reported:
  "ac_OnReverseTunnelOpen (agent_NewClient opts) md ctx dn = Some ev \<Longrightarrow> ev_Connected ev \<and> ev_MachineID ev = ac_AffinityKey (agent_NewClient opts) md"
  "ac_OnReverseTunnelClose (agent_NewClient opts) md ctx dn = Some ev \<Longrightarrow> \<not> ev_Connected ev \<and> ev_MachineID ev = ac_AffinityKey (agent_NewClient opts) md"
  by (auto simp: agent_NewClient_def handleTunnelEvent_def agent_affinity_key_def split: option.splits if_splits)

lemma agent_calls_no_command:
  "agent_IsAccessible env i w = (r, w') \<Longrightarrow> requests w' = requests w @ [AgentHello i]"
  "agent_AllConnectedMachines env w = (ms, w') \<Longrightarrow> requests w' = requests w @ [ListTunnels]"
  "agent_Reboot env i w = (r', w') \<Longrightarrow> requests w' = requests w @ [AgentReboot i]"
  by (auto simp: agent_IsAccessible_def agent_AllConnectedMachines_def agent_Reboot_def act_def split: option.splits)

end
