(* ===== verification/ControllersBase.thy ===== *)
theory ControllersBase
  imports Machine BmcClient Agent
begin

text \<open>
  \<open>internal/provider/controllers/controllers.go\<close>, and the contract every reconcile keeps. A transform
  takes the environment, the reader, Omni's machine and the resource it owns, and returns Go's error
  together with the resource as it left it in memory; the runtime stores the resource only when there is
  no error.
\<close>

definition IPMIUsername :: string where "IPMIUsername = ''talos-agent''"
definition IPMIPasswordLength :: nat where "IPMIPasswordLength = 16"
definition IPMIDefaultPort :: "32 word" where "IPMIDefaultPort = 623"

definition validateInfraMachine :: "infra_machine \<Rightarrow> err option" where
  "validateInfraMachine infraMachine =
     (if AcceptanceStatus (Spec infraMachine) \<noteq> ACCEPTED then Some (SkipReconcile ''machine not accepted'')
      else if Cordoned (Spec infraMachine) then Some (SkipReconcile ''machine is cordoned'')
      else None)"

text \<open>The last power-on or reboot, whichever is later; the zero time when there was none.\<close>

definition getTimeSinceLastPowerOn :: "power_operation option \<Rightarrow> reboot_status option \<Rightarrow> int \<Rightarrow> int" where
  "getTimeSinceLastPowerOn powerOperation rebootStatus now =
     (let lastPowerOnTime =
            (case powerOperation of
               None \<Rightarrow> zero_time
             | Some p \<Rightarrow> (case LastPowerOnTimestamp (Spec p) of None \<Rightarrow> zero_time | Some ts \<Rightarrow> AsTime ts));
          lastPowerOnTime' =
            (case rebootStatus of
               None \<Rightarrow> lastPowerOnTime
             | Some s \<Rightarrow>
                 (case LastRebootTimestamp (Spec s) of
                    None \<Rightarrow> lastPowerOnTime
                  | Some ts \<Rightarrow> if AsTime ts > lastPowerOnTime then AsTime ts else lastPowerOnTime))
      in time_Sub now lastPowerOnTime')"

definition cooldown_requeue :: "int \<Rightarrow> int \<Rightarrow> int" where
  "cooldown_requeue minRebootInterval elapsed = int64_wrap (int64_wrap (minRebootInterval - elapsed) + second)"

lemma validateInfraMachine_None:
  "validateInfraMachine m = None \<longleftrightarrow> AcceptanceStatus (Spec m) = ACCEPTED \<and> \<not> Cordoned (Spec m)"
  by (auto simp: validateInfraMachine_def)

lemma accepted_not_rejected: "validateInfraMachine m = None \<Longrightarrow> \<not> is_rejected (Some m)"
  by (auto simp: validateInfraMachine_None is_rejected_def)

text \<open>The time since the last power-on counts from the later of the two timestamps.\<close>

definition last_power_on :: "power_operation option \<Rightarrow> reboot_status option \<Rightarrow> int" where
  "last_power_on po rs =
     (let p = (case po of None \<Rightarrow> zero_time
               | Some p \<Rightarrow> (case LastPowerOnTimestamp (Spec p) of None \<Rightarrow> zero_time | Some ts \<Rightarrow> AsTime ts))
      in case rs of None \<Rightarrow> p
         | Some s \<Rightarrow> (case LastRebootTimestamp (Spec s) of None \<Rightarrow> p | Some ts \<Rightarrow> max p (AsTime ts)))"

lemma getTimeSinceLastPowerOn_last:
  "getTimeSinceLastPowerOn po rs now = time_Sub now (last_power_on po rs)"
  by (auto simp: getTimeSinceLastPowerOn_def last_power_on_def Let_def max_def split: option.splits)

lemma getTimeSinceLastPowerOn_never:
  "0 \<le> now \<Longrightarrow> getTimeSinceLastPowerOn None None now = max_duration"
  by (simp add: getTimeSinceLastPowerOn_def time_Sub_zero_time)

lemma getTimeSinceLastPowerOn_power_on:
  "LastPowerOnTimestamp (Spec p) = Some (timestamp_New t) \<Longrightarrow>
     getTimeSinceLastPowerOn (Some p) rs now \<le> time_Sub now t"
  by (auto simp: getTimeSinceLastPowerOn_last last_power_on_def Let_def
      intro!: time_Sub_antimono split: option.splits)

text \<open>
  With a sane clock (the last power-on is not in the future) the requeue interval of the cooldown is more
  than a second and at most a second more than the configured interval.
\<close>

lemma cooldown_requeue_bounds:
  assumes "0 \<le> elapsed" "elapsed < interval" "interval < 2 ^ 62"
  shows "cooldown_requeue interval elapsed = interval - elapsed + second"
    and "second < cooldown_requeue interval elapsed"
    and "cooldown_requeue interval elapsed \<le> interval + second"
proof -
  have "int64_wrap (interval - elapsed) = interval - elapsed"
    using assms by (intro int64_wrap_id) auto
  moreover have "int64_wrap (interval - elapsed + second) = interval - elapsed + second"
    using assms by (intro int64_wrap_id) (auto simp: second_def)
  ultimately show eq: "cooldown_requeue interval elapsed = interval - elapsed + second"
    by (simp add: cooldown_requeue_def)
  show "second < cooldown_requeue interval elapsed" "cooldown_requeue interval elapsed \<le> interval + second"
    using assms by (auto simp: eq)
qed

section \<open>The contract of a reconcile\<close>

text \<open>
  One reconcile as the runtime runs it: the transform works on a copy of the stored resource, and what it
  leaves is stored when it returns no error. What the runtime stores after an error is the runtime's
  business, so that decision is a parameter; without an error it stores.
\<close>

type_synonym 'o transform =
  "env \<Rightarrow> reader \<Rightarrow> infra_machine \<Rightarrow> 'o \<Rightarrow> world \<Rightarrow> (err option \<times> 'o) \<times> world"

definition reconcile ::
  "(err \<Rightarrow> bool) \<Rightarrow> 'o transform \<Rightarrow> env \<Rightarrow> reader \<Rightarrow> infra_machine \<Rightarrow> 'o \<Rightarrow> world \<Rightarrow> 'o \<times> world" where
  "reconcile stores_after transform env rd m out w =
     (case transform env rd m out w of
        ((None, out'), w') \<Rightarrow> (out', w')
      | ((Some e, out'), w') \<Rightarrow> (if stores_after e then out' else out, w'))"

fun reconcile_all ::
  "(err \<Rightarrow> bool) \<Rightarrow> 'o transform \<Rightarrow> (env \<times> reader \<times> infra_machine) list \<Rightarrow> 'o \<Rightarrow> world \<Rightarrow> 'o \<times> world" where
  "reconcile_all stores_after transform [] out w = (out, w)"
| "reconcile_all stores_after transform ((env, rd, m) # inputs) out w =
     (case reconcile stores_after transform env rd m out w of
        (out', w') \<Rightarrow> reconcile_all stores_after transform inputs out' w')"

text \<open>
  A machine that is not accepted, or cordoned, is left alone: its transform fails, does not touch the
  resource, and sends nothing but the requests in \<open>quiet\<close>.
\<close>

locale gated_transform =
  fixes transform :: "'o transform"
    and quiet :: "request \<Rightarrow> bool"
  assumes gated: "validateInfraMachine m = Some e \<Longrightarrow> transform env rd m out w = ((r, out'), w') \<Longrightarrow>
     r \<noteq> None \<and> out' = out \<and> emits quiet w w'"
begin

lemma reconcile_gated:
  assumes "validateInfraMachine m \<noteq> None" "reconcile stores_after transform env rd m out w = (out', w')"
  shows "out' = out \<and> emits quiet w w'"
proof -
  from assms(1) obtain e where e: "validateInfraMachine m = Some e" by auto
  obtain r o' w1 where t: "transform env rd m out w = ((r, o'), w1)" by (metis surj_pair)
  from gated [OF e t] obtain e' where "r = Some e'" "o' = out" "emits quiet w w1" by auto
  with t assms(2) show ?thesis by (simp add: reconcile_def)
qed

lemma reconcile_all_gated:
  assumes "\<forall>(env, rd, m) \<in> set inputs. validateInfraMachine m \<noteq> None"
    and "reconcile_all stores_after transform inputs out w = (out', w')"
  shows "out' = out \<and> emits quiet w w'"
  using assms
proof (induction inputs arbitrary: w)
  case Nil
  then show ?case by simp
next
  case (Cons x inputs)
  obtain env rd m where x: "x = (env, rd, m)" by (metis surj_pair)
  obtain o1 w1 where r: "reconcile stores_after transform env rd m out w = (o1, w1)" by fastforce
  from Cons.prems(1) x have "validateInfraMachine m \<noteq> None" by auto
  from reconcile_gated [OF this r] have 1: "o1 = out" "emits quiet w w1" by auto
  with Cons r x have "out' = out \<and> emits quiet w1 w'" by simp
  with 1 show ?case by (blast intro: emits_trans)
qed

end

end
