(* ===== verification/Samples.thy ===== *)
theory Samples
  imports ControllersBase
begin

text \<open>
  Concrete inputs for the witnesses: a reader over given resources, an environment whose BMCs, agents and
  stores answer every request with success, and one machine with its resources.
\<close>

definition found :: "'r option \<Rightarrow> err + 'r" where
  "found x = (case x of None \<Rightarrow> Inl (NotFoundErr ''resource not found'') | Some r \<Rightarrow> Inr r)"

lemma get_or_nil_found [simp]: "get_or_nil (found x) = Inr x"
  by (cases x) (simp_all add: found_def)

definition reader_of ::
  "infra_machine option \<Rightarrow> bmc_configuration option \<Rightarrow> machine_status option \<Rightarrow> wipe_status option \<Rightarrow>
   reboot_status option \<Rightarrow> power_operation option \<Rightarrow> infra_bmc_config option \<Rightarrow> reader" where
  "reader_of im bmc ms ws rs po bc =
     \<lparr>rd_infra_machine = (\<lambda>i. found im), rd_bmc_configuration = (\<lambda>i. found bmc),
      rd_machine_status = (\<lambda>i. found ms), rd_wipe_status = (\<lambda>i. found ws),
      rd_reboot_status = (\<lambda>i. found rs), rd_power_operation = (\<lambda>i. found po), rd_bmc_config = (\<lambda>i. found bc)\<rparr>"

lemma reader_of_simps [simp]:
  "rd_infra_machine (reader_of im bmc ms ws rs po bc) i = found im"
  "rd_bmc_configuration (reader_of im bmc ms ws rs po bc) i = found bmc"
  "rd_machine_status (reader_of im bmc ms ws rs po bc) i = found ms"
  "rd_wipe_status (reader_of im bmc ms ws rs po bc) i = found ws"
  "rd_reboot_status (reader_of im bmc ms ws rs po bc) i = found rs"
  "rd_power_operation (reader_of im bmc ms ws rs po bc) i = found po"
  "rd_bmc_config (reader_of im bmc ms ws rs po bc) i = found bc"
  by (simp_all add: reader_of_def)

text \<open>Everything succeeds; power states read as \<open>on\<close>, the clock stands at \<open>now\<close>.\<close>

definition ok_env :: "bool \<Rightarrow> int \<Rightarrow> env" where
  "ok_env on now =
     \<lparr>answer_act = (\<lambda>qs q. None), answer_flag = (\<lambda>qs q. Inr on),
      answer_http = (\<lambda>qs q. Inr \<lparr>http_StatusCode = 200, http_PoweredOn = Inr on\<rparr>),
      answer_systems = (\<lambda>qs q. Inr [\<lparr>sys_ID = ''1'', sys_ODataID = ''/redfish/v1/Systems/1'', sys_PowerState = ''On''\<rparr>]),
      answer_etag = (\<lambda>qs q. Inr ''etag''),
      answer_pm = (\<lambda>qs q. Inr \<lparr>pm_Api = False, pm_Ipmi = Some (''10.0.0.9'', 623)\<rparr>),
      answer_tunnels = (\<lambda>qs. [Some [''m1'']]),
      check_url = (\<lambda>u. None), check_ipmi = (\<lambda>t. None), clock = (\<lambda>qs. now),
      write_error = (\<lambda>qs i. None)\<rparr>"

definition empty_world :: world where
  "empty_world = \<lparr>requests = [], redfish_cache = Map.empty\<rparr>"

text \<open>An accepted machine, allocated to a cluster, wiped for its current lifecycle.\<close>

definition m1_spec :: infra_machine_spec where
  "m1_spec =
     \<lparr>AcceptanceStatus = ACCEPTED, ClusterTalosVersion = ''v1.13.7'', Cordoned = False, ExtraKernelArgs = [],
      Extensions = [], InstallEventId = 0, NodeUniqueToken = ''tok'', PowerOffRequestId = [],
      PreferredPowerState = PREFERRED_OFF, RequestedRebootId = [], WipeId = ''w1''\<rparr>"

definition m1 :: infra_machine where "m1 = new_resource ''m1'' m1_spec"

definition m1_wiped :: wipe_status where
  "m1_wiped = new_resource ''m1''
     \<lparr>LastWipeId = ''w1'', LastWipeInstallEventId = 0, InitialWipeDone = True, WipedNodeUniqueToken = ''tok'',
      ws_unknownFields = []\<rparr>"

definition m1_api :: bmc_configuration where
  "m1_api = new_resource ''m1''
     \<lparr>Ipmi = None, Api = Some \<lparr>Api_Address = ''10.0.0.9:80'', api_unknownFields = []\<rparr>, ManuallyConfigured = False,
      Manual = None, bc_unknownFields = []\<rparr>"

definition m1_manual :: bmc_configuration where
  "m1_manual = new_resource ''m1''
     \<lparr>Ipmi = None, Api = None, ManuallyConfigured = False, Manual = Some \<lparr>manual_unknownFields = []\<rparr>,
      bc_unknownFields = []\<rparr>"

definition m1_agent :: "bool \<Rightarrow> machine_status" where
  "m1_agent accessible = new_resource ''m1''
     \<lparr>AgentAccessible = accessible, PowerState = POWER_STATE_ON, Initialized = True, ms_unknownFields = []\<rparr>"

definition default_redfish :: redfish_options where "default_redfish = Redfish_DefaultOptions"

lemmas sample_defs =
  m1_def m1_spec_def m1_wiped_def m1_api_def m1_manual_def m1_agent_def new_resource_def ok_env_def
  empty_world_def

end
