(* ===== verification/BootHandler.thy ===== *)
theory BootHandler
  imports BootFiles ImageFactory Tls Samples
begin

text \<open>
  \<open>internal/provider/ipxe/handler.go\<close> and \<open>boot.go\<close>: what a machine that asks over iPXE is told to boot. The reader
  of the state store, the file system, the image factory and the zstd encoder are parameters; the kernel parameter
  names of Talos and of the agent are the fields of \<open>kernel_params\<close>.
\<close>

section \<open>Booting from disk\<close>

datatype BootFromDiskMethod = BootIPXEExit | Boot404 | BootSANDisk

definition parseBootFromDiskMethod :: "string \<Rightarrow> err + BootFromDiskMethod" where
  "parseBootFromDiskMethod method =
     (if method = ''ipxe-exit'' then Inr BootIPXEExit
      else if method = ''http-404'' then Inr Boot404
      else if method = ''ipxe-sanboot'' then Inr BootSANDisk
      else Inl (Plain (''unknown boot from disk method: '' @ method)))"

definition ipxeScriptTemplateFormat :: "string \<Rightarrow> string" where
  "ipxeScriptTemplateFormat url = unlines [''#!ipxe'', ''chain --replace '' @ url]"

definition ipxeScriptTemplateFormatLocalAssets :: "string \<Rightarrow> string \<Rightarrow> string \<Rightarrow> string" where
  "ipxeScriptTemplateFormatLocalAssets kernelURL cmdline initrd =
     unlines [''#!ipxe'', ''imgfree'', ''kernel '' @ kernelURL @ '' '' @ cmdline, ''initrd '' @ initrd, ''boot'']"

definition ipxeBootFromDiskExit :: string where
  "ipxeBootFromDiskExit = unlines [''#!ipxe'', ''exit'']"

definition ipxeBootFromDiskSanboot :: string where
  "ipxeBootFromDiskSanboot = unlines [''#!ipxe'', ''sanboot --no-describe --drive 0x80'']"

section \<open>The handler\<close>

record handler_options =
  ho_APIAdvertiseAddress :: string
  ho_BootFromDiskMethod :: string
  ho_BootAssetsPath :: string
  ho_TLS :: tls_options
  ho_APIPort :: int
  ho_Boot :: boot_options
  ho_UseLocalBootAssets :: bool
  ho_AgentTestMode :: bool

record handler =
  h_files :: file_map
  h_bootFromDiskMethod :: BootFromDiskMethod
  h_defaultKernelArgs :: "string list"
  h_agentKernelArgs :: "string list"
  h_initScript :: string
  h_options :: handler_options

text \<open>The interface \<open>ImageFactoryClient\<close>, and the calls a request makes on it.\<close>

type_synonym factory_url = "bool \<Rightarrow> string \<Rightarrow> string \<Rightarrow> string list \<Rightarrow> string list \<Rightarrow> err + string"

datatype factory_call = FactoryCall bool string string "string list" "string list"

definition StatusOK :: int where "StatusOK = 200"
definition StatusBadRequest :: int where "StatusBadRequest = 400"
definition StatusNotFound :: int where "StatusNotFound = 404"
definition StatusInternalServerError :: int where "StatusInternalServerError = 500"

record boot_decision =
  bd_body :: string
  bd_statusCode :: int

text \<open>A decision with Go's error beside it, and the image factory calls made on the way.\<close>

type_synonym decided = "boot_decision \<times> err option \<times> factory_call list"

definition decision :: "string \<Rightarrow> int \<Rightarrow> boot_decision" where
  "decision body code = \<lparr>bd_body = body, bd_statusCode = code\<rparr>"

definition consoleKernelArgs :: "string \<Rightarrow> string list" where
  "consoleKernelArgs arch =
     (if arch = archArm64 then [''console=tty0'', ''console=ttyAMA0''] else [''console=tty0'', ''console=ttyS0''])"

definition bootAssetNames :: "string \<Rightarrow> string \<times> string \<times> string" where
  "bootAssetNames arch = (''kernel-'' @ arch, ''initramfs-metal-'' @ arch @ ''.xz'', ''cmdline-metal-'' @ arch)"

definition bootAgentModeViaLocalIPXEScript ::
  "(string \<Rightarrow> err + string) \<Rightarrow> handler \<Rightarrow> string \<Rightarrow> string list \<Rightarrow> err + string" where
  "bootAgentModeViaLocalIPXEScript readFile handler arch kernelArgs =
     (let hostPort = join_host_port (ho_APIAdvertiseAddress (h_options handler)) (itoa (ho_APIPort (h_options handler)));
          (kernelName, initramfsName, cmdlineName) = bootAssetNames arch;
          kernelURL = ''http://'' @ hostPort @ ''/'' @ AssetsURLPath @ ''/'' @ kernelName;
          initramfs = ''http://'' @ hostPort @ ''/'' @ AssetsURLPath @ ''/'' @ initramfsName
      in case readFile (filepath_Join (ho_BootAssetsPath (h_options handler)) cmdlineName) of
           Inl e \<Rightarrow> Inl (Wrapped ''failed to read cmdline'' e)
         | Inr cmdline \<Rightarrow>
             Inr (ipxeScriptTemplateFormatLocalAssets kernelURL (trim_space cmdline @ '' '' @ join '' '' kernelArgs) initramfs))"

definition bootViaFactoryIPXEScript ::
  "factory_url \<Rightarrow> bool \<Rightarrow> string \<Rightarrow> string list \<Rightarrow> (err + string) \<times> factory_call list" where
  "bootViaFactoryIPXEScript url agentMode arch kernelArgs =
     ((case url agentMode [] arch [] kernelArgs of
         Inl e \<Rightarrow> Inl (Wrapped ''failed to get schematic IPXE URL'' e)
       | Inr ipxeURL \<Rightarrow> Inr (ipxeScriptTemplateFormat ipxeURL)),
      [FactoryCall agentMode [] arch [] kernelArgs])"

text \<open>The status code these three return is 200 exactly when they return no error.\<close>

definition bootIntoAgentMode ::
  "factory_url \<Rightarrow> (string \<Rightarrow> err + string) \<Rightarrow> handler \<Rightarrow> string \<Rightarrow> string list \<Rightarrow> (err + string) \<times> factory_call list" where
  "bootIntoAgentMode url readFile handler arch extraKernelArgs =
     (let agentExtraKernelArgs = h_agentKernelArgs handler @ consoleKernelArgs arch @ extraKernelArgs
      in if ho_UseLocalBootAssets (h_options handler)
         then (bootAgentModeViaLocalIPXEScript readFile handler arch agentExtraKernelArgs, [])
         else bootViaFactoryIPXEScript url True arch agentExtraKernelArgs)"

section \<open>The boot decision\<close>

text \<open>Dereferencing a nil machine would panic; the boot mode excludes it.\<close>

definition boot_talos :: "factory_url \<Rightarrow> handler \<Rightarrow> infra_machine option \<Rightarrow> string \<Rightarrow> string list \<Rightarrow> decided" where
  "boot_talos url handler infraMachine arch userExtraKernelArgs =
     (case infraMachine of
        None \<Rightarrow> (decision [] 0, Some (Plain ''nil pointer dereference''), [])
      | Some m \<Rightarrow>
          (let extraKernelArgs = h_defaultKernelArgs handler @ consoleKernelArgs arch @ userExtraKernelArgs;
               talosVersion = ClusterTalosVersion (Spec m);
               extensions = Extensions (Spec m);
               calls = [FactoryCall False talosVersion arch extensions extraKernelArgs]
           in case url False talosVersion arch extensions extraKernelArgs of
                Inl e \<Rightarrow> (decision [] StatusInternalServerError, Some (Wrapped ''failed to get schematic IPXE URL'' e), calls)
              | Inr ipxeURL \<Rightarrow> (decision (ipxeScriptTemplateFormat ipxeURL) StatusOK, None, calls)))"

definition boot_disk :: "handler \<Rightarrow> boot_decision" where
  "boot_disk handler =
     (case h_bootFromDiskMethod handler of
        Boot404 \<Rightarrow> decision [] StatusNotFound
      | BootSANDisk \<Rightarrow> decision ipxeBootFromDiskSanboot StatusOK
      | BootIPXEExit \<Rightarrow> decision ipxeBootFromDiskExit StatusOK)"

definition buildarch :: "string \<Rightarrow> string" where
  "buildarch arch = (if arch = archArm64 then archArm64 else archAmd64)"

definition makeBootDecision ::
  "factory_url \<Rightarrow> (string \<Rightarrow> err + string) \<Rightarrow> reader \<Rightarrow> handler \<Rightarrow> string \<Rightarrow> string \<Rightarrow> decided" where
  "makeBootDecision url readFile reader handler arch uuid =
     (if uuid = [] then (decision [] StatusBadRequest, Some (Plain ''missing uuid''), [])
      else (let arch = buildarch arch
            in case get_or_nil (rd_infra_machine reader uuid) of
                 Inl e \<Rightarrow> (decision [] 0, Some e, [])
               | Inr infraMachine \<Rightarrow>
            (case get_or_nil (rd_bmc_configuration reader uuid) of
                 Inl e \<Rightarrow> (decision [] 0, Some e, [])
               | Inr bmcConfiguration \<Rightarrow>
            (case get_or_nil (rd_wipe_status reader uuid) of
                 Inl e \<Rightarrow> (decision [] 0, Some e, [])
               | Inr wipeStatus \<Rightarrow>
                   if (case infraMachine of None \<Rightarrow> False | Some m \<Rightarrow> Cordoned (Spec m))
                   then (decision ''machine is cordoned'' StatusNotFound, None, [])
                   else if (case infraMachine of None \<Rightarrow> False | Some m \<Rightarrow> AcceptanceStatus (Spec m) = REJECTED)
                   then (decision [] StatusNotFound, None, [])
                   else (let requiredBootMode = RequiredBootMode infraMachine bmcConfiguration wipeStatus (ho_Boot (h_options handler));
                             userExtraKernelArgs = (case infraMachine of None \<Rightarrow> [] | Some m \<Rightarrow> Prelude.fields (ExtraKernelArgs (Spec m)))
                         in if (case infraMachine of None \<Rightarrow> False | Some m \<Rightarrow> Cordoned (Spec m))
                            then (decision ''machine is cordoned'' StatusNotFound, None, [])
                            else (case requiredBootMode of
                              BootModeAgentPXE \<Rightarrow>
                                (case bootIntoAgentMode url readFile handler arch userExtraKernelArgs of
                                   (Inl e, calls) \<Rightarrow>
                                     (decision [] StatusInternalServerError, Some (Wrapped ''failed to boot into agent mode'' e), calls)
                                 | (Inr body, calls) \<Rightarrow> (decision body StatusOK, None, calls))
                            | BootModeTalosPXE \<Rightarrow> boot_talos url handler infraMachine arch userExtraKernelArgs
                            | BootModeTalosDisk \<Rightarrow> (boot_disk handler, None, [])))))))"

section \<open>Serving a request\<close>

text \<open>
  The response as the machine sees it, and the channel of PXE boot events as the machine status controller
  receives it: a non-blocking send to a channel of the given capacity. Writing the response may fail.
\<close>

record http_response =
  resp_status :: int
  resp_content_type :: string
  resp_content_length :: "int option"
  resp_body :: string

record boot_request =
  br_script :: string
  br_query :: "string \<Rightarrow> string"

definition pxeBootEventChBuffer :: nat where "pxeBootEventChBuffer = 1024"

definition response :: "int \<Rightarrow> string \<Rightarrow> http_response" where
  "response code body = \<lparr>resp_status = code, resp_content_type = [], resp_content_length = None, resp_body = body\<rparr>"

definition handleInitScript :: "handler \<Rightarrow> http_response" where
  "handleInitScript handler = (response StatusOK (h_initScript handler))\<lparr>resp_content_type := ''text/plain''\<rparr>"

definition send_event :: "resource_id list \<Rightarrow> resource_id \<Rightarrow> resource_id list" where
  "send_event channel uuid = (if length channel < pxeBootEventChBuffer then channel @ [uuid] else channel)"

definition ServeHTTP ::
  "factory_url \<Rightarrow> (string \<Rightarrow> err + string) \<Rightarrow> reader \<Rightarrow> bool \<Rightarrow> handler \<Rightarrow> boot_request \<Rightarrow> resource_id list
    \<Rightarrow> http_response \<times> factory_call list \<times> resource_id list" where
  "ServeHTTP url readFile reader writeOk handler req channel =
     (if br_script req = initScriptName then (handleInitScript handler, [], channel)
      else if br_script req \<noteq> bootScriptName then (response StatusNotFound [], [], channel)
      else (let uuid = br_query req ''uuid''; arch = br_query req ''arch''
            in case makeBootDecision url readFile reader handler arch uuid of
                 (d, Some e, calls) \<Rightarrow>
                   (response StatusInternalServerError (''failed to make boot decision: '' @ err_text e), calls, channel)
               | (d, None, calls) \<Rightarrow>
                   ((response (bd_statusCode d) (bd_body d))\<lparr>resp_content_length := Some (int (length (bd_body d)))\<rparr>, calls,
                    if writeOk then send_event channel uuid else channel)))"

section \<open>The local boot assets\<close>

text \<open>\<open>os.Stat\<close> of a file: whether it is regular, and its size.\<close>

definition validateBootAssetFile :: "(string \<Rightarrow> err + (bool \<times> int)) \<Rightarrow> string \<Rightarrow> err option" where
  "validateBootAssetFile stat path =
     (case stat path of
        Inl e \<Rightarrow> Some e
      | Inr (regular, fileSize) \<Rightarrow>
          if \<not> regular then Some (Plain (path @ '' is not a regular file''))
          else if fileSize = 0 then Some (Plain (path @ '' is empty''))
          else None)"

definition arch_problems :: "(string \<Rightarrow> err + (bool \<times> int)) \<Rightarrow> string \<Rightarrow> string \<Rightarrow> string list" where
  "arch_problems stat dir arch =
     (let (kernelName, initramfsName, cmdlineName) = bootAssetNames arch
      in concat (map (\<lambda>name. case validateBootAssetFile stat (filepath_Join dir name) of None \<Rightarrow> [] | Some e \<Rightarrow> [err_text e])
                   [kernelName, initramfsName, cmdlineName]))"

definition ValidateBootAssets :: "(string \<Rightarrow> err + (bool \<times> int)) \<Rightarrow> string \<Rightarrow> err option" where
  "ValidateBootAssets stat dir =
     (let problems = map (arch_problems stat dir) [archAmd64, archArm64];
          numComplete = length (filter (\<lambda>p. p = []) problems)
      in if numComplete = 0
         then Some (Plain (''boot assets directory '' @ dir @ '' has no complete set of assets for any architecture: '' @
                join ''; '' (concat problems)))
         else None)"

section \<open>Building the handler\<close>

text \<open>\<open>base64.StdEncoding\<close>.\<close>

definition base64_alphabet :: string where
  "base64_alphabet = ''ABCDEFGHIJKLMNOPQRSTUVWXYZabcdefghijklmnopqrstuvwxyz0123456789+/''"

definition base64_char :: "nat \<Rightarrow> char" where
  "base64_char n = base64_alphabet ! (n mod 64)"

fun base64_encode :: "byte list \<Rightarrow> string" where
  "base64_encode [] = []"
| "base64_encode [a] = [base64_char (unat a div 4), base64_char (unat a mod 4 * 16), CHR ''='', CHR ''='']"
| "base64_encode [a, b] =
     [base64_char (unat a div 4), base64_char (unat a mod 4 * 16 + unat b div 16), base64_char (unat b mod 16 * 4), CHR ''='']"
| "base64_encode (a # b # c # rest) =
     base64_char (unat a div 4) # base64_char (unat a mod 4 * 16 + unat b div 16) #
     base64_char (unat b mod 16 * 4 + unat c div 64) # base64_char (unat c mod 64) # base64_encode rest"

text \<open>The zstd encoder: creating it, writing, and closing, which yields what was written to the buffer.\<close>

record zstd_encoder =
  zstd_NewWriter :: "err option"
  zstd_Write :: "byte list \<Rightarrow> err option"
  zstd_Close :: "byte list \<Rightarrow> err + byte list"

definition compressInlineConfig :: "zstd_encoder \<Rightarrow> byte list \<Rightarrow> err + string" where
  "compressInlineConfig zstd config =
     (case zstd_NewWriter zstd of
        Some e \<Rightarrow> Inl (Wrapped ''failed to create zstd encoder'' e)
      | None \<Rightarrow>
     (case zstd_Write zstd config of
        Some e \<Rightarrow> Inl (Wrapped ''failed to write zstd data'' e)
      | None \<Rightarrow>
     (case zstd_Close zstd config of
        Inl e \<Rightarrow> Inl (Wrapped ''failed to close zstd encoder'' e)
      | Inr buf \<Rightarrow> Inr (base64_encode buf))))"

record kernel_params =
  KernelParamConfig :: string
  KernelParamConfigInline :: string
  MetalProviderAddressKernelArg :: string
  TestModeKernelArg :: string
  TLSSkipVerifyKernelArg :: string

definition NewHandler ::
  "ipxe_env \<Rightarrow> zstd_encoder \<Rightarrow> kernel_params \<Rightarrow> byte list \<Rightarrow> handler_options \<Rightarrow> err + handler" where
  "NewHandler io zstd params machineConfig options =
     (case parseBootFromDiskMethod (ho_BootFromDiskMethod options) of
        Inl e \<Rightarrow> Inl (Wrapped ''failed to parse boot from disk method'' e)
      | Inr bootFromDiskMethod \<Rightarrow>
     (let initScript = buildInitScript (ho_APIAdvertiseAddress options) (ho_APIPort options)
      in case patchBinaries io (bytes_of initScript) (CustomIPXECACertFile (ho_TLS options)) of
        Inl e \<Rightarrow> Inl e
      | Inr files \<Rightarrow>
     (let apiHostPort = join_host_port (ho_APIAdvertiseAddress options) (itoa (ho_APIPort options));
          talosConfigURL = ''http://'' @ apiHostPort @ ''/'' @ ConfigURLPath @ ''?u=${uuid}'';
          configArg = KernelParamConfig params @ ''='' @ talosConfigURL
      in case (if TLS_Enabled (ho_TLS options)
               then (case compressInlineConfig zstd machineConfig of
                       Inl e \<Rightarrow> Inl (Wrapped ''failed to build inline config'' e)
                     | Inr inlineConfig \<Rightarrow>
                         Inr (''https://'' @ join_host_port (ho_APIAdvertiseAddress options) (itoa (TLS_APIPort (ho_TLS options))),
                              [configArg, KernelParamConfigInline params @ ''='' @ inlineConfig]))
               else Inr (join_host_port (ho_APIAdvertiseAddress options) (itoa (ho_APIPort options)), [configArg])) of
        Inl e \<Rightarrow> Inl e
      | Inr (providerAddress, defaultKernelArgs) \<Rightarrow>
          (let agentExtraKernelArgs =
                 [MetalProviderAddressKernelArg params @ ''='' @ providerAddress]
                 @ (if ho_AgentTestMode options then [TestModeKernelArg params @ ''=1''] else [])
                 @ (if AgentSkipVerify (ho_TLS options) then [TLSSkipVerifyKernelArg params @ ''=1''] else [])
           in Inr \<lparr>h_files = files, h_bootFromDiskMethod = bootFromDiskMethod, h_defaultKernelArgs = defaultKernelArgs,
                   h_agentKernelArgs = defaultKernelArgs @ agentExtraKernelArgs, h_initScript = initScript, h_options = options\<rparr>))))"

section \<open>Lemmas\<close>

definition is_cordoned :: "infra_machine option \<Rightarrow> bool" where
  "is_cordoned im \<longleftrightarrow> (\<exists>m. im = Some m \<and> Cordoned (Spec m))"

text \<open>The decision for a machine whose resources could be read, spelled out by what the machine is ready for.\<close>

definition decide ::
  "factory_url \<Rightarrow> (string \<Rightarrow> err + string) \<Rightarrow> handler \<Rightarrow> string \<Rightarrow> infra_machine option \<Rightarrow> bmc_configuration option
     \<Rightarrow> wipe_status option \<Rightarrow> decided" where
  "decide url readFile handler arch im bmc ws =
     (let extra = (case im of None \<Rightarrow> [] | Some m \<Rightarrow> Prelude.fields (ExtraKernelArgs (Spec m)))
      in if is_cordoned im then (decision ''machine is cordoned'' StatusNotFound, None, [])
         else if is_rejected im then (decision [] StatusNotFound, None, [])
         else if \<not> handover_ready im bmc ws then
           (case bootIntoAgentMode url readFile handler arch extra of
              (Inl e, calls) \<Rightarrow> (decision [] StatusInternalServerError, Some (Wrapped ''failed to boot into agent mode'' e), calls)
            | (Inr body, calls) \<Rightarrow> (decision body StatusOK, None, calls))
         else if IsInstalled im ws \<and> \<not> AlwaysNetboot (ho_Boot (h_options handler)) then (boot_disk handler, None, [])
         else boot_talos url handler im arch extra)"

lemma makeBootDecision_decide:
  assumes "uuid \<noteq> []" and "get_or_nil (rd_infra_machine reader uuid) = Inr im"
    and "get_or_nil (rd_bmc_configuration reader uuid) = Inr bmc" and "get_or_nil (rd_wipe_status reader uuid) = Inr ws"
  shows "makeBootDecision url readFile reader handler arch uuid = decide url readFile handler (buildarch arch) im bmc ws"
proof -
  have "(case im of None \<Rightarrow> False | Some m \<Rightarrow> Cordoned (Spec m)) = is_cordoned im"
    "(case im of None \<Rightarrow> False | Some m \<Rightarrow> AcceptanceStatus (Spec m) = REJECTED) = is_rejected im"
    by (auto simp: is_cordoned_def is_rejected_def split: option.splits)
  then show ?thesis
    using assms by (simp add: makeBootDecision_def decide_def Let_def RequiredBootMode_cases)
qed

lemma makeBootDecision_failed:
  assumes "\<not> (\<exists>im bmc ws. get_or_nil (rd_infra_machine reader uuid) = Inr im \<and>
    get_or_nil (rd_bmc_configuration reader uuid) = Inr bmc \<and> get_or_nil (rd_wipe_status reader uuid) = Inr ws)"
  shows "\<exists>d e. makeBootDecision url readFile reader handler arch uuid = (d, Some e, [])"
  using assms by (auto simp: makeBootDecision_def Let_def split: sum.splits)

lemma bootIntoAgentMode_calls:
  "bootIntoAgentMode url readFile handler arch args = (r, calls) \<Longrightarrow> FactoryCall False v a ext k \<notin> set calls"
  by (auto simp: bootIntoAgentMode_def bootViaFactoryIPXEScript_def Let_def split: if_splits)

lemma decide_talos_call:
  assumes "decide url readFile handler arch im bmc ws = (d, e, calls)" and "FactoryCall False v a ext k \<in> set calls"
  shows "handover_ready im bmc ws \<and> \<not> is_cordoned im \<and> (\<exists>m. im = Some m \<and> v = ClusterTalosVersion (Spec m) \<and>
    ext = Extensions (Spec m) \<and> a = arch)"
  using assms
  by (auto simp: decide_def Let_def boot_talos_def dest: bootIntoAgentMode_calls
      split: if_splits option.splits sum.splits prod.splits)

lemma is_None_Inr: "get_or_nil x = Inr (Some r) \<Longrightarrow> x = Inr r"
  by (auto simp: get_or_nil_def split: sum.splits if_splits)

lemma handover_readyE:
  assumes "handover_ready im bmc ws"
  obtains m b w where "im = Some m" "bmc = Some b" "ws = Some w" "wiped_for m w"
    "AcceptanceStatus (Spec m) \<noteq> PENDING" "AcceptanceStatus (Spec m) \<noteq> REJECTED"
    "Phase m \<noteq> PhaseTearingDown" "ClusterTalosVersion (Spec m) \<noteq> []"
  using assms by (auto simp: handover_ready_def)

lemma ServeHTTP_calls:
  assumes "ServeHTTP url readFile reader writeOk handler req channel = (resp, calls, channel')" and "c \<in> set calls"
  obtains im bmc ws d e where "get_or_nil (rd_infra_machine reader (br_query req ''uuid'')) = Inr im"
    "get_or_nil (rd_bmc_configuration reader (br_query req ''uuid'')) = Inr bmc" "get_or_nil (rd_wipe_status reader (br_query req ''uuid'')) = Inr ws"
    "decide url readFile handler (buildarch (br_query req ''arch'')) im bmc ws = (d, e, calls)"
proof -
  let ?u = "br_query req ''uuid''" and ?a = "br_query req ''arch''"
  obtain d e where m: "makeBootDecision url readFile reader handler ?a ?u = (d, e, calls)"
    using assms by (auto simp: ServeHTTP_def Let_def split: if_splits prod.splits option.splits)
  have u: "?u \<noteq> []" using m assms(2) by (auto simp: makeBootDecision_def)
  show ?thesis
  proof (cases "\<exists>im bmc ws. get_or_nil (rd_infra_machine reader ?u) = Inr im \<and> get_or_nil (rd_bmc_configuration reader ?u) = Inr bmc \<and>
    get_or_nil (rd_wipe_status reader ?u) = Inr ws")
    case True
    then show ?thesis using makeBootDecision_decide [OF u] m that by metis
  next
    case False
    from makeBootDecision_failed [OF False, of url readFile handler ?a] m assms(2) show ?thesis by auto
  qed
qed

definition sample_url :: factory_url where "sample_url am v a e k = Inr ''http://f/x''"

definition sample_handler :: handler where
  "sample_handler =
     \<lparr>h_files = Map.empty, h_bootFromDiskMethod = BootIPXEExit, h_defaultKernelArgs = [''talos.config=c''],
      h_agentKernelArgs = [''talos.config=c''], h_initScript = ''#!ipxe'',
      h_options = \<lparr>ho_APIAdvertiseAddress = ''10.0.0.1'', ho_BootFromDiskMethod = ''ipxe-exit'', ho_BootAssetsPath = ''/assets'',
        ho_TLS = \<lparr>CACertFile = [], CertFile = [], KeyFile = [], CustomIPXECACertFile = [], TLS_APIPort = 50043, CATTL = 0,
          CertTTL = 0, TLS_Enabled = False, AgentSkipVerify = False\<rparr>,
        ho_APIPort = 50042, ho_Boot = \<lparr>AlwaysNetboot = False\<rparr>, ho_UseLocalBootAssets = True, ho_AgentTestMode = False\<rparr>\<rparr>"

definition sample_reader :: reader where
  "sample_reader = reader_of (Some m1) (Some m1_api) None (Some m1_wiped) None None None"

definition sample_boot_request :: boot_request where
  "sample_boot_request = \<lparr>br_script = ''boot.ipxe'', br_query = (\<lambda>k. if k = ''uuid'' then ''m1'' else [])\<rparr>"

lemma sample_decision:
  "\<exists>resp. ServeHTTP sample_url (\<lambda>p. Inr []) sample_reader True sample_handler sample_boot_request [] =
    (resp, [FactoryCall False ''v1.13.7'' ''amd64'' [] [''talos.config=c'', ''console=tty0'', ''console=ttyS0'']], [''m1''])"
  by (simp add: ServeHTTP_def bootScriptName_def initScriptName_def makeBootDecision_def RequiredBootMode_def Let_def
      IsInstalled_def RequiresWipe_def boot_talos_def consoleKernelArgs_def buildarch_def archArm64_def archAmd64_def
      sample_defs decision_def StatusOK_def send_event_def pxeBootEventChBuffer_def sample_url_def sample_handler_def
      sample_reader_def sample_boot_request_def)

lemma ServeHTTP_talos_call:
  assumes "ServeHTTP url readFile reader writeOk handler req channel = (resp, calls, channel')"
    and "FactoryCall False v a ext k \<in> set calls"
  shows "\<exists>m b w. rd_infra_machine reader (br_query req ''uuid'') = Inr m \<and> rd_bmc_configuration reader (br_query req ''uuid'') = Inr b \<and>
    rd_wipe_status reader (br_query req ''uuid'') = Inr w \<and>
    \<not> Cordoned (Spec m) \<and> AcceptanceStatus (Spec m) \<noteq> PENDING \<and> AcceptanceStatus (Spec m) \<noteq> REJECTED \<and>
    Phase m \<noteq> PhaseTearingDown \<and> InitialWipeDone (Spec w) \<and> LastWipeId (Spec w) = WipeId (Spec m) \<and>
    v = ClusterTalosVersion (Spec m) \<and> v \<noteq> [] \<and> ext = Extensions (Spec m)"
proof -
  from assms obtain im bmc ws d e where r: "get_or_nil (rd_infra_machine reader (br_query req ''uuid'')) = Inr im"
    "get_or_nil (rd_bmc_configuration reader (br_query req ''uuid'')) = Inr bmc" "get_or_nil (rd_wipe_status reader (br_query req ''uuid'')) = Inr ws"
    and d: "decide url readFile handler (buildarch (br_query req ''arch'')) im bmc ws = (d, e, calls)"
    by (rule ServeHTTP_calls)
  note c = decide_talos_call [OF d assms(2)]
  from c have "handover_ready im bmc ws" by blast
  then obtain m b w where h: "im = Some m" "bmc = Some b" "ws = Some w" "wiped_for m w"
    "AcceptanceStatus (Spec m) \<noteq> PENDING" "AcceptanceStatus (Spec m) \<noteq> REJECTED"
    "Phase m \<noteq> PhaseTearingDown" "ClusterTalosVersion (Spec m) \<noteq> []" by (rule handover_readyE)
  with c r show ?thesis
    by (intro exI [of _ m] exI [of _ b] exI [of _ w]) (auto simp: is_cordoned_def wiped_for_def dest: is_None_Inr)
qed

section \<open>Properties\<close>

text \<open>
  A Talos image is only ever requested, and so only ever booted over the network, for a machine that is ready
  for it: it exists and is neither cordoned, pending, rejected nor being torn down, it has a BMC configuration,
  its disks were wiped for its current lifecycle, and it is allocated to a cluster, whose Talos version and
  extensions the image has.
\<close>

theorem talos_image_only_when_ready:
  assumes "ServeHTTP url readFile reader writeOk handler req channel = (resp, calls, channel')"
    and "FactoryCall False v a ext k \<in> set calls"
  shows "\<exists>m b w. rd_infra_machine reader (br_query req ''uuid'') = Inr m \<and> rd_bmc_configuration reader (br_query req ''uuid'') = Inr b \<and>
    rd_wipe_status reader (br_query req ''uuid'') = Inr w \<and>
    \<not> Cordoned (Spec m) \<and> AcceptanceStatus (Spec m) \<noteq> PENDING \<and> AcceptanceStatus (Spec m) \<noteq> REJECTED \<and>
    Phase m \<noteq> PhaseTearingDown \<and> InitialWipeDone (Spec w) \<and> LastWipeId (Spec w) = WipeId (Spec m) \<and>
    v = ClusterTalosVersion (Spec m) \<and> v \<noteq> [] \<and> ext = Extensions (Spec m)"
  by (rule ServeHTTP_talos_call [OF assms])

theorem talos_image_only_when_ready_witness:
  "\<exists>m w. rd_infra_machine sample_reader ''m1'' = Inr m \<and> rd_wipe_status sample_reader ''m1'' = Inr w \<and>
     ClusterTalosVersion (Spec m) = ''v1.13.7'' \<and> LastWipeId (Spec w) = WipeId (Spec m)"
proof -
  obtain resp where r: "ServeHTTP sample_url (\<lambda>p. Inr []) sample_reader True sample_handler sample_boot_request [] =
    (resp, [FactoryCall False ''v1.13.7'' ''amd64'' [] [''talos.config=c'', ''console=tty0'', ''console=ttyS0'']], [''m1''])"
    using sample_decision by blast
  have "br_query sample_boot_request ''uuid'' = ''m1''" by (simp add: sample_boot_request_def)
  with talos_image_only_when_ready [OF r, unfolded list.set, OF insertI1] show ?thesis by auto
qed


text \<open>
  A PXE boot event is queued for the machine status controller exactly when a boot script (or a deliberate
  refusal) was decided and written for a request that names a machine, and the queue has room; an event never
  carries an empty machine ID, and the queue never outgrows its buffer.
\<close>

theorem pxe_event_exact:
  "snd (snd (ServeHTTP url readFile reader writeOk handler req channel)) =
     (if br_script req = bootScriptName \<and> writeOk \<and> br_query req ''uuid'' \<noteq> [] \<and> length channel < 1024 \<and>
         fst (snd (makeBootDecision url readFile reader handler (br_query req ''arch'') (br_query req ''uuid''))) = None
      then channel @ [br_query req ''uuid''] else channel) \<and>
   length (snd (snd (ServeHTTP url readFile reader writeOk handler req channel))) \<le> max 1024 (length channel)"
proof -
  have "bootScriptName \<noteq> initScriptName" by (simp add: bootScriptName_def initScriptName_def)
  moreover have "makeBootDecision url readFile reader handler a [] = (decision [] StatusBadRequest, Some (Plain ''missing uuid''), [])"
    for a by (simp add: makeBootDecision_def)
  ultimately have "snd (snd (ServeHTTP url readFile reader writeOk handler req channel)) =
     (if br_script req = bootScriptName \<and> writeOk \<and> br_query req ''uuid'' \<noteq> [] \<and> length channel < 1024 \<and>
         fst (snd (makeBootDecision url readFile reader handler (br_query req ''arch'') (br_query req ''uuid''))) = None
      then channel @ [br_query req ''uuid''] else channel)"
    by (cases "br_query req ''uuid'' = []")
       (auto simp: ServeHTTP_def Let_def send_event_def pxeBootEventChBuffer_def split: prod.splits option.splits)
  then show ?thesis by simp
qed


text \<open>A binary with room for any script of length \<open>n\<close>.\<close>

definition roomy_binary :: "nat \<Rightarrow> byte list" where
  "roomy_binary n = placeholderStart @ replicate n 32 @ placeholderEnd"

lemma roomy_binary_end: "index_of (roomy_binary n) placeholderEnd = Some (21 + n)"
proof -
  have "index_of (replicate n 32 @ placeholderEnd) placeholderEnd = Some n"
  proof (induction n)
    case 0
    then show ?case by (simp add: placeholderEnd_code has_prefix_code)
  next
    case (Suc n)
    then show ?case by (simp add: placeholderEnd_code has_prefix_code)
  qed
  then show ?thesis by (simp add: roomy_binary_def placeholderStart_code placeholderEnd_code has_prefix_code)
qed

lemma roomy_binary_patched:
  assumes "length script \<le> n"
  shows "patchBytes (roomy_binary n) script [] = Inr (copy_at (roomy_binary n) 0 (script @ replicate (40 + n - length script) 10))"
proof -
  have "index_of (roomy_binary n) placeholderStart = Some 0"
    by (simp add: roomy_binary_def placeholderStart_code has_prefix_code)
  moreover have "length placeholderEnd = 19" by (simp add: placeholderEnd_code)
  ultimately show ?thesis using assms by (simp add: patchBytes_def roomy_binary_end Let_def)
qed

definition roomy_io :: "nat \<Rightarrow> ipxe_env" where
  "roomy_io n = \<lparr>read_data = (\<lambda>p. Inr (roomy_binary n)), zbin_Compress = (\<lambda>b z. Inr [1]), read_file = (\<lambda>p. Inr []),
     pem_Decode = (\<lambda>b. None), sha256_Sum = (\<lambda>b. replicate 32 0)\<rparr>"

lemma roomy_io_patched:
  assumes "length script \<le> n"
  shows "\<exists>files. patchBinaries (roomy_io n) script [] = Inr files"
proof -
  note p = roomy_binary_patched [OF assms]
  have r: "read_data (roomy_io n) s = Inr (roomy_binary n)" "zbin_Compress (roomy_io n) b z = Inr [1]" for s b z
    by (simp_all add: roomy_io_def)
  show ?thesis unfolding patchBinaries_def efi_iterations_def
    by (simp only: patch_efis.simps r Let_def p) (simp add: r p)
qed

definition sample_zstd :: zstd_encoder where
  "sample_zstd = \<lparr>zstd_NewWriter = None, zstd_Write = (\<lambda>b. None), zstd_Close = (\<lambda>b. Inr b)\<rparr>"

definition sample_params :: kernel_params where
  "sample_params = \<lparr>KernelParamConfig = ''talos.config'', KernelParamConfigInline = ''talos.config.inline'',
     MetalProviderAddressKernelArg = ''siderolabs.metal-provider'', TestModeKernelArg = ''agent.test'',
     TLSSkipVerifyKernelArg = ''agent.insecure''\<rparr>"

lemma itoa_default_port: "itoa 50042 = ''50042''"
  by (simp add: itoa_def nat_digits.simps char_of_def bit_iff_odd)


text \<open>
  Once the local boot assets were validated at startup, the machines of some architecture can boot the agent
  from them: the script is built, and the kernel and the initramfs it names are served, as long as a regular
  file can be read.
\<close>

theorem validated_assets_boot:
  assumes "ValidateBootAssets stat dir = None" and "ho_BootAssetsPath (h_options h) = dir" and "dir \<noteq> []"
    and "\<And>p n. stat p = Inr (True, n) \<Longrightarrow> \<exists>c. readFile p = Inr c"
  shows "\<exists>arch \<in> {archAmd64, archArm64}.
    (\<exists>script. bootAgentModeViaLocalIPXEScript readFile h arch args = Inr script) \<and>
    (case bootAssetNames arch of (kernelName, initramfsName, cmdlineName) \<Rightarrow>
       validateBootAssetFile stat (filepath_Join dir kernelName) = None \<and>
       validateBootAssetFile stat (filepath_Join dir initramfsName) = None \<and>
       mux_route dir (''/'' @ AssetsURLPath @ ''/'' @ kernelName) = ToAssets kernelName \<and>
       mux_route dir (''/'' @ AssetsURLPath @ ''/'' @ initramfsName) = ToAssets initramfsName)"
proof -
  have "\<exists>arch \<in> {archAmd64, archArm64}. arch_problems stat dir arch = []"
    using assms(1) by (auto simp: ValidateBootAssets_def Let_def split: if_splits)
  then obtain arch where a: "arch \<in> {archAmd64, archArm64}" and p: "arch_problems stat dir arch = []" by blast
  obtain kn fn cn where n: "bootAssetNames arch = (kn, fn, cn)" by (metis prod_cases3)
  have "\<forall>x \<in> set [kn, fn, cn]. validateBootAssetFile stat (filepath_Join dir x) = None"
    using p unfolding arch_problems_def n by (simp split: option.splits)
  then have v: "validateBootAssetFile stat (filepath_Join dir kn) = None" "validateBootAssetFile stat (filepath_Join dir fn) = None"
    "validateBootAssetFile stat (filepath_Join dir cn) = None" by simp_all
  from v(3) obtain sz where "stat (filepath_Join dir cn) = Inr (True, sz)"
    by (auto simp: validateBootAssetFile_def split: sum.splits if_splits)
  then obtain c where "readFile (filepath_Join dir cn) = Inr c" using assms(4) by blast
  then have "\<exists>script. bootAgentModeViaLocalIPXEScript readFile h arch args = Inr script"
    using assms(2) n by (simp add: bootAgentModeViaLocalIPXEScript_def Let_def)
  moreover have "clean_name kn" "clean_name fn"
    using a n by (auto simp: bootAssetNames_def archAmd64_def archArm64_def clean_name_def)
  ultimately show ?thesis using a v n mux_route_assets [OF _ assms(3)] by auto
qed

theorem validated_assets_boot_witness:
  "\<exists>arch script. bootAgentModeViaLocalIPXEScript (\<lambda>p. Inr ''console=ttyS0'') sample_handler arch [] = Inr script \<and>
     arch \<in> {archAmd64, archArm64}"
proof -
  have "ValidateBootAssets (\<lambda>p. Inr (True, 1)) ''/assets'' = None"
    by (simp add: ValidateBootAssets_def arch_problems_def bootAssetNames_def validateBootAssetFile_def)
  moreover have "ho_BootAssetsPath (h_options sample_handler) = ''/assets''" by (simp add: sample_handler_def)
  ultimately show ?thesis
    using validated_assets_boot [of "\<lambda>p. Inr (True, 1)" "''/assets''" sample_handler "\<lambda>p. Inr ''console=ttyS0''" "[]"] by auto
qed

end
