(* ===== verification/Dhcp.thy ===== *)
theory Dhcp
  imports BootFiles Ip
begin

text \<open>
  \<open>internal/provider/dhcp/proxy.go\<close>: which packets the proxy answers, the firmware they come from, and the offer
  it makes. The DHCP library is a parameter: packets are of any type \<open>'p\<close>, read and built through the functions of
  \<open>dhcp_lib\<close>. What the code relies on of the library is the predicate \<open>dhcp_lib_ok\<close>. \<open>net.ParseIP\<close> and the text of a
  real IPv6 address are functions of the same record.
\<close>

datatype arch =
    INTEL_X86PC | EFI_IA32 | EFI_X86_64 | EFI_BC | EFI_ARM64 | UBOOT_ARM64
  | EFI_X86_HTTP | EFI_X86_64_HTTP | EFI_ARM64_HTTP | UBOOT_ARM64_HTTP | OtherArch nat

datatype dhcp_message_type = Discover | Offer | Request | Ack | OtherMessage nat

datatype option_code = ClientMachineIdentifier | ClassIdentifier | VendorSpecificInformation | OptionCode nat

datatype dhcp_option =
    OptServerIdentifier net_ip
  | OptClassIdentifier string
  | OptTFTPServerName string
  | OptBootFileName string
  | OptGeneric option_code "byte list"

datatype modifier =
    WithMessageType dhcp_message_type
  | WithServerIP net_ip
  | WithOptionCopied option_code
  | WithOption dhcp_option

record 'p dhcp_lib =
  messageType :: "'p \<Rightarrow> dhcp_message_type"
  getOption :: "'p \<Rightarrow> option_code \<Rightarrow> byte list option"
  clientArch :: "'p \<Rightarrow> arch list"
  userClass :: "'p \<Rightarrow> string list"
  clientHWAddr :: "'p \<Rightarrow> byte list"
  newReplyFromRequest :: "'p \<Rightarrow> modifier list \<Rightarrow> err + 'p"
  updateOption :: "'p \<Rightarrow> dhcp_option \<Rightarrow> 'p"
  setBootFileName :: "'p \<Rightarrow> string \<Rightarrow> 'p"
  bootFileName :: "'p \<Rightarrow> string"
  bootFileNameOption :: "'p \<Rightarrow> string"
  optionsToBytes :: "(nat \<times> byte list) list \<Rightarrow> byte list"
  parseIP :: "string \<Rightarrow> net_ip"
  text6 :: "net_ip \<Rightarrow> string"

definition Port67 :: int where "Port67 = 67"
definition Port4011 :: int where "Port4011 = 4011"

section \<open>Which packets, from which firmware\<close>

definition isBootDHCP :: "'p dhcp_lib \<Rightarrow> 'p \<Rightarrow> int \<Rightarrow> err option" where
  "isBootDHCP lib pkt port =
     (let expectedType = (if port = Port4011 then Request else Discover)
      in if messageType lib pkt \<noteq> expectedType then Some (Plain ''packet is not of the expected type'')
         else if getOption lib pkt (OptionCode 93) = None
         then Some (Plain ''not a PXE boot request (missing option 93)'')
         else None)"

datatype firmware =
    FirmwareUnsupported | FirmwareX86PC | FirmwareX86EFI | FirmwareARMEFI
  | FirmwareX86Ipxe | FirmwareX86HTTP | FirmwareARMHTTP | FirmwareRPi

definition raspberryPiOUIs :: "byte list list" where
  "raspberryPiOUIs =
     [[0xb8, 0x27, 0xeb], [0xdc, 0xa6, 0x32], [0xe4, 0x5f, 0x01],
      [0xd8, 0x3a, 0xdd], [0x28, 0xcd, 0xc1], [0x2c, 0xcf, 0x67]]"

definition isRaspberryPi :: "byte list \<Rightarrow> bool" where
  "isRaspberryPi hwAddr = (if length hwAddr < 3 then False else take 3 hwAddr \<in> set raspberryPiOUIs)"

text \<open>The switch in the loop over the announced architectures: the type an architecture stands for, if it does.\<close>

fun arch_firmware :: "arch \<Rightarrow> firmware option" where
  "arch_firmware INTEL_X86PC = Some FirmwareX86PC"
| "arch_firmware EFI_IA32 = Some FirmwareX86EFI"
| "arch_firmware EFI_X86_64 = Some FirmwareX86EFI"
| "arch_firmware EFI_BC = Some FirmwareX86EFI"
| "arch_firmware EFI_ARM64 = Some FirmwareARMEFI"
| "arch_firmware UBOOT_ARM64 = Some FirmwareARMEFI"
| "arch_firmware EFI_X86_HTTP = Some FirmwareX86HTTP"
| "arch_firmware EFI_X86_64_HTTP = Some FirmwareX86HTTP"
| "arch_firmware EFI_ARM64_HTTP = Some FirmwareARMHTTP"
| "arch_firmware UBOOT_ARM64_HTTP = Some FirmwareARMHTTP"
| "arch_firmware (OtherArch n) = None"

fun classify :: "arch list \<Rightarrow> firmware \<Rightarrow> firmware" where
  "classify [] fwtype = fwtype"
| "classify (a # arches) fwtype =
     classify arches (case arch_firmware a of Some f \<Rightarrow> f | None \<Rightarrow> fwtype)"

definition validateGUID :: "byte list \<Rightarrow> err option" where
  "validateGUID guid =
     (if length guid = 0 then None
      else if length guid = 17 then
        (if guid ! 0 \<noteq> 0 then Some (Plain ''malformed client GUID (option 97), leading byte must be zero'') else None)
      else Some (Plain ''malformed client GUID (option 97), wrong size''))"

definition validateDHCP :: "'p dhcp_lib \<Rightarrow> 'p \<Rightarrow> err + firmware" where
  "validateDHCP lib m =
     (let fwtype = classify (clientArch lib m) FirmwareUnsupported
      in if fwtype = FirmwareUnsupported then Inl (Plain ''unsupported client arch'')
         else (let fwtype = (if fwtype = FirmwareX86PC \<and> isRaspberryPi (clientHWAddr lib m) then FirmwareRPi else fwtype);
                   fwtype = (case userClass lib m of
                               [] \<Rightarrow> fwtype
                             | c # cs \<Rightarrow> if c = ''iPXE'' \<and> fwtype = FirmwareX86PC then FirmwareX86Ipxe else fwtype);
                   guid = (case getOption lib m ClientMachineIdentifier of None \<Rightarrow> [] | Some g \<Rightarrow> g)
               in case validateGUID guid of Some e \<Rightarrow> Inl e | None \<Rightarrow> Inr fwtype))"

section \<open>PXE vendor options\<close>

definition pxeDiscoveryControlUseBootFile :: byte where "pxeDiscoveryControlUseBootFile = 0x08"
definition pxeDiscoveryControl :: nat where "pxeDiscoveryControl = 6"
definition pxeBootServers :: nat where "pxeBootServers = 8"
definition pxeBootMenu :: nat where "pxeBootMenu = 9"
definition pxeMenuPrompt :: nat where "pxeMenuPrompt = 10"
definition pxeEnd :: byte where "pxeEnd = 255"

definition bootFileDirectlyPXEOptions :: "'p dhcp_lib \<Rightarrow> byte list" where
  "bootFileDirectlyPXEOptions lib =
     optionsToBytes lib [(pxeDiscoveryControl, [pxeDiscoveryControlUseBootFile])] @ [pxeEnd]"

definition raspberryPiBootMenuDescription :: string where
  "raspberryPiBootMenuDescription = ''Raspberry Pi Boot''"

definition raspberryPiBootPXEOptions :: "'p dhcp_lib \<Rightarrow> net_ip \<Rightarrow> err + byte list" where
  "raspberryPiBootPXEOptions lib serverIP =
     (case ip_To4 serverIP of
        None \<Rightarrow> Inl (Plain (''cannot offer a Raspberry Pi boot response over a non-IPv4 address: '' @ ip_String (text6 lib) serverIP))
      | Some serverIPv4 \<Rightarrow>
          (let description = bytes_of raspberryPiBootMenuDescription;
               bootServers = [0x00, 0x00, 0x01] @ serverIPv4;
               menu = [0x00, 0x00, word_of_nat (length description)] @ description;
               prompt = [0x00] @ description
           in Inr (optionsToBytes lib
                     [(pxeDiscoveryControl, [0x03]), (pxeBootServers, bootServers),
                      (pxeBootMenu, menu), (pxeMenuPrompt, prompt)] @ [pxeEnd])))"

section \<open>The offer\<close>

definition offer_modifiers :: "net_ip \<Rightarrow> dhcp_message_type \<Rightarrow> modifier list" where
  "offer_modifiers serverIP replyType =
     [WithMessageType replyType, WithServerIP serverIP,
      WithOptionCopied ClientMachineIdentifier, WithOptionCopied ClassIdentifier]
     @ (if ip_To4 serverIP \<noteq> None then [WithOption (OptServerIdentifier serverIP)] else [])"

text \<open>The standard PXE answer: a file over TFTP, its name both in the header and in option 67.\<close>

definition pxe_answer :: "'p dhcp_lib \<Rightarrow> net_ip \<Rightarrow> string \<Rightarrow> 'p \<Rightarrow> 'p" where
  "pxe_answer lib serverIP name resp =
     (let resp = updateOption lib resp (OptTFTPServerName (ip_String (text6 lib) serverIP));
          resp = setBootFileName lib resp name;
          resp = updateOption lib resp (OptBootFileName (bootFileName lib resp))
      in updateOption lib resp (OptGeneric VendorSpecificInformation (bootFileDirectlyPXEOptions lib)))"

definition answer :: "'p dhcp_lib \<Rightarrow> net_ip \<Rightarrow> string \<Rightarrow> firmware \<Rightarrow> 'p \<Rightarrow> err + 'p" where
  "answer lib serverIP ipPort fwtype resp =
     (case fwtype of
        FirmwareX86PC \<Rightarrow> Inr (pxe_answer lib serverIP ''undionly.kpxe'' resp)
      | FirmwareX86Ipxe \<Rightarrow>
          (let urlHost = ip_String (text6 lib) serverIP;
               urlHost = (if ip_To4 serverIP = None then ''['' @ urlHost @ '']'' else urlHost)
           in Inr (updateOption lib resp (OptBootFileName (''tftp://'' @ urlHost @ ''/undionly.kpxe''))))
      | FirmwareX86EFI \<Rightarrow> Inr (pxe_answer lib serverIP ''snp.efi'' resp)
      | FirmwareARMEFI \<Rightarrow> Inr (pxe_answer lib serverIP ''snp-arm64.efi'' resp)
      | FirmwareX86HTTP \<Rightarrow> Inr (updateOption lib resp (OptBootFileName (''http://'' @ ipPort @ ''/tftp/amd64/snp.efi'')))
      | FirmwareARMHTTP \<Rightarrow> Inr (updateOption lib resp (OptBootFileName (''http://'' @ ipPort @ ''/tftp/arm64/snp.efi'')))
      | FirmwareRPi \<Rightarrow>
          (case raspberryPiBootPXEOptions lib serverIP of
             Inl e \<Rightarrow> Inl e
           | Inr pxeOptions \<Rightarrow>
               Inr (updateOption lib (updateOption lib resp (OptTFTPServerName (ip_String (text6 lib) serverIP)))
                      (OptGeneric VendorSpecificInformation pxeOptions)))
      | FirmwareUnsupported \<Rightarrow> Inl (Plain ''unsupported firmware type 0''))"

definition OfferDHCP :: "'p dhcp_lib \<Rightarrow> 'p \<Rightarrow> string \<Rightarrow> int \<Rightarrow> firmware \<Rightarrow> int \<Rightarrow> err + 'p" where
  "OfferDHCP lib req apiAdvertiseAddress apiPort fwtype port =
     (let serverIP = parseIP lib apiAdvertiseAddress;
          ipPort = join_host_port (ip_String (text6 lib) serverIP) (itoa apiPort);
          replyType = (if port = Port4011 then Ack else Offer)
      in case newReplyFromRequest lib req (offer_modifiers serverIP replyType) of
           Inl e \<Rightarrow> Inl e
         | Inr resp \<Rightarrow>
             answer lib serverIP ipPort fwtype
               (if getOption lib resp ClassIdentifier = None
                then updateOption lib resp (OptClassIdentifier ''PXEClient'') else resp))"

section \<open>Handling a packet\<close>

record proxy_options =
  APIAdvertiseAddress :: string
  ProxyIfaceOrIP :: string
  APIPort :: int
  DisableBroadcastListener :: bool
  ServeRaspberryPi :: bool

definition hex_char :: "nat \<Rightarrow> char" where
  "hex_char n = (if n < 10 then char_of (48 + n) else char_of (87 + n))"

definition hardware_String :: "byte list \<Rightarrow> string" where
  "hardware_String hw = join '':'' (map (\<lambda>b. [hex_char (unat b div 16), hex_char (unat b mod 16)]) hw)"

text \<open>What a packet makes the proxy do: warn about a board, or send a packet. The other log entries are left out.\<close>

datatype 'p proxy_effect = Warned string | Sent 'p

definition warnNoRPiFirmware :: "byte list \<Rightarrow> string set \<Rightarrow> string set \<times> 'p proxy_effect list" where
  "warnNoRPiFirmware hwAddr warned =
     (if hardware_String hwAddr \<in> warned then (warned, [])
      else (insert (hardware_String hwAddr) warned, [Warned (hardware_String hwAddr)]))"

definition handlePacket ::
  "'p dhcp_lib \<Rightarrow> proxy_options \<Rightarrow> int \<Rightarrow> 'p \<Rightarrow> string set \<Rightarrow> string set \<times> 'p proxy_effect list" where
  "handlePacket lib options port m warned =
     (if isBootDHCP lib m port \<noteq> None then (warned, [])
      else (case validateDHCP lib m of
              Inl e \<Rightarrow> (warned, [])
            | Inr fwtype \<Rightarrow>
                if fwtype = FirmwareRPi \<and> \<not> ServeRaspberryPi options
                then warnNoRPiFirmware (clientHWAddr lib m) warned
                else (case OfferDHCP lib m (APIAdvertiseAddress options) (APIPort options) fwtype port of
                        Inl e \<Rightarrow> (warned, [])
                      | Inr resp \<Rightarrow> (warned, [Sent resp]))))"

text \<open>The ports \<open>Run\<close> listens on, and the packets of a run of the proxy, in the order they are handled.\<close>

definition listen_ports :: "proxy_options \<Rightarrow> int list" where
  "listen_ports options = (if DisableBroadcastListener options then [] else [Port67]) @ [Port4011]"

fun handlePackets ::
  "'p dhcp_lib \<Rightarrow> proxy_options \<Rightarrow> (int \<times> 'p) list \<Rightarrow> string set \<Rightarrow> string set \<times> 'p proxy_effect list" where
  "handlePackets lib options [] warned = (warned, [])"
| "handlePackets lib options ((port, m) # ms) warned =
     (let (warned', es) = handlePacket lib options port m warned;
          (warned'', es') = handlePackets lib options ms warned'
      in (warned'', es @ es'))"

section \<open>The interface to listen on\<close>

text \<open>An interface is its name and its addresses, which fail to be listed as if there were none.\<close>

fun determine_loop :: "(string \<times> net_ip list) list \<Rightarrow> string \<Rightarrow> net_ip \<Rightarrow> string option" where
  "determine_loop [] ifaceOrIP targetIP = None"
| "determine_loop ((name, addrs) # interfaces) ifaceOrIP targetIP =
     (if name = ifaceOrIP then Some name
      else if targetIP = [] then determine_loop interfaces ifaceOrIP targetIP
      else if \<exists>ip \<in> set addrs. ip \<noteq> [] \<and> ip_Equal ip targetIP then Some name
      else determine_loop interfaces ifaceOrIP targetIP)"

definition determineInterface ::
  "'p dhcp_lib \<Rightarrow> err + (string \<times> net_ip list) list \<Rightarrow> string \<Rightarrow> err + string" where
  "determineInterface lib interfaces ifaceOrIP =
     (case interfaces of
        Inl e \<Rightarrow> Inl (Wrapped ''failed to get network interfaces'' e)
      | Inr ifs \<Rightarrow>
          (case determine_loop ifs ifaceOrIP (parseIP lib ifaceOrIP) of
             None \<Rightarrow> Inl (Plain (''no interface found for: '' @ ifaceOrIP))
           | Some name \<Rightarrow> Inr name))"

section \<open>What the code relies on of the DHCP library\<close>

text \<open>
  A reply has the type its only message type modifier sets, and no boot file name unless a modifier sets one;
  updating an option sets that option and leaves the message type, the header field and the other options as they
  are; the encoded sub-options contain the value of each.
\<close>

fun sets_boot_file :: "dhcp_option \<Rightarrow> bool" where
  "sets_boot_file (OptBootFileName s) = True"
| "sets_boot_file (OptGeneric (OptionCode n) v) = True"
| "sets_boot_file _ = False"

definition dhcp_lib_ok :: "'p dhcp_lib \<Rightarrow> bool" where
  "dhcp_lib_ok lib \<longleftrightarrow>
     (\<forall>m t rest r. newReplyFromRequest lib m (WithMessageType t # rest) = Inr r \<longrightarrow>
        (\<forall>u. WithMessageType u \<notin> set rest) \<longrightarrow> messageType lib r = t) \<and>
     (\<forall>m mods r. newReplyFromRequest lib m mods = Inr r \<longrightarrow>
        (\<forall>opt. WithOption opt \<in> set mods \<longrightarrow> \<not> sets_boot_file opt) \<longrightarrow>
        (\<forall>c. WithOptionCopied (OptionCode c) \<notin> set mods) \<longrightarrow> bootFileNameOption lib r = []) \<and>
     (\<forall>p opt. (\<forall>c v. opt \<noteq> OptGeneric (OptionCode c) v) \<longrightarrow> messageType lib (updateOption lib p opt) = messageType lib p) \<and>
     (\<forall>p opt. \<not> sets_boot_file opt \<longrightarrow> bootFileNameOption lib (updateOption lib p opt) = bootFileNameOption lib p) \<and>
     (\<forall>p s. bootFileNameOption lib (updateOption lib p (OptBootFileName s)) = s) \<and>
     (\<forall>p s. messageType lib (setBootFileName lib p s) = messageType lib p \<and> bootFileName lib (setBootFileName lib p s) = s) \<and>
     (\<forall>p opt. bootFileName lib (updateOption lib p opt) = bootFileName lib p) \<and>
     (\<forall>p c v. getOption lib (updateOption lib p (OptGeneric c v)) c = Some v) \<and>
     (\<forall>opts k v. (k, v) \<in> set opts \<longrightarrow> distinct (map fst opts) \<longrightarrow> length v \<le> 255 \<longrightarrow> contains_sub (optionsToBytes lib opts) v)"

lemma lib_reply_type:
  assumes "dhcp_lib_ok lib" and "newReplyFromRequest lib m (offer_modifiers ip t) = Inr r"
  shows "messageType lib r = t" and "bootFileNameOption lib r = []"
proof -
  have "\<forall>u. WithMessageType u \<notin> set (tl (offer_modifiers ip t))" by (simp add: offer_modifiers_def)
  moreover have "offer_modifiers ip t = WithMessageType t # tl (offer_modifiers ip t)" by (simp add: offer_modifiers_def)
  ultimately show "messageType lib r = t" using assms unfolding dhcp_lib_ok_def by metis
  have "\<forall>opt. WithOption opt \<in> set (offer_modifiers ip t) \<longrightarrow> \<not> sets_boot_file opt"
    "\<forall>c. WithOptionCopied (OptionCode c) \<notin> set (offer_modifiers ip t)" by (auto simp: offer_modifiers_def)
  then show "bootFileNameOption lib r = []" using assms unfolding dhcp_lib_ok_def by blast
qed

lemma lib_update:
  assumes "dhcp_lib_ok lib"
  shows "messageType lib (updateOption lib p (OptClassIdentifier s)) = messageType lib p"
    and "messageType lib (updateOption lib p (OptTFTPServerName s)) = messageType lib p"
    and "messageType lib (updateOption lib p (OptBootFileName s)) = messageType lib p"
    and "messageType lib (updateOption lib p (OptGeneric VendorSpecificInformation v)) = messageType lib p"
    and "messageType lib (setBootFileName lib p s) = messageType lib p"
    and "bootFileNameOption lib (updateOption lib p (OptClassIdentifier s)) = bootFileNameOption lib p"
    and "bootFileNameOption lib (updateOption lib p (OptTFTPServerName s)) = bootFileNameOption lib p"
    and "bootFileNameOption lib (updateOption lib p (OptGeneric VendorSpecificInformation v)) = bootFileNameOption lib p"
    and "bootFileNameOption lib (updateOption lib p (OptBootFileName s)) = s"
    and "bootFileName lib (setBootFileName lib p s) = s"
    and "getOption lib (updateOption lib p (OptGeneric c v)) c = Some v"
proof -
  have u: "(\<forall>c v. opt \<noteq> OptGeneric (OptionCode c) v) \<Longrightarrow> messageType lib (updateOption lib p opt) = messageType lib p" for p opt
    using assms unfolding dhcp_lib_ok_def by blast
  have b: "\<not> sets_boot_file opt \<Longrightarrow> bootFileNameOption lib (updateOption lib p opt) = bootFileNameOption lib p" for p opt
    using assms unfolding dhcp_lib_ok_def by blast
  show "messageType lib (updateOption lib p (OptClassIdentifier s)) = messageType lib p"
    "messageType lib (updateOption lib p (OptTFTPServerName s)) = messageType lib p"
    "messageType lib (updateOption lib p (OptBootFileName s)) = messageType lib p"
    "messageType lib (updateOption lib p (OptGeneric VendorSpecificInformation v)) = messageType lib p" by (simp_all add: u)
  show "bootFileNameOption lib (updateOption lib p (OptClassIdentifier s)) = bootFileNameOption lib p"
    "bootFileNameOption lib (updateOption lib p (OptTFTPServerName s)) = bootFileNameOption lib p"
    "bootFileNameOption lib (updateOption lib p (OptGeneric VendorSpecificInformation v)) = bootFileNameOption lib p"
    by (simp_all add: b)
  show "messageType lib (setBootFileName lib p s) = messageType lib p"
    "bootFileNameOption lib (updateOption lib p (OptBootFileName s)) = s"
    "bootFileName lib (setBootFileName lib p s) = s"
    "getOption lib (updateOption lib p (OptGeneric c v)) c = Some v"
    using assms unfolding dhcp_lib_ok_def by (elim conjE, simp)+
qed

lemma lib_encoded:
  "dhcp_lib_ok lib \<Longrightarrow> (k, v) \<in> set opts \<Longrightarrow> distinct (map fst opts) \<Longrightarrow> length v \<le> 255 \<Longrightarrow> contains_sub (optionsToBytes lib opts) v"
  unfolding dhcp_lib_ok_def by (elim conjE) simp

lemma raspberryPiBootPXEOptions_Inr:
  assumes "dhcp_lib_ok lib" and "raspberryPiBootPXEOptions lib ip = Inr v"
  shows "ip_To4 ip \<noteq> None \<and> contains_sub v (bytes_of raspberryPiBootMenuDescription)"
proof -
  obtain ip4 where ip: "ip_To4 ip = Some ip4" using assms(2) by (auto simp: raspberryPiBootPXEOptions_def split: option.splits)
  define d where "d = bytes_of raspberryPiBootMenuDescription"
  define opts where "opts = [(pxeDiscoveryControl, [0x03]), (pxeBootServers, [0x00, 0x00, 0x01] @ ip4),
    (pxeBootMenu, [0x00, 0x00, word_of_nat (length d)] @ d), (pxeMenuPrompt, [0x00] @ d)]"
  have v: "v = optionsToBytes lib opts @ [pxeEnd]"
    using assms(2) ip by (simp add: raspberryPiBootPXEOptions_def Let_def opts_def d_def)
  have "length d = 17" by (simp add: d_def bytes_of_def raspberryPiBootMenuDescription_def)
  moreover have "distinct (map fst opts)"
    by (simp add: opts_def pxeDiscoveryControl_def pxeBootServers_def pxeBootMenu_def pxeMenuPrompt_def)
  moreover have "(pxeMenuPrompt, [0x00] @ d) \<in> set opts" by (simp add: opts_def)
  ultimately have "contains_sub (optionsToBytes lib opts) ([0x00] @ d)" by (intro lib_encoded [OF assms(1)]) auto
  moreover have "contains_sub ([0x00] @ d) d" unfolding contains_sub_iff by (metis append_Nil2)
  ultimately show ?thesis using ip v unfolding d_def
    by (auto intro: contains_sub_append [of _ _ "[]", simplified] contains_sub_trans)
qed

section \<open>What a client gets for a boot file name\<close>

text \<open>The loader built for the client's architecture, by its flat name.\<close>

fun loader_key :: "firmware \<Rightarrow> string" where
  "loader_key FirmwareX86PC = ''undionly.kpxe''"
| "loader_key FirmwareX86Ipxe = ''undionly.kpxe''"
| "loader_key FirmwareX86EFI = ''snp.efi''"
| "loader_key FirmwareX86HTTP = ''snp.efi''"
| "loader_key FirmwareARMEFI = ''snp-arm64.efi''"
| "loader_key FirmwareARMHTTP = ''snp-arm64.efi''"
| "loader_key FirmwareRPi = []"
| "loader_key FirmwareUnsupported = []"

text \<open>A URL is fetched from the service it names, any other name over TFTP.\<close>

definition fetched :: "string \<Rightarrow> file_map \<Rightarrow> string \<Rightarrow> byte list option" where
  "fetched assetsDir files name =
     (let after_host = (\<lambda>url. dropWhile (\<lambda>c. c \<noteq> CHR ''/'') url)
      in if has_prefix name ''tftp://'' then tftp_lookup files (after_host (drop 7 name))
         else if has_prefix name ''http://'' then http_get_file assetsDir files (after_host (drop 7 name))
         else tftp_lookup files name)"

lemma fetched_plain:
  "\<not> has_prefix name ''tftp://'' \<Longrightarrow> \<not> has_prefix name ''http://'' \<Longrightarrow> fetched assetsDir files name = tftp_lookup files name"
  by (simp add: fetched_def)

lemma after_host: "CHR ''/'' \<notin> set h \<Longrightarrow> dropWhile (\<lambda>c. c \<noteq> CHR ''/'') (h @ CHR ''/'' # r) = CHR ''/'' # r"
  by (induction h) auto

lemma fetched_tftp:
  assumes "CHR ''/'' \<notin> set h"
  shows "fetched assetsDir files (''tftp://'' @ h @ CHR ''/'' # r) = tftp_lookup files (CHR ''/'' # r)"
  using after_host [OF assms, of r] by (simp add: fetched_def has_prefix_code)

lemma fetched_http:
  assumes "CHR ''/'' \<notin> set h"
  shows "fetched assetsDir files (''http://'' @ h @ CHR ''/'' # r) = http_get_file assetsDir files (CHR ''/'' # r)"
  using after_host [OF assms, of r] by (simp add: fetched_def has_prefix_code)

lemma boot_name_pxe_answer:
  "dhcp_lib_ok lib \<Longrightarrow> bootFileNameOption lib (pxe_answer lib ip name r) = name"
  by (simp add: pxe_answer_def Let_def lib_update)

definition boot_name :: "'p dhcp_lib \<Rightarrow> net_ip \<Rightarrow> string \<Rightarrow> firmware \<Rightarrow> string" where
  "boot_name lib ip ipPort fw =
     (let host = ip_String (text6 lib) ip; urlHost = (if ip_To4 ip = None then ''['' @ host @ '']'' else host)
      in case fw of
           FirmwareX86Ipxe \<Rightarrow> ''tftp://'' @ urlHost @ ''/undionly.kpxe''
         | FirmwareX86HTTP \<Rightarrow> ''http://'' @ ipPort @ ''/tftp/amd64/snp.efi''
         | FirmwareARMHTTP \<Rightarrow> ''http://'' @ ipPort @ ''/tftp/arm64/snp.efi''
         | _ \<Rightarrow> loader_key fw)"

lemma answer_Inr:
  assumes "dhcp_lib_ok lib" and "answer lib ip ipPort fw r = Inr resp" and "bootFileNameOption lib r = []"
  shows "messageType lib resp = messageType lib r \<and> fw \<noteq> FirmwareUnsupported \<and>
    bootFileNameOption lib resp = boot_name lib ip ipPort fw \<and>
    (fw = FirmwareRPi \<longrightarrow> ip_To4 ip \<noteq> None \<and>
       (\<exists>v. getOption lib resp VendorSpecificInformation = Some v \<and> contains_sub v (bytes_of raspberryPiBootMenuDescription)))"
proof (cases fw)
  case FirmwareRPi
  with assms(2) obtain v where v: "raspberryPiBootPXEOptions lib ip = Inr v"
    and r: "resp = updateOption lib (updateOption lib r (OptTFTPServerName (ip_String (text6 lib) ip))) (OptGeneric VendorSpecificInformation v)"
    by (auto simp: answer_def split: sum.splits)
  from raspberryPiBootPXEOptions_Inr [OF assms(1) v] r FirmwareRPi assms(3) show ?thesis
    by (simp add: lib_update [OF assms(1)] boot_name_def)
qed (use assms in \<open>auto simp: answer_def lib_update boot_name_def boot_name_pxe_answer pxe_answer_def Let_def\<close>)

lemma OfferDHCP_Inr:
  assumes "dhcp_lib_ok lib" and "OfferDHCP lib m addr apiPort fw port = Inr resp"
  shows "messageType lib resp = (if port = Port4011 then Ack else Offer) \<and> fw \<noteq> FirmwareUnsupported \<and>
    bootFileNameOption lib resp =
      boot_name lib (parseIP lib addr) (join_host_port (ip_String (text6 lib) (parseIP lib addr)) (itoa apiPort)) fw \<and>
    (fw = FirmwareRPi \<longrightarrow> ip_To4 (parseIP lib addr) \<noteq> None \<and>
       (\<exists>v. getOption lib resp VendorSpecificInformation = Some v \<and> contains_sub v (bytes_of raspberryPiBootMenuDescription)))"
proof -
  obtain r where r: "newReplyFromRequest lib m (offer_modifiers (parseIP lib addr) (if port = Port4011 then Ack else Offer)) = Inr r"
    and a: "answer lib (parseIP lib addr) (join_host_port (ip_String (text6 lib) (parseIP lib addr)) (itoa apiPort)) fw
      (if getOption lib r ClassIdentifier = None then updateOption lib r (OptClassIdentifier ''PXEClient'') else r) = Inr resp"
    using assms(2) by (auto simp: OfferDHCP_def Let_def split: sum.splits)
  note lib_reply_type [OF assms(1) r]
  with answer_Inr [OF assms(1) a] show ?thesis by (auto simp: lib_update [OF assms(1)] split: if_splits)
qed

lemma handlePacket_Sent:
  assumes "handlePacket lib options port m warned = (warned', es)" and "Sent resp \<in> set es"
  obtains fw where "isBootDHCP lib m port = None" "validateDHCP lib m = Inr fw"
    "fw = FirmwareRPi \<longrightarrow> ServeRaspberryPi options"
    "OfferDHCP lib m (APIAdvertiseAddress options) (APIPort options) fw port = Inr resp"
    "es = [Sent resp]" "warned' = warned"
  using assms by (auto simp: handlePacket_def warnNoRPiFirmware_def split: if_splits sum.splits)

lemma nat_digits_no_slash: "CHR ''/'' \<notin> set (nat_digits n)"
proof (induction n rule: nat_digits.induct)
  case (1 n)
  have d: "CHR ''/'' \<noteq> char_of (48 + k)" if "k < 10" for k :: nat
  proof
    assume "CHR ''/'' = char_of (48 + k)"
    then have "of_char CHR ''/'' = (of_char (char_of (48 + k) :: char) :: nat)" by (simp only:)
    with that show False by simp
  qed
  show ?case
  proof (cases "n < 10")
    case True
    with d [OF True] show ?thesis by (simp only: nat_digits.simps [of n] if_True) simp
  next
    case False
    have "n mod 10 < 10" by simp
    from d [OF this] 1 [OF False] False show ?thesis
      by (simp only: nat_digits.simps [of n] if_False set_append Un_iff) simp
  qed
qed

lemma host_no_slash:
  assumes "\<And>ip. CHR ''/'' \<notin> set (text6 lib ip)"
  shows "CHR ''/'' \<notin> set (ip_String (text6 lib) ip)"
proof -
  have "CHR ''/'' \<notin> set (join ''.'' (map (\<lambda>b. nat_digits (unat (b :: byte))) bs))" for bs
  proof (induction bs)
    case (Cons b bs)
    then show ?case by (cases bs) (auto simp: nat_digits_no_slash)
  qed simp
  then show ?thesis using assms by (simp add: ip_String_def ip_dotted_def split: option.splits)
qed

lemma authority_no_slash:
  "CHR ''/'' \<notin> set h \<Longrightarrow> CHR ''/'' \<notin> set (join_host_port h (itoa n))"
  by (auto simp: join_host_port_def itoa_def nat_digits_no_slash)

lemma proxy_warnings:
  "handlePackets lib options ms warned = (warned', es) \<Longrightarrow>
     distinct [h. Warned h \<leftarrow> es] \<and> set [h. Warned h \<leftarrow> es] \<inter> warned = {} \<and> warned' = warned \<union> set [h. Warned h \<leftarrow> es] \<and>
     (ServeRaspberryPi options \<longrightarrow> [h. Warned h \<leftarrow> es] = [])"
proof (induction ms arbitrary: warned es)
  case Nil
  then show ?case by auto
next
  case (Cons pm ms)
  obtain port m where pm: "pm = (port, m)" by (cases pm)
  obtain w1 es1 where h: "handlePacket lib options port m warned = (w1, es1)" by fastforce
  obtain es2 where r: "handlePackets lib options ms w1 = (warned', es2)" and es: "es = es1 @ es2"
    using Cons.prems h pm by (auto split: prod.splits)
  have one: "w1 = warned \<union> set [x. Warned x \<leftarrow> es1] \<and> distinct [x. Warned x \<leftarrow> es1] \<and> set [x. Warned x \<leftarrow> es1] \<inter> warned = {} \<and>
    (ServeRaspberryPi options \<longrightarrow> [x. Warned x \<leftarrow> es1] = [])"
    using h by (auto simp: handlePacket_def warnNoRPiFirmware_def split: if_splits sum.splits)
  from Cons.IH [OF r] one show ?case unfolding es by auto
qed

section \<open>A sample library and packets\<close>

record sample_packet =
  sp_type :: dhcp_message_type
  sp_options :: "option_code \<Rightarrow> byte list option"
  sp_boot :: string
  sp_file :: string
  sp_arch :: "arch list"
  sp_class :: "string list"
  sp_hw :: "byte list"

definition sample_reply :: "sample_packet \<Rightarrow> modifier list \<Rightarrow> sample_packet" where
  "sample_reply m mods =
     \<lparr>sp_type = (case mods of WithMessageType t # rest \<Rightarrow> t | _ \<Rightarrow> Offer),
      sp_options = (\<lambda>c. if WithOptionCopied c \<in> set mods then sp_options m c else None),
      sp_boot = [], sp_file = [], sp_arch = [], sp_class = [], sp_hw = sp_hw m\<rparr>"

fun sample_update :: "sample_packet \<Rightarrow> dhcp_option \<Rightarrow> sample_packet" where
  "sample_update p (OptBootFileName s) = p\<lparr>sp_boot := s\<rparr>"
| "sample_update p (OptGeneric c v) = p\<lparr>sp_options := (sp_options p)(c \<mapsto> v)\<rparr>"
| "sample_update p (OptClassIdentifier s) = p\<lparr>sp_options := (sp_options p)(ClassIdentifier \<mapsto> bytes_of s)\<rparr>"
| "sample_update p (OptTFTPServerName s) = p"
| "sample_update p (OptServerIdentifier ip) = p"

definition sample_lib :: "sample_packet dhcp_lib" where
  "sample_lib =
     \<lparr>messageType = sp_type, getOption = sp_options, clientArch = sp_arch, userClass = sp_class, clientHWAddr = sp_hw,
      newReplyFromRequest = (\<lambda>m mods. Inr (sample_reply m mods)), updateOption = sample_update,
      setBootFileName = (\<lambda>p s. p\<lparr>sp_file := s\<rparr>), bootFileName = sp_file, bootFileNameOption = sp_boot,
      optionsToBytes = (\<lambda>opts. concat (map (\<lambda>(k, v). word_of_nat k # word_of_nat (length v) # v) opts)),
      parseIP = (\<lambda>s. ip_IPv4 10 0 0 1), text6 = (\<lambda>ip. '':'')\<rparr>"

lemma sample_lib_ok: "dhcp_lib_ok sample_lib"
proof -
  have "contains_sub (concat (map (\<lambda>(k, v). (word_of_nat k :: byte) # word_of_nat (length v) # v) opts)) v"
    if kv: "(k, v) \<in> set opts" for opts k v
  proof -
    obtain as bs where "opts = as @ (k, v) # bs" using kv by (meson split_list)
    then show ?thesis unfolding contains_sub_iff
      by (intro exI [of _ "concat (map (\<lambda>(k, v). word_of_nat k # word_of_nat (length v) # v) as) @ [word_of_nat k, word_of_nat (length v)]"]
          exI [of _ "concat (map (\<lambda>(k, v). word_of_nat k # word_of_nat (length v) # v) bs)"]) simp
  qed
  moreover have "sp_type (sample_update p x) = sp_type p" "sp_file (sample_update p x) = sp_file p" for p x by (cases x; simp)+
  moreover have "\<not> sets_boot_file x \<Longrightarrow> sp_boot (sample_update p x) = sp_boot p" for p x by (cases x) auto
  ultimately show ?thesis by (auto simp: dhcp_lib_ok_def sample_lib_def sample_reply_def)
qed

definition sample_options :: proxy_options where
  "sample_options = \<lparr>APIAdvertiseAddress = ''10.0.0.1'', ProxyIfaceOrIP = ''eth0'', APIPort = 50042,
     DisableBroadcastListener = False, ServeRaspberryPi = True\<rparr>"

definition sample_request :: "arch \<Rightarrow> byte list \<Rightarrow> sample_packet" where
  "sample_request a hw =
     \<lparr>sp_type = Discover, sp_options = (\<lambda>c. if c = OptionCode 93 then Some [0, 0] else None),
      sp_boot = [], sp_file = [], sp_arch = [a], sp_class = [], sp_hw = hw\<rparr>"

definition sample_pi :: sample_packet where
  "sample_pi = sample_request INTEL_X86PC [0xdc, 0xa6, 0x32, 1, 2, 3]"

lemma sample_pi_firmware: "validateDHCP sample_lib sample_pi = Inr FirmwareRPi"
  by (simp add: validateDHCP_def sample_lib_def sample_pi_def sample_request_def isRaspberryPi_def raspberryPiOUIs_def validateGUID_def)

lemma sample_arm_firmware: "validateDHCP sample_lib (sample_request EFI_ARM64_HTTP [1, 2, 3, 4, 5, 6]) = Inr FirmwareARMHTTP"
  by (simp add: validateDHCP_def sample_lib_def sample_request_def validateGUID_def)

lemma sample_answered:
  assumes "validateDHCP sample_lib m = Inr fw" and "fw \<in> {FirmwareRPi, FirmwareARMHTTP}" and "m = sample_request a hw"
  shows "\<exists>resp. handlePacket sample_lib sample_options Port67 m {} = ({}, [Sent resp])"
proof -
  have "isBootDHCP sample_lib m Port67 = None"
    by (simp add: assms(3) isBootDHCP_def sample_lib_def sample_request_def Port67_def Port4011_def)
  moreover have "\<exists>resp. OfferDHCP sample_lib m (APIAdvertiseAddress sample_options) (APIPort sample_options) fw Port67 = Inr resp"
    using assms(2)
    by (auto simp: OfferDHCP_def Let_def answer_def sample_lib_def raspberryPiBootPXEOptions_def ip_To4_def ip_IPv4_def v4InV6Prefix_def)
  ultimately show ?thesis using assms(1) by (auto simp: handlePacket_def sample_options_def)
qed

section \<open>Properties\<close>

text \<open>
  The firmware the proxy serves is decided by the last architecture it knows among the announced ones: it is a
  Raspberry Pi exactly for a legacy BIOS client with a Raspberry Pi MAC address, whatever its user class, and
  chainloading iPXE exactly for any other legacy BIOS client whose first user class is iPXE. A packet is refused
  exactly when no announced architecture is known or its GUID is malformed.
\<close>

theorem validateDHCP_exact:
  "validateDHCP lib m =
    (let known = map the (filter (\<lambda>f. f \<noteq> None) (map arch_firmware (clientArch lib m)));
         guid = (case getOption lib m ClientMachineIdentifier of None \<Rightarrow> [] | Some g \<Rightarrow> g)
     in if known = [] then Inl (Plain ''unsupported client arch'')
        else if length guid \<notin> {0, 17} then Inl (Plain ''malformed client GUID (option 97), wrong size'')
        else if length guid = 17 \<and> hd guid \<noteq> 0 then Inl (Plain ''malformed client GUID (option 97), leading byte must be zero'')
        else Inr (if last known = FirmwareX86PC
                  then (if take 3 (clientHWAddr lib m) \<in> set raspberryPiOUIs then FirmwareRPi
                        else if take 1 (userClass lib m) = [''iPXE''] then FirmwareX86Ipxe
                        else FirmwareX86PC)
                  else last known))"
proof -
  define known where "known as = map the (filter (\<lambda>f. f \<noteq> None) (map arch_firmware as))" for as
  have c: "classify as f = (if known as = [] then f else last (known as))" for as f
    by (induction as arbitrary: f) (auto simp: known_def split: option.splits)
  have u: "arch_firmware a \<noteq> Some FirmwareUnsupported" for a by (cases a) auto
  have "f \<noteq> FirmwareUnsupported" if "f \<in> set (known as)" for f as using that u by (auto simp: known_def)
  then have n: "known as \<noteq> [] \<Longrightarrow> last (known as) \<noteq> FirmwareUnsupported" for as by (metis last_in_set)
  have o3: "\<forall>x \<in> set raspberryPiOUIs. length x = 3" by (simp add: raspberryPiOUIs_def)
  have r: "isRaspberryPi hw = (take 3 hw \<in> set raspberryPiOUIs)" for hw
    using o3 by (auto simp: isRaspberryPi_def)
  have h: "length g = 17 \<Longrightarrow> g ! 0 = hd g" for g :: "byte list" by (cases g) auto
  have t: "(case us of [] \<Rightarrow> fw | x # xs \<Rightarrow> if x = ''iPXE'' \<and> fw = FirmwareX86PC then FirmwareX86Ipxe else fw) =
    (if take 1 us = [''iPXE''] \<and> fw = FirmwareX86PC then FirmwareX86Ipxe else fw)" for us and fw :: firmware
    by (cases us) auto
  show ?thesis
    unfolding validateDHCP_def Let_def c known_def [symmetric] r t validateGUID_def
    using n [of "clientArch lib m"] h by (auto split: option.splits)
qed



text \<open>
  Whatever boot file the proxy names in an answer, the client gets it: fetched over the service the name
  belongs to, the request is answered with the iPXE binary built for the client's firmware.
\<close>

theorem offered_file_served:
  assumes "dhcp_lib_ok lib" and "\<And>ip. CHR ''/'' \<notin> set (text6 lib ip)"
    and "patchBinaries io script ca = Inr ipxe" and "bootFiles order load path ipxe = Inr files"
    and "handlePacket lib options port m warned = (warned', es)" and "Sent resp \<in> set es"
    and "validateDHCP lib m = Inr fw" and "fw \<noteq> FirmwareRPi"
  shows "ipxe (loader_key fw) \<noteq> None \<and> fetched assetsDir files (bootFileNameOption lib resp) = ipxe (loader_key fw)"
proof -
  from assms(5,6) obtain fw' where v: "validateDHCP lib m = Inr fw'"
    and r: "OfferDHCP lib m (APIAdvertiseAddress options) (APIPort options) fw' port = Inr resp"
    by (rule handlePacket_Sent)
  from v assms(7) have "fw' = fw" by simp
  define ip where "ip = parseIP lib (APIAdvertiseAddress options)"
  define host where "host = ip_String (text6 lib) ip"
  define hp where "hp = join_host_port host (itoa (APIPort options))"
  define urlHost where "urlHost = (if ip_To4 ip = None then ''['' @ host @ '']'' else host)"
  have h: "CHR ''/'' \<notin> set host" using host_no_slash [OF assms(2)] by (simp add: host_def)
  have hp': "CHR ''/'' \<notin> set hp" using authority_no_slash [OF h] by (simp add: hp_def)
  have uh: "CHR ''/'' \<notin> set urlHost" using h by (simp add: urlHost_def)
  have n: "bootFileNameOption lib resp = boot_name lib ip hp fw" and ok: "fw \<noteq> FirmwareUnsupported"
    using OfferDHCP_Inr [OF assms(1) r] by (simp_all add: ip_def host_def hp_def \<open>fw' = fw\<close>)
  note names = patchBinaries_files [OF assms(3)]
  have dom: "k \<in> dom ipxe \<and> plain_key k" if "k \<in> {''undionly.kpxe'', ''snp.efi'', ''snp-arm64.efi'', ''amd64/snp.efi'', ''arm64/snp.efi''}" for k
  proof -
    have k: "k \<in> {''ipxe.efi'', ''snp.efi'', ''ipxe-arm64.efi'', ''snp-arm64.efi'',
      ''amd64/ipxe.efi'', ''amd64/snp.efi'', ''arm64/ipxe.efi'', ''arm64/snp.efi'', ''undionly.kpxe'', ''undionly.kpxe.0''}"
      using that by auto
    then show ?thesis using names [THEN conjunct1] ipxe_names_plain [OF k] by simp
  qed
  have ext: "ipxe \<subseteq>\<^sub>m files" by (rule bootFiles_extends [OF assms(4)])
  have tftp: "tftp_lookup files k = ipxe k" "tftp_lookup files (CHR ''/'' # k) = ipxe k"
    if "k \<in> {''undionly.kpxe'', ''snp.efi'', ''snp-arm64.efi'', ''amd64/snp.efi'', ''arm64/snp.efi''}" for k
    using dom [OF that] tftp.serves_extension [OF ext, of k] tftp_rooted.serves_extension [OF ext, of k]
    by (auto simp: plain_key_def)
  have http: "http_get_file assetsDir files (''/tftp/'' @ k) = ipxe k"
    if "k \<in> {''undionly.kpxe'', ''snp.efi'', ''snp-arm64.efi'', ''amd64/snp.efi'', ''arm64/snp.efi''}" for k
    using dom [OF that] http.serves_extension [OF ext, of k _ assetsDir] by (auto simp: plain_key_def)
  have "ipxe (loader_key fw) \<noteq> None" using dom ok assms(8) by (cases fw) auto
  moreover have "fetched assetsDir files (boot_name lib ip hp fw) = ipxe (loader_key fw)"
  proof (cases fw)
    case FirmwareX86Ipxe
    then have "boot_name lib ip hp fw = ''tftp://'' @ urlHost @ CHR ''/'' # ''undionly.kpxe''"
      by (simp add: boot_name_def host_def urlHost_def Let_def)
    then have "fetched assetsDir files (boot_name lib ip hp fw) = tftp_lookup files (CHR ''/'' # ''undionly.kpxe'')"
      by (simp only: fetched_tftp [OF uh])
    with tftp(2) [of "''undionly.kpxe''"] FirmwareX86Ipxe show ?thesis by simp
  next
    case FirmwareX86HTTP
    with http [of "''amd64/snp.efi''"] names [THEN conjunct2, THEN conjunct1] show ?thesis
      using fetched_http [OF hp', of assetsDir files "''tftp/amd64/snp.efi''"] by (simp add: boot_name_def)
  next
    case FirmwareARMHTTP
    with http [of "''arm64/snp.efi''"] names [THEN conjunct2, THEN conjunct2, THEN conjunct1] show ?thesis
      using fetched_http [OF hp', of assetsDir files "''tftp/arm64/snp.efi''"] by (simp add: boot_name_def)
  qed (use tftp(1) [of "loader_key fw"] ok assms(8) in \<open>simp_all add: boot_name_def fetched_plain has_prefix_code\<close>)
  ultimately show ?thesis using n by simp
qed

theorem offered_file_served_witness:
  "\<exists>files resp. Sent resp \<in> set (snd (handlePacket sample_lib sample_options Port67 (sample_request EFI_ARM64_HTTP [1, 2, 3, 4, 5, 6]) {})) \<and>
     fetched [] files (bootFileNameOption sample_lib resp) \<noteq> None"
proof -
  obtain ipxe where p: "patchBinaries sample_io (bytes_of ''#!ipxe'') [] = Inr ipxe"
    using sample_io_patched by (cases "patchBinaries sample_io (bytes_of ''#!ipxe'') []") auto
  have b: "bootFiles sample_order (\<lambda>d. Inl CtxCanceled) [] ipxe = Inr ipxe" by (simp add: bootFiles_def)
  obtain resp where h: "handlePacket sample_lib sample_options Port67 (sample_request EFI_ARM64_HTTP [1, 2, 3, 4, 5, 6]) {} = ({}, [Sent resp])"
    using sample_answered [OF sample_arm_firmware _ refl] by auto
  have "CHR ''/'' \<notin> set (text6 sample_lib ip)" for ip by (simp add: sample_lib_def)
  from offered_file_served [OF sample_lib_ok this p b h _ sample_arm_firmware, of resp "[]"] h
  show ?thesis by (intro exI [of _ ipxe] exI [of _ resp]) auto
qed

text \<open>
  Over any sequence of packets a board that cannot be served is warned about at most once, however often it
  asks, and a board is only warned about while its boot files are not served.
\<close>

theorem proxy_warns_once:
  "let (warned, es) = handlePackets lib options ms {}
   in distinct [h. Warned h \<leftarrow> es] \<and> \<not> (ServeRaspberryPi options \<and> [h. Warned h \<leftarrow> es] \<noteq> [])"
  using proxy_warnings [of lib options ms "{}"] by (auto split: prod.splits)

end
