(* ===== verification/MachineConfig.thy ===== *)
theory MachineConfig
  imports Tls
begin

text \<open>
  \<open>internal/provider/machineconfig/machineconfig.go\<close> and \<open>internal/provider/config/config.go\<close>: the machine
  configuration every machine that boots over the network is given. A configuration document is a type parameter; the
  Talos configuration library (loading, kinds, the two document types the code looks into, validation, encoding) and the
  join options of SideroLink are the record \<open>config_lib\<close>. The accumulated error of \<open>go-multierror\<close> is kept as the list of
  its texts.
\<close>

record connection_params =
  JoinToken :: string
  ApiEndpoint :: string
  EventsPort :: "32 word"
  LogsPort :: "32 word"

record join_options =
  jo_JoinToken :: string
  jo_MachineAPIURL :: string
  jo_EventSinkPort :: int
  jo_LogServerPort :: int
  jo_Provider :: string

record 'd config_lib =
  cl_Kind :: "'d \<Rightarrow> string"
  cl_AsKmsgLog :: "'d \<Rightarrow> string option"
  cl_AsTrustedRoots :: "'d \<Rightarrow> string option"
  cl_NewTrustedRoots :: "string \<Rightarrow> string \<Rightarrow> 'd"
  cl_NewFromFile :: "string \<Rightarrow> err + 'd list"
  cl_NewFromReader :: "string \<Rightarrow> err + 'd list"
  cl_container_New :: "'d list \<Rightarrow> err option"
  cl_EncodeBytes :: "'d list \<Rightarrow> err + byte list"
  cl_NewJoinOptions :: "join_options \<Rightarrow> err option"
  cl_RenderJoinConfig :: "join_options \<Rightarrow> 'd list \<Rightarrow> err + byte list"
  Kind_v1alpha1 :: string
  Kind_siderolink :: string
  Kind_EventSink :: string
  Kind_KmsgLog :: string
  Kind_TrustedRoots :: string

text \<open>What the code reads of Omni's state: a resource definition, the connection parameters, the provider's join config.\<close>

record config_reader =
  cr_ResourceDefinition :: "string \<Rightarrow> err + unit"
  cr_ConnectionParams :: "err + connection_params"
  cr_ProviderJoinConfig :: "string \<Rightarrow> err + string option"

definition kmsgLogName :: string where "kmsgLogName = ''siderolink-agent-kmsg-log''"
definition infraProviderCAName :: string where "infraProviderCAName = ''infra-provider-ca''"

text \<open>The loop over the documents of the extra machine config: the errors it accumulates, in order.\<close>

fun document_errors :: "'d config_lib \<Rightarrow> 'd list \<Rightarrow> string list" where
  "document_errors lib [] = []"
| "document_errors lib (document # documents) =
     (if cl_Kind lib document \<in> {Kind_v1alpha1 lib, Kind_siderolink lib, Kind_EventSink lib}
      then (''extra machine config must not contain '' @ cl_Kind lib document @ '' documents'') # document_errors lib documents
      else if cl_Kind lib document = Kind_KmsgLog lib
      then (case cl_AsKmsgLog lib document of
              None \<Rightarrow> (''expected '' @ Kind_KmsgLog lib @ '' document'') # document_errors lib documents
            | Some metaName \<Rightarrow>
                if metaName = kmsgLogName
                then (''extra machine config must not contain '' @ Kind_KmsgLog lib @ '' document with name '' @ kmsgLogName) # document_errors lib documents
                else document_errors lib documents)
      else if cl_Kind lib document = Kind_TrustedRoots lib
      then (case cl_AsTrustedRoots lib document of
              None \<Rightarrow> (''expected '' @ Kind_TrustedRoots lib @ '' document'') # document_errors lib documents
            | Some metaName \<Rightarrow>
                if metaName = infraProviderCAName
                then (''extra machine config must not contain '' @ Kind_TrustedRoots lib @ '' document with name '' @ infraProviderCAName) # document_errors lib documents
                else document_errors lib documents)
      else document_errors lib documents)"

definition parseAdditionalDocuments :: "'d config_lib \<Rightarrow> string \<Rightarrow> err + 'd list" where
  "parseAdditionalDocuments lib extraMachineConfigPath =
     (case cl_NewFromFile lib extraMachineConfigPath of
        Inl e \<Rightarrow> Inl (Wrapped ''failed to load extra machine config'' e)
      | Inr documents \<Rightarrow>
          (let errs = document_errors lib documents
           in if errs \<noteq> [] then Inl (Wrapped ''invalid extra machine config'' (Plain (join ''; '' errs))) else Inr documents))"

text \<open>A provider join config without a config is a nil pointer, which the code would dereference.\<close>

definition buildV2MachineConfig :: "'d config_lib \<Rightarrow> config_reader \<Rightarrow> string \<Rightarrow> 'd list \<Rightarrow> err + byte list" where
  "buildV2MachineConfig lib r providerID extraDocs =
     (case cr_ProviderJoinConfig r providerID of
        Inl e \<Rightarrow> Inl e
      | Inr None \<Rightarrow> Inl (Plain ''nil pointer dereference'')
      | Inr (Some config) \<Rightarrow>
     (case cl_NewFromReader lib config of
        Inl e \<Rightarrow> Inl (Wrapped ''failed to load provider join config'' e)
      | Inr parsed \<Rightarrow>
          (let docs = parsed @ extraDocs
           in case cl_container_New lib docs of
                Some e \<Rightarrow> Inl (Wrapped ''failed to create config container'' e)
              | None \<Rightarrow> cl_EncodeBytes lib docs)))"

text \<open>The documents the provider adds.\<close>

definition extra_documents :: "'d config_lib \<Rightarrow> certs option \<Rightarrow> string \<Rightarrow> err + 'd list" where
  "extra_documents lib certs extraMachineConfigPath =
     (let caDocs = (case certs of
                      None \<Rightarrow> []
                    | Some c \<Rightarrow> if CACertPEM c \<noteq> [] then [cl_NewTrustedRoots lib infraProviderCAName (CACertPEM c)] else [])
      in if extraMachineConfigPath = [] then Inr caDocs
         else (case parseAdditionalDocuments lib extraMachineConfigPath of
                 Inl e \<Rightarrow> Inl (Wrapped ''failed to load extra machine config'' e)
               | Inr additionalDocs \<Rightarrow> Inr (caDocs @ additionalDocs)))"

definition machineconfig_Build ::
  "'d config_lib \<Rightarrow> config_reader \<Rightarrow> string \<Rightarrow> string \<Rightarrow> certs option \<Rightarrow> string \<Rightarrow> err + byte list" where
  "machineconfig_Build lib r providerJoinConfigType providerID certs extraMachineConfigPath =
     (case extra_documents lib certs extraMachineConfigPath of
        Inl e \<Rightarrow> Inl e
      | Inr extraDocs \<Rightarrow>
     (case get_or_nil (cr_ResourceDefinition r (to_lower providerJoinConfigType)) of
        Inl e \<Rightarrow> Inl e
      | Inr (Some _) \<Rightarrow> buildV2MachineConfig lib r providerID extraDocs
      | Inr None \<Rightarrow>
     (case cr_ConnectionParams r of
        Inl e \<Rightarrow> Inl (Wrapped ''failed to get connection params'' e)
      | Inr connectionParams \<Rightarrow>
          (let opts = \<lparr>jo_JoinToken = JoinToken connectionParams, jo_MachineAPIURL = ApiEndpoint connectionParams,
                      jo_EventSinkPort = uint (EventsPort connectionParams), jo_LogServerPort = uint (LogsPort connectionParams),
                      jo_Provider = providerID\<rparr>
           in case cl_NewJoinOptions lib opts of
                Some e \<Rightarrow> Inl e
              | None \<Rightarrow> cl_RenderJoinConfig lib opts extraDocs))))"

section \<open>The configuration handler\<close>

text \<open>Every machine gets the same configuration, whatever it asks; a failing write only makes a log line.\<close>

definition config_ServeHTTP :: "byte list \<Rightarrow> string \<Rightarrow> int \<times> byte list" where
  "config_ServeHTTP machineConfig uuid = (200, machineConfig)"

section \<open>What is accepted and what is added\<close>

text \<open>A document that would take the place of one Omni or the provider writes, or that the library holds in another type.\<close>

definition clashes :: "'d config_lib \<Rightarrow> 'd \<Rightarrow> bool" where
  "clashes lib d \<longleftrightarrow>
     cl_Kind lib d = Kind_v1alpha1 lib \<or> cl_Kind lib d = Kind_siderolink lib \<or> cl_Kind lib d = Kind_EventSink lib \<or>
     (cl_Kind lib d = Kind_KmsgLog lib \<and> cl_AsKmsgLog lib d \<in> {None, Some kmsgLogName}) \<or>
     (cl_Kind lib d = Kind_TrustedRoots lib \<and> cl_Kind lib d \<noteq> Kind_KmsgLog lib \<and>
      cl_AsTrustedRoots lib d \<in> {None, Some infraProviderCAName})"

lemma document_errors_iff: "document_errors lib ds = [] \<longleftrightarrow> (\<forall>d \<in> set ds. \<not> clashes lib d)"
  by (induction ds) (auto simp: clashes_def split: option.splits)

lemma document_errors_length: "length (document_errors lib ds) = length (filter (clashes lib) ds)"
  by (induction ds) (auto simp: clashes_def split: option.splits)

lemma parseAdditionalDocuments_Inr:
  "parseAdditionalDocuments lib path = Inr ds \<longleftrightarrow> cl_NewFromFile lib path = Inr ds \<and> (\<forall>d \<in> set ds. \<not> clashes lib d)"
  by (auto simp: parseAdditionalDocuments_def Let_def document_errors_iff split: sum.splits if_splits)

definition ca_documents :: "'d config_lib \<Rightarrow> certs option \<Rightarrow> 'd list" where
  "ca_documents lib certs =
     (case certs of Some c \<Rightarrow> if CACertPEM c = [] then [] else [cl_NewTrustedRoots lib infraProviderCAName (CACertPEM c)] | None \<Rightarrow> [])"

lemma extra_documents_Inr:
  "extra_documents lib certs path = Inr docs \<longleftrightarrow>
     (\<exists>extra. docs = ca_documents lib certs @ extra \<and>
        (if path = [] then extra = [] else cl_NewFromFile lib path = Inr extra \<and> (\<forall>d \<in> set extra. \<not> clashes lib d)))"
  by (auto simp: extra_documents_def ca_documents_def Let_def parseAdditionalDocuments_Inr[symmetric] split: sum.splits option.splits)

text \<open>What is encoded: Omni's documents, then the provider's certificate authority, then the operator's documents.\<close>

lemma machineconfig_Build_Inr:
  assumes "machineconfig_Build lib r t i certs path = Inr out"
  shows "\<exists>extra. (if path = [] then extra = [] else cl_NewFromFile lib path = Inr extra \<and> (\<forall>d \<in> set extra. \<not> clashes lib d)) \<and>
     ((\<exists>config docs. cr_ProviderJoinConfig r i = Inr (Some config) \<and> cl_NewFromReader lib config = Inr docs \<and>
         cl_EncodeBytes lib (docs @ ca_documents lib certs @ extra) = Inr out) \<or>
      (\<exists>p. cr_ConnectionParams r = Inr p \<and>
         cl_RenderJoinConfig lib \<lparr>jo_JoinToken = JoinToken p, jo_MachineAPIURL = ApiEndpoint p, jo_EventSinkPort = uint (EventsPort p),
                              jo_LogServerPort = uint (LogsPort p), jo_Provider = i\<rparr> (ca_documents lib certs @ extra) = Inr out))"
proof -
  obtain docs where d: "extra_documents lib certs path = Inr docs"
    using assms by (auto simp: machineconfig_Build_def split: sum.splits)
  then obtain extra where e: "docs = ca_documents lib certs @ extra"
    "if path = [] then extra = [] else cl_NewFromFile lib path = Inr extra \<and> (\<forall>d \<in> set extra. \<not> clashes lib d)"
    unfolding extra_documents_Inr by blast
  have "(\<exists>config ds. cr_ProviderJoinConfig r i = Inr (Some config) \<and> cl_NewFromReader lib config = Inr ds \<and>
         cl_EncodeBytes lib (ds @ docs) = Inr out) \<or>
      (\<exists>p. cr_ConnectionParams r = Inr p \<and>
         cl_RenderJoinConfig lib \<lparr>jo_JoinToken = JoinToken p, jo_MachineAPIURL = ApiEndpoint p, jo_EventSinkPort = uint (EventsPort p),
                              jo_LogServerPort = uint (LogsPort p), jo_Provider = i\<rparr> docs = Inr out)"
    using assms d
    by (auto simp: machineconfig_Build_def buildV2MachineConfig_def Let_def split: sum.splits option.splits)
  then show ?thesis using e by blast
qed


end
