(* ===== verification/RunGroup.thy ===== *)
theory RunGroup
  imports Prelude "HOL-Library.Multiset"
begin

text \<open>
  How the provider's long-running parts live and die together: \<open>Provider.runComponents\<close> in \<open>provider.go\<close> and
  \<open>Server.Run\<close>/\<open>shutdownOnCancel\<close> in \<open>server/server.go\<close>. A group holds the goroutines that still run, those that
  returned with their result in the order they did, and whether the context of the group and the one it was started under
  are done. When a goroutine may
  return, and which results end the context, differs between the two: they are the parameters of the step relation and of
  the locale \<open>stop_group\<close>. What \<open>errgroup.Wait\<close> returns is a parameter with its documented behaviour \<open>waits_for_first\<close>.
\<close>

record 'g group =
  gr_running :: "'g list"
  gr_returned :: "('g \<times> err option) list"
  gr_done :: bool
  gr_parent :: bool

definition start_group :: "'g list \<Rightarrow> 'g group" where
  "start_group gs = \<lparr>gr_running = gs, gr_returned = [], gr_done = False, gr_parent = False\<rparr>"

text \<open>A goroutine returns, or the context the group was started under is done (a signal, say).\<close>

inductive group_step :: "('g \<Rightarrow> bool \<Rightarrow> err option \<Rightarrow> bool) \<Rightarrow> (err option \<Rightarrow> bool) \<Rightarrow> 'g group \<Rightarrow> 'g group \<Rightarrow> bool"
  for may cancels where
  returns: "g \<in> set (gr_running s) \<Longrightarrow> may g (gr_done s) r \<Longrightarrow>
     group_step may cancels s (s\<lparr>gr_running := remove1 g (gr_running s), gr_returned := gr_returned s @ [(g, r)],
                               gr_done := gr_done s \<or> cancels r\<rparr>)"
| parent_done: "group_step may cancels s (s\<lparr>gr_done := True, gr_parent := True\<rparr>)"

abbreviation group_steps :: "('g \<Rightarrow> bool \<Rightarrow> err option \<Rightarrow> bool) \<Rightarrow> (err option \<Rightarrow> bool) \<Rightarrow> 'g group \<Rightarrow> 'g group \<Rightarrow> bool" where
  "group_steps may cancels \<equiv> (group_step may cancels)\<^sup>*\<^sup>*"

definition group_results :: "'g group \<Rightarrow> err option list" where
  "group_results s = map snd (gr_returned s)"

fun first_error :: "err option list \<Rightarrow> err option" where
  "first_error [] = None"
| "first_error (None # rs) = first_error rs"
| "first_error (Some e # rs) = Some e"

definition waits_for_first :: "(err option list \<Rightarrow> err option) \<Rightarrow> bool" where
  "waits_for_first wait \<longleftrightarrow> (\<forall>rs. wait rs = first_error rs)"

lemma first_error_None: "first_error rs = None \<longleftrightarrow> (\<forall>r \<in> set rs. r = None)"
  by (induction rs rule: first_error.induct) auto

lemma returned_may:
  "group_steps may cancels (start_group gs) s \<Longrightarrow> \<forall>x \<in> set (gr_returned s). \<exists>d. may (fst x) d (snd x)"
proof (induction rule: rtranclp_induct)
  case (step s s')
  from step(2) step(3) show ?case by (cases rule: group_step.cases) auto
qed (simp add: start_group_def)

section \<open>The components of the provider\<close>

text \<open>Any component may return at any time; the deferred \<open>cancel\<close> runs whatever it returns.\<close>

definition component_may :: "string \<Rightarrow> bool \<Rightarrow> err option \<Rightarrow> bool" where
  "component_may g isDone r = True"

definition component_cancels :: "err option \<Rightarrow> bool" where
  "component_cancels r = True"

text \<open>\<open>runComponents\<close>, once all its components returned; before that it has not returned.\<close>

definition runComponents :: "(err option list \<Rightarrow> err option) \<Rightarrow> string group \<Rightarrow> err option option" where
  "runComponents wait s =
     (if gr_running s \<noteq> [] then None
      else Some (case wait (group_results s) of
                   Some e \<Rightarrow> Some (Wrapped ''failed to run components'' e)
                 | None \<Rightarrow> None))"

section \<open>The goroutines of the server\<close>

datatype server_goroutine = ShutdownHTTP | ListenHTTP | ShutdownTLS | ListenTLS

definition server_goroutines :: "bool \<Rightarrow> server_goroutine list" where
  "server_goroutines tlsServer = [ShutdownHTTP, ListenHTTP] @ (if tlsServer then [ShutdownTLS, ListenTLS] else [])"

text \<open>
  A shutdown goroutine waits for the context; \<open>ListenAndServe\<close> never returns nil, and returns \<open>ErrServerClosed\<close>, which the
  code turns into nil, only after the shutdown. The errgroup ends the context when a goroutine returns an error.
\<close>

fun server_may :: "server_goroutine \<Rightarrow> bool \<Rightarrow> err option \<Rightarrow> bool" where
  "server_may ShutdownHTTP isDone r = isDone"
| "server_may ShutdownTLS isDone r = isDone"
| "server_may ListenHTTP isDone r = (isDone \<or> r \<noteq> None)"
| "server_may ListenTLS isDone r = (isDone \<or> r \<noteq> None)"

definition server_cancels :: "err option \<Rightarrow> bool" where
  "server_cancels r \<longleftrightarrow> r \<noteq> None"

definition Server_Run :: "(err option list \<Rightarrow> err option) \<Rightarrow> server_goroutine group \<Rightarrow> err option option" where
  "Server_Run wait s = (if gr_running s \<noteq> [] then None else Some (wait (group_results s)))"

section \<open>The contract of both groups\<close>

locale stop_group =
  fixes may :: "'g \<Rightarrow> bool \<Rightarrow> err option \<Rightarrow> bool" and cancels :: "err option \<Rightarrow> bool"
  assumes ends: "may g d r \<Longrightarrow> d \<or> cancels r"
    and stops: "\<exists>r. may g True r"
    and fails: "cancels (Some e)"
begin

definition inv :: "'g list \<Rightarrow> 'g group \<Rightarrow> bool" where
  "inv gs s \<longleftrightarrow> mset (gr_running s) + mset (map fst (gr_returned s)) = mset gs \<and> (gr_done s \<or> gr_returned s = []) \<and>
     (gr_done s \<longleftrightarrow> gr_parent s \<or> (\<exists>x \<in> set (gr_returned s). cancels (snd x)))"

lemma inv_start: "inv gs (start_group gs)"
  by (simp add: inv_def start_group_def)

lemma inv_step:
  assumes "group_step may cancels s s'" "inv gs s"
  shows "inv gs s'"
  using assms(1)
proof (cases rule: group_step.cases)
  case (returns g r)
  have "g \<in># mset gs" using returns(2) assms(2) by (metis inv_def set_mset_mset union_iff)
  then show ?thesis using returns assms(2) ends[OF returns(3)] by (auto simp: inv_def)
next
  case parent_done
  then show ?thesis using assms(2) by (simp add: inv_def)
qed

lemma inv_steps: "group_steps may cancels s s' \<Longrightarrow> inv gs s \<Longrightarrow> inv gs s'"
  by (induction rule: rtranclp_induct) (auto intro: inv_step)

lemma inv_reachable: "group_steps may cancels (start_group gs) s \<Longrightarrow> inv gs s"
  using inv_steps inv_start by blast

text \<open>
  From a state whose context is done every remaining goroutine can return, in any order and with any results it may have.
\<close>

lemma drain:
  assumes "gr_done s" "mset (map fst rs) = mset (gr_running s)" "\<forall>(g, r) \<in> set rs. may g True r"
  shows "\<exists>s'. group_steps may cancels s s' \<and> gr_running s' = [] \<and> gr_done s' \<and> gr_returned s' = gr_returned s @ rs \<and> gr_parent s' = gr_parent s"
  using assms
proof (induction rs arbitrary: s)
  case Nil
  then show ?case by (intro exI[of _ s]) auto
next
  case (Cons x rs)
  obtain g r where x: "x = (g, r)" by fastforce
  let ?s = "s\<lparr>gr_running := remove1 g (gr_running s), gr_returned := gr_returned s @ [(g, r)], gr_done := gr_done s \<or> cancels r\<rparr>"
  have "mset (gr_running s) = add_mset g (mset (map fst rs))" using Cons.prems(2) x by simp
  then have g: "g \<in> set (gr_running s)" and m: "mset (map fst rs) = mset (gr_running ?s)"
    by (metis union_single_eq_member set_mset_mset, simp)
  have step: "group_step may cancels s ?s" using g Cons.prems(1,3) x by (intro group_step.returns) auto
  have "gr_done ?s" "\<forall>(g, r) \<in> set rs. may g True r" using Cons.prems(1,3) by simp_all
  from Cons.IH[OF this(1) m this(2)] obtain s' where "group_steps may cancels ?s s'" "gr_running s' = []" "gr_done s'"
    "gr_returned s' = gr_returned ?s @ rs" "gr_parent s' = gr_parent ?s" by blast
  then show ?case using step x by (intro exI[of _ s']) (auto intro: converse_rtranclp_into_rtranclp)
qed

text \<open>So it can always be waited for.\<close>

lemma can_finish:
  assumes "gr_done s"
  shows "\<exists>s'. group_steps may cancels s s' \<and> gr_running s' = [] \<and> gr_parent s' = gr_parent s"
proof -
  let ?rs = "map (\<lambda>g. (g, SOME r. may g True r)) (gr_running s)"
  have ok: "\<forall>(g, r) \<in> set ?rs. may g True r" using stops by (auto intro: someI_ex)
  have m: "mset (map fst ?rs) = mset (gr_running s)" by (simp add: comp_def)
  from drain[OF assms m ok] show ?thesis by blast
qed

text \<open>A group that ends by itself ends with a result that ends the context.\<close>

lemma ends_for_cause:
  assumes "group_steps may cancels (start_group gs) s" "gr_running s = []" "gs \<noteq> []"
  shows "gr_parent s \<or> (\<exists>x \<in> set (gr_returned s). cancels (snd x))"
proof -
  have "mset (map fst (gr_returned s)) = mset gs" using inv_reachable[OF assms(1)] assms(2) by (simp add: inv_def)
  then have "gr_returned s \<noteq> []" using assms(3) by auto
  then show ?thesis using inv_reachable[OF assms(1)] by (auto simp: inv_def)
qed

text \<open>When every member returned without an error, and errors are all that ends the group, it was told to stop.\<close>

lemma silent_end:
  assumes "group_steps may cancels (start_group gs) s" "gr_running s = []" "gs \<noteq> []"
    and "first_error (group_results s) = None" "\<not> cancels None"
  shows "gr_parent s"
  using ends_for_cause[OF assms(1-3)] assms(4,5) by (fastforce simp: first_error_None group_results_def)

text \<open>Once one goroutine returned the others are told to stop, and none is lost.\<close>

lemma stops_together:
  assumes "group_steps may cancels (start_group gs) s" "gr_returned s \<noteq> []"
  shows "gr_done s \<and> mset (gr_running s) + mset (map fst (gr_returned s)) = mset gs"
  using inv_reachable[OF assms(1)] assms(2) by (simp add: inv_def)

lemma all_returned:
  "group_steps may cancels (start_group gs) s \<Longrightarrow> gr_running s = [] \<Longrightarrow> mset (map fst (gr_returned s)) = mset gs"
  using inv_reachable[of gs s] by (simp add: inv_def)

end

interpretation components: stop_group component_may component_cancels
  by unfold_locales (simp_all add: component_may_def component_cancels_def)

interpretation server: stop_group server_may server_cancels
proof
  show "server_may g d r \<Longrightarrow> d \<or> server_cancels r" for g d r by (cases g) (simp_all add: server_cancels_def)
  show "\<exists>r. server_may g True r" for g by (cases g) simp_all
qed (simp add: server_cancels_def)

lemma first_error_waits: "waits_for_first first_error"
  by (simp add: waits_for_first_def)

text \<open>
  C33. The provider's components stop together. In every run of a group of components, as soon as one of them has returned,
  with or without an error, the context of all the others is done; from any such state the rest can return in whatever order
  and with whatever results; the provider's run returns exactly when all its components have, and then with the error of the
  component that failed first, or without an error when none failed. No component is lost on the way.
\<close>

theorem components_stop_together:
  assumes "waits_for_first wait" and "group_steps component_may component_cancels (start_group names) s"
      and "gr_returned s \<noteq> []" and "mset (map fst rest) = mset (gr_running s)"
  shows "gr_done s \<and> mset (gr_running s) + mset (map fst (gr_returned s)) = mset names \<and>
    (runComponents wait s = None) = (gr_running s \<noteq> []) \<and>
    (\<exists>s'. group_steps component_may component_cancels s s' \<and> gr_returned s' = gr_returned s @ rest \<and>
       runComponents wait s' = Some (map_option (Wrapped ''failed to run components'') (first_error (group_results s'))))"
proof -
  note stop = components.stops_together[OF assms(2,3)]
  obtain s' where s': "group_steps component_may component_cancels s s'" "gr_running s' = []"
      "gr_returned s' = gr_returned s @ rest"
    using components.drain[OF stop[THEN conjunct1] assms(4)] by (auto simp: component_may_def)
  have "runComponents wait s' = Some (map_option (Wrapped ''failed to run components'') (first_error (group_results s')))"
    using assms(1) s'(2) by (auto simp: runComponents_def waits_for_first_def split: option.splits)
  then show ?thesis using stop s' by (auto simp: runComponents_def)
qed

text \<open>The TFTP server stops without an error; the server then fails, and the runtime is canceled.\<close>

definition sample_stopping :: "string group" where
  "sample_stopping = \<lparr>gr_running = [''COSI runtime'', ''server''], gr_returned = [(''TFTP server'', None)], gr_done = True,
     gr_parent = False\<rparr>"

lemma sample_stopping_reached:
  "group_steps component_may component_cancels (start_group [''COSI runtime'', ''server'', ''TFTP server'']) sample_stopping"
proof (rule r_into_rtranclp)
  show "group_step component_may component_cancels (start_group [''COSI runtime'', ''server'', ''TFTP server'']) sample_stopping"
    using group_step.returns[of "''TFTP server''" "start_group [''COSI runtime'', ''server'', ''TFTP server'']"
        component_may None component_cancels]
    by (simp add: start_group_def sample_stopping_def component_may_def component_cancels_def)
qed

theorem components_stop_together_witness:
  "\<exists>s'. group_steps component_may component_cancels sample_stopping s' \<and>
     runComponents first_error s' = Some (Some (Wrapped ''failed to run components'' (Plain ''port in use'')))"
proof -
  let ?rest = "[(''server'', Some (Plain ''port in use'')), (''COSI runtime'', Some CtxCanceled)]"
  have "mset (map fst ?rest) = mset (gr_running sample_stopping)" "gr_returned sample_stopping \<noteq> []"
    by (simp_all add: sample_stopping_def)
  from components_stop_together[OF first_error_waits sample_stopping_reached this(2,1)]
  obtain s' where s': "group_steps component_may component_cancels sample_stopping s'"
      "gr_returned s' = gr_returned sample_stopping @ ?rest"
      "runComponents first_error s' = Some (map_option (Wrapped ''failed to run components'') (first_error (group_results s')))"
    by blast
  then show ?thesis by (intro exI[of _ s']) (simp add: group_results_def sample_stopping_def)
qed

text \<open>
  The server never runs half: as soon as one of its goroutines has returned, the context is done, so the other listener
  is shut down as well; while a goroutine runs, \<open>Run\<close> does not return; and when it returns, it returns no error exactly
  when no goroutine failed, so a listener that could not start always surfaces.
\<close>

theorem server_never_half:
  assumes "waits_for_first wait" and "group_steps server_may server_cancels (start_group (server_goroutines tls)) s"
  shows "(gr_done s \<or> mset (gr_running s) = mset (server_goroutines tls)) \<and>
    (case Server_Run wait s of
       None \<Rightarrow> gr_running s \<noteq> []
     | Some r \<Rightarrow> mset (map fst (gr_returned s)) = mset (server_goroutines tls) \<and>
                 (r = None) = (\<forall>x \<in> set (gr_returned s). snd x = None))"
proof -
  have "wait (group_results s) = None \<longleftrightarrow> (\<forall>x \<in> set (gr_returned s). snd x = None)"
    using assms(1) by (simp add: waits_for_first_def first_error_None group_results_def)
  then show ?thesis using server.inv_reachable[OF assms(2)] by (auto simp: server.inv_def Server_Run_def)
qed

text \<open>The TLS listener cannot bind its port: an error that ends the context, and that \<open>Run\<close> returns once all are done.\<close>

definition sample_bind_failure :: "server_goroutine group" where
  "sample_bind_failure = \<lparr>gr_running = [ShutdownHTTP, ListenHTTP, ShutdownTLS], gr_returned = [(ListenTLS, Some (Plain ''port in use''))],
                         gr_done = True, gr_parent = False\<rparr>"

lemma sample_bind_failure_reached:
  "group_steps server_may server_cancels (start_group (server_goroutines True)) sample_bind_failure"
proof (rule r_into_rtranclp)
  show "group_step server_may server_cancels (start_group (server_goroutines True)) sample_bind_failure"
    using group_step.returns[of ListenTLS "start_group (server_goroutines True)" server_may "Some (Plain ''port in use'')" server_cancels]
    by (simp add: start_group_def sample_bind_failure_def server_goroutines_def server_cancels_def)
qed

theorem server_never_half_witness:
  "gr_done sample_bind_failure \<and> Server_Run first_error sample_bind_failure = None"
  using server_never_half[OF first_error_waits sample_bind_failure_reached]
  by (simp add: sample_bind_failure_def Server_Run_def)

end
