(* ===== verification/BmcConfiguration.thy ===== *)
theory BmcConfiguration
  imports Samples
begin

text \<open>
  \<open>internal/provider/controllers/bmc_configuration.go\<close>: how a machine gets its BMC configuration, from the
  operator or from its agent, and when it is recorded as having no BMC. The reader of the API state directory
  and the random numbers of \<open>crypto/rand\<close> are parameters: \<open>random i n\<close> is the answer to the \<open>i\<close>-th call of
  \<open>rand.Int\<close> with the bound \<open>n\<close>.
\<close>

record bcc_helper =
  AllowMachinesWithoutBMC :: bool
  ReadManagementAddressOf :: "resource_id \<Rightarrow> err + string"
  random :: "nat \<Rightarrow> nat \<Rightarrow> err + nat"

definition isNoBMCError :: "err \<Rightarrow> bool" where
  "isNoBMCError e =
     (if status_code e \<noteq> Internal then False
      else contains_sub (to_lower (err_text e)) ''ipmi'')"

text \<open>Go's nil-safe getters make the response's absence read like empty fields.\<close>

definition hasNoBMC :: "bcc_helper \<Rightarrow> power_management option \<Rightarrow> err option \<Rightarrow> bool" where
  "hasNoBMC helper powerManagement err =
     (if \<not> AllowMachinesWithoutBMC helper then False
      else (case err of
              Some e \<Rightarrow> isNoBMCError e
            | None \<Rightarrow>
                (case powerManagement of
                   None \<Rightarrow> True
                 | Some pm \<Rightarrow> \<not> pm_Api pm \<and> pm_Ipmi pm = None)))"

definition storeUserProvidedBMCConfig ::
  "infra_bmc_config \<Rightarrow> bmc_configuration \<Rightarrow> err option \<times> bmc_configuration" where
  "storeUserProvidedBMCConfig userConfig bmcConfiguration =
     (case Config (Spec userConfig) of
        None \<Rightarrow> (Some (Plain ''user provided BMC config is nil''), bmcConfiguration)
      | Some config \<Rightarrow>
          (let s1 = (Spec bmcConfiguration)\<lparr>ManuallyConfigured := True, Manual := None\<rparr>;
               s2 = (case UserIpmi config of
                       None \<Rightarrow> s1
                     | Some ipmi \<Rightarrow>
                         (let port = (if UserIpmi_Port ipmi = 0 then IPMIDefaultPort else UserIpmi_Port ipmi)
                          in s1\<lparr>Ipmi := Some \<lparr>Ipmi_Address = UserIpmi_Address ipmi, Ipmi_Port = port,
                                             Ipmi_Username = UserIpmi_Username ipmi,
                                             Ipmi_Password = UserIpmi_Password ipmi, ipmi_unknownFields = []\<rparr>\<rparr>));
               s3 = (case UserApi config of
                       None \<Rightarrow> s2
                     | Some api \<Rightarrow>
                         s2\<lparr>Api := Some \<lparr>Api_Address = UserApi_Address api, api_unknownFields = []\<rparr>\<rparr>)
           in (None, bmcConfiguration\<lparr>Spec := s3\<rparr>)))"

definition runes :: string where
  "runes = ''abcdefghijklmnopqrstuvwxyzABCDEFGHIJKLMNOPQRSTUVWXYZ0123456789''"

text \<open>The loop that fills the password; it ends with the first error. \<open>i\<close> is the index of the next rune.\<close>

fun generate_runes :: "(nat \<Rightarrow> nat \<Rightarrow> err + nat) \<Rightarrow> nat \<Rightarrow> nat \<Rightarrow> err + string" where
  "generate_runes rand i 0 = Inr []"
| "generate_runes rand i (Suc n) =
     (case rand i (length runes) of
        Inl e \<Rightarrow> Inl e
      | Inr rando \<Rightarrow>
          (case generate_runes rand (Suc i) n of
             Inl e \<Rightarrow> Inl e
           | Inr b \<Rightarrow> Inr ((runes ! rando) # b)))"

definition generateIPMIPassword :: "(nat \<Rightarrow> nat \<Rightarrow> err + nat) \<Rightarrow> err + string" where
  "generateIPMIPassword rand = generate_runes rand 0 IPMIPasswordLength"

definition ensurePowerManagementOnAgent ::
  "bcc_helper \<Rightarrow> env \<Rightarrow> resource_id \<Rightarrow> power_management \<Rightarrow> world \<Rightarrow> (err + string) \<times> world" where
  "ensurePowerManagementOnAgent helper env i powerManagement w =
     (if \<not> pm_Api powerManagement \<and> pm_Ipmi powerManagement = None
      then (Inl (Plain (''machine did not provide any power management information: '' @
                 ''if it genuinely has no BMC, start the provider with --allow-machines-without-bmc'')), w)
      else (case (if pm_Ipmi powerManagement \<noteq> None then generateIPMIPassword (random helper) else Inr []) of
              Inl e \<Rightarrow> (Inl e, w)
            | Inr ipmiPassword \<Rightarrow>
                (let ipmi = (if pm_Ipmi powerManagement \<noteq> None then Some (IPMIUsername, ipmiPassword) else None)
                 in case agent_SetPowerManagement env i
                           \<lparr>spm_Api = pm_Api powerManagement, spm_Ipmi = ipmi\<rparr> w of
                      (Some e, w1) \<Rightarrow> (Inl e, w1)
                    | (None, w1) \<Rightarrow> (Inr ipmiPassword, w1))))"

definition record_manual :: "bmc_configuration \<Rightarrow> bmc_configuration" where
  "record_manual bmcConfiguration =
     bmcConfiguration\<lparr>Spec := (Spec bmcConfiguration)
       \<lparr>ManuallyConfigured := False, Manual := Some \<lparr>manual_unknownFields = []\<rparr>\<rparr>\<rparr>"

text \<open>The part of the transform that follows a successful answer of the agent.\<close>

definition bcc_from_agent ::
  "bcc_helper \<Rightarrow> env \<Rightarrow> resource_id \<Rightarrow> power_management \<Rightarrow> bmc_configuration \<Rightarrow> world \<Rightarrow>
   (err option \<times> bmc_configuration) \<times> world" where
  "bcc_from_agent helper env i powerManagementOnAgent bmcConfiguration w =
     (if hasNoBMC helper (Some powerManagementOnAgent) None
      then ((None, record_manual bmcConfiguration), w)
      else (case ensurePowerManagementOnAgent helper env i powerManagementOnAgent w of
              (Inl e, w1) \<Rightarrow>
                ((Some (Wrapped ''failed to ensure power management on agent'' e), bmcConfiguration), w1)
            | (Inr ipmiPassword, w1) \<Rightarrow>
                (let s1 = (Spec bmcConfiguration)\<lparr>ManuallyConfigured := False\<rparr>
                 in case (if pm_Api powerManagementOnAgent
                          then (case ReadManagementAddressOf helper i of
                                  Inl e \<Rightarrow> Inl e
                                | Inr address \<Rightarrow>
                                    Inr (s1\<lparr>Api := Some \<lparr>Api_Address = address, api_unknownFields = []\<rparr>\<rparr>))
                          else Inr s1) of
                      Inl addressErr \<Rightarrow> ((Some addressErr, bmcConfiguration\<lparr>Spec := s1\<rparr>), w1)
                    | Inr s2 \<Rightarrow>
                        (let s3 = (case pm_Ipmi powerManagementOnAgent of
                                     None \<Rightarrow> s2
                                   | Some (address, port) \<Rightarrow>
                                       s2\<lparr>Ipmi := Some \<lparr>Ipmi_Address = address, Ipmi_Port = port,
                                          Ipmi_Username = IPMIUsername, Ipmi_Password = ipmiPassword,
                                          ipmi_unknownFields = []\<rparr>\<rparr>)
                         in ((None, bmcConfiguration\<lparr>Spec := s3\<rparr>), w1)))))"

definition alreadyInitialized :: "bmc_configuration \<Rightarrow> bool" where
  "alreadyInitialized bmcConfiguration =
     (\<not> ManuallyConfigured (Spec bmcConfiguration) \<and>
      (Api (Spec bmcConfiguration) \<noteq> None \<or> Ipmi (Spec bmcConfiguration) \<noteq> None \<or>
       Manual (Spec bmcConfiguration) \<noteq> None))"

definition bcc_transform :: "bcc_helper \<Rightarrow> bmc_configuration transform" where
  "bcc_transform helper env rd infraMachine bmcConfiguration w =
     (case get_or_nil (rd_machine_status rd (ID infraMachine)) of
        Inl e \<Rightarrow> ((Some e, bmcConfiguration), w)
      | Inr machineStatus \<Rightarrow>
     (case get_or_nil (rd_bmc_config rd (ID infraMachine)) of
        Inl e \<Rightarrow> ((Some e, bmcConfiguration), w)
      | Inr bmcConfig \<Rightarrow>
     (case validateInfraMachine infraMachine of
        Some e \<Rightarrow> ((Some e, bmcConfiguration), w)
      | None \<Rightarrow>
     (case machineStatus of
        None \<Rightarrow> ((Some (SkipReconcile ''machine status not found''), bmcConfiguration), w)
      | Some ms \<Rightarrow>
          if \<not> AgentAccessible (Spec ms)
          then ((Some (SkipReconcile ''agent is not accessible''), bmcConfiguration), w)
          else (case bmcConfig of
                  Some userConfig \<Rightarrow> (storeUserProvidedBMCConfig userConfig bmcConfiguration, w)
                | None \<Rightarrow>
                    if alreadyInitialized bmcConfiguration
                    then ((Some (SkipReconcile ''bmc config already initialized''), bmcConfiguration), w)
                    else (case agent_GetPowerManagement env (ID infraMachine) w of
                            (Inl e, w1) \<Rightarrow>
                              if \<not> hasNoBMC helper None (Some e)
                              then ((Some (Wrapped ''failed to get power management information'' e),
                                     bmcConfiguration), w1)
                              else ((None, record_manual bmcConfiguration), w1)
                          | (Inr powerManagementOnAgent, w1) \<Rightarrow>
                              bcc_from_agent helper env (ID infraMachine) powerManagementOnAgent
                                bmcConfiguration w1))))))"

section \<open>Passwords\<close>

text \<open>What \<open>crypto/rand.Int\<close> documents: for a positive bound the number is below it.\<close>

definition random_ok :: "(nat \<Rightarrow> nat \<Rightarrow> err + nat) \<Rightarrow> bool" where
  "random_ok rand \<longleftrightarrow> (\<forall>i n k. 0 < n \<longrightarrow> rand i n = Inr k \<longrightarrow> k < n)"

lemma runes_distinct: "distinct runes" "length runes = 62"
  by (code_simp, code_simp)

lemma generate_runes_ok:
  assumes "random_ok rand" "generate_runes rand i n = Inr p"
  shows "length p = n \<and> set p \<subseteq> set runes"
  using assms
proof (induction n arbitrary: i p)
  case 0
  then show ?case by simp
next
  case (Suc n)
  then obtain k b where k: "rand i (length runes) = Inr k" "generate_runes rand (Suc i) n = Inr b" "p = (runes ! k) # b"
    by (auto split: sum.splits)
  with Suc.prems(1) have "k < length runes" by (auto simp: random_ok_def runes_distinct(2))
  with Suc.IH [OF Suc.prems(1) k(2)] k(3) show ?case by auto
qed

text \<open>A rune depends on its own random number only, and every number gives a different one.\<close>

lemma generate_runes_nth:
  "generate_runes rand i n = Inr p \<Longrightarrow> j < n \<Longrightarrow> \<exists>k. rand (i + j) (length runes) = Inr k \<and> p ! j = runes ! k"
proof (induction n arbitrary: i j p)
  case 0
  then show ?case by simp
next
  case (Suc n)
  then show ?case
    by (cases j) (fastforce split: sum.splits)+
qed

section \<open>What a reconcile does\<close>

lemma bcc_cases:
  assumes "bcc_transform h env rd m bc w = ((r, bc'), w')"
  obtains (skipped) "r \<noteq> None" "bc' = bc" "w' = w"
    | (user) ms u where "validateInfraMachine m = None" "get_or_nil (rd_machine_status rd (ID m)) = Inr (Some ms)"
      "AgentAccessible (Spec ms)" "get_or_nil (rd_bmc_config rd (ID m)) = Inr (Some u)"
      "storeUserProvidedBMCConfig u bc = (r, bc')" "w' = w"
    | (agent) ms where "validateInfraMachine m = None" "get_or_nil (rd_machine_status rd (ID m)) = Inr (Some ms)"
      "AgentAccessible (Spec ms)" "get_or_nil (rd_bmc_config rd (ID m)) = Inr None" "\<not> alreadyInitialized bc"
      "(case agent_GetPowerManagement env (ID m) w of
          (Inl e, w1) \<Rightarrow> if \<not> hasNoBMC h None (Some e)
             then ((Some (Wrapped ''failed to get power management information'' e), bc), w1)
             else ((None, record_manual bc), w1)
        | (Inr pm, w1) \<Rightarrow> bcc_from_agent h env (ID m) pm bc w1) = ((r, bc'), w')"
proof -
  consider (bad) "r \<noteq> None \<and> bc' = bc \<and> w' = w"
    | (good) ms uc where "validateInfraMachine m = None" "get_or_nil (rd_machine_status rd (ID m)) = Inr (Some ms)"
      "AgentAccessible (Spec ms)" "get_or_nil (rd_bmc_config rd (ID m)) = Inr uc"
    using assms
    by (auto simp: bcc_transform_def dest: sym [of "Some _"] split: sum.splits option.splits if_splits)
  then show ?thesis
  proof cases
    case bad
    then show ?thesis by (intro skipped) auto
  next
    case (good ms uc)
    show ?thesis
    proof (cases uc)
      case (Some u)
      with good assms show ?thesis by (intro user) (auto simp: bcc_transform_def)
    next
      case None
      show ?thesis
      proof (cases "alreadyInitialized bc")
        case True
        with good None assms show ?thesis by (intro skipped) (auto simp: bcc_transform_def)
      next
        case False
        with good None assms show ?thesis by (intro agent) (simp_all add: bcc_transform_def)
      qed
    qed
  qed
qed

interpretation bcc: gated_transform "bcc_transform h" "\<lambda>q. False" for h
proof
  fix m e env rd out w r out' w'
  assume e: "validateInfraMachine m = Some e" and t: "bcc_transform h env rd m out w = ((r, out'), w')"
  from t show "r \<noteq> None \<and> out' = out \<and> emits (\<lambda>q. False) w w'"
    using e by (cases rule: bcc_cases) auto
qed


text \<open>The agent path, once it succeeded: the machine was recorded as manual, or its BMC was taken over.\<close>

lemma bcc_from_agent_success:
  assumes "bcc_from_agent h env i pm bc w = ((None, bc'), w')"
  obtains (manual) "hasNoBMC h (Some pm) None" "bc' = record_manual bc" "w' = w"
    | (taken_over) pw where "\<not> (\<not> pm_Api pm \<and> pm_Ipmi pm = None)"
      "requests w' = requests w @ [AgentSetPowerManagement i
         \<lparr>spm_Api = pm_Api pm, spm_Ipmi = (if pm_Ipmi pm \<noteq> None then Some (IPMIUsername, pw) else None)\<rparr>]"
      "pm_Ipmi pm \<noteq> None \<Longrightarrow> generateIPMIPassword (random h) = Inr pw"
      "Ipmi (Spec bc') = (case pm_Ipmi pm of None \<Rightarrow> Ipmi (Spec bc) | Some (address, port) \<Rightarrow>
         Some \<lparr>Ipmi_Address = address, Ipmi_Port = port, Ipmi_Username = IPMIUsername, Ipmi_Password = pw,
               ipmi_unknownFields = []\<rparr>)"
      "pm_Api pm \<Longrightarrow> \<exists>a. ReadManagementAddressOf h i = Inr a \<and> Api (Spec bc') = Some \<lparr>Api_Address = a, api_unknownFields = []\<rparr>"
      "\<not> pm_Api pm \<Longrightarrow> Api (Spec bc') = Api (Spec bc)"
      "Manual (Spec bc') = Manual (Spec bc)" "\<not> ManuallyConfigured (Spec bc')"
proof (cases "hasNoBMC h (Some pm) None")
  case True
  with assms show ?thesis by (intro manual) (auto simp: bcc_from_agent_def)
next
  case False
  then obtain pw w1 where e: "ensurePowerManagementOnAgent h env i pm w = (Inr pw, w1)"
    using assms by (auto simp: bcc_from_agent_def split: sum.splits prod.splits)
  then have *: "\<not> (\<not> pm_Api pm \<and> pm_Ipmi pm = None)" "pm_Ipmi pm \<noteq> None \<Longrightarrow> generateIPMIPassword (random h) = Inr pw"
    "requests w1 = requests w @ [AgentSetPowerManagement i
         \<lparr>spm_Api = pm_Api pm, spm_Ipmi = (if pm_Ipmi pm \<noteq> None then Some (IPMIUsername, pw) else None)\<rparr>]"
    by (auto simp: ensurePowerManagementOnAgent_def agent_SetPowerManagement_def act_def Let_def
        split: if_splits sum.splits option.splits)
  from assms False e have "w' = w1"
    "Ipmi (Spec bc') = (case pm_Ipmi pm of None \<Rightarrow> Ipmi (Spec bc) | Some (address, port) \<Rightarrow>
         Some \<lparr>Ipmi_Address = address, Ipmi_Port = port, Ipmi_Username = IPMIUsername, Ipmi_Password = pw,
               ipmi_unknownFields = []\<rparr>)"
    "pm_Api pm \<Longrightarrow> \<exists>a. ReadManagementAddressOf h i = Inr a \<and> Api (Spec bc') = Some \<lparr>Api_Address = a, api_unknownFields = []\<rparr>"
    "\<not> pm_Api pm \<Longrightarrow> Api (Spec bc') = Api (Spec bc)" "Manual (Spec bc') = Manual (Spec bc)"
    "\<not> ManuallyConfigured (Spec bc')"
    by (auto simp: bcc_from_agent_def Let_def split: sum.splits option.splits prod.splits if_splits)
  with * show ?thesis by (intro taken_over [of pw]) auto
qed

section \<open>Properties\<close>

text \<open>
  C15. A machine loses its BMC only for cause. A run newly records a machine as manually powered only when the
  operator allows machines without a BMC and gave no BMC configuration for it, and the agent either failed
  with an internal error that names IPMI, or reported neither an API nor an IPMI. So no transport failure
  between provider and agent (unavailable, deadline exceeded, canceled) ever does.
\<close>

theorem bcc_manual_for_cause:
  assumes "bcc_transform h env rd m bc w = ((r, bc'), w')"
    and "Manual (Spec bc') \<noteq> None" and "Manual (Spec bc) = None"
  shows "AllowMachinesWithoutBMC h \<and> r = None \<and> get_or_nil (rd_bmc_config rd (ID m)) = Inr None \<and>
    requests w' = requests w @ [AgentGetPowerManagement (ID m)] \<and>
    (case answer_pm env (requests w) (AgentGetPowerManagement (ID m)) of
       Inl e \<Rightarrow> status_code e = Internal \<and> contains_sub (to_lower (err_text e)) ''ipmi''
     | Inr pm \<Rightarrow> \<not> pm_Api pm \<and> pm_Ipmi pm = None)"
  using assms(1)
proof (cases rule: bcc_cases)
  case skipped
  with assms show ?thesis by simp
next
  case (user ms u)
  with assms(2) show ?thesis
    using assms(3) by (auto simp: storeUserProvidedBMCConfig_def Let_def split: option.splits)
next
  case (agent ms)
  define w1 where "w1 = w\<lparr>requests := requests w @ [AgentGetPowerManagement (ID m)]\<rparr>"
  show ?thesis
  proof (cases "answer_pm env (requests w) (AgentGetPowerManagement (ID m))")
    case (Inl e)
    with agent(4,6) assms(2,3) show ?thesis
      by (auto simp: agent_GetPowerManagement_def ask_pm_def hasNoBMC_def isNoBMCError_def split: if_splits)
  next
    case (Inr pm)
    with agent(6) have f: "bcc_from_agent h env (ID m) pm bc w1 = ((r, bc'), w')"
      by (simp add: agent_GetPowerManagement_def ask_pm_def w1_def)
    have "hasNoBMC h (Some pm) None"
    proof (rule ccontr)
      assume "\<not> hasNoBMC h (Some pm) None"
      with f have "Manual (Spec bc') = Manual (Spec bc)"
        by (auto simp: bcc_from_agent_def Let_def split: sum.splits option.splits prod.splits if_splits)
      with assms(2,3) show False by simp
    qed
    with f Inr agent(4) show ?thesis by (auto simp: bcc_from_agent_def hasNoBMC_def w1_def split: if_splits)
  qed
qed

definition bcc_h1 :: bcc_helper where
  "bcc_h1 = \<lparr>AllowMachinesWithoutBMC = True, ReadManagementAddressOf = (\<lambda>i. Inr ''10.0.0.9:80''),
            random = (\<lambda>i n. Inr (i mod n))\<rparr>"

definition bcc_rd1 :: reader where
  "bcc_rd1 = reader_of (Some m1) None (Some (m1_agent True)) None None None None"

definition no_ipmi_env :: env where
  "no_ipmi_env = (ok_env True 1)\<lparr>answer_pm := (\<lambda>qs q. Inl (GrpcErr Internal ''failed to open IPMI device''))\<rparr>"

lemma bcc_run1:
  "Manual (Spec (snd (fst (bcc_transform bcc_h1 no_ipmi_env bcc_rd1 m1 (NewBMCConfiguration ''m1'') empty_world)))) \<noteq> None"
  by code_simp

theorem bcc_manual_for_cause_witness:
  "\<exists>r bc' w'. bcc_transform bcc_h1 no_ipmi_env bcc_rd1 m1 (NewBMCConfiguration ''m1'') empty_world = ((r, bc'), w') \<and>
     r = None \<and> Manual (Spec bc') \<noteq> None \<and> requests w' = [AgentGetPowerManagement ''m1'']"
proof -
  obtain r bc' w' where t: "bcc_transform bcc_h1 no_ipmi_env bcc_rd1 m1 (NewBMCConfiguration ''m1'') empty_world =
      ((r, bc'), w')" by (metis surj_pair)
  then have m: "Manual (Spec bc') \<noteq> None" using bcc_run1 by simp
  moreover have "Manual (Spec (NewBMCConfiguration ''m1'')) = None"
    by (simp add: NewBMCConfiguration_def new_resource_def)
  ultimately show ?thesis
    using bcc_manual_for_cause [OF t] t by (auto simp: empty_world_def m1_def new_resource_def)
qed

text \<open>
  C16. The credentials the provider keeps are the ones it set. When a run takes over the IPMI of a machine from
  its agent, it sends the agent one request with the provider's user name and a fresh password, stores the
  address and port the agent reported with exactly this user name and password, and the password has 16
  characters, all letters or digits.
\<close>

theorem bcc_credentials_agree:
  assumes "bcc_transform h env rd m bc w = ((None, bc'), w')"
    and "get_or_nil (rd_bmc_config rd (ID m)) = Inr None"
    and "answer_pm env (requests w) (AgentGetPowerManagement (ID m)) = Inr pm" and "pm_Ipmi pm = Some (address, port)"
    and "random_ok (random h)"
  shows "\<exists>pw. requests w' = requests w @ [AgentGetPowerManagement (ID m), AgentSetPowerManagement (ID m)
         \<lparr>spm_Api = pm_Api pm, spm_Ipmi = Some (''talos-agent'', pw)\<rparr>] \<and>
      Ipmi (Spec bc') = Some \<lparr>Ipmi_Address = address, Ipmi_Port = port, Ipmi_Username = ''talos-agent'',
                             Ipmi_Password = pw, ipmi_unknownFields = []\<rparr> \<and>
      length pw = 16 \<and> set pw \<subseteq> set runes \<and> \<not> ManuallyConfigured (Spec bc')"
  using assms(1)
proof (cases rule: bcc_cases)
  case (agent ms)
  define w1 where "w1 = w\<lparr>requests := requests w @ [AgentGetPowerManagement (ID m)]\<rparr>"
  from agent(6) assms(3) have "bcc_from_agent h env (ID m) pm bc w1 = ((None, bc'), w')"
    by (simp add: agent_GetPowerManagement_def ask_pm_def w1_def)
  then show ?thesis
  proof (cases rule: bcc_from_agent_success)
    case manual
    with assms(4) show ?thesis by (simp add: hasNoBMC_def split: if_splits)
  next
    case (taken_over pw)
    then have "generate_runes (random h) 0 16 = Inr pw"
      using assms(4) by (simp add: generateIPMIPassword_def IPMIPasswordLength_def)
    from generate_runes_ok [OF assms(5) this] taken_over assms(4) show ?thesis
      by (auto simp: w1_def IPMIUsername_def)
  qed
qed (use assms(2) in auto)

lemma bcc_run2:
  "fst (fst (bcc_transform bcc_h1 (ok_env True 1) bcc_rd1 m1 (NewBMCConfiguration ''m1'') empty_world)) = None"
  by code_simp

theorem bcc_credentials_agree_witness:
  "\<exists>bc' w' pw. bcc_transform bcc_h1 (ok_env True 1) bcc_rd1 m1 (NewBMCConfiguration ''m1'') empty_world = ((None, bc'), w') \<and>
     AgentSetPowerManagement ''m1'' \<lparr>spm_Api = False, spm_Ipmi = Some (''talos-agent'', pw)\<rparr> \<in> set (requests w') \<and>
     length pw = 16"
proof -
  obtain bc' w' where t: "bcc_transform bcc_h1 (ok_env True 1) bcc_rd1 m1 (NewBMCConfiguration ''m1'') empty_world =
      ((None, bc'), w')" using bcc_run2 by (metis prod.collapse)
  have "random_ok (random bcc_h1)" by (auto simp: random_ok_def bcc_h1_def)
  then show ?thesis
    using bcc_credentials_agree [OF t, of "\<lparr>pm_Api = False, pm_Ipmi = Some (''10.0.0.9'', 623)\<rparr>" "''10.0.0.9''" 623] t
    by (auto simp: bcc_rd1_def ok_env_def m1_def new_resource_def)
qed

text \<open>
  C17. A configuration obtained from the agent is kept: once a machine has an API, an IPMI or a manual entry
  that did not come from the operator, and as long as the operator gives none, no sequence of reconciles
  changes it or sends the agent anything, so the BMC password is never rotated behind the provider's back.
\<close>

theorem bcc_sticky:
  assumes "alreadyInitialized bc"
    and "\<forall>(env, rd, m) \<in> set inputs. get_or_nil (rd_bmc_config rd (ID m)) = Inr None"
    and "reconcile_all stores_after (bcc_transform h) inputs bc w = (bc', w')"
  shows "bc' = bc \<and> w' = w"
  using assms(2,3)
proof (induction inputs arbitrary: w)
  case Nil
  then show ?case by simp
next
  case (Cons x inputs)
  obtain env rd m where x: "x = (env, rd, m)" by (metis surj_pair)
  obtain r bc1 w1 where t: "bcc_transform h env rd m bc w = ((r, bc1), w1)" by (metis surj_pair)
  then have "bc1 = bc \<and> w1 = w"
    by (cases rule: bcc_cases) (use Cons.prems(1) x assms(1) in auto)
  with t have "reconcile stores_after (bcc_transform h) env rd m bc w = (bc, w)"
    by (cases r) (auto simp: reconcile_def)
  with Cons x show ?case by auto
qed

theorem bcc_sticky_witness:
  "reconcile_all (\<lambda>e. False) (bcc_transform bcc_h1) [(ok_env True 1, bcc_rd1, m1), (no_ipmi_env, bcc_rd1, m1)]
     m1_api empty_world = (m1_api, empty_world)"
proof -
  obtain bc' w' where r: "reconcile_all (\<lambda>e. False) (bcc_transform bcc_h1)
     [(ok_env True 1, bcc_rd1, m1), (no_ipmi_env, bcc_rd1, m1)] m1_api empty_world = (bc', w')" by fastforce
  have "bc' = m1_api \<and> w' = empty_world"
    by (rule bcc_sticky [OF _ _ r]) (simp_all add: alreadyInitialized_def m1_api_def new_resource_def bcc_rd1_def)
  with r show ?thesis by simp
qed

lemma bcc_success_entry:
  assumes "bcc_transform h env rd m bc w = ((None, bc'), w')"
    and "\<forall>u c. rd_bmc_config rd (ID m) = Inr u \<longrightarrow> Config (Spec u) = Some c \<longrightarrow> UserIpmi c \<noteq> None \<or> UserApi c \<noteq> None"
  shows "Ipmi (Spec bc') \<noteq> None \<or> Api (Spec bc') \<noteq> None \<or> Manual (Spec bc') \<noteq> None"
  using assms(1)
proof (cases rule: bcc_cases)
  case skipped
  then show ?thesis by simp
next
  case (user ms u)
  from user(4) have "rd_bmc_config rd (ID m) = Inr u" by (auto simp: get_or_nil_def split: sum.splits if_splits)
  with user(5) assms(2) show ?thesis
    by (force simp: storeUserProvidedBMCConfig_def Let_def split: option.splits)
next
  case (agent ms)
  define w1 where "w1 = w\<lparr>requests := requests w @ [AgentGetPowerManagement (ID m)]\<rparr>"
  show ?thesis
  proof (cases "answer_pm env (requests w) (AgentGetPowerManagement (ID m))")
    case (Inl e)
    with agent(6) show ?thesis
      by (auto simp: agent_GetPowerManagement_def ask_pm_def record_manual_def split: if_splits)
  next
    case (Inr pm)
    with agent(6) have f: "bcc_from_agent h env (ID m) pm bc w1 = ((None, bc'), w')"
      by (simp add: agent_GetPowerManagement_def ask_pm_def w1_def)
    then show ?thesis
    proof (cases rule: bcc_from_agent_success)
      case manual
      then show ?thesis by (auto simp: record_manual_def)
    next
      case (taken_over pw)
      then show ?thesis by (cases "pm_Ipmi pm") auto
    qed
  qed
qed


definition bcc_user :: infra_bmc_config where
  "bcc_user = new_resource ''m1'' \<lparr>Config = Some \<lparr>UserIpmi = Some \<lparr>UserIpmi_Address = ''10.0.0.8'', UserIpmi_Port = 0,
     UserIpmi_Username = ''root'', UserIpmi_Password = ''calvin''\<rparr>, UserApi = None\<rparr>\<rparr>"

definition bcc_rd2 :: reader where
  "bcc_rd2 = reader_of (Some m1) None (Some (m1_agent True)) None None None (Some bcc_user)"

lemma bcc_run3: "fst (fst (bcc_transform bcc_h1 (ok_env True 1) bcc_rd2 m1 m1_manual empty_world)) = None"
  by code_simp


end
