(* ===== verification/AddressReader.thy ===== *)
theory AddressReader
  imports BmcConfiguration Paths
begin

text \<open>
  \<open>internal/provider/bmc/api/manager.go\<close>: looking up the power management address of a machine in the launch
  configurations that the machine provisioner leaves in the state directory. The file system and the JSON decoder
  are parameters; an IP address is kept as its text.
\<close>

record launch_config =
  NodeUUID :: string
  lc_GatewayAddrs :: "string list"
  lc_Network_GatewayAddrs :: "string list"
  lc_APIPort :: int
  lc_APIBindAddress_Port :: "int option"

record state_dir_io =
  sd_ReadDir :: "string \<Rightarrow> err + string list"
  sd_ReadFile :: "string \<Rightarrow> err + byte list"
  json_Unmarshal :: "byte list \<Rightarrow> err + launch_config"

definition processConfigFile :: "state_dir_io \<Rightarrow> string \<Rightarrow> string \<Rightarrow> err + string" where
  "processConfigFile io configPath machineID =
     (case sd_ReadFile io configPath of
        Inl e \<Rightarrow> Inl (Wrapped ''failed to read config file'' e)
      | Inr configData \<Rightarrow>
     (case json_Unmarshal io configData of
        Inl e \<Rightarrow> Inl (Wrapped ''failed to unmarshal config file'' e)
      | Inr conf \<Rightarrow>
          if NodeUUID conf \<noteq> machineID then Inr []
          else (let gatewayAddrs = (if length (lc_Network_GatewayAddrs conf) > 0 then lc_Network_GatewayAddrs conf else lc_GatewayAddrs conf)
                in case gatewayAddrs of
                     [] \<Rightarrow> Inl (Plain (''no gateway address found in matching machine launch config: '' @ configPath))
                   | gatewayAddr # _ \<Rightarrow>
                       (let apiPort = (case lc_APIBindAddress_Port conf of Some p \<Rightarrow> p | None \<Rightarrow> lc_APIPort conf)
                        in if apiPort = 0
                           then Inl (Plain (''api port is not found in the machine launch config: '' @ configPath))
                           else Inr (join_host_port gatewayAddr (itoa apiPort))))))"

text \<open>The loop over the directory entries; the result is nothing when it runs to its end.\<close>

fun address_loop :: "state_dir_io \<Rightarrow> string \<Rightarrow> string \<Rightarrow> string list \<Rightarrow> string option" where
  "address_loop io stateDir machineID [] = None"
| "address_loop io stateDir machineID (name # names) =
     (if \<not> has_suffix name ''.config'' then address_loop io stateDir machineID names
      else (case processConfigFile io (filepath_Join stateDir name) machineID of
              Inl addrErr \<Rightarrow> address_loop io stateDir machineID names
            | Inr addr \<Rightarrow> if addr = [] then address_loop io stateDir machineID names else Some addr))"

definition ReadManagementAddress :: "state_dir_io \<Rightarrow> string \<Rightarrow> resource_id \<Rightarrow> err + string" where
  "ReadManagementAddress io stateDir machineID =
     (case sd_ReadDir io stateDir of
        Inl e \<Rightarrow> Inl (Wrapped (''failed to read directory '' @ stateDir) e)
      | Inr names \<Rightarrow>
          (case address_loop io stateDir machineID names of
             Some addr \<Rightarrow> Inr addr
           | None \<Rightarrow> Inl (Plain (''no management address found in '' @
                       itoa (int (length (filter (\<lambda>n. has_suffix n ''.config'') names))) @ '' config files: machine ID: '' @ machineID))))"

section \<open>Whose address it is\<close>

text \<open>What a launch configuration says about its machine's address, in the new format or the old one.\<close>

definition launch_address :: "launch_config \<Rightarrow> string option" where
  "launch_address conf =
     (let gws = (if lc_Network_GatewayAddrs conf = [] then lc_GatewayAddrs conf else lc_Network_GatewayAddrs conf);
          port = (case lc_APIBindAddress_Port conf of Some p \<Rightarrow> p | None \<Rightarrow> lc_APIPort conf)
      in if gws = [] \<or> port = 0 then None else Some (join_host_port (hd gws) (itoa port)))"

definition names_address :: "state_dir_io \<Rightarrow> string \<Rightarrow> resource_id \<Rightarrow> string \<Rightarrow> string option" where
  "names_address io dir machineID name =
     (if \<not> has_suffix name ''.config'' then None
      else case sd_ReadFile io (filepath_Join dir name) of
             Inl _ \<Rightarrow> None
           | Inr data \<Rightarrow> (case json_Unmarshal io data of
                            Inl _ \<Rightarrow> None
                          | Inr conf \<Rightarrow> if NodeUUID conf = machineID then launch_address conf else None))"

lemma join_host_port_not_Nil [simp]: "join_host_port h p \<noteq> []"
  by (simp add: join_host_port_def)

lemma processConfigFile_names:
  assumes "has_suffix name ''.config''"
  shows "names_address io dir machineID name =
     (case processConfigFile io (filepath_Join dir name) machineID of
        Inl e \<Rightarrow> None | Inr addr \<Rightarrow> if addr = [] then None else Some addr)"
  using assms
  by (auto simp: names_address_def processConfigFile_def launch_address_def Let_def split: sum.splits list.splits option.splits)

lemma address_loop_exact:
  "address_loop io dir machineID names =
     (case List.map_filter (names_address io dir machineID) names of [] \<Rightarrow> None | a # _ \<Rightarrow> Some a)"
proof (induction names)
  case (Cons name names)
  show ?case
  proof (cases "has_suffix name ''.config''")
    case True
    then show ?thesis using Cons by (simp add: List.map_filter_simps processConfigFile_names split: sum.split)
  next
    case False
    then show ?thesis using Cons by (simp add: List.map_filter_simps names_address_def)
  qed
qed (simp add: List.map_filter_simps)

lemma map_filter_first:
  "List.map_filter f xs = a # as \<Longrightarrow> \<exists>pre x post. xs = pre @ x # post \<and> f x = Some a \<and> (\<forall>y \<in> set pre. f y = None)"
proof (induction xs)
  case (Cons x xs)
  show ?case
  proof (cases "f x")
    case None
    with Cons obtain pre y post where "xs = pre @ y # post" "f y = Some a" "\<forall>z \<in> set pre. f z = None"
      by (auto simp: List.map_filter_simps)
    with None have "x # xs = (x # pre) @ y # post \<and> f y = Some a \<and> (\<forall>z \<in> set (x # pre). f z = None)" by simp
    then show ?thesis by blast
  next
    case (Some b)
    with Cons.prems have "x # xs = [] @ x # xs \<and> f x = Some a \<and> (\<forall>z \<in> set []. f z = None)"
      by (simp add: List.map_filter_simps)
    then show ?thesis by blast
  qed
qed (simp add: List.map_filter_simps)

lemma ReadManagementAddress_first:
  assumes "ReadManagementAddress io dir machineID = Inr addr"
  shows "\<exists>pre name post. sd_ReadDir io dir = Inr (pre @ name # post) \<and> names_address io dir machineID name = Some addr \<and>
           (\<forall>n \<in> set pre. names_address io dir machineID n = None)"
  using assms
  by (auto simp: ReadManagementAddress_def address_loop_exact dest!: map_filter_first split: sum.splits list.splits option.splits)

text \<open>
  C35. The HTTP API a machine is powered over is its own. When the BMC configuration controller, with the reader of the
  state directory, changes the API entry of a machine for which the operator gave no BMC configuration, the agent had
  reported an API, and the new address is the one in the first launch configuration of the state directory that names
  this very machine and has both a gateway and a port, in the new format where it is filled in and in the old one else.
\<close>

theorem api_address_belongs_to_machine:
  assumes "bcc_transform (h\<lparr>ReadManagementAddressOf := ReadManagementAddress io dir\<rparr>) env rd m bc w = ((None, bc'), w')"
      and "Api (Spec bc') \<noteq> Api (Spec bc)" and "get_or_nil (rd_bmc_config rd (ID m)) = Inr None"
  shows "\<exists>pre name post data conf addr.
           sd_ReadDir io dir = Inr (pre @ name # post) \<and> has_suffix name ''.config'' \<and>
           sd_ReadFile io (filepath_Join dir name) = Inr data \<and> json_Unmarshal io data = Inr conf \<and>
           NodeUUID conf = ID m \<and> launch_address conf = Some addr \<and>
           Api (Spec bc') = Some \<lparr>Api_Address = addr, api_unknownFields = []\<rparr> \<and>
           (\<forall>n \<in> set pre. names_address io dir (ID m) n = None)"
proof -
  let ?h = "h\<lparr>ReadManagementAddressOf := ReadManagementAddress io dir\<rparr>"
  obtain pm w1 where f: "bcc_from_agent ?h env (ID m) pm bc w1 = ((None, bc'), w')"
    using assms(1)
  proof (cases rule: bcc_cases)
    case skipped
    then show ?thesis using assms(2) by simp
  next
    case (user ms u)
    then show ?thesis using assms(3) by simp
  next
    case (agent ms)
    then show ?thesis using that assms(2)
      by (auto simp: record_manual_def split: sum.splits prod.splits if_splits)
  qed
  from f obtain a where a: "ReadManagementAddress io dir (ID m) = Inr a"
      and api: "Api (Spec bc') = Some \<lparr>Api_Address = a, api_unknownFields = []\<rparr>"
  proof (cases rule: bcc_from_agent_success)
    case manual
    then show ?thesis using assms(2) by (simp add: record_manual_def)
  next
    case (taken_over pw)
    then show ?thesis using that assms(2) by (cases "pm_Api pm") auto
  qed
  from ReadManagementAddress_first[OF a] obtain pre name post where
    n: "sd_ReadDir io dir = Inr (pre @ name # post)" "names_address io dir (ID m) name = Some a"
       "\<forall>n \<in> set pre. names_address io dir (ID m) n = None" by blast
  from n(2) have "has_suffix name ''.config'' \<and> (\<exists>data conf. sd_ReadFile io (filepath_Join dir name) = Inr data \<and>
      json_Unmarshal io data = Inr conf \<and> NodeUUID conf = ID m \<and> launch_address conf = Some a)"
    by (auto simp: names_address_def split: if_splits sum.splits)
  then show ?thesis using n(1,3) api by blast
qed

text \<open>Two machines' configurations, an unreadable file and a file that is no configuration.\<close>

definition sample_launch :: "string \<Rightarrow> string list \<Rightarrow> string list \<Rightarrow> int \<Rightarrow> int option \<Rightarrow> launch_config" where
  "sample_launch uuid old new port bind =
     \<lparr>NodeUUID = uuid, lc_GatewayAddrs = old, lc_Network_GatewayAddrs = new, lc_APIPort = port, lc_APIBindAddress_Port = bind\<rparr>"

definition sample_state_dir :: state_dir_io where
  "sample_state_dir =
     \<lparr>sd_ReadDir = (\<lambda>d. Inr [''a.log'', ''m0.config'', ''m1.config'', ''m2.config'']),
      sd_ReadFile = (\<lambda>p. if p = ''/state/m0.config'' then Inl (Plain ''permission denied'')
                          else if p = ''/state/m1.config'' then Inr [1] else Inr [2]),
      json_Unmarshal = (\<lambda>b. if b = [1] then Inr (sample_launch ''m0'' [''10.5.0.1''] [] 8001 None)
                            else Inr (sample_launch ''m1'' [''10.4.0.1''] [''10.5.0.1''] 0 (Some 8002)))\<rparr>"

definition api_env :: env where
  "api_env = (ok_env True 1)\<lparr>answer_pm := (\<lambda>qs q. Inr \<lparr>pm_Api = True, pm_Ipmi = None\<rparr>)\<rparr>"

lemma itoa_8002: "itoa 8002 = ''8002''"
  by (simp add: itoa_def nat_digits.simps char_of_def bit_iff_odd)

lemma sample_address: "ReadManagementAddress sample_state_dir ''/state'' ''m1'' = Inr ''10.5.0.1:8002''"
proof -
  have j: "filepath_Join ''/state'' ''m0.config'' = ''/state/m0.config''" "filepath_Join ''/state'' ''m1.config'' = ''/state/m1.config''"
    "filepath_Join ''/state'' ''m2.config'' = ''/state/m2.config''" by code_simp+
  show ?thesis
    by (simp add: ReadManagementAddress_def sample_state_dir_def processConfigFile_def sample_launch_def has_suffix_def j
        join_host_port_def itoa_8002)
qed

lemma sample_api_run:
  assumes "f ''m1'' = Inr a"
  shows "\<exists>bc' w'. bcc_transform (bcc_h1\<lparr>ReadManagementAddressOf := f\<rparr>) api_env bcc_rd1 m1 (NewBMCConfiguration ''m1'') empty_world =
           ((None, bc'), w') \<and> Api (Spec bc') = Some \<lparr>Api_Address = a, api_unknownFields = []\<rparr>"
  using assms
  by (simp add: bcc_transform_def bcc_rd1_def m1_def m1_agent_def reader_of_def new_resource_def validateInfraMachine_def
      alreadyInitialized_def NewBMCConfiguration_def agent_GetPowerManagement_def ask_pm_def api_env_def ok_env_def
      bcc_from_agent_def hasNoBMC_def ensurePowerManagementOnAgent_def agent_SetPowerManagement_def act_def Let_def m1_spec_def)

theorem api_address_belongs_to_machine_witness:
  "\<exists>name data conf. has_suffix name ''.config'' \<and> sd_ReadFile sample_state_dir (filepath_Join ''/state'' name) = Inr data \<and>
     json_Unmarshal sample_state_dir data = Inr conf \<and> NodeUUID conf = ''m1'' \<and> launch_address conf = Some ''10.5.0.1:8002''"
proof -
  obtain bc' w' where t: "bcc_transform (bcc_h1\<lparr>ReadManagementAddressOf := ReadManagementAddress sample_state_dir ''/state''\<rparr>)
      api_env bcc_rd1 m1 (NewBMCConfiguration ''m1'') empty_world = ((None, bc'), w')"
    and api: "Api (Spec bc') = Some \<lparr>Api_Address = ''10.5.0.1:8002'', api_unknownFields = []\<rparr>"
    using sample_api_run[of "ReadManagementAddress sample_state_dir ''/state''", OF sample_address] by blast
  have "Api (Spec bc') \<noteq> Api (Spec (NewBMCConfiguration ''m1''))"
    using api by (auto simp: NewBMCConfiguration_def new_resource_def)
  moreover have "get_or_nil (rd_bmc_config bcc_rd1 (ID m1)) = Inr None" by (simp add: bcc_rd1_def m1_def new_resource_def)
  moreover have "ID m1 = ''m1''" by (simp add: m1_def new_resource_def)
  ultimately obtain name data conf addr where "has_suffix name ''.config''"
    "sd_ReadFile sample_state_dir (filepath_Join ''/state'' name) = Inr data" "json_Unmarshal sample_state_dir data = Inr conf"
    "NodeUUID conf = ''m1''" "launch_address conf = Some addr" "Api (Spec bc') = Some \<lparr>Api_Address = addr, api_unknownFields = []\<rparr>"
    using api_address_belongs_to_machine[OF t] by metis
  then show ?thesis using api by auto
qed

end
