(* ===== verification/PowerOperation.thy ===== *)
theory PowerOperation
  imports Samples
begin

text \<open>
  \<open>internal/provider/controllers/power_operation.go\<close>: bring the machine to the power state it should have,
  honour Omni's power-off requests, and keep the minimal time between power-on and power-off.
\<close>

record po_helper =
  po_redfish :: redfish_options
  po_nowFunc :: "request list \<Rightarrow> int"
  po_pxeBootMode :: pxe_boot_mode
  po_bootOptions :: boot_options
  po_minRebootInterval :: int

text \<open>\<open>isManuallyPowered\<close>: its other two arguments only decide about a log line.\<close>

definition isManuallyPowered :: "bmc_client \<Rightarrow> bool" where
  "isManuallyPowered bmcClient =
     (let capabilities = Capabilities bmcClient
      in if cap_PowerControl capabilities \<and> cap_PowerState capabilities then False else True)"

text \<open>Acknowledge a power-off request that was not seen before, with the wipe ID of its lifecycle.\<close>

definition po_acknowledge :: "infra_machine \<Rightarrow> power_operation \<Rightarrow> power_operation" where
  "po_acknowledge infraMachine powerOperation =
     (let powerOffRequestID = PowerOffRequestId (Spec infraMachine);
          opSpec = Spec powerOperation
      in if powerOffRequestID \<noteq> [] \<and> powerOffRequestID \<noteq> LastPowerOffId opSpec
         then powerOperation\<lparr>Spec := opSpec\<lparr>LastPowerOffId := powerOffRequestID,
                                            WipeIdAtPowerOff := WipeId (Spec infraMachine)\<rparr>\<rparr>
         else powerOperation)"

text \<open>The two branches of the final switch that act.\<close>

definition po_power_on ::
  "po_helper \<Rightarrow> env \<Rightarrow> infra_machine \<Rightarrow> bmc_configuration option \<Rightarrow> wipe_status option \<Rightarrow> bmc_client \<Rightarrow>
   power_operation \<Rightarrow> world \<Rightarrow> (err option \<times> power_operation) \<times> world" where
  "po_power_on helper env infraMachine bmcConfiguration wipeStatus bmcClient powerOperation w =
     (let requiredBootMode = RequiredBootMode (Some infraMachine) bmcConfiguration wipeStatus (po_bootOptions helper)
      in case (if RequiresPXEBoot requiredBootMode
               then client_SetPXEBootOnce bmcClient env (po_pxeBootMode helper) w
               else (None, w)) of
           (Some e, w1) \<Rightarrow> ((Some e, powerOperation), w1)
         | (None, w1) \<Rightarrow>
             (case client_PowerOn bmcClient env w1 of
                (Some e, w2) \<Rightarrow> ((Some e, powerOperation), w2)
              | (None, w2) \<Rightarrow>
                  ((None, powerOperation\<lparr>Spec := (Spec powerOperation)
                      \<lparr>LastPowerOperation := POWER_STATE_ON,
                       LastPowerOnTimestamp := Some (timestamp_New (po_nowFunc helper (requests w2)))\<rparr>\<rparr>), w2)))"

definition po_power_off ::
  "po_helper \<Rightarrow> env \<Rightarrow> reboot_status option \<Rightarrow> bmc_client \<Rightarrow>
   power_operation \<Rightarrow> world \<Rightarrow> (err option \<times> power_operation) \<times> world" where
  "po_power_off helper env rebootStatus bmcClient powerOperation w =
     (let timeSinceLastPowerOn =
            getTimeSinceLastPowerOn (Some powerOperation) rebootStatus (clock env (requests w))
      in if timeSinceLastPowerOn < po_minRebootInterval helper
         then ((Some (RequeueInterval (cooldown_requeue (po_minRebootInterval helper) timeSinceLastPowerOn)),
                powerOperation), w)
         else (case client_PowerOff bmcClient env w of
                 (Some e, w1) \<Rightarrow> ((Some e, powerOperation), w1)
               | (None, w1) \<Rightarrow>
                   ((None, powerOperation\<lparr>Spec := (Spec powerOperation)
                       \<lparr>LastPowerOperation := POWER_STATE_OFF\<rparr>\<rparr>), w1)))"

text \<open>What runs with an open BMC client, up to the deferred close.\<close>

definition po_with_client ::
  "po_helper \<Rightarrow> env \<Rightarrow> infra_machine \<Rightarrow> bmc_configuration option \<Rightarrow> wipe_status option \<Rightarrow> reboot_status option \<Rightarrow>
   bmc_client \<Rightarrow> power_operation \<Rightarrow> world \<Rightarrow> (err option \<times> power_operation) \<times> world" where
  "po_with_client helper env infraMachine bmcConfiguration wipeStatus rebootStatus bmcClient powerOperation w =
     (let requiresPowerOn = RequiresPowerOn infraMachine wipeStatus;
          powerOffActive = IsPowerOffActive (Some infraMachine) (Some powerOperation);
          preferredPowerState = PreferredPowerState (Spec infraMachine)
      in if isManuallyPowered bmcClient
         then ((Some (SkipReconcile ''machine power management is manual''), powerOperation), w)
         else (case client_IsPoweredOn bmcClient env w of
                 (Inl e, w1) \<Rightarrow> ((Some e, powerOperation), w1)
               | (Inr isPoweredOn, w1) \<Rightarrow>
                   if \<not> isPoweredOn \<and> \<not> powerOffActive \<and> (requiresPowerOn \<or> preferredPowerState = PREFERRED_ON)
                   then po_power_on helper env infraMachine bmcConfiguration wipeStatus bmcClient powerOperation w1
                   else if isPoweredOn \<and> \<not> requiresPowerOn \<and> preferredPowerState = PREFERRED_OFF
                   then po_power_off helper env rebootStatus bmcClient powerOperation w1
                   else ((None, powerOperation), w1)))"

definition po_transform :: "po_helper \<Rightarrow> power_operation transform" where
  "po_transform helper env rd infraMachine powerOperation w =
     (case get_or_nil (rd_bmc_configuration rd (ID infraMachine)) of
        Inl e \<Rightarrow> ((Some e, powerOperation), w)
      | Inr bmcConfiguration \<Rightarrow>
     (case get_or_nil (rd_wipe_status rd (ID infraMachine)) of
        Inl e \<Rightarrow> ((Some e, powerOperation), w)
      | Inr wipeStatus \<Rightarrow>
     (case get_or_nil (rd_reboot_status rd (ID infraMachine)) of
        Inl e \<Rightarrow> ((Some e, powerOperation), w)
      | Inr rebootStatus \<Rightarrow>
     (case validateInfraMachine infraMachine of
        Some e \<Rightarrow> ((Some e, powerOperation), w)
      | None \<Rightarrow>
     (if bmcConfiguration = None
      then ((Some (SkipReconcile ''machine has no power management configuration''), powerOperation), w)
      else let powerOperation' = po_acknowledge infraMachine powerOperation
      in case GetClient (po_redfish helper) env bmcConfiguration w of
           (Inl e, w1) \<Rightarrow> ((Some e, powerOperation'), w1)
         | (Inr bmcClient, w1) \<Rightarrow>
             LogCloseContext bmcClient env
               (po_with_client helper env infraMachine bmcConfiguration wipeStatus rebootStatus
                  bmcClient powerOperation' w1))))))"

section \<open>What a reconcile does\<close>

text \<open>The network boot is armed exactly when the required boot mode is a network boot.\<close>

definition po_arms :: "po_helper \<Rightarrow> infra_machine \<Rightarrow> bmc_configuration option \<Rightarrow> wipe_status option \<Rightarrow> bool" where
  "po_arms helper m bmc ws = RequiresPXEBoot (RequiredBootMode (Some m) bmc ws (po_bootOptions helper))"

definition stamped_on :: "power_operation \<Rightarrow> int \<Rightarrow> power_operation" where
  "stamped_on po t = po\<lparr>Spec := (Spec po)\<lparr>LastPowerOperation := POWER_STATE_ON,
                                         LastPowerOnTimestamp := Some (timestamp_New t)\<rparr>\<rparr>"

definition stamped_off :: "power_operation \<Rightarrow> power_operation" where
  "stamped_off po = po\<lparr>Spec := (Spec po)\<lparr>LastPowerOperation := POWER_STATE_OFF\<rparr>\<rparr>"

lemma po_power_on_cases:
  assumes "po_power_on h env m bmc ws c po w = ((r, po'), w')"
  obtains (failed) e cs where "r = Some e" "po' = po" "issued w w' cs" "set cs \<subseteq> {CmdArmPXE, CmdPowerOn}"
      "CmdPowerOn \<in> set cs \<and> po_arms h m bmc ws \<Longrightarrow> hd cs = CmdArmPXE"
    | (turned_on) n t where "r = None" "po' = stamped_on po (po_nowFunc h t)"
      "issued w w' (replicate n CmdArmPXE @ [CmdPowerOn])" "0 < n \<longleftrightarrow> po_arms h m bmc ws"
proof -
  obtain x w1 where a: "(if po_arms h m bmc ws then client_SetPXEBootOnce c env (po_pxeBootMode h) w else (None, w)) = (x, w1)"
    by fastforce
  obtain y w2 where p: "(case x of Some e \<Rightarrow> (Some e, w1) | None \<Rightarrow> client_PowerOn c env w1) = (y, w2)" by fastforce
  obtain cs where cs: "issued w w2 cs" "set cs \<subseteq> {CmdArmPXE, CmdPowerOn}"
    "CmdPowerOn \<in> set cs \<Longrightarrow> po_arms h m bmc ws \<Longrightarrow> hd cs = CmdArmPXE"
    "y = None \<Longrightarrow> \<exists>n. cs = replicate n CmdArmPXE @ [CmdPowerOn] \<and> (0 < n \<longleftrightarrow> po_arms h m bmc ws)"
    using bmc.arm_then_command [OF a p bmc.power_on_one] by blast
  have "r = y \<and> w' = w2 \<and> po' = (if y = None then stamped_on po (po_nowFunc h (requests w2)) else po)"
    using assms a p by (auto simp: po_power_on_def po_arms_def stamped_on_def split: option.splits)
  with cs show ?thesis by (cases y) (auto intro: that)
qed

lemma po_power_off_cases:
  assumes "po_power_off h env rs c po w = ((r, po'), w')"
  obtains (cooldown) t where "t = getTimeSinceLastPowerOn (Some po) rs (clock env (requests w))"
      "t < po_minRebootInterval h" "r = Some (RequeueInterval (cooldown_requeue (po_minRebootInterval h) t))"
      "po' = po" "w' = w"
    | (sent) "po_minRebootInterval h \<le> getTimeSinceLastPowerOn (Some po) rs (clock env (requests w))"
      "(\<exists>e. r = Some e \<and> po' = po \<and> (issued w w' [] \<or> issued w w' [CmdPowerOff])) \<or>
       (r = None \<and> po' = stamped_off po \<and> issued w w' [CmdPowerOff])"
proof (cases "getTimeSinceLastPowerOn (Some po) rs (clock env (requests w)) < po_minRebootInterval h")
  case True
  with assms show ?thesis by (intro cooldown [OF refl]) (auto simp: po_power_off_def)
next
  case False
  obtain y w1 where p: "client_PowerOff c env w = (y, w1)" by fastforce
  have "(y \<noteq> None \<and> issued w w1 []) \<or> issued w w1 [CmdPowerOff]"
    using bmc.power_off_one p by (rule sends_oneE) auto
  with False p assms show ?thesis
    by (intro sent) (auto simp: po_power_off_def stamped_off_def split: option.splits)
qed

text \<open>With a client open: nothing, a power-on from a machine that reported itself off, or a power-off from one
  that reported itself on.\<close>

lemma po_with_client_cases:
  assumes "po_with_client h env m bmc ws rs c po w = ((r, po'), w')"
  obtains (quiet) "po' = po" "issued w w' []"
      "isManuallyPowered c \<Longrightarrow> r = Some (SkipReconcile ''machine power management is manual'')"
    | (on) w1 where "\<not> isManuallyPowered c" "client_IsPoweredOn c env w = (Inr False, w1)" "issued w w1 []"
      "\<not> IsPowerOffActive (Some m) (Some po)" "RequiresPowerOn m ws \<or> PreferredPowerState (Spec m) = PREFERRED_ON"
      "po_power_on h env m bmc ws c po w1 = ((r, po'), w')"
    | (off) w1 where "\<not> isManuallyPowered c" "client_IsPoweredOn c env w = (Inr True, w1)" "issued w w1 []"
      "\<not> RequiresPowerOn m ws" "PreferredPowerState (Spec m) = PREFERRED_OFF"
      "po_power_off h env rs c po w1 = ((r, po'), w')"
proof (cases "isManuallyPowered c")
  case True
  with assms show ?thesis by (intro quiet) (auto simp: po_with_client_def)
next
  case False
  obtain x w1 where q: "client_IsPoweredOn c env w = (x, w1)" by fastforce
  then have i: "issued w w1 []" by (rule sends_noneD [OF bmc.is_powered_on_none])
  consider (skip) "po' = po" "w' = w1"
    | (on) "x = Inr False" "\<not> IsPowerOffActive (Some m) (Some po)"
       "RequiresPowerOn m ws \<or> PreferredPowerState (Spec m) = PREFERRED_ON"
       "po_power_on h env m bmc ws c po w1 = ((r, po'), w')"
    | (off) "x = Inr True" "\<not> RequiresPowerOn m ws" "PreferredPowerState (Spec m) = PREFERRED_OFF"
       "po_power_off h env rs c po w1 = ((r, po'), w')"
    using assms False q
    by (cases x) (auto simp: po_with_client_def Let_def split: if_splits)
  then show ?thesis
  proof cases
    case skip
    with i False show ?thesis by (intro quiet) auto
  next
    case on
    with False q i show ?thesis by (intro that(2)) auto
  next
    case off
    with False q i show ?thesis by (intro that(3)) auto
  qed
qed

text \<open>The whole reconcile: it stops before opening a client, fails to open one, or runs with one.\<close>

lemma po_transform_cases:
  assumes "po_transform h env rd m po w = ((r, po'), w')"
  obtains (stopped) "r \<noteq> None" "po' = po \<or> (validateInfraMachine m = None \<and> po' = po_acknowledge m po)" "issued w w' []"
      "validateInfraMachine m \<noteq> None \<Longrightarrow> w' = w \<and> po' = po"
    | (ran) cfg ws rs c w1 w2 where "validateInfraMachine m = None"
      "get_or_nil (rd_bmc_configuration rd (ID m)) = Inr (Some cfg)"
      "get_or_nil (rd_wipe_status rd (ID m)) = Inr ws" "get_or_nil (rd_reboot_status rd (ID m)) = Inr rs"
      "GetClient (po_redfish h) env (Some cfg) w = (Inr c, w1)" "issued w w1 []"
      "po_with_client h env m (Some cfg) ws rs c (po_acknowledge m po) w1 = ((r, po'), w2)"
      "w' = snd (LogCloseContext c env ((r, po'), w2))"
proof -
  note [simp] = po_transform_def Let_def
  show ?thesis
  proof (cases "\<exists>cfg ws rs. validateInfraMachine m = None \<and>
      get_or_nil (rd_bmc_configuration rd (ID m)) = Inr (Some cfg) \<and>
      get_or_nil (rd_wipe_status rd (ID m)) = Inr ws \<and> get_or_nil (rd_reboot_status rd (ID m)) = Inr rs")
    case False
    with assms have "r \<noteq> None" "po' = po" "w' = w"
      by (cases "validateInfraMachine m"; auto split: sum.splits option.splits if_splits)+
    then show ?thesis by (intro stopped) auto
  next
    case True
    then obtain cfg ws rs where i: "validateInfraMachine m = None"
      "get_or_nil (rd_bmc_configuration rd (ID m)) = Inr (Some cfg)"
      "get_or_nil (rd_wipe_status rd (ID m)) = Inr ws" "get_or_nil (rd_reboot_status rd (ID m)) = Inr rs" by blast
    obtain x w1 where g: "GetClient (po_redfish h) env (Some cfg) w = (x, w1)" by fastforce
    then have iss: "issued w w1 []" by (rule GetClient_issued)
    show ?thesis
    proof (cases x)
      case (Inl e)
      with assms i g iss show ?thesis by (intro stopped) auto
    next
      case (Inr c)
      obtain r1 po1 w2 where p: "po_with_client h env m (Some cfg) ws rs c (po_acknowledge m po) w1 = ((r1, po1), w2)"
        by (metis surj_pair)
      have "fst (LogCloseContext c env ((r1, po1), w2)) = (r1, po1)" by simp
      with assms i g Inr p have "r1 = r" "po1 = po'" "w' = snd (LogCloseContext c env ((r, po'), w2))" by auto
      with i g Inr iss p show ?thesis by (intro ran [of cfg ws rs c w1 w2]) auto
    qed
  qed
qed

section \<open>The reconcile keeps the contract\<close>

interpretation po: gated_transform "po_transform h" "\<lambda>q. False" for h
proof
  fix m e env rd out w r out' w'
  assume e: "validateInfraMachine m = Some e" and t: "po_transform h env rd m out w = ((r, out'), w')"
  from t show "r \<noteq> None \<and> out' = out \<and> emits (\<lambda>q. False) w w'"
    using e by (cases rule: po_transform_cases) auto
qed

lemma po_acknowledge_frame [simp]:
  "LastPowerOnTimestamp (Spec (po_acknowledge m po)) = LastPowerOnTimestamp (Spec po)"
  "LastPowerOperation (Spec (po_acknowledge m po)) = LastPowerOperation (Spec po)"
  "ID (po_acknowledge m po) = ID po"
  by (simp_all add: po_acknowledge_def Let_def)

lemma last_power_on_acknowledge [simp]: "last_power_on (Some (po_acknowledge m po)) rs = last_power_on (Some po) rs"
  by (simp add: last_power_on_def)

lemma po_acknowledge_active:
  assumes "PowerOffRequestId (Spec m) \<noteq> []"
    and "LastPowerOffId (Spec po) = PowerOffRequestId (Spec m) \<Longrightarrow> WipeIdAtPowerOff (Spec po) = WipeId (Spec m)"
  shows "IsPowerOffActive (Some m) (Some (po_acknowledge m po))"
  using assms by (auto simp: IsPowerOffActive_Some po_acknowledge_def Let_def)

lemma full_client_not_manual:
  assumes "GetClient opts env (Some cfg) w = (Inr c, w')"
  shows "isManuallyPowered c \<longleftrightarrow> Manual (Spec cfg) \<noteq> None"
  using GetClient_capabilities(1) [OF assms]
  by (auto simp: isManuallyPowered_def NoCapabilities_def FullCapabilities_def)

text \<open>
  Every run of the transform issues some list of BMC commands, of one of three shapes, each under its own
  conditions: nothing; arming and power-on; or a single power-off.
\<close>

lemma po_transform_issues:
  assumes "po_transform h env rd m po w = ((r, po'), w')"
  obtains (idle) "issued w w' []" "r = None \<Longrightarrow> po' = po_acknowledge m po"
      "po' = po \<or> po' = po_acknowledge m po"
    | (on) cs cfg ws where "issued w w' cs" "set cs \<subseteq> {CmdArmPXE, CmdPowerOn}"
      "validateInfraMachine m = None"
      "get_or_nil (rd_bmc_configuration rd (ID m)) = Inr (Some cfg)" "Manual (Spec cfg) = None"
      "get_or_nil (rd_wipe_status rd (ID m)) = Inr ws"
      "\<not> IsPowerOffActive (Some m) (Some (po_acknowledge m po))"
      "RequiresPowerOn m ws \<or> PreferredPowerState (Spec m) = PREFERRED_ON"
      "CmdPowerOn \<in> set cs \<Longrightarrow> po_arms h m (Some cfg) ws \<Longrightarrow> hd cs = CmdArmPXE"
      "(r \<noteq> None \<and> po' = po_acknowledge m po) \<or>
       (r = None \<and> (\<exists>n t. cs = replicate n CmdArmPXE @ [CmdPowerOn] \<and> (0 < n \<longleftrightarrow> po_arms h m (Some cfg) ws) \<and>
          po' = stamped_on (po_acknowledge m po) (po_nowFunc h t)))"
    | (off) cfg ws rs t where "issued w w' [CmdPowerOff]"
      "validateInfraMachine m = None"
      "get_or_nil (rd_bmc_configuration rd (ID m)) = Inr (Some cfg)" "Manual (Spec cfg) = None"
      "get_or_nil (rd_wipe_status rd (ID m)) = Inr ws" "get_or_nil (rd_reboot_status rd (ID m)) = Inr rs"
      "\<not> RequiresPowerOn m ws" "PreferredPowerState (Spec m) = PREFERRED_OFF"
      "po_minRebootInterval h \<le> time_Sub (clock env t) (last_power_on (Some po) rs)"
      "(r \<noteq> None \<and> po' = po_acknowledge m po) \<or> (r = None \<and> po' = stamped_off (po_acknowledge m po))"
  using assms
proof (cases rule: po_transform_cases)
  case stopped
  then show ?thesis by (intro idle) auto
next
  case (ran cfg ws rs c w1 w2)
  note cl = issued_trans [OF ran(6)]
  have close: "issued w1 w2 cs \<Longrightarrow> issued w w' cs" for cs
    using cl [of w2 cs] LogCloseContext_issued [of w "((r, po'), w2)" cs c env] ran(8) by simp
  have manual: "\<not> isManuallyPowered c \<Longrightarrow> Manual (Spec cfg) = None"
    using full_client_not_manual [OF ran(5)] by simp
  from ran(7) show ?thesis
  proof (cases rule: po_with_client_cases)
    case quiet
    then show ?thesis by (intro idle close) auto
  next
    case (on w3)
    note on' = on
    have close': "issued w3 w2 cs \<Longrightarrow> issued w w' cs" for cs
      using issued_trans [OF on(3), of w2 cs] close [of cs] by simp
    from on(6) show ?thesis
    proof (cases rule: po_power_on_cases)
      case (failed e cs)
      show ?thesis
        by (rule that(2) [OF close' [OF failed(3)] failed(4) ran(1,2) manual [OF on'(1)] ran(3) on'(4,5)])
          (use failed in auto)
    next
      case (turned_on n t)
      show ?thesis
        by (rule that(2) [OF close' [OF turned_on(3)] _ ran(1,2) manual [OF on'(1)] ran(3) on'(4,5)])
          (use turned_on in \<open>auto simp: hd_append\<close>)
    qed
  next
    case (off w3)
    note off' = off
    have close': "issued w3 w2 cs \<Longrightarrow> issued w w' cs" for cs
      using issued_trans [OF off(3), of w2 cs] close [of cs] by simp
    from off(6) show ?thesis
    proof (cases rule: po_power_off_cases)
      case (cooldown t)
      then show ?thesis by (intro idle close') auto
    next
      case sent
      show ?thesis
      proof (cases "issued w3 w2 [CmdPowerOff]")
        case True
        show ?thesis
          by (rule that(3) [OF close' [OF True] ran(1,2) manual [OF off'(1)] ran(3,4) off'(4,5)])
            (use sent in \<open>auto simp: getTimeSinceLastPowerOn_last\<close>)
      next
        case False
        with sent show ?thesis by (intro idle close') auto
      qed
    qed
  qed
qed

section \<open>Properties\<close>

text \<open>
  C6. The controller powers a machine on only when it may: the machine is accepted and not cordoned, it has a
  BMC, no power-off request of Omni is in force, and the machine is needed or preferred on. When the machine
  has to boot over the network, the one-time network boot is armed before the power-on command goes out. A
  run that powers on never powers off.
\<close>

theorem po_power_on_allowed:
  assumes "po_transform h env rd m po w = ((r, po'), w')" and "issued w w' cs" and "CmdPowerOn \<in> set cs"
  shows "AcceptanceStatus (Spec m) = ACCEPTED \<and> \<not> Cordoned (Spec m) \<and>
    \<not> IsPowerOffActive (Some m) (Some (po_acknowledge m po)) \<and> CmdPowerOff \<notin> set cs \<and>
    (\<exists>cfg ws. get_or_nil (rd_bmc_configuration rd (ID m)) = Inr (Some cfg) \<and> Manual (Spec cfg) = None \<and>
       get_or_nil (rd_wipe_status rd (ID m)) = Inr ws \<and>
       (RequiresPowerOn m ws \<or> PreferredPowerState (Spec m) = PREFERRED_ON) \<and>
       (RequiresPXEBoot (RequiredBootMode (Some m) (Some cfg) ws (po_bootOptions h)) \<longrightarrow> hd cs = CmdArmPXE))"
  using assms(1)
proof (cases rule: po_transform_issues)
  case idle
  with assms show ?thesis by (auto dest: issued_unique)
next
  case (on ds cfg ws)
  with assms(2) have "cs = ds" by (blast dest: issued_unique)
  with on assms(3) show ?thesis by (auto simp: validateInfraMachine_None po_arms_def)
next
  case off
  with assms show ?thesis by (auto dest: issued_unique)
qed

definition po_h1 :: po_helper where
  "po_h1 = \<lparr>po_redfish = default_redfish, po_nowFunc = (\<lambda>qs. 5000), po_pxeBootMode = BootModeUEFI,
           po_bootOptions = \<lparr>AlwaysNetboot = False\<rparr>, po_minRebootInterval = 900000000000\<rparr>"

definition po_rd1 :: reader where
  "po_rd1 = reader_of (Some m1) (Some m1_api) None (Some m1_wiped) None None None"

lemma po_run1_requests:
  "requests (snd (po_transform po_h1 (ok_env False 5000) po_rd1 m1 (NewPowerOperation ''m1'') empty_world)) =
     [HttpGet ''10.0.0.9:80'' ''/status'', HttpPost ''10.0.0.9:80'' ''/pxeboot'', HttpPost ''10.0.0.9:80'' ''/poweron'']"
  by code_simp


theorem po_power_on_allowed_witness:
  "\<exists>r po' w'. po_transform po_h1 (ok_env False 5000) po_rd1 m1 (NewPowerOperation ''m1'') empty_world = ((r, po'), w') \<and>
     \<not> IsPowerOffActive (Some m1) (Some (po_acknowledge m1 (NewPowerOperation ''m1'')))"
proof -
  obtain r po' w' where t:
    "po_transform po_h1 (ok_env False 5000) po_rd1 m1 (NewPowerOperation ''m1'') empty_world = ((r, po'), w')"
    by (metis surj_pair)
  have "issued empty_world w' [CmdArmPXE, CmdPowerOn]"
    using po_run1_requests t by (simp add: issued_def empty_world_def)
  from po_power_on_allowed [OF t this] t show ?thesis by auto
qed

text \<open>
  C7. The controller powers a machine off only when it may: the machine is accepted and not cordoned, it has a
  BMC, nothing needs it on, it is preferred off, and at least the minimal interval has passed since the last
  power-on or reboot, whichever is later. It is the only command of such a run.
\<close>

theorem po_power_off_allowed:
  assumes "po_transform h env rd m po w = ((r, po'), w')" and "issued w w' cs" and "CmdPowerOff \<in> set cs"
  shows "AcceptanceStatus (Spec m) = ACCEPTED \<and> \<not> Cordoned (Spec m) \<and> cs = [CmdPowerOff] \<and>
    PreferredPowerState (Spec m) = PREFERRED_OFF \<and> ClusterTalosVersion (Spec m) = [] \<and>
    (\<exists>cfg ws rs t. get_or_nil (rd_bmc_configuration rd (ID m)) = Inr (Some cfg) \<and> Manual (Spec cfg) = None \<and>
       get_or_nil (rd_wipe_status rd (ID m)) = Inr (Some ws) \<and> wiped_for m ws \<and> \<not> IsInstalled (Some m) (Some ws) \<and>
       get_or_nil (rd_reboot_status rd (ID m)) = Inr rs \<and>
       po_minRebootInterval h \<le> time_Sub (clock env t) (last_power_on (Some po) rs))"
  using assms(1)
proof (cases rule: po_transform_issues)
  case idle
  with assms show ?thesis by (auto dest: issued_unique)
next
  case (on ds cfg ws)
  with assms(2) have "cs = ds" by (blast dest: issued_unique)
  with on(2) assms(3) show ?thesis by auto
next
  case (off cfg ws rs t)
  with assms(2) have "cs = [CmdPowerOff]" by (blast dest: issued_unique)
  moreover obtain s where "ws = Some s" "wiped_for m s"
    using off(7) by (auto simp: RequiresPowerOn_def RequiresWipe_iff)
  ultimately show ?thesis using off by (auto simp: validateInfraMachine_None RequiresPowerOn_def)
qed

text \<open>An idle machine: released from its cluster, wiped, last powered on long ago.\<close>

definition po_idle_machine :: infra_machine where
  "po_idle_machine = m1\<lparr>Spec := m1_spec\<lparr>ClusterTalosVersion := []\<rparr>\<rparr>"

lemma po_run2_requests:
  "requests (snd (po_transform po_h1 (ok_env True 900000000000) po_rd1 po_idle_machine
       (stamped_on (NewPowerOperation ''m1'') 0) empty_world)) =
     [HttpGet ''10.0.0.9:80'' ''/status'', HttpPost ''10.0.0.9:80'' ''/poweroff'']"
  by code_simp

theorem po_power_off_allowed_witness:
  "\<exists>r po' w'. po_transform po_h1 (ok_env True 900000000000) po_rd1 po_idle_machine
     (stamped_on (NewPowerOperation ''m1'') 0) empty_world = ((r, po'), w') \<and>
     PreferredPowerState (Spec po_idle_machine) = PREFERRED_OFF"
proof -
  obtain r po' w' where t: "po_transform po_h1 (ok_env True 900000000000) po_rd1 po_idle_machine
     (stamped_on (NewPowerOperation ''m1'') 0) empty_world = ((r, po'), w')"
    by (metis surj_pair)
  have "issued empty_world w' [CmdPowerOff]"
    using po_run2_requests t by (simp add: issued_def empty_world_def)
  from po_power_off_allowed [OF t this] t show ?thesis by auto
qed

text \<open>
  What the controller records is what it did. A run without an error either sent no power command and only
  acknowledged the power-off request; or powered the machine on as its last command, exactly then recording ON
  with the time of that moment; or powered it off, recording OFF and keeping the time of the last power-on. A
  run that fails never records a power operation.
\<close>

theorem po_records_what_it_did:
  assumes "po_transform h env rd m po w = ((r, po'), w')"
  shows "case r of
      Some e \<Rightarrow> po' = po \<or> po' = po_acknowledge m po
    | None \<Rightarrow>
        (issued w w' [] \<and> po' = po_acknowledge m po) \<or>
        (\<exists>n t. issued w w' (replicate n CmdArmPXE @ [CmdPowerOn]) \<and>
           po' = stamped_on (po_acknowledge m po) (po_nowFunc h t)) \<or>
        (issued w w' [CmdPowerOff] \<and> po' = stamped_off (po_acknowledge m po))"
  using assms by (cases rule: po_transform_issues) (auto split: option.splits)

lemma po_run1_result:
  "fst (fst (po_transform po_h1 (ok_env False 5000) po_rd1 m1 (NewPowerOperation ''m1'') empty_world)) = None"
  by code_simp

theorem po_records_what_it_did_witness:
  "\<exists>po' w'. po_transform po_h1 (ok_env False 5000) po_rd1 m1 (NewPowerOperation ''m1'') empty_world =
     ((None, po'), w') \<and> LastPowerOperation (Spec po') = POWER_STATE_ON \<and>
     LastPowerOnTimestamp (Spec po') = Some (timestamp_New 5000)"
proof -
  obtain po' w' where t: "po_transform po_h1 (ok_env False 5000) po_rd1 m1 (NewPowerOperation ''m1'') empty_world =
      ((None, po'), w')"
    using po_run1_result by (metis prod.collapse)
  have "issued empty_world w' [CmdArmPXE, CmdPowerOn]"
    using po_run1_requests t by (simp add: issued_def empty_world_def)
  with po_records_what_it_did [OF t] have "po' = stamped_on (po_acknowledge m1 (NewPowerOperation ''m1'')) 5000"
    by (auto dest: issued_unique simp: po_h1_def)
  with t show ?thesis by (simp add: stamped_on_def)
qed

section \<open>A standing power-off request over many reconciles\<close>

text \<open>The wipe ID recorded with an acknowledged request is the one of the request's lifecycle.\<close>

definition acknowledged_for :: "string \<Rightarrow> string \<Rightarrow> power_operation \<Rightarrow> bool" where
  "acknowledged_for rid wid po \<longleftrightarrow> (LastPowerOffId (Spec po) = rid \<longrightarrow> WipeIdAtPowerOff (Spec po) = wid)"

lemma po_acknowledged_step:
  assumes "po_transform h env rd m po w = ((r, po'), w')"
    and "PowerOffRequestId (Spec m) = rid" "WipeId (Spec m) = wid" "acknowledged_for rid wid po"
  shows "acknowledged_for rid wid po'"
proof -
  have ack: "acknowledged_for rid wid (po_acknowledge m po)"
    using assms by (simp add: po_acknowledge_def acknowledged_for_def Let_def)
  with assms show ?thesis
    by (cases rule: po_transform_issues) (auto simp: acknowledged_for_def stamped_on_def stamped_off_def)
qed

lemma po_no_power_on_step:
  assumes "po_transform h env rd m po w = ((r, po'), w')" "PowerOffRequestId (Spec m) \<noteq> []"
    and "acknowledged_for (PowerOffRequestId (Spec m)) (WipeId (Spec m)) po"
  shows "\<exists>cs. issued w w' cs \<and> CmdPowerOn \<notin> set cs \<and> CmdArmPXE \<notin> set cs"
  using assms(1)
proof (cases rule: po_transform_issues)
  case idle
  then show ?thesis by (intro exI [of _ "[]"]) simp
next
  case on
  moreover have "IsPowerOffActive (Some m) (Some (po_acknowledge m po))"
    using assms(2,3) by (intro po_acknowledge_active) (auto simp: acknowledged_for_def)
  ultimately show ?thesis by simp
next
  case off
  then show ?thesis by (intro exI [of _ "[CmdPowerOff]"]) simp
qed

text \<open>
  C8. A power-off request of Omni is honoured for as long as it stands: over any sequence of reconciles of a
  machine with the same request and the same wipe ID, whatever the BMC, the other resources and the runtime do
  in between, no command ever powers the machine on or arms its network boot.
\<close>

theorem po_power_off_request_honoured:
  assumes "rid \<noteq> []"
    and "\<forall>(env, rd, m) \<in> set inputs. PowerOffRequestId (Spec m) = rid \<and> WipeId (Spec m) = wid"
    and "acknowledged_for rid wid po"
    and "reconcile_all stores_after (po_transform h) inputs po w = (po', w')"
  shows "\<exists>cs. issued w w' cs \<and> CmdPowerOn \<notin> set cs \<and> CmdArmPXE \<notin> set cs"
  using assms(2-4)
proof (induction inputs arbitrary: po w)
  case Nil
  then show ?case by (intro exI [of _ "[]"]) auto
next
  case (Cons x inputs)
  obtain env rd m where x: "x = (env, rd, m)" by (metis surj_pair)
  with Cons.prems(1) have m: "PowerOffRequestId (Spec m) = rid" "WipeId (Spec m) = wid" by auto
  obtain r po1 w1 where t: "po_transform h env rd m po w = ((r, po1), w1)" by (metis surj_pair)
  obtain po2 where r: "reconcile stores_after (po_transform h) env rd m po w = (po2, w1)" "po2 = po \<or> po2 = po1"
    using t by (cases r) (auto simp: reconcile_def)
  from po_acknowledged_step [OF t m Cons.prems(2)] r(2) Cons.prems(2) have a: "acknowledged_for rid wid po2" by auto
  from Cons.prems(3) x r(1) have "reconcile_all stores_after (po_transform h) inputs po2 w1 = (po', w')" by simp
  with Cons.IH [OF _ a] Cons.prems(1) obtain ds where
    ds: "issued w1 w' ds" "CmdPowerOn \<notin> set ds" "CmdArmPXE \<notin> set ds" by auto
  from po_no_power_on_step [OF t] m assms(1) Cons.prems(2) obtain cs where
    cs: "issued w w1 cs" "CmdPowerOn \<notin> set cs" "CmdArmPXE \<notin> set cs" by auto
  from issued_trans [OF cs(1) ds(1)] cs ds show ?case by (intro exI [of _ "cs @ ds"]) auto
qed

definition po_off_machine :: infra_machine where
  "po_off_machine = m1\<lparr>Spec := m1_spec\<lparr>PowerOffRequestId := ''off-1''\<rparr>\<rparr>"

theorem po_power_off_request_honoured_witness:
  "\<exists>po' w' cs. reconcile_all (\<lambda>e. False) (po_transform po_h1)
      [(ok_env False 1, po_rd1, po_off_machine), (ok_env False 2, po_rd1, po_off_machine)]
      (NewPowerOperation ''m1'') empty_world = (po', w') \<and> issued empty_world w' cs \<and> CmdPowerOn \<notin> set cs"
proof -
  obtain po' w' where r: "reconcile_all (\<lambda>e. False) (po_transform po_h1)
      [(ok_env False 1, po_rd1, po_off_machine), (ok_env False 2, po_rd1, po_off_machine)]
      (NewPowerOperation ''m1'') empty_world = (po', w')" by (metis surj_pair)
  have "\<exists>cs. issued empty_world w' cs \<and> CmdPowerOn \<notin> set cs \<and> CmdArmPXE \<notin> set cs"
    by (rule po_power_off_request_honoured [OF _ _ _ r, of "''off-1''" "''w1''"])
      (simp_all add: po_off_machine_def m1_spec_def acknowledged_for_def new_resource_defs)
  with r show ?thesis by blast
qed

end
