(* ===== verification/RebootStatus.thy ===== *)
theory RebootStatus
  imports Samples
begin

text \<open>
  \<open>internal/provider/controllers/reboot_status.go\<close>: reboot a machine to bring it into the mode it should be
  in, or because Omni asks for it, over its BMC or, when it has none, over its agent; and try to get a
  removed machine back into agent mode. The transform also keeps the controller's finalizer on the inputs it
  needs for that last step.
\<close>

record rs_helper =
  rs_redfish :: redfish_options
  rs_bootOptions :: boot_options
  rs_pxeBootMode :: pxe_boot_mode
  rs_controllerName :: string
  rs_minRebootInterval :: int

text \<open>\<open>rebootOverAnyChannel\<close>: the body under the deferred close, and the whole of it.\<close>

definition rs_reboot_with_client ::
  "rs_helper \<Rightarrow> env \<Rightarrow> resource_id \<Rightarrow> bool \<Rightarrow> bool \<Rightarrow> bmc_client \<Rightarrow> world \<Rightarrow> err option \<times> world" where
  "rs_reboot_with_client helper env i requiresPXEBoot agentAccessible bmcClient w =
     (let capabilities = Capabilities bmcClient
      in if cap_Reboot capabilities
         then (case (if requiresPXEBoot \<and> cap_BootDeviceControl capabilities
                     then client_SetPXEBootOnce bmcClient env (rs_pxeBootMode helper) w
                     else (None, w)) of
                 (Some e, w1) \<Rightarrow> (Some e, w1)
               | (None, w1) \<Rightarrow> client_Reboot bmcClient env w1)
         else if agentAccessible then agent_Reboot env i w
         else (Some (SkipReconcile ''machine requires a manual reboot''), w))"

definition rebootOverAnyChannel ::
  "rs_helper \<Rightarrow> env \<Rightarrow> resource_id \<Rightarrow> bmc_configuration option \<Rightarrow> bool \<Rightarrow> bool \<Rightarrow> world \<Rightarrow> err option \<times> world" where
  "rebootOverAnyChannel helper env i bmcConfiguration requiresPXEBoot agentAccessible w =
     (case GetClient (rs_redfish helper) env bmcConfiguration w of
        (Inl e, w1) \<Rightarrow> (Some e, w1)
      | (Inr bmcClient, w1) \<Rightarrow>
          LogCloseContext bmcClient env
            (rs_reboot_with_client helper env i requiresPXEBoot agentAccessible bmcClient w1))"

definition rs_reboot ::
  "rs_helper \<Rightarrow> env \<Rightarrow> infra_machine \<Rightarrow> bmc_configuration option \<Rightarrow> power_operation option \<Rightarrow> bool \<Rightarrow> bool \<Rightarrow>
   reboot_status option \<Rightarrow> world \<Rightarrow> (err option \<times> reboot_status option) \<times> world" where
  "rs_reboot helper env infraMachine bmcConfiguration powerOperation requiresPXEBoot agentAccessible rebootStatus w =
     (let timeSinceLastPowerOn = getTimeSinceLastPowerOn powerOperation rebootStatus (clock env (requests w))
      in if timeSinceLastPowerOn < rs_minRebootInterval helper
         then ((Some (RequeueInterval (cooldown_requeue (rs_minRebootInterval helper) timeSinceLastPowerOn)),
                rebootStatus), w)
         else (case rebootOverAnyChannel helper env (ID infraMachine) bmcConfiguration requiresPXEBoot agentAccessible w of
                 (Some e, w1) \<Rightarrow> ((Some e, rebootStatus), w1)
               | (None, w1) \<Rightarrow>
                   ((None, map_option (\<lambda>rebootStatus. rebootStatus\<lparr>Spec := (Spec rebootStatus)
                       \<lparr>LastRebootId := RequestedRebootId (Spec infraMachine),
                        LastRebootTimestamp := Some (timestamp_New (clock env (requests w1)))\<rparr>\<rparr>) rebootStatus), w1)))"

text \<open>Put the controller's finalizer on an input resource, or take it off again, unless that is done already.\<close>

definition ensure_finalizer ::
  "rs_helper \<Rightarrow> env \<Rightarrow> resource_kind \<Rightarrow> string \<Rightarrow> 's resource option \<Rightarrow> world \<Rightarrow> err option \<times> world" where
  "ensure_finalizer helper env kind what res w =
     (case res of
        None \<Rightarrow> (None, w)
      | Some x \<Rightarrow>
          if rs_controllerName helper \<notin> set (Finalizers x)
          then (case act env (AddFinalizer kind (ID x) (rs_controllerName helper)) w of
                  (Some e, w1) \<Rightarrow> (Some (Wrapped (''failed to add finalizer to '' @ what) e), w1)
                | (None, w1) \<Rightarrow> (None, w1))
          else (None, w))"

definition drop_finalizer ::
  "rs_helper \<Rightarrow> env \<Rightarrow> resource_kind \<Rightarrow> string \<Rightarrow> 's resource option \<Rightarrow> world \<Rightarrow> err option \<times> world" where
  "drop_finalizer helper env kind what res w =
     (case res of
        None \<Rightarrow> (None, w)
      | Some x \<Rightarrow>
          if rs_controllerName helper \<in> set (Finalizers x)
          then (case act env (RemoveFinalizer kind (ID x) (rs_controllerName helper)) w of
                  (Some e, w1) \<Rightarrow> (Some (Wrapped (''failed to remove finalizer from '' @ what) e), w1)
                | (None, w1) \<Rightarrow> (None, w1))
          else (None, w))"

text \<open>What the transform decides and does once its inputs are there.\<close>

definition rs_decide ::
  "rs_helper \<Rightarrow> env \<Rightarrow> infra_machine \<Rightarrow> bmc_configuration \<Rightarrow> machine_status \<Rightarrow> wipe_status option \<Rightarrow>
   power_operation option \<Rightarrow> reboot_status \<Rightarrow> world \<Rightarrow> (err option \<times> reboot_status) \<times> world" where
  "rs_decide helper env infraMachine bmcConfiguration machineStatus wipeStatus powerOperation rebootStatus w =
     (let requiredBootMode =
            RequiredBootMode (Some infraMachine) (Some bmcConfiguration) wipeStatus (rs_bootOptions helper);
          requiresPXEBoot = RequiresPXEBoot requiredBootMode;
          requiresPowerOn = RequiresPowerOn infraMachine wipeStatus;
          agentAccessible = AgentAccessible (Spec machineStatus);
          modeMismatch = ((requiredBootMode = BootModeAgentPXE \<and> \<not> agentAccessible) \<or>
                          (requiredBootMode = BootModeTalosPXE \<and> agentAccessible));
          requiresReboot = (requiresPowerOn \<and> modeMismatch);
          reboot = (\<lambda>w. case rs_reboot helper env infraMachine (Some bmcConfiguration) powerOperation requiresPXEBoot
                                agentAccessible (Some rebootStatus) w of
                          ((e, rebootStatus'), w1) \<Rightarrow>
                            ((e, case rebootStatus' of None \<Rightarrow> rebootStatus | Some s \<Rightarrow> s), w1))
      in if requiresReboot then reboot w
         else if LastRebootId (Spec rebootStatus) \<noteq> RequestedRebootId (Spec infraMachine) then reboot w
         else ((None, rebootStatus), w))"

definition rs_transform :: "rs_helper \<Rightarrow> reboot_status transform" where
  "rs_transform helper env rd infraMachine rebootStatus w =
     (case get_or_nil (rd_machine_status rd (ID infraMachine)) of
        Inl e \<Rightarrow> ((Some e, rebootStatus), w)
      | Inr machineStatus \<Rightarrow>
     (case ensure_finalizer helper env MachineStatusKind ''machine status'' machineStatus w of
        (Some e, w1) \<Rightarrow> ((Some e, rebootStatus), w1)
      | (None, w1) \<Rightarrow>
     (case get_or_nil (rd_bmc_configuration rd (ID infraMachine)) of
        Inl e \<Rightarrow> ((Some e, rebootStatus), w1)
      | Inr bmcConfiguration \<Rightarrow>
     (case ensure_finalizer helper env BMCConfigurationKind ''bmc configuration'' bmcConfiguration w1 of
        (Some e, w2) \<Rightarrow> ((Some e, rebootStatus), w2)
      | (None, w2) \<Rightarrow>
     (case get_or_nil (rd_wipe_status rd (ID infraMachine)) of
        Inl e \<Rightarrow> ((Some e, rebootStatus), w2)
      | Inr wipeStatus \<Rightarrow>
     (case get_or_nil (rd_power_operation rd (ID infraMachine)) of
        Inl e \<Rightarrow> ((Some e, rebootStatus), w2)
      | Inr powerOperation \<Rightarrow>
     (case validateInfraMachine infraMachine of
        Some e \<Rightarrow> ((Some e, rebootStatus), w2)
      | None \<Rightarrow>
     (case bmcConfiguration of
        None \<Rightarrow> ((Some (SkipReconcile ''bmc configuration not found''), rebootStatus), w2)
      | Some bmc \<Rightarrow>
     (case machineStatus of
        None \<Rightarrow> ((Some (SkipReconcile ''machine status not found''), rebootStatus), w2)
      | Some ms \<Rightarrow> rs_decide helper env infraMachine bmc ms wipeStatus powerOperation rebootStatus w2)))))))))"

section \<open>The removal of a machine\<close>

text \<open>The result of the reboot is only logged.\<close>

definition attemptRebootOnRemoval ::
  "rs_helper \<Rightarrow> env \<Rightarrow> machine_status option \<Rightarrow> bmc_configuration option \<Rightarrow> infra_machine \<Rightarrow> world \<Rightarrow> world" where
  "attemptRebootOnRemoval helper env machineStatus bmcConfiguration infraMachine w =
     (if bmcConfiguration = None then w
      else (case machineStatus of
              None \<Rightarrow> w
            | Some ms \<Rightarrow>
                if AgentAccessible (Spec ms) then w
                else snd (rs_reboot helper env infraMachine bmcConfiguration None True False None w)))"

definition rs_finalizerRemoval :: "rs_helper \<Rightarrow> env \<Rightarrow> reader \<Rightarrow> infra_machine \<Rightarrow> world \<Rightarrow> err option \<times> world" where
  "rs_finalizerRemoval helper env rd infraMachine w =
     (case get_or_nil (rd_machine_status rd (ID infraMachine)) of
        Inl e \<Rightarrow> (Some e, w)
      | Inr machineStatus \<Rightarrow>
     (case get_or_nil (rd_bmc_configuration rd (ID infraMachine)) of
        Inl e \<Rightarrow> (Some e, w)
      | Inr bmcConfiguration \<Rightarrow>
          (let w1 = attemptRebootOnRemoval helper env machineStatus bmcConfiguration infraMachine w
           in case drop_finalizer helper env MachineStatusKind ''machine status'' machineStatus w1 of
                (Some e, w2) \<Rightarrow> (Some e, w2)
              | (None, w2) \<Rightarrow>
                  drop_finalizer helper env BMCConfigurationKind ''bmc configuration'' bmcConfiguration w2)))"

section \<open>What a reboot does\<close>

text \<open>The requests on finalizers, the only ones a transform sends without rebooting.\<close>

fun on_finalizer :: "request \<Rightarrow> bool" where
  "on_finalizer (AddFinalizer k i f) = True"
| "on_finalizer (RemoveFinalizer k i f) = True"
| "on_finalizer _ = False"

lemma on_finalizer_silent: "on_finalizer q \<Longrightarrow> command_of q = None \<and> \<not> to_agent q"
  by (cases q) auto

lemma emits_finalizer_issued: "emits on_finalizer w w' \<Longrightarrow> issued w w' []"
proof -
  assume "emits on_finalizer w w'"
  then obtain qs where qs: "requests w' = requests w @ qs" "list_all on_finalizer qs" by (auto simp: emits_def)
  from qs(2) have "commands qs = []" "list_all (\<lambda>q. \<not> to_agent q) qs"
    by (induction qs) (auto dest: on_finalizer_silent)
  with qs(1) show ?thesis by (auto simp: issued_def)
qed

lemma ensure_finalizer_emits [emit_intros]:
  "ensure_finalizer h env k what res w = (r, w') \<Longrightarrow> emits on_finalizer w w'"
  by (auto simp: ensure_finalizer_def act_def split: option.splits if_splits)

lemma drop_finalizer_emits [emit_intros]:
  "drop_finalizer h env k what res w = (r, w') \<Longrightarrow> emits on_finalizer w w'"
  by (auto simp: drop_finalizer_def act_def split: option.splits if_splits)

text \<open>
  A reboot over any channel: nothing that matters was sent, or the BMC was commanded, or, for a machine
  without a BMC whose agent is reachable, the agent was asked.
\<close>

lemma rebootOverAnyChannel_cases:
  assumes "rebootOverAnyChannel h env i (Some cfg) pxe acc w = (r, w')"
  obtains (failed) "r \<noteq> None" "issued w w' []"
    | (over_bmc) cs where "Manual (Spec cfg) = None" "issued w w' cs" "set cs \<subseteq> {CmdArmPXE, CmdReboot}"
      "CmdReboot \<in> set cs \<Longrightarrow> pxe \<Longrightarrow> hd cs = CmdArmPXE"
      "r = None \<Longrightarrow> \<exists>n. cs = replicate n CmdArmPXE @ [CmdReboot] \<and> (0 < n \<longleftrightarrow> pxe)"
    | (over_agent) "Manual (Spec cfg) \<noteq> None" "acc" "requests w' = requests w @ [AgentReboot i]"
proof -
  obtain x w1 where g: "GetClient (rs_redfish h) env (Some cfg) w = (x, w1)" by fastforce
  show ?thesis
  proof (cases x)
    case (Inl e)
    with assms g GetClient_issued [OF g] show ?thesis by (intro failed) (auto simp: rebootOverAnyChannel_def)
  next
    case (Inr c)
    obtain r2 w2 where b: "rs_reboot_with_client h env i pxe acc c w1 = (r2, w2)" by fastforce
    then have rw: "r = r2" "w' = snd (LogCloseContext c env (r2, w2))"
      using assms g Inr by (auto simp: rebootOverAnyChannel_def dest: arg_cong [of _ _ fst])
    note cap = GetClient_capabilities [OF g [unfolded Inr]]
    show ?thesis
    proof (cases "Manual (Spec cfg) = None")
      case True
      with cap have c: "Capabilities c = FullCapabilities" by simp
      obtain y w3 where a: "(if pxe then client_SetPXEBootOnce c env (rs_pxeBootMode h) w1 else (None, w1)) = (y, w3)"
        by fastforce
      have "(case y of Some e \<Rightarrow> (Some e, w3) | None \<Rightarrow> client_Reboot c env w3) = (r2, w2)"
        using b a c by (auto simp: rs_reboot_with_client_def FullCapabilities_def split: option.splits)
      from bmc.arm_then_command [OF a this bmc.reboot_one] obtain cs where
        cs: "issued w1 w2 cs" "set cs \<subseteq> {CmdArmPXE, CmdReboot}" "CmdReboot \<in> set cs \<Longrightarrow> pxe \<Longrightarrow> hd cs = CmdArmPXE"
        "r2 = None \<Longrightarrow> \<exists>n. cs = replicate n CmdArmPXE @ [CmdReboot] \<and> (0 < n \<longleftrightarrow> pxe)" by blast
      have "issued w w2 cs" using issued_trans [OF GetClient_issued [OF g] cs(1)] by simp
      then have "issued w w' cs" using rw(2) by (simp add: LogCloseContext_issued)
      with True cs rw(1) show ?thesis by (intro over_bmc [of cs]) auto
    next
      case False
      with cap have c: "Capabilities c = NoCapabilities" "client c = ManualBackend" by auto
      from False g Inr have w1: "w1 = w" by (simp add: GetClient_manual)
      have "w' = w2" using rw(2) c(2) by (simp add: LogCloseContext_def client_Close_def manual_Close_def)
      with b c(1) w1 rw(1) False show ?thesis
        by (cases acc) (auto simp: rs_reboot_with_client_def NoCapabilities_def intro: failed over_agent
          dest: agent_calls_no_command)
    qed
  qed
qed

definition rebooted :: "infra_machine \<Rightarrow> reboot_status \<Rightarrow> int \<Rightarrow> reboot_status" where
  "rebooted m rs t = rs\<lparr>Spec := (Spec rs)\<lparr>LastRebootId := RequestedRebootId (Spec m),
                                         LastRebootTimestamp := Some (timestamp_New t)\<rparr>\<rparr>"

text \<open>Why the transform reboots: the machine is in the wrong mode and needed, or Omni asked for a reboot.\<close>

definition mode_mismatch :: "boot_mode \<Rightarrow> bool \<Rightarrow> bool" where
  "mode_mismatch mode acc \<longleftrightarrow> (mode = BootModeAgentPXE \<and> \<not> acc) \<or> (mode = BootModeTalosPXE \<and> acc)"

definition rs_mode :: "rs_helper \<Rightarrow> infra_machine \<Rightarrow> bmc_configuration \<Rightarrow> wipe_status option \<Rightarrow> boot_mode" where
  "rs_mode h m cfg ws = RequiredBootMode (Some m) (Some cfg) ws (rs_bootOptions h)"

definition reboot_due ::
  "rs_helper \<Rightarrow> infra_machine \<Rightarrow> bmc_configuration \<Rightarrow> machine_status \<Rightarrow> wipe_status option \<Rightarrow> reboot_status \<Rightarrow> bool" where
  "reboot_due h m cfg ms ws rs \<longleftrightarrow>
     (RequiresPowerOn m ws \<and> mode_mismatch (rs_mode h m cfg ws) (AgentAccessible (Spec ms))) \<or>
     LastRebootId (Spec rs) \<noteq> RequestedRebootId (Spec m)"

lemma rs_decide_due:
  "rs_decide h env m cfg ms ws po rs w =
     (if reboot_due h m cfg ms ws rs
      then (if getTimeSinceLastPowerOn po (Some rs) (clock env (requests w)) < rs_minRebootInterval h
            then ((Some (RequeueInterval (cooldown_requeue (rs_minRebootInterval h)
                    (getTimeSinceLastPowerOn po (Some rs) (clock env (requests w))))), rs), w)
            else (case rebootOverAnyChannel h env (ID m) (Some cfg) (RequiresPXEBoot (rs_mode h m cfg ws))
                         (AgentAccessible (Spec ms)) w of
                    (Some e, w1) \<Rightarrow> ((Some e, rs), w1)
                  | (None, w1) \<Rightarrow> ((None, rebooted m rs (clock env (requests w1))), w1)))
      else ((None, rs), w))"
proof -
  obtain x w1 where "rebootOverAnyChannel h env (ID m) (Some cfg) (RequiresPXEBoot (rs_mode h m cfg ws))
    (AgentAccessible (Spec ms)) w = (x, w1)" by fastforce
  then show ?thesis
    by (cases x) (auto simp: rs_decide_def reboot_due_def mode_mismatch_def rs_mode_def rs_reboot_def rebooted_def Let_def)
qed

text \<open>The whole reconcile: it stops with an error, or decides with all its inputs at hand.\<close>

lemma rs_transform_cases:
  assumes "rs_transform h env rd m rs w = ((r, rs'), w')"
  obtains (stopped) "r \<noteq> None" "rs' = rs" "emits on_finalizer w w'"
    | (ran) cfg ms ws po w1 where "validateInfraMachine m = None"
      "get_or_nil (rd_bmc_configuration rd (ID m)) = Inr (Some cfg)"
      "get_or_nil (rd_machine_status rd (ID m)) = Inr (Some ms)"
      "get_or_nil (rd_wipe_status rd (ID m)) = Inr ws" "get_or_nil (rd_power_operation rd (ID m)) = Inr po"
      "emits on_finalizer w w1" "rs_decide h env m cfg ms ws po rs w1 = ((r, rs'), w')"
proof -
  obtain ms where ms: "get_or_nil (rd_machine_status rd (ID m)) = ms" by blast
  obtain bc where bc: "get_or_nil (rd_bmc_configuration rd (ID m)) = bc" by blast
  show ?thesis
  proof (cases ms)
    case (Inl e)
    with assms ms show ?thesis by (intro stopped) (auto simp: rs_transform_def)
  next
    case (Inr mso)
    note m1 = this
    obtain x w1 where e1: "ensure_finalizer h env MachineStatusKind ''machine status'' mso w = (x, w1)" by fastforce
    note f1 = ensure_finalizer_emits [OF e1]
    show ?thesis
    proof (cases "x = None \<and> (\<exists>c. bc = Inr c)")
      case False
      with assms ms bc m1 e1 f1 show ?thesis
        by (intro stopped) (auto simp: rs_transform_def split: option.splits sum.splits)
    next
      case True
      then obtain bco where b1: "x = None" "bc = Inr bco" by blast
      obtain y w2 where e2: "ensure_finalizer h env BMCConfigurationKind ''bmc configuration'' bco w1 = (y, w2)"
        by fastforce
      note f2 = emits_trans [OF f1 ensure_finalizer_emits [OF e2]]
      show ?thesis
      proof (cases "\<exists>cfg s ws po. y = None \<and> bco = Some cfg \<and> mso = Some s \<and> validateInfraMachine m = None \<and>
          get_or_nil (rd_wipe_status rd (ID m)) = Inr ws \<and> get_or_nil (rd_power_operation rd (ID m)) = Inr po")
        case True
        with assms ms bc m1 b1 e1 e2 f2 show ?thesis by (elim exE conjE, intro ran) (auto simp: rs_transform_def)
      next
        case False
        with assms ms bc m1 b1 e1 e2 f2 show ?thesis
          by (intro stopped) (auto simp: rs_transform_def dest: sym [of "Some _"] split: option.splits sum.splits)
      qed
    qed
  qed
qed

interpretation rs: gated_transform "rs_transform h" on_finalizer for h
proof
  fix m e env rd out w r out' w'
  assume e: "validateInfraMachine m = Some e" and t: "rs_transform h env rd m out w = ((r, out'), w')"
  from t show "r \<noteq> None \<and> out' = out \<and> emits on_finalizer w w'"
    using e by (cases rule: rs_transform_cases) auto
qed


text \<open>Every run, in one statement: it sent requests on finalizers only, or it rebooted for a reason.\<close>

lemma rs_transform_outcome:
  assumes "rs_transform h env rd m rs w = ((r, rs'), w')"
  obtains (quiet) "issued w w' []" "rs' = rs"
    | (rebooting) cfg ms ws po w1 w2 where "validateInfraMachine m = None"
      "get_or_nil (rd_bmc_configuration rd (ID m)) = Inr (Some cfg)"
      "get_or_nil (rd_machine_status rd (ID m)) = Inr (Some ms)"
      "get_or_nil (rd_wipe_status rd (ID m)) = Inr ws" "get_or_nil (rd_power_operation rd (ID m)) = Inr po"
      "reboot_due h m cfg ms ws rs"
      "rs_minRebootInterval h \<le> getTimeSinceLastPowerOn po (Some rs) (clock env (requests w1))"
      "emits on_finalizer w w1"
      "rebootOverAnyChannel h env (ID m) (Some cfg) (RequiresPXEBoot (rs_mode h m cfg ws))
         (AgentAccessible (Spec ms)) w1 = (r, w2)"
      "w' = w2" "rs' = (if r = None then rebooted m rs (clock env (requests w2)) else rs)"
  using assms
proof (cases rule: rs_transform_cases)
  case stopped
  then show ?thesis by (intro quiet) (auto dest: emits_finalizer_issued)
next
  case (ran cfg ms ws po w1)
  obtain x w2 where c: "rebootOverAnyChannel h env (ID m) (Some cfg) (RequiresPXEBoot (rs_mode h m cfg ws))
      (AgentAccessible (Spec ms)) w1 = (x, w2)" by fastforce
  show ?thesis
  proof (cases "reboot_due h m cfg ms ws rs \<and>
      rs_minRebootInterval h \<le> getTimeSinceLastPowerOn po (Some rs) (clock env (requests w1))")
    case True
    then have "rs_decide h env m cfg ms ws po rs w1 =
        (case x of Some e \<Rightarrow> ((Some e, rs), w2) | None \<Rightarrow> ((None, rebooted m rs (clock env (requests w2))), w2))"
      by (simp add: rs_decide_due c)
    with ran(7) have x: "r = x" "w' = w2" "rs' = (if x = None then rebooted m rs (clock env (requests w2)) else rs)"
      by (auto split: option.splits)
    with c have c': "rebootOverAnyChannel h env (ID m) (Some cfg) (RequiresPXEBoot (rs_mode h m cfg ws))
      (AgentAccessible (Spec ms)) w1 = (r, w2)" by simp
    from True x show ?thesis by (intro rebooting [OF ran(1-5) _ _ ran(6) c']) auto
  next
    case False
    with ran(7) have "w' = w1" "rs' = rs" by (auto simp: rs_decide_due split: if_splits)
    with ran(6) show ?thesis by (intro quiet) (auto dest: emits_finalizer_issued)
  qed
qed

lemma emits_finalizer_then:
  "emits on_finalizer w w1 \<Longrightarrow> issued w1 w2 cs \<Longrightarrow> issued w w2 cs"
  using issued_trans [OF emits_finalizer_issued] by fastforce

section \<open>Properties\<close>

text \<open>
  C11. A reboot over the BMC is only commanded when it is allowed and needed: the machine is accepted and not
  cordoned, has a BMC, the minimal interval has passed since its last power-on or reboot, and either it is
  needed and runs in the wrong mode, or Omni asks for a reboot that was not done yet. When the machine has to
  boot over the network, the one-time network boot is armed first. No other power command is sent.
\<close>

theorem rs_reboot_allowed:
  assumes "rs_transform h env rd m rs w = ((r, rs'), w')" and "issued w w' cs" and "CmdReboot \<in> set cs"
  shows "AcceptanceStatus (Spec m) = ACCEPTED \<and> \<not> Cordoned (Spec m) \<and> set cs \<subseteq> {CmdArmPXE, CmdReboot} \<and>
    (\<exists>cfg ms ws po t. get_or_nil (rd_bmc_configuration rd (ID m)) = Inr (Some cfg) \<and> Manual (Spec cfg) = None \<and>
       get_or_nil (rd_machine_status rd (ID m)) = Inr (Some ms) \<and>
       get_or_nil (rd_wipe_status rd (ID m)) = Inr ws \<and> get_or_nil (rd_power_operation rd (ID m)) = Inr po \<and>
       reboot_due h m cfg ms ws rs \<and>
       rs_minRebootInterval h \<le> time_Sub (clock env t) (last_power_on po (Some rs)) \<and>
       (RequiresPXEBoot (rs_mode h m cfg ws) \<longrightarrow> hd cs = CmdArmPXE))"
  using assms(1)
proof (cases rule: rs_transform_outcome)
  case quiet
  with assms show ?thesis by (auto dest: issued_unique)
next
  case (rebooting cfg ms ws po w1 w2)
  note fin = emits_finalizer_then [OF rebooting(8)]
  from rebooting(9) show ?thesis
  proof (cases rule: rebootOverAnyChannel_cases)
    case failed
    with fin [OF failed(2)] rebooting(10) assms show ?thesis by (auto dest: issued_unique)
  next
    case (over_bmc ds)
    with fin rebooting(10) assms(2) have "cs = ds" by (blast dest: issued_unique)
    with over_bmc rebooting assms(3) show ?thesis
      by (auto simp: validateInfraMachine_None getTimeSinceLastPowerOn_last)
  next
    case over_agent
    with assms(2,3) rebooting(8,10) have False by (auto simp: issued_def emits_def)
    then show ?thesis ..
  qed
qed

definition rs_h1 :: rs_helper where
  "rs_h1 = \<lparr>rs_redfish = default_redfish, rs_bootOptions = \<lparr>AlwaysNetboot = False\<rparr>, rs_pxeBootMode = BootModeUEFI,
           rs_controllerName = ''RebootStatusController'', rs_minRebootInterval = 900000000000\<rparr>"

definition rs_rd1 :: reader where
  "rs_rd1 = reader_of (Some m1) (Some m1_api) (Some (m1_agent True)) (Some m1_wiped) None None None"

lemma rs_run1:
  "requests (snd (rs_transform rs_h1 (ok_env True 5000) rs_rd1 m1 (NewRebootStatus ''m1'') empty_world)) =
     [AddFinalizer MachineStatusKind ''m1'' ''RebootStatusController'',
      AddFinalizer BMCConfigurationKind ''m1'' ''RebootStatusController'',
      HttpPost ''10.0.0.9:80'' ''/pxeboot'', HttpPost ''10.0.0.9:80'' ''/reboot'']"
  "fst (fst (rs_transform rs_h1 (ok_env True 5000) rs_rd1 m1 (NewRebootStatus ''m1'') empty_world)) = None"
  by code_simp+

theorem rs_reboot_allowed_witness:
  "\<exists>r rs' w'. rs_transform rs_h1 (ok_env True 5000) rs_rd1 m1 (NewRebootStatus ''m1'') empty_world = ((r, rs'), w') \<and>
     issued empty_world w' [CmdArmPXE, CmdReboot] \<and> AcceptanceStatus (Spec m1) = ACCEPTED"
proof -
  obtain r rs' w' where t: "rs_transform rs_h1 (ok_env True 5000) rs_rd1 m1 (NewRebootStatus ''m1'') empty_world =
      ((r, rs'), w')" by (metis surj_pair)
  have i: "issued empty_world w' [CmdArmPXE, CmdReboot]"
    using rs_run1(1) t by (simp add: issued_def empty_world_def)
  from rs_reboot_allowed [OF t i] t i show ?thesis by auto
qed

text \<open>
  C12. A machine is rebooted over its agent only when it has no BMC, its agent is reachable, and a reboot is
  allowed and needed as for any machine; the run then sends no BMC command, and it is the only request an
  agent gets from this controller.
\<close>

theorem rs_agent_reboot_allowed:
  assumes "rs_transform h env rd m rs w = ((r, rs'), w')" and "requests w' = requests w @ qs"
    and "q \<in> set qs" and "to_agent q"
  shows "q = AgentReboot (ID m) \<and> commands qs = [] \<and> AcceptanceStatus (Spec m) = ACCEPTED \<and> \<not> Cordoned (Spec m) \<and>
    (\<exists>cfg ms ws po t. get_or_nil (rd_bmc_configuration rd (ID m)) = Inr (Some cfg) \<and> Manual (Spec cfg) \<noteq> None \<and>
       get_or_nil (rd_machine_status rd (ID m)) = Inr (Some ms) \<and> AgentAccessible (Spec ms) \<and>
       get_or_nil (rd_wipe_status rd (ID m)) = Inr ws \<and> get_or_nil (rd_power_operation rd (ID m)) = Inr po \<and>
       reboot_due h m cfg ms ws rs \<and>
       rs_minRebootInterval h \<le> time_Sub (clock env t) (last_power_on po (Some rs)))"
proof -
  have no: "\<not> issued w w' cs" for cs using assms(2-4) by (auto simp: issued_def list_all_iff)
  from assms(1) show ?thesis
  proof (cases rule: rs_transform_outcome)
    case quiet
    with no show ?thesis by auto
  next
    case (rebooting cfg ms ws po w1 w2)
    from rebooting(9) show ?thesis
    proof (cases rule: rebootOverAnyChannel_cases)
      case failed
      with no emits_finalizer_then [OF rebooting(8) failed(2)] rebooting(10) show ?thesis by auto
    next
      case (over_bmc cs)
      with no emits_finalizer_then [OF rebooting(8) over_bmc(2)] rebooting(10) show ?thesis by auto
    next
      case over_agent
      from emits_finalizer_issued [OF rebooting(8)] obtain fs where
        fs: "requests w1 = requests w @ fs" "commands fs = []" "list_all (\<lambda>q. \<not> to_agent q) fs"
        by (auto simp: issued_def)
      with over_agent(3) rebooting(10) assms(2) have qs: "qs = fs @ [AgentReboot (ID m)]" by simp
      with fs assms(3,4) have "q = AgentReboot (ID m)" "commands qs = []" by (auto simp: list_all_iff)
      with over_agent rebooting show ?thesis
        by (auto simp: validateInfraMachine_None getTimeSinceLastPowerOn_last)
    qed
  qed
qed

definition rs_rd2 :: reader where
  "rs_rd2 = reader_of (Some m1) (Some m1_manual) (Some (m1_agent True)) (Some m1_wiped) None None None"

lemma rs_run2:
  "requests (snd (rs_transform rs_h1 (ok_env True 5000) rs_rd2 m1 (NewRebootStatus ''m1'') empty_world)) =
     [AddFinalizer MachineStatusKind ''m1'' ''RebootStatusController'',
      AddFinalizer BMCConfigurationKind ''m1'' ''RebootStatusController'', AgentReboot ''m1'']"
  by code_simp

theorem rs_agent_reboot_allowed_witness:
  "\<exists>r rs' w'. rs_transform rs_h1 (ok_env True 5000) rs_rd2 m1 (NewRebootStatus ''m1'') empty_world = ((r, rs'), w') \<and>
     AgentReboot ''m1'' \<in> set (requests w') \<and> \<not> Cordoned (Spec m1)"
proof -
  obtain r rs' w' where t: "rs_transform rs_h1 (ok_env True 5000) rs_rd2 m1 (NewRebootStatus ''m1'') empty_world =
      ((r, rs'), w')" by (metis surj_pair)
  have q: "requests w' = requests empty_world @
     [AddFinalizer MachineStatusKind ''m1'' ''RebootStatusController'',
      AddFinalizer BMCConfigurationKind ''m1'' ''RebootStatusController'', AgentReboot ''m1'']"
    using rs_run2 t by (simp add: empty_world_def)
  from rs_agent_reboot_allowed [OF t q, of "AgentReboot ''m1''"] t q show ?thesis by auto
qed

text \<open>
  A successful run leaves no reboot undone: it found nothing due and left machine and status alone, or it
  rebooted the machine, over the BMC with the network boot armed first exactly when the required mode is a
  network boot, or over the agent, and recorded Omni's request together with the time of the reboot.
\<close>

theorem rs_success:
  assumes "rs_transform h env rd m rs w = ((None, rs'), w')"
  shows "(rs' = rs \<and> issued w w' [] \<and>
      (\<forall>cfg ms ws. get_or_nil (rd_bmc_configuration rd (ID m)) = Inr (Some cfg) \<longrightarrow>
         get_or_nil (rd_machine_status rd (ID m)) = Inr (Some ms) \<longrightarrow>
         get_or_nil (rd_wipe_status rd (ID m)) = Inr ws \<longrightarrow> \<not> reboot_due h m cfg ms ws rs)) \<or>
    (rs' = rebooted m rs (clock env (requests w')) \<and>
      (\<exists>cfg ws n. get_or_nil (rd_bmc_configuration rd (ID m)) = Inr (Some cfg) \<and>
         get_or_nil (rd_wipe_status rd (ID m)) = Inr ws \<and>
         (issued w w' (replicate n CmdArmPXE @ [CmdReboot]) \<and> (0 < n \<longleftrightarrow> RequiresPXEBoot (rs_mode h m cfg ws)) \<or>
          AgentReboot (ID m) \<in> set (requests w'))))"
  using assms
proof (cases rule: rs_transform_cases)
  case stopped
  then show ?thesis by simp
next
  case (ran cfg ms ws po w1)
  show ?thesis
  proof (cases "reboot_due h m cfg ms ws rs")
    case False
    with ran have "rs' = rs" "w' = w1" by (simp_all add: rs_decide_due)
    with ran False show ?thesis by (auto dest: emits_finalizer_issued)
  next
    case True
    with ran(7) have c: "rebootOverAnyChannel h env (ID m) (Some cfg) (RequiresPXEBoot (rs_mode h m cfg ws))
        (AgentAccessible (Spec ms)) w1 = (None, w')" "rs' = rebooted m rs (clock env (requests w'))"
      by (auto simp: rs_decide_due split: if_splits option.splits prod.splits)
    from c(1) show ?thesis
    proof (cases rule: rebootOverAnyChannel_cases)
      case failed
      then show ?thesis by simp
    next
      case (over_bmc cs)
      from over_bmc(5) obtain n where "cs = replicate n CmdArmPXE @ [CmdReboot]"
        "0 < n \<longleftrightarrow> RequiresPXEBoot (rs_mode h m cfg ws)" by blast
      with over_bmc(2) emits_finalizer_then [OF ran(6)] ran c show ?thesis by blast
    next
      case over_agent
      with ran c show ?thesis by auto
    qed
  qed
qed

theorem rs_success_witness:
  "\<exists>rs' w'. rs_transform rs_h1 (ok_env True 5000) rs_rd1 m1 (NewRebootStatus ''m1'') empty_world = ((None, rs'), w') \<and>
     LastRebootTimestamp (Spec rs') = Some (timestamp_New 5000)"
proof -
  obtain rs' w' where t: "rs_transform rs_h1 (ok_env True 5000) rs_rd1 m1 (NewRebootStatus ''m1'') empty_world =
      ((None, rs'), w')" using rs_run1(2) by (metis prod.collapse)
  have "issued empty_world w' [CmdArmPXE, CmdReboot]"
    using rs_run1(1) t by (simp add: issued_def empty_world_def)
  with rs_success [OF t] have "rs' = rebooted m1 (NewRebootStatus ''m1'') 5000"
    by (auto dest: issued_unique simp: ok_env_def)
  with t show ?thesis by (simp add: rebooted_def)
qed

text \<open>
  C13. There are no reboot loops: once a reboot is recorded at a time, any sequence of reconciles before the
  minimal interval has passed sends no BMC command and no request to the agent and leaves the status alone,
  whatever the machines, the other resources and the BMCs do.
\<close>

theorem rs_no_reboot_loop:
  assumes "LastRebootTimestamp (Spec rs) = Some (timestamp_New t0)"
    and "min_duration < rs_minRebootInterval h" and "rs_minRebootInterval h \<le> max_duration"
    and "\<forall>(env, rd, m) \<in> set inputs. \<forall>qs. clock env qs < t0 + rs_minRebootInterval h"
    and "reconcile_all stores_after (rs_transform h) inputs rs w = (rs', w')"
  shows "rs' = rs \<and> issued w w' []"
  using assms(4,5)
proof (induction inputs arbitrary: w)
  case Nil
  then show ?case by auto
next
  case (Cons x inputs)
  obtain env rd m where x: "x = (env, rd, m)" by (metis surj_pair)
  with Cons.prems(1) have cl: "clock env qs < t0 + rs_minRebootInterval h" for qs by auto
  obtain r rs1 w1 where t: "rs_transform h env rd m rs w = ((r, rs1), w1)" by (metis surj_pair)
  have 1: "rs1 = rs \<and> issued w w1 []"
    using t
  proof (cases rule: rs_transform_outcome)
    case quiet
    then show ?thesis by simp
  next
    case (rebooting cfg ms ws po v1 v2)
    have "t0 \<le> last_power_on po (Some rs)"
      using assms(1) by (auto simp: last_power_on_def Let_def split: option.splits)
    then have "time_Sub (clock env (requests v1)) (last_power_on po (Some rs)) \<le> time_Sub (clock env (requests v1)) t0"
      by (rule time_Sub_antimono)
    also have "\<dots> < rs_minRebootInterval h"
      using cl [of "requests v1"] assms(2,3) by (auto simp: time_Sub_def max_duration_def min_duration_def)
    finally show ?thesis using rebooting(7) by (simp add: getTimeSinceLastPowerOn_last)
  qed
  then have "reconcile stores_after (rs_transform h) env rd m rs w = (rs, w1)"
    using t by (cases r) (auto simp: reconcile_def)
  with Cons.prems x have "reconcile_all stores_after (rs_transform h) inputs rs w1 = (rs', w')" by simp
  with Cons.IH Cons.prems(1) x have 2: "rs' = rs \<and> issued w1 w' []" by auto
  with 1 issued_trans [of w w1 "[]" w' "[]"] show ?case by simp
qed

theorem rs_no_reboot_loop_witness:
  "\<exists>rs' w'. reconcile_all (\<lambda>e. False) (rs_transform rs_h1) [(ok_env True 6000, rs_rd1, m1), (ok_env True 7000, rs_rd2, m1)]
     (rebooted m1 (NewRebootStatus ''m1'') 5000) empty_world = (rs', w') \<and> issued empty_world w' []"
proof -
  obtain rs' w' where r: "reconcile_all (\<lambda>e. False) (rs_transform rs_h1)
     [(ok_env True 6000, rs_rd1, m1), (ok_env True 7000, rs_rd2, m1)]
     (rebooted m1 (NewRebootStatus ''m1'') 5000) empty_world = (rs', w')" by (metis surj_pair)
  have "rs' = rebooted m1 (NewRebootStatus ''m1'') 5000 \<and> issued empty_world w' []"
    by (rule rs_no_reboot_loop [OF _ _ _ _ r, of 5000])
      (simp_all add: rebooted_def rs_h1_def ok_env_def min_duration_def max_duration_def)
  with r show ?thesis by blast
qed


lemma requests_grow_drop_finalizer:
  assumes "\<forall>qs k i f. answer_act env qs (RemoveFinalizer k i f) = None"
    and "drop_finalizer h env k what res w = (r, w')"
  shows "r = None \<and> set (requests w) \<subseteq> set (requests w') \<and>
     (\<forall>x. res = Some x \<longrightarrow> rs_controllerName h \<in> set (Finalizers x) \<longrightarrow>
        RemoveFinalizer k (ID x) (rs_controllerName h) \<in> set (requests w'))"
  using assms by (auto simp: drop_finalizer_def act_def split: option.splits if_splits)

text \<open>
  C14. The removal of a machine never gets stuck on its BMC: once its status and BMC configuration can be read
  and the store takes the finalizer removals, the removal succeeds and releases both resources, whatever comes
  of the attempt to reboot the machine. When the agent is reachable the machine is not rebooted at all.
\<close>

theorem rs_removal_not_blocked:
  assumes "get_or_nil (rd_machine_status rd (ID m)) = Inr ms"
    and "get_or_nil (rd_bmc_configuration rd (ID m)) = Inr bmc"
    and "\<forall>qs k i f. answer_act env qs (RemoveFinalizer k i f) = None"
    and "rs_finalizerRemoval h env rd m w = (r, w')"
  shows "r = None \<and>
    (\<forall>x. ms = Some x \<and> rs_controllerName h \<in> set (Finalizers x) \<longrightarrow>
       RemoveFinalizer MachineStatusKind (ID x) (rs_controllerName h) \<in> set (requests w')) \<and>
    (\<forall>x. bmc = Some x \<and> rs_controllerName h \<in> set (Finalizers x) \<longrightarrow>
       RemoveFinalizer BMCConfigurationKind (ID x) (rs_controllerName h) \<in> set (requests w')) \<and>
    ((\<exists>x. ms = Some x \<and> AgentAccessible (Spec x)) \<longrightarrow> issued w w' [])"
proof -
  define w1 where "w1 = attemptRebootOnRemoval h env ms bmc m w"
  obtain x w2 where a: "drop_finalizer h env MachineStatusKind ''machine status'' ms w1 = (x, w2)" by fastforce
  obtain y w3 where b: "drop_finalizer h env BMCConfigurationKind ''bmc configuration'' bmc w2 = (y, w3)" by fastforce
  note a' = requests_grow_drop_finalizer [OF assms(3) a] and b' = requests_grow_drop_finalizer [OF assms(3) b]
  have r: "r = y" "w' = w3"
    using assms(1,2,4) a b a' by (auto simp: rs_finalizerRemoval_def Let_def w1_def [symmetric])
  have "issued w w' []" if "ms = Some s" "AgentAccessible (Spec s)" for s
  proof -
    from that have "w1 = w" by (simp add: w1_def attemptRebootOnRemoval_def)
    with emits_trans [OF drop_finalizer_emits [OF a] drop_finalizer_emits [OF b]] r
    show ?thesis by (auto dest: emits_finalizer_issued)
  qed
  with a' b' r show ?thesis by auto
qed

definition rs_rd3 :: reader where
  "rs_rd3 = reader_of None (Some (m1_api\<lparr>Finalizers := [''RebootStatusController'']\<rparr>))
     (Some ((m1_agent False)\<lparr>Finalizers := [''RebootStatusController'']\<rparr>)) None None None None"

text \<open>A BMC that refuses everything.\<close>

definition dead_bmc_env :: env where
  "dead_bmc_env = (ok_env False 5000)\<lparr>answer_http := (\<lambda>qs q. Inl (Plain ''connection refused''))\<rparr>"

theorem rs_removal_not_blocked_witness:
  "\<exists>r w'. rs_finalizerRemoval rs_h1 dead_bmc_env rs_rd3 m1 empty_world = (r, w') \<and> r = None \<and>
     RemoveFinalizer BMCConfigurationKind ''m1'' ''RebootStatusController'' \<in> set (requests w')"
proof -
  obtain r w' where x: "rs_finalizerRemoval rs_h1 dead_bmc_env rs_rd3 m1 empty_world = (r, w')" by fastforce
  have "get_or_nil (rd_machine_status rs_rd3 (ID m1)) =
      Inr (Some ((m1_agent False)\<lparr>Finalizers := [''RebootStatusController'']\<rparr>))"
    "get_or_nil (rd_bmc_configuration rs_rd3 (ID m1)) =
      Inr (Some (m1_api\<lparr>Finalizers := [''RebootStatusController'']\<rparr>))"
    by (simp_all add: rs_rd3_def)
  from rs_removal_not_blocked [OF this _ x] x show ?thesis
    by (auto simp: dead_bmc_env_def ok_env_def rs_h1_def m1_api_def new_resource_def)
qed

end
