(* ===== verification/WipeStatus.thy ===== *)
theory WipeStatus
  imports Samples
begin

text \<open>
  \<open>internal/provider/controllers/wipe_status.go\<close>: wipe the disks of a machine, over its agent, once per
  lifecycle, and record for which wipe ID it was done.
\<close>

definition wsc_transform :: "agent_options \<Rightarrow> wipe_status transform" where
  "wsc_transform options env rd infraMachine wipeStatus w =
     (case get_or_nil (rd_machine_status rd (ID infraMachine)) of
        Inl e \<Rightarrow> ((Some e, wipeStatus), w)
      | Inr machineStatus \<Rightarrow>
     (case validateInfraMachine infraMachine of
        Some e \<Rightarrow> ((Some e, wipeStatus), w)
      | None \<Rightarrow>
     (case machineStatus of
        None \<Rightarrow> ((Some (SkipReconcile ''machine status not found''), wipeStatus), w)
      | Some ms \<Rightarrow>
          if \<not> RequiresWipe (Some infraMachine) (Some wipeStatus)
          then ((Some (SkipReconcile ''machine does not require wipe''), wipeStatus), w)
          else if \<not> AgentAccessible (Spec ms)
          then ((Some (SkipReconcile ''agent is not accessible''), wipeStatus), w)
          else (case agent_WipeDisks options env (ID infraMachine) w of
                  (Some e, w1) \<Rightarrow> ((Some (Wrapped ''failed to wipe disks'' e), wipeStatus), w1)
                | (None, w1) \<Rightarrow>
                    ((None, wipeStatus\<lparr>Spec := (Spec wipeStatus)
                        \<lparr>InitialWipeDone := True,
                         LastWipeId := WipeId (Spec infraMachine),
                         LastWipeInstallEventId := InstallEventId (Spec infraMachine),
                         WipedNodeUniqueToken := NodeUniqueToken (Spec infraMachine)\<rparr>\<rparr>), w1)))))"

section \<open>What a reconcile does\<close>

definition wiped_now :: "infra_machine \<Rightarrow> wipe_status \<Rightarrow> wipe_status" where
  "wiped_now m ws = ws\<lparr>Spec := (Spec ws)\<lparr>InitialWipeDone := True, LastWipeId := WipeId (Spec m),
     LastWipeInstallEventId := InstallEventId (Spec m), WipedNodeUniqueToken := NodeUniqueToken (Spec m)\<rparr>\<rparr>"

definition wipe_request :: "agent_options \<Rightarrow> resource_id \<Rightarrow> request" where
  "wipe_request options i = AgentWipeDisks i (WipeWithZeroes options)
     (if WipeWithZeroes options then ZeroesWipeTimeout options else FastWipeTimeout options)"

lemma wiped_now_facts [simp]:
  "wiped_for m (wiped_now m ws)" "\<not> RequiresWipe (Some m) (Some (wiped_now m ws))"
  "\<not> IsInstalled (Some m) (Some (wiped_now m ws))"
  by (simp_all add: wiped_now_def wiped_for_def RequiresWipe_def IsInstalled_def)

lemma wsc_transform_cases:
  assumes "wsc_transform opts env rd m ws w = ((r, ws'), w')"
  obtains (skipped) "r \<noteq> None" "ws' = ws" "w' = w"
    | (wiped) ms where "validateInfraMachine m = None" "get_or_nil (rd_machine_status rd (ID m)) = Inr (Some ms)"
      "AgentAccessible (Spec ms)" "\<not> wiped_for m ws"
      "w' = w\<lparr>requests := requests w @ [wipe_request opts (ID m)]\<rparr>"
      "answer_act env (requests w) (wipe_request opts (ID m)) = None \<longleftrightarrow> r = None"
      "ws' = (if r = None then wiped_now m ws else ws)"
  using assms that
  by (auto simp: wsc_transform_def agent_WipeDisks_def act_def wipe_request_def RequiresWipe_iff wiped_now_def Let_def
      dest: sym [of "Some _"] split: sum.splits option.splits if_splits)

interpretation wsc: gated_transform "wsc_transform opts" "\<lambda>q. False" for opts
proof
  fix m e env rd out w r out' w'
  assume e: "validateInfraMachine m = Some e" and t: "wsc_transform opts env rd m out w = ((r, out'), w')"
  from t show "r \<noteq> None \<and> out' = out \<and> emits (\<lambda>q. False) w w'"
    using e by (cases rule: wsc_transform_cases) auto
qed

section \<open>Properties\<close>

text \<open>
  C9. The disks of a machine are wiped only when the machine is accepted and not cordoned, its agent is
  reachable and the disks were not wiped for its current lifecycle yet; the wipe is a single request to the
  agent, with the timeout of the configured kind of wipe, and the status records it exactly when the agent
  reported success.
\<close>

theorem wsc_wipe_allowed:
  assumes "wsc_transform opts env rd m ws w = ((r, ws'), w')" and "w' \<noteq> w \<or> ws' \<noteq> ws \<or> r = None"
  shows "AcceptanceStatus (Spec m) = ACCEPTED \<and> \<not> Cordoned (Spec m) \<and> \<not> wiped_for m ws \<and>
    (\<exists>ms. get_or_nil (rd_machine_status rd (ID m)) = Inr (Some ms) \<and> AgentAccessible (Spec ms)) \<and>
    requests w' = requests w @ [wipe_request opts (ID m)] \<and>
    (r = None \<longleftrightarrow> answer_act env (requests w) (wipe_request opts (ID m)) = None) \<and>
    ws' = (if r = None then wiped_now m ws else ws)"
  using assms(1)
proof (cases rule: wsc_transform_cases)
  case skipped
  with assms(2) show ?thesis by auto
next
  case (wiped ms)
  then show ?thesis by (auto simp: validateInfraMachine_None)
qed

definition wsc_opts :: agent_options where "wsc_opts = Agent_DefaultClientOptions"

definition wsc_rd1 :: reader where
  "wsc_rd1 = reader_of (Some m1) None (Some (m1_agent True)) None None None None"

lemma wsc_run1:
  "fst (fst (wsc_transform wsc_opts (ok_env True 1) wsc_rd1 m1 (NewWipeStatus ''m1'') empty_world)) = None"
  by code_simp

theorem wsc_wipe_allowed_witness:
  "\<exists>ws' w'. wsc_transform wsc_opts (ok_env True 1) wsc_rd1 m1 (NewWipeStatus ''m1'') empty_world = ((None, ws'), w') \<and>
     wiped_for m1 ws' \<and> requests w' = [AgentWipeDisks ''m1'' False 300000000000]"
proof -
  obtain ws' w' where t: "wsc_transform wsc_opts (ok_env True 1) wsc_rd1 m1 (NewWipeStatus ''m1'') empty_world =
      ((None, ws'), w')" using wsc_run1 by (metis prod.collapse)
  from wsc_wipe_allowed [OF t] t show ?thesis
    by (auto simp: wipe_request_def wsc_opts_def Agent_DefaultClientOptions_def second_def empty_world_def
        m1_def new_resource_def)
qed

text \<open>
  C10. One wipe per lifecycle: once the status says the disks are clean for a wipe ID, no sequence of
  reconciles of the machine with this wipe ID wipes them again, and the status stays as it is.
\<close>

theorem wsc_wipes_once:
  assumes "InitialWipeDone (Spec ws)"
    and "\<forall>(env, rd, m) \<in> set inputs. WipeId (Spec m) = LastWipeId (Spec ws)"
    and "reconcile_all stores_after (wsc_transform opts) inputs ws w = (ws', w')"
  shows "ws' = ws \<and> w' = w"
  using assms(2,3)
proof (induction inputs arbitrary: w)
  case Nil
  then show ?case by simp
next
  case (Cons x inputs)
  obtain env rd m where x: "x = (env, rd, m)" by (metis surj_pair)
  obtain r ws1 w1 where t: "wsc_transform opts env rd m ws w = ((r, ws1), w1)" by (metis surj_pair)
  from Cons.prems(1) x assms(1) have "wiped_for m ws" by (auto simp: wiped_for_def)
  with t have "ws1 = ws" "w1 = w" by (cases rule: wsc_transform_cases, auto)+
  with t have "reconcile stores_after (wsc_transform opts) env rd m ws w = (ws, w)"
    by (cases r) (auto simp: reconcile_def)
  with Cons x show ?case by auto
qed

theorem wsc_wipes_once_witness:
  "reconcile_all (\<lambda>e. False) (wsc_transform wsc_opts) [(ok_env True 1, wsc_rd1, m1), (ok_env True 2, wsc_rd1, m1)]
     m1_wiped empty_world = (m1_wiped, empty_world)"
proof -
  obtain ws' w' where r: "reconcile_all (\<lambda>e. False) (wsc_transform wsc_opts)
     [(ok_env True 1, wsc_rd1, m1), (ok_env True 2, wsc_rd1, m1)] m1_wiped empty_world = (ws', w')" by fastforce
  have "ws' = m1_wiped \<and> w' = empty_world"
    by (rule wsc_wipes_once [OF _ _ r]) (simp_all add: m1_wiped_def m1_def m1_spec_def new_resource_def)
  with r show ?thesis by simp
qed

text \<open>
  The history of a run: some input of it asked for the wipe ID \<open>wid\<close>, its machine was accepted and its agent
  reachable, and the wipe request it sent was answered with success.
\<close>

definition wipe_succeeded ::
  "agent_options \<Rightarrow> (env \<times> reader \<times> infra_machine) list \<Rightarrow> request list \<Rightarrow> string \<Rightarrow> bool" where
  "wipe_succeeded opts inputs rs wid \<longleftrightarrow>
     (\<exists>(env, rd, m0) \<in> set inputs. WipeId (Spec m0) = wid \<and> AcceptanceStatus (Spec m0) = ACCEPTED \<and>
        (\<exists>ms qs rest. get_or_nil (rd_machine_status rd (ID m0)) = Inr (Some ms) \<and> AgentAccessible (Spec ms) \<and>
           rs = qs @ [wipe_request opts (ID m0)] @ rest \<and> answer_act env qs (wipe_request opts (ID m0)) = None))"

lemma wipe_succeeded_mono:
  "wipe_succeeded opts inputs rs wid \<Longrightarrow> set inputs \<subseteq> set inputs' \<Longrightarrow> wipe_succeeded opts inputs' (rs @ rest) wid"
  unfolding wipe_succeeded_def by fastforce

lemma wsc_step_history:
  assumes "reconcile stores_after (wsc_transform opts) env rd m ws w = (ws', w')"
  shows "\<exists>rest. requests w' = requests w @ rest \<and> (ws' = ws \<or> wipe_succeeded opts [(env, rd, m)] (requests w') (LastWipeId (Spec ws')))"
proof -
  obtain r ws1 w1 where t: "wsc_transform opts env rd m ws w = ((r, ws1), w1)" by (metis surj_pair)
  with assms have ws': "w' = w1" "ws' = ws \<or> ws' = ws1"
    by (auto simp: reconcile_def split: option.splits if_splits)
  from t show ?thesis
  proof (cases rule: wsc_transform_cases)
    case skipped
    with ws' show ?thesis by auto
  next
    case (wiped ms)
    show ?thesis
    proof (cases "r = None")
      case True
      with wiped have "wipe_succeeded opts [(env, rd, m)] (requests w1) (LastWipeId (Spec ws1))"
        by (auto simp: wipe_succeeded_def wiped_now_def validateInfraMachine_None)
      with wiped ws' show ?thesis by auto
    next
      case False
      with wiped ws' show ?thesis by auto
    qed
  qed
qed

lemma wsc_history:
  assumes "reconcile_all stores_after (wsc_transform opts) inputs ws w = (ws', w')"
  shows "\<exists>rest. requests w' = requests w @ rest \<and> (ws' = ws \<or> wipe_succeeded opts inputs (requests w') (LastWipeId (Spec ws')))"
  using assms
proof (induction inputs arbitrary: ws w)
  case Nil
  then show ?case by simp
next
  case (Cons x inputs)
  obtain env rd m where x: "x = (env, rd, m)" by (metis surj_pair)
  obtain ws1 w1 where r: "reconcile stores_after (wsc_transform opts) env rd m ws w = (ws1, w1)" by fastforce
  from wsc_step_history [OF r] obtain r1 where 1: "requests w1 = requests w @ r1"
    "ws1 = ws \<or> wipe_succeeded opts [x] (requests w1) (LastWipeId (Spec ws1))" using x by blast
  from Cons.IH [of ws1 w1] Cons.prems r x obtain r2 where 2: "requests w' = requests w1 @ r2"
    "ws' = ws1 \<or> wipe_succeeded opts inputs (requests w') (LastWipeId (Spec ws'))" by auto
  have "ws' = ws \<or> wipe_succeeded opts (x # inputs) (requests w') (LastWipeId (Spec ws'))"
    using 1(2) 2 wipe_succeeded_mono [of opts "[x]" "requests w1" _ "x # inputs" r2]
      wipe_succeeded_mono [of opts inputs "requests w'" _ "x # inputs" "[]"] by auto
  with 1(1) 2(1) show ?case by auto
qed

text \<open>
  A clean status is never made up: after any sequence of reconciles that starts from a fresh status, a
  status that says the disks are clean for a machine's current lifecycle implies that some reconcile of the
  sequence saw that wipe ID, found the machine accepted and its agent reachable, and sent the wipe request,
  and that the agent reported success for it.
\<close>

theorem wsc_clean_means_wiped:
  assumes "reconcile_all stores_after (wsc_transform opts) inputs (NewWipeStatus i) w = (ws, w')"
    and "wiped_for m ws"
  shows "wipe_succeeded opts inputs (requests w') (WipeId (Spec m))"
  using wsc_history [OF assms(1)] assms(2) by (auto simp: wiped_for_def NewWipeStatus_def new_resource_def)

theorem wsc_clean_means_wiped_witness:
  "\<exists>ws w'. reconcile_all (\<lambda>e. False) (wsc_transform wsc_opts) [(ok_env True 1, wsc_rd1, m1)] (NewWipeStatus ''m1'')
     empty_world = (ws, w') \<and> wiped_for m1 ws \<and>
     wipe_succeeded wsc_opts [(ok_env True 1, wsc_rd1, m1)] (requests w') ''w1''"
proof -
  obtain ws' w' where t: "wsc_transform wsc_opts (ok_env True 1) wsc_rd1 m1 (NewWipeStatus ''m1'') empty_world =
      ((None, ws'), w')" using wsc_run1 by (metis prod.collapse)
  then have r: "reconcile_all (\<lambda>e. False) (wsc_transform wsc_opts) [(ok_env True 1, wsc_rd1, m1)] (NewWipeStatus ''m1'')
     empty_world = (ws', w')" by (simp add: reconcile_def)
  from t have c: "wiped_for m1 ws'" by (cases rule: wsc_transform_cases) auto
  from wsc_clean_means_wiped [OF r c] c r show ?thesis by (auto simp: m1_def m1_spec_def new_resource_def)
qed

end
