(* ===== verification/InfraMachineStatus.thy ===== *)
theory InfraMachineStatus
  imports Samples
begin

text \<open>
  \<open>internal/provider/controllers/infra_machine_status.go\<close>: what the provider reports to Omni about a machine.
  The label names are constants of Omni's client library, so they are parameters, next to the labels the
  provider was started with. A label map is a partial map; the loop over the keys is a function on it.
\<close>

record ims_helper =
  machineLabels :: "string \<rightharpoonup> string"
  SystemLabelPrefix :: string
  LabelCluster :: string
  LabelMachineSet :: string
  LabelControlPlaneRole :: string
  LabelWorkerRole :: string

definition ims_cluster_labels :: "ims_helper \<Rightarrow> string list" where
  "ims_cluster_labels h = [LabelCluster h, LabelMachineSet h, LabelControlPlaneRole h, LabelWorkerRole h]"

definition ims_clear_labels :: "ims_helper \<Rightarrow> (string \<rightharpoonup> string) \<Rightarrow> (string \<rightharpoonup> string)" where
  "ims_clear_labels h labels = (\<lambda>k. if has_prefix k (SystemLabelPrefix h) then labels k else None)"

fun ims_copy_labels :: "(string \<rightharpoonup> string) \<Rightarrow> string list \<Rightarrow> (string \<rightharpoonup> string) \<Rightarrow> (string \<rightharpoonup> string)" where
  "ims_copy_labels source [] labels = labels"
| "ims_copy_labels source (k # ks) labels =
     ims_copy_labels source ks
       (case source k of Some val \<Rightarrow> labels(k \<mapsto> val) | None \<Rightarrow> labels(k := None))"

definition ims_labels :: "ims_helper \<Rightarrow> infra_machine \<Rightarrow> (string \<rightharpoonup> string) \<Rightarrow> (string \<rightharpoonup> string)" where
  "ims_labels h infraMachine labels =
     (let cleared = ims_clear_labels h labels;
          withOwn = cleared ++ machineLabels h
      in ims_copy_labels (Labels infraMachine) (ims_cluster_labels h) withOwn)"

text \<open>The fields of the report, once all inputs are read.\<close>

definition ims_spec ::
  "infra_machine \<Rightarrow> machine_status option \<Rightarrow> reboot_status option \<Rightarrow> wipe_status option \<Rightarrow>
   bmc_configuration option \<Rightarrow> power_operation option \<Rightarrow> infra_machine_status_spec \<Rightarrow> infra_machine_status_spec" where
  "ims_spec infraMachine machineStatus rebootStatus wipeStatus bmcConfiguration powerOperation s =
     (let s1 = (case machineStatus of
                  None \<Rightarrow> s
                | Some ms \<Rightarrow>
                    (case PowerState (Spec ms) of
                       POWER_STATE_UNKNOWN \<Rightarrow> s\<lparr>ims_PowerState := POWER_STATE_UNKNOWN\<rparr>
                     | POWER_STATE_OFF \<Rightarrow> s\<lparr>ims_PowerState := POWER_STATE_OFF\<rparr>
                     | POWER_STATE_ON \<Rightarrow> s\<lparr>ims_PowerState := POWER_STATE_ON\<rparr>
                     | POWER_STATE_OTHER n \<Rightarrow> s));
          s2 = (case rebootStatus of
                  None \<Rightarrow> s1
                | Some rs \<Rightarrow> s1\<lparr>ims_LastRebootId := LastRebootId (Spec rs),
                                ims_LastRebootTimestamp := LastRebootTimestamp (Spec rs)\<rparr>);
          installed = IsInstalled (Some infraMachine) wipeStatus;
          requiresWipe = RequiresWipe (Some infraMachine) wipeStatus;
          s3 = s2\<lparr>ims_Installed := installed,
                  ims_ReadyToUse := (bmcConfiguration \<noteq> None \<and> \<not> requiresWipe)\<rparr>;
          s4 = (case wipeStatus of
                  None \<Rightarrow> s3
                | Some ws \<Rightarrow> s3\<lparr>ims_WipedNodeUniqueToken := WipedNodeUniqueToken (Spec ws)\<rparr>)
      in case powerOperation of
           Some po \<Rightarrow>
             if IsPowerOffActive (Some infraMachine) powerOperation
             then s4\<lparr>ims_LastPowerOffId := LastPowerOffId (Spec po)\<rparr>
             else s4\<lparr>ims_LastPowerOffId := []\<rparr>
         | None \<Rightarrow> s4\<lparr>ims_LastPowerOffId := []\<rparr>)"

definition ims_transform :: "ims_helper \<Rightarrow> infra_machine_status transform" where
  "ims_transform helper env rd infraMachine infraMachineStatus w =
     (case get_or_nil (rd_machine_status rd (ID infraMachine)) of
        Inl e \<Rightarrow> ((Some e, infraMachineStatus), w)
      | Inr machineStatus \<Rightarrow>
     (case get_or_nil (rd_reboot_status rd (ID infraMachine)) of
        Inl e \<Rightarrow> ((Some e, infraMachineStatus), w)
      | Inr rebootStatus \<Rightarrow>
     (case get_or_nil (rd_wipe_status rd (ID infraMachine)) of
        Inl e \<Rightarrow> ((Some e, infraMachineStatus), w)
      | Inr wipeStatus \<Rightarrow>
     (case get_or_nil (rd_bmc_configuration rd (ID infraMachine)) of
        Inl e \<Rightarrow> ((Some e, infraMachineStatus), w)
      | Inr bmcConfiguration \<Rightarrow>
     (case get_or_nil (rd_power_operation rd (ID infraMachine)) of
        Inl e \<Rightarrow> ((Some e, infraMachineStatus), w)
      | Inr powerOperation \<Rightarrow>
     (case validateInfraMachine infraMachine of
        Some e \<Rightarrow> ((Some e, infraMachineStatus), w)
      | None \<Rightarrow>
          ((None, infraMachineStatus
              \<lparr>Labels := ims_labels helper infraMachine (Labels infraMachineStatus),
               Spec := ims_spec infraMachine machineStatus rebootStatus wipeStatus bmcConfiguration powerOperation
                         (Spec infraMachineStatus)\<rparr>), w)))))))"

section \<open>What a reconcile does\<close>

lemma ims_copy_labels_apply:
  "ims_copy_labels source ks labels k = (if k \<in> set ks then source k else labels k)"
  by (induction ks arbitrary: labels) (auto split: option.splits)

text \<open>The labels after a run, key by key.\<close>

lemma ims_labels_apply:
  "ims_labels h m labels k =
     (if k \<in> set (ims_cluster_labels h) then Labels m k
      else (case machineLabels h k of
              Some v \<Rightarrow> Some v
            | None \<Rightarrow> if has_prefix k (SystemLabelPrefix h) then labels k else None))"
  by (auto simp: ims_labels_def ims_copy_labels_apply ims_clear_labels_def map_add_def Let_def split: option.splits)

lemma ims_labels_idem: "ims_labels h m (ims_labels h m labels) = ims_labels h m labels"
  by (rule ext) (auto simp: ims_labels_apply split: option.splits)

lemma ims_transform_cases:
  assumes "ims_transform h env rd m s w = ((r, s'), w')"
  obtains (skipped) "r \<noteq> None" "s' = s" "w' = w"
    | (reported) ms rs ws bmc po where "r = None" "w' = w" "validateInfraMachine m = None"
      "get_or_nil (rd_machine_status rd (ID m)) = Inr ms" "get_or_nil (rd_reboot_status rd (ID m)) = Inr rs"
      "get_or_nil (rd_wipe_status rd (ID m)) = Inr ws" "get_or_nil (rd_bmc_configuration rd (ID m)) = Inr bmc"
      "get_or_nil (rd_power_operation rd (ID m)) = Inr po"
      "s' = s\<lparr>Labels := ims_labels h m (Labels s), Spec := ims_spec m ms rs ws bmc po (Spec s)\<rparr>"
proof (cases "\<exists>ms rs ws bmc po. validateInfraMachine m = None \<and>
      get_or_nil (rd_machine_status rd (ID m)) = Inr ms \<and> get_or_nil (rd_reboot_status rd (ID m)) = Inr rs \<and>
      get_or_nil (rd_wipe_status rd (ID m)) = Inr ws \<and> get_or_nil (rd_bmc_configuration rd (ID m)) = Inr bmc \<and>
      get_or_nil (rd_power_operation rd (ID m)) = Inr po")
  case True
  with assms show ?thesis by (elim exE conjE, intro reported) (auto simp: ims_transform_def Let_def)
next
  case False
  with assms show ?thesis
    by (intro skipped) (auto simp: ims_transform_def Let_def dest: sym [of "Some _"] split: sum.splits option.splits)
qed

lemma ims_spec_fields [simp]:
  "ims_ReadyToUse (ims_spec m ms rs ws bmc po s) \<longleftrightarrow> bmc \<noteq> None \<and> \<not> RequiresWipe (Some m) ws"
  "ims_Installed (ims_spec m ms rs ws bmc po s) = IsInstalled (Some m) ws"
  by (cases ws; cases po; simp add: ims_spec_def Let_def)+

lemma ims_spec_power_off:
  "ims_LastPowerOffId (ims_spec m ms rs ws bmc po s) = (if IsPowerOffActive (Some m) po then PowerOffRequestId (Spec m) else [])"
  by (cases po) (auto simp: ims_spec_def Let_def IsPowerOffActive_def)

lemma ims_spec_power_state:
  "ims_PowerState (ims_spec m (Some ms) rs ws bmc po s) = PowerState (Spec ms) \<or> (\<exists>n. PowerState (Spec ms) = POWER_STATE_OTHER n)"
  by (cases "PowerState (Spec ms)"; cases rs; cases ws; cases po) (simp_all add: ims_spec_def Let_def)

interpretation ims: gated_transform "ims_transform h" "\<lambda>q. False" for h
proof
  fix m e env rd out w r out' w'
  assume e: "validateInfraMachine m = Some e" and t: "ims_transform h env rd m out w = ((r, out'), w')"
  from t show "r \<noteq> None \<and> out' = out \<and> emits (\<lambda>q. False) w w'"
    using e by (cases rule: ims_transform_cases) auto
qed

section \<open>Properties\<close>


definition ims_h1 :: ims_helper where
  "ims_h1 = \<lparr>machineLabels = [''rack'' \<mapsto> ''r1''], SystemLabelPrefix = ''omni.sidero.dev/'',
     LabelCluster = ''omni.sidero.dev/cluster'', LabelMachineSet = ''omni.sidero.dev/machine-set'',
     LabelControlPlaneRole = ''omni.sidero.dev/role-controlplane'', LabelWorkerRole = ''omni.sidero.dev/role-worker''\<rparr>"

definition ims_rd1 :: reader where
  "ims_rd1 = reader_of (Some m1) (Some m1_api) (Some (m1_agent True)) (Some m1_wiped) None None None"

definition ims_s1 :: infra_machine_status where
  "ims_s1 = (new_resource ''m1'' \<lparr>ims_PowerState = POWER_STATE_UNKNOWN, ims_LastRebootId = [],
      ims_LastRebootTimestamp = None, ims_Installed = False, ims_ReadyToUse = False, ims_WipedNodeUniqueToken = [],
      ims_LastPowerOffId = ''old''\<rparr>)\<lparr>Labels := [''stale'' \<mapsto> ''x'', ''omni.sidero.dev/keep'' \<mapsto> ''y'']\<rparr>"

lemma ims_run1: "fst (fst (ims_transform ims_h1 (ok_env True 1) ims_rd1 m1 ims_s1 empty_world)) = None"
  by code_simp


text \<open>
  A machine that is reported ready to use is one the boot logic hands over: once it is allocated to a
  cluster and not being torn down, it boots Talos, from its disk when it is installed and not always booted
  over the network, otherwise over the network, and never the agent.
\<close>

theorem ims_ready_machine_boots_talos:
  assumes "ims_transform h env rd m s w = ((None, s'), w')" and "ims_ReadyToUse (Spec s')"
    and "get_or_nil (rd_wipe_status rd (ID m)) = Inr ws" and "get_or_nil (rd_bmc_configuration rd (ID m)) = Inr bmc"
    and "ClusterTalosVersion (Spec m) \<noteq> []" and "Phase m = PhaseRunning"
  shows "RequiredBootMode (Some m) bmc ws opts =
    (if ims_Installed (Spec s') \<and> \<not> AlwaysNetboot opts then BootModeTalosDisk else BootModeTalosPXE)"
  using assms(1)
proof (cases rule: ims_transform_cases)
  case skipped
  then show ?thesis by simp
next
  case (reported ms rs ws' bmc' po)
  with assms(3,4) have s: "s' = s\<lparr>Labels := ims_labels h m (Labels s), Spec := ims_spec m ms rs ws bmc po (Spec s)\<rparr>" by simp
  with assms(2) have "bmc \<noteq> None" "\<not> RequiresWipe (Some m) ws" by auto
  with assms(5,6) reported(3) have "handover_ready (Some m) bmc ws"
    by (auto simp: handover_ready_def RequiresWipe_iff validateInfraMachine_None)
  with s accepted_not_rejected [OF reported(3)] show ?thesis by (auto simp: RequiredBootMode_cases)
qed

theorem ims_ready_machine_boots_talos_witness:
  "RequiredBootMode (Some m1) (Some m1_api) (Some m1_wiped) \<lparr>AlwaysNetboot = False\<rparr> = BootModeTalosPXE"
proof -
  obtain s' w' where t: "ims_transform ims_h1 (ok_env True 1) ims_rd1 m1 ims_s1 empty_world = ((None, s'), w')"
    using ims_run1 by (metis prod.collapse)
  then have "s' = ims_s1\<lparr>Labels := ims_labels ims_h1 m1 (Labels ims_s1),
      Spec := ims_spec m1 (Some (m1_agent True)) None (Some m1_wiped) (Some m1_api) None (Spec ims_s1)\<rparr>"
    by (cases rule: ims_transform_cases) (auto simp: ims_rd1_def)
  then have "ims_ReadyToUse (Spec s')" "\<not> ims_Installed (Spec s')"
    by (simp_all add: RequiresWipe_def IsInstalled_def m1_def m1_spec_def m1_wiped_def new_resource_def)
  with ims_ready_machine_boots_talos [OF t, of "Some m1_wiped" "Some m1_api"] show ?thesis
    by (auto simp: ims_rd1_def m1_def m1_spec_def new_resource_def)
qed

end
