(* ===== verification/MachineStatus.thy ===== *)
theory MachineStatus
  imports Samples
begin

text \<open>
  \<open>internal/provider/controllers/machine_status.go\<close>: the controller that keeps a status for every machine, by
  polling its BMC and its agent, and by the events of agent tunnels and PXE boots. Its state is the store of
  the machine statuses, which only it writes. \<open>safe.WriterModify\<close> is the state library's: it applies the
  function to the stored resource, or to the empty one it is given when there is none, unless the store
  refuses the write.
\<close>

type_synonym ms_store = "resource_id \<rightharpoonup> machine_status"

definition WriterModify ::
  "env \<Rightarrow> machine_status \<Rightarrow> (machine_status \<Rightarrow> machine_status) \<Rightarrow> ms_store \<Rightarrow> world \<Rightarrow>
   (err + machine_status) \<times> ms_store" where
  "WriterModify env emptyResource f st w =
     (case write_error env (requests w) (ID emptyResource) of
        Some e \<Rightarrow> (Inl e, st)
      | None \<Rightarrow>
          (let res = f (case st (ID emptyResource) of None \<Rightarrow> emptyResource | Some r \<Rightarrow> r)
           in (Inr res, st(ID emptyResource \<mapsto> res))))"

section \<open>Reconciling the finalizer\<close>

definition ms_remove :: "env \<Rightarrow> resource_id \<Rightarrow> world \<Rightarrow> (err + bool) \<times> world" where
  "ms_remove env i w =
     (case ask_flag env (TeardownStatus i) w of
        (Inl e, w1) \<Rightarrow> (if is_not_found e then Inr True else Inl e, w1)
      | (Inr ready, w1) \<Rightarrow>
          if \<not> ready then (Inr False, w1)
          else (case act env (DestroyStatus i) w1 of
                  (Some e, w2) \<Rightarrow> (if is_not_found e then Inr True else Inl e, w2)
                | (None, w2) \<Rightarrow> (Inr True, w2)))"

definition reconcileTearingDown :: "string \<Rightarrow> env \<Rightarrow> infra_machine \<Rightarrow> world \<Rightarrow> err option \<times> world" where
  "reconcileTearingDown name env infraMachine w =
     (case ms_remove env (ID infraMachine) w of
        (Inl e, w1) \<Rightarrow> (Some e, w1)
      | (Inr removed, w1) \<Rightarrow>
          if \<not> removed then (None, w1)
          else (case act env (RemoveFinalizer InfraMachineKind (ID infraMachine) name) w1 of
                  (Some e, w2) \<Rightarrow> (if is_not_found e then None else Some e, w2)
                | (None, w2) \<Rightarrow> (None, w2)))"

definition reconcileRunning :: "string \<Rightarrow> env \<Rightarrow> infra_machine \<Rightarrow> world \<Rightarrow> err option \<times> world" where
  "reconcileRunning name env infraMachine w = act env (AddFinalizer InfraMachineKind (ID infraMachine) name) w"

definition ms_Reconcile ::
  "string \<Rightarrow> env \<Rightarrow> (resource_id \<Rightarrow> err + infra_machine) \<Rightarrow> resource_id \<Rightarrow> world \<Rightarrow> err option \<times> world" where
  "ms_Reconcile name env get i w =
     (case (case get i of
              Inl e \<Rightarrow> if \<not> is_not_found e then Inl e else Inr ((NewMachine i)\<lparr>Phase := PhaseTearingDown\<rparr>)
            | Inr m \<Rightarrow> Inr m) of
        Inl e \<Rightarrow> (Some e, w)
      | Inr infraMachine \<Rightarrow>
          if Phase infraMachine = PhaseTearingDown then reconcileTearingDown name env infraMachine w
          else reconcileRunning name env infraMachine w)"

text \<open>The names of the two resource types are the libraries'; the result names infra machines.\<close>

definition ms_MapInput :: "string \<Rightarrow> string \<Rightarrow> string \<Rightarrow> resource_id \<Rightarrow> err + resource_id list" where
  "ms_MapInput bmcConfigurationType infraMachineType typ i =
     (if typ = bmcConfigurationType \<or> typ = infraMachineType then Inr [ID (NewMachine i)]
      else Inl (Plain (''unexpected resource type '' @ [CHR 0x22] @ typ @ [CHR 0x22])))"

section \<open>Polling\<close>

definition getPowerState ::
  "redfish_options \<Rightarrow> env \<Rightarrow> bmc_configuration \<Rightarrow> world \<Rightarrow> (power_state \<times> err option) \<times> world" where
  "getPowerState redfish env bmcConfiguration w =
     (case GetClient redfish env (Some bmcConfiguration) w of
        (Inl e, w1) \<Rightarrow> ((POWER_STATE_UNKNOWN, Some e), w1)
      | (Inr bmcClient, w1) \<Rightarrow>
          LogCloseContext bmcClient env
            (case client_IsPoweredOn bmcClient env w1 of
               (Inl e, w2) \<Rightarrow> ((POWER_STATE_UNKNOWN, Some e), w2)
             | (Inr poweredOn, w2) \<Rightarrow> ((if poweredOn then POWER_STATE_ON else POWER_STATE_OFF, None), w2)))"

definition agentConnected ::
  "env \<Rightarrow> resource_id set \<Rightarrow> resource_id \<Rightarrow> world \<Rightarrow> (bool \<times> err option) \<times> world" where
  "agentConnected env connectedMachines machineID w =
     (if machineID \<notin> connectedMachines then ((False, None), w)
      else (case agent_IsAccessible env machineID w of
              (Inl e, w1) \<Rightarrow>
                if status_code e = Canceled \<or> status_code e = DeadlineExceeded \<or>
                   err_is e CtxCanceled \<or> err_is e CtxDeadlineExceeded
                then ((False, None), w1)
                else ((False, Some e), w1)
            | (Inr accessible, w1) \<Rightarrow> ((accessible, None), w1)))"

text \<open>The errors of the two checks are only logged.\<close>

definition pollSingle ::
  "redfish_options \<Rightarrow> env \<Rightarrow> resource_id \<Rightarrow> bmc_configuration option \<Rightarrow> resource_id set \<Rightarrow> ms_store \<Rightarrow> world \<Rightarrow>
   ((err + machine_status) \<times> ms_store) \<times> world" where
  "pollSingle redfish env i bmcConfiguration connectedMachines st w =
     (let manuallyPowered = IsManuallyPowered bmcConfiguration
      in case (case bmcConfiguration of
                 Some bmc \<Rightarrow>
                   if \<not> manuallyPowered
                   then (case getPowerState redfish env bmc w of ((ps, _), w1) \<Rightarrow> (ps, w1))
                   else (POWER_STATE_UNKNOWN, w)
               | None \<Rightarrow> (POWER_STATE_UNKNOWN, w)) of
           (powerState, w1) \<Rightarrow>
             (case (if powerState \<noteq> POWER_STATE_OFF
                    then (case agentConnected env connectedMachines i w1 of ((acc, _), w2) \<Rightarrow> (acc, w2))
                    else (False, w1)) of
                (agentAccessible, w2) \<Rightarrow>
                  (let powerState' = (if manuallyPowered \<and> agentAccessible then POWER_STATE_ON else powerState)
                   in (WriterModify env (NewMachineStatus i)
                         (\<lambda>res. if Phase res = PhaseTearingDown then res
                                else res\<lparr>Spec := (Spec res)\<lparr>PowerState := powerState',
                                                           AgentAccessible := agentAccessible\<rparr>\<rparr>)
                         st w2, w2))))"

fun ms_bmc_map :: "bmc_configuration list \<Rightarrow> (resource_id \<rightharpoonup> bmc_configuration) \<Rightarrow> (resource_id \<rightharpoonup> bmc_configuration)" where
  "ms_bmc_map [] acc = acc"
| "ms_bmc_map (b # bs) acc = ms_bmc_map bs (acc(ID b \<mapsto> b))"

fun ms_poll_list ::
  "redfish_options \<Rightarrow> env \<Rightarrow> (resource_id \<rightharpoonup> bmc_configuration) \<Rightarrow> resource_id set \<Rightarrow> machine_status list \<Rightarrow>
   ms_store \<Rightarrow> world \<Rightarrow> ms_store \<times> world" where
  "ms_poll_list redfish env bmcs connected [] st w = (st, w)"
| "ms_poll_list redfish env bmcs connected (s # ss) st w =
     (if Phase s = PhaseTearingDown then ms_poll_list redfish env bmcs connected ss st w
      else (case pollSingle redfish env (ID s) (bmcs (ID s)) connected st w of
              ((_, st1), w1) \<Rightarrow> ms_poll_list redfish env bmcs connected ss st1 w1))"

text \<open>The numbers it counts are only logged. The two lists may fail to be read.\<close>

definition pollAll ::
  "redfish_options \<Rightarrow> env \<Rightarrow> err + bmc_configuration list \<Rightarrow> err + machine_status list \<Rightarrow> ms_store \<Rightarrow> world \<Rightarrow>
   ms_store \<times> world" where
  "pollAll redfish env bmcConfigurationList machineStatusList st w =
     (case bmcConfigurationList of
        Inl e \<Rightarrow> (st, w)
      | Inr bmcs \<Rightarrow>
          (case machineStatusList of
             Inl e \<Rightarrow> (st, w)
           | Inr statuses \<Rightarrow>
               (case agent_AllConnectedMachines env w of
                  (connectedMachines, w1) \<Rightarrow>
                    ms_poll_list redfish env (ms_bmc_map bmcs Map.empty) connectedMachines statuses st w1)))"

section \<open>Events\<close>

definition handleAgentConnectionEvent ::
  "env \<Rightarrow> agent_connection_event \<Rightarrow> ms_store \<Rightarrow> world \<Rightarrow> err option \<times> ms_store" where
  "handleAgentConnectionEvent env event st w =
     (case WriterModify env (NewMachineStatus (ev_MachineID event))
             (\<lambda>res. if Phase res = PhaseTearingDown then res
                    else res\<lparr>Spec := (Spec res)\<lparr>AgentAccessible := ev_Connected event\<rparr>\<rparr>) st w of
        (Inl e, st1) \<Rightarrow> (Some e, st1)
      | (Inr _, st1) \<Rightarrow> (None, st1))"

text \<open>
  \<open>tearingDown\<close> and \<open>initial\<close> are set by the update function from the resource it is applied to.
\<close>

definition handlePXEBootEvent ::
  "redfish_options \<Rightarrow> env \<Rightarrow> reader \<Rightarrow> resource_id \<Rightarrow> ms_store \<Rightarrow> world \<Rightarrow> (err option \<times> ms_store) \<times> world" where
  "handlePXEBootEvent redfish env rd i st w =
     (let current = (case st i of None \<Rightarrow> NewMachineStatus i | Some r \<Rightarrow> r);
          tearingDown = (Phase current = PhaseTearingDown);
          initial = (\<not> tearingDown \<and> \<not> Initialized (Spec current))
      in case WriterModify env (NewMachineStatus i)
                (\<lambda>res. if Phase res = PhaseTearingDown then res
                       else res\<lparr>Spec := (Spec res)\<lparr>Initialized := True\<rparr>\<rparr>) st w of
           (Inl e, st1) \<Rightarrow> ((Some e, st1), w)
         | (Inr _, st1) \<Rightarrow>
             if tearingDown \<or> \<not> initial then ((None, st1), w)
             else (case get_or_nil (rd_bmc_configuration rd i) of
                     Inl e \<Rightarrow> ((Some e, st1), w)
                   | Inr bmcConfiguration \<Rightarrow>
                       (case agent_AllConnectedMachines env w of
                          (connectedMachines, w1) \<Rightarrow>
                            (case pollSingle redfish env i bmcConfiguration connectedMachines st1 w1 of
                               ((_, st2), w2) \<Rightarrow> ((None, st2), w2)))))"

text \<open>The loop of the run hook: one event at a time; a handler's error ends it.\<close>

datatype ms_event =
    Tick "err + bmc_configuration list" "err + machine_status list"
  | AgentConnection agent_connection_event
  | PXEBoot reader resource_id

definition ms_step ::
  "redfish_options \<Rightarrow> env \<Rightarrow> ms_event \<Rightarrow> ms_store \<Rightarrow> world \<Rightarrow> (err option \<times> ms_store) \<times> world" where
  "ms_step redfish env ev st w =
     (case ev of
        Tick bmcs statuses \<Rightarrow> (case pollAll redfish env bmcs statuses st w of (st1, w1) \<Rightarrow> ((None, st1), w1))
      | AgentConnection event \<Rightarrow> (handleAgentConnectionEvent env event st w, w)
      | PXEBoot rd i \<Rightarrow> handlePXEBootEvent redfish env rd i st w)"

fun ms_RunHook ::
  "redfish_options \<Rightarrow> (env \<times> ms_event) list \<Rightarrow> ms_store \<Rightarrow> world \<Rightarrow> (err option \<times> ms_store) \<times> world" where
  "ms_RunHook redfish [] st w = ((None, st), w)"
| "ms_RunHook redfish ((env, ev) # evs) st w =
     (case ms_step redfish env ev st w of
        ((Some e, st1), w1) \<Rightarrow> ((Some e, st1), w1)
      | ((None, st1), w1) \<Rightarrow> ms_RunHook redfish evs st1 w1)"

section \<open>What the checks do\<close>

definition no_command :: "request \<Rightarrow> bool" where
  "no_command q \<longleftrightarrow> command_of q = None \<and> quiet_agent q"

lemma commands_Nil: "list_all no_command qs \<longleftrightarrow> commands qs = [] \<and> (\<forall>q \<in> set qs. quiet_agent q)"
  by (induction qs) (auto simp: no_command_def split: option.splits)

lemma issued_no_command: "issued w w' [] \<Longrightarrow> emits no_command w w'"
  by (auto simp: issued_def emits_def commands_Nil intro: not_to_agent_quiet) (auto simp: list_all_iff intro: not_to_agent_quiet)

lemma getPowerState_issued: "getPowerState rf env cfg w = (r, w') \<Longrightarrow> issued w w' []"
proof -
  assume a: "getPowerState rf env cfg w = (r, w')"
  obtain x w1 where g: "GetClient rf env (Some cfg) w = (x, w1)" by fastforce
  show ?thesis
  proof (cases x)
    case (Inl e)
    with a g GetClient_issued [OF g] show ?thesis by (simp add: getPowerState_def)
  next
    case (Inr c)
    obtain y w2 where p: "client_IsPoweredOn c env w1 = (y, w2)" by fastforce
    have i: "issued w w2 []"
      using issued_trans [OF GetClient_issued [OF g] sends_noneD [OF bmc.is_powered_on_none p]] by simp
    define z where "z = (case y of Inl e \<Rightarrow> (POWER_STATE_UNKNOWN, Some e)
      | Inr b \<Rightarrow> (if b then POWER_STATE_ON else POWER_STATE_OFF, None))"
    have "(r, w') = LogCloseContext c env (z, w2)"
      using a g Inr p by (cases y) (auto simp: getPowerState_def z_def)
    with LogCloseContext_issued [of w "(z, w2)" "[]" c env] i show ?thesis by (metis snd_conv)
  qed
qed

lemma agentConnected_cases:
  assumes "agentConnected env conn i w = ((acc, e), w')"
  obtains (no_tunnel) "i \<notin> conn" "\<not> acc" "w' = w"
    | (asked) "i \<in> conn" "requests w' = requests w @ [AgentHello i]"
      "acc \<longleftrightarrow> answer_act env (requests w) (AgentHello i) = None"
proof (cases "i \<in> conn")
  case False
  with assms show ?thesis by (intro no_tunnel) (auto simp: agentConnected_def)
next
  case True
  with assms show ?thesis
    by (intro asked) (auto simp: agentConnected_def agent_IsAccessible_def act_def split: option.splits if_splits)
qed

text \<open>A poll, seen as what it found and the write that follows.\<close>

lemma pollSingle_cases:
  assumes "pollSingle rf env i bmc conn st w = ((r, st'), w')"
  obtains ps acc w1 where
    "(r, st') = WriterModify env (NewMachineStatus i)
       (\<lambda>res. if Phase res = PhaseTearingDown then res
              else res\<lparr>Spec := (Spec res)\<lparr>PowerState := if IsManuallyPowered bmc \<and> acc then POWER_STATE_ON else ps,
                                         AgentAccessible := acc\<rparr>\<rparr>) st w'"
    "issued w w1 []" "emits no_command w w'"
    "ps = POWER_STATE_OFF \<Longrightarrow> \<not> acc \<and> w' = w1"
    "IsManuallyPowered bmc \<or> bmc = None \<Longrightarrow> ps = POWER_STATE_UNKNOWN \<and> w1 = w"
    "acc \<Longrightarrow> i \<in> conn \<and> requests w' = requests w1 @ [AgentHello i] \<and> answer_act env (requests w1) (AgentHello i) = None"
proof -
  obtain ps w1 where p: "(case bmc of
                 Some cfg \<Rightarrow>
                   if \<not> IsManuallyPowered bmc
                   then (case getPowerState rf env cfg w of ((ps, _), w1) \<Rightarrow> (ps, w1))
                   else (POWER_STATE_UNKNOWN, w)
               | None \<Rightarrow> (POWER_STATE_UNKNOWN, w)) = (ps, w1)" by fastforce
  have i1: "issued w w1 []"
    using p by (auto split: option.splits if_splits prod.splits dest: getPowerState_issued)
  have un: "IsManuallyPowered bmc \<or> bmc = None \<Longrightarrow> ps = POWER_STATE_UNKNOWN \<and> w1 = w"
    using p by (auto split: option.splits)
  obtain acc w2 where c: "(if ps \<noteq> POWER_STATE_OFF
      then (case agentConnected env conn i w1 of ((acc, _), w2) \<Rightarrow> (acc, w2)) else (False, w1)) = (acc, w2)" by fastforce
  note eq = assms [unfolded pollSingle_def Let_def p prod.case c]
  note r = arg_cong [OF eq, of snd, unfolded snd_conv] arg_cong [OF eq, of fst, unfolded fst_conv, symmetric]
  have "emits no_command w1 w2 \<and> (ps = POWER_STATE_OFF \<longrightarrow> \<not> acc \<and> w2 = w1) \<and>
      (acc \<longrightarrow> i \<in> conn \<and> requests w2 = requests w1 @ [AgentHello i] \<and> answer_act env (requests w1) (AgentHello i) = None)"
  proof (cases "ps = POWER_STATE_OFF")
    case True
    with c show ?thesis by auto
  next
    case False
    then obtain e where a: "agentConnected env conn i w1 = ((acc, e), w2)"
      using c by (auto split: prod.splits)
    from this False show ?thesis
      by (cases rule: agentConnected_cases) (auto simp: emits_def no_command_def)
  qed
  with un emits_trans [OF issued_no_command [OF i1], of w2]
  show ?thesis by (intro that [OF r(2) [unfolded r(1)] i1]) (simp_all only: r(1), blast+)
qed

lemma WriterModify_cases:
  assumes "WriterModify env new f st w = (r, st')"
  obtains (refused) e where "r = Inl e" "st' = st"
    | (written) res where "r = Inr res" "res = f (case st (ID new) of None \<Rightarrow> new | Some x \<Rightarrow> x)"
      "st' = st(ID new \<mapsto> res)"
proof (cases "write_error env (requests w) (ID new)")
  case None
  with assms show ?thesis by (intro written [OF _ refl]) (simp_all add: WriterModify_def Let_def)
next
  case (Some e)
  with assms show ?thesis by (intro refused [of e]) (simp_all add: WriterModify_def)
qed

lemma not_tearing_down: "p \<noteq> PhaseTearingDown \<longleftrightarrow> p = PhaseRunning"
  by (cases p) simp_all

lemma NewMachineStatus_simps [simp]:
  "ID (NewMachineStatus i) = i" "Phase (NewMachineStatus i) = PhaseRunning" "\<not> Initialized (Spec (NewMachineStatus i))"
  by (simp_all add: NewMachineStatus_def new_resource_def)

section \<open>Invariants of the store\<close>

text \<open>
  What no event may do: change a status that is being torn down, take back that a machine was seen, drop a
  status, or touch the parts of a status that are not the controller's.
\<close>

definition ms_extends :: "ms_store \<Rightarrow> ms_store \<Rightarrow> bool" where
  "ms_extends st st' \<longleftrightarrow>
     (\<forall>i s. st i = Some s \<longrightarrow>
        (\<exists>s'. st' i = Some s' \<and> ID s' = ID s \<and> Phase s' = Phase s \<and> Finalizers s' = Finalizers s \<and>
           (Initialized (Spec s) \<longrightarrow> Initialized (Spec s')) \<and> (Phase s = PhaseTearingDown \<longrightarrow> s' = s)))"

lemma ms_extends_refl [simp]: "ms_extends st st"
  by (simp add: ms_extends_def)

lemma ms_extendsE:
  assumes "ms_extends st st'" "st i = Some s"
  obtains s' where "st' i = Some s'" "ID s' = ID s" "Phase s' = Phase s" "Finalizers s' = Finalizers s"
    "Initialized (Spec s) \<longrightarrow> Initialized (Spec s')" "Phase s = PhaseTearingDown \<longrightarrow> s' = s"
  using assms unfolding ms_extends_def by blast

lemma ms_extends_trans:
  assumes "ms_extends st1 st2" "ms_extends st2 st3"
  shows "ms_extends st1 st3"
  unfolding ms_extends_def
proof (intro allI impI)
  fix i s
  assume "st1 i = Some s"
  with assms(1) obtain s2 where 2: "st2 i = Some s2" "ID s2 = ID s" "Phase s2 = Phase s" "Finalizers s2 = Finalizers s"
    "Initialized (Spec s) \<longrightarrow> Initialized (Spec s2)" "Phase s = PhaseTearingDown \<longrightarrow> s2 = s" by (rule ms_extendsE)
  from assms(2) 2(1) obtain s3 where "st3 i = Some s3" "ID s3 = ID s2" "Phase s3 = Phase s2"
    "Finalizers s3 = Finalizers s2" "Initialized (Spec s2) \<longrightarrow> Initialized (Spec s3)"
    "Phase s2 = PhaseTearingDown \<longrightarrow> s3 = s2" by (rule ms_extendsE)
  with 2 show "\<exists>s'. st3 i = Some s' \<and> ID s' = ID s \<and> Phase s' = Phase s \<and> Finalizers s' = Finalizers s \<and>
      (Initialized (Spec s) \<longrightarrow> Initialized (Spec s')) \<and> (Phase s = PhaseTearingDown \<longrightarrow> s' = s)" by auto
qed

text \<open>The update functions of the controller.\<close>

definition ms_update :: "(machine_status \<Rightarrow> machine_status) \<Rightarrow> bool" where
  "ms_update f \<longleftrightarrow>
     (\<forall>s. ID (f s) = ID s \<and> Phase (f s) = Phase s \<and> Finalizers (f s) = Finalizers s \<and>
        (Initialized (Spec s) \<longrightarrow> Initialized (Spec (f s))) \<and> (Phase s = PhaseTearingDown \<longrightarrow> f s = s))"

lemma WriterModify_extends:
  assumes "ms_update f" "WriterModify env new f st w = (r, st')"
  shows "ms_extends st st'"
  using assms(2)
proof (cases rule: WriterModify_cases)
  case refused
  then show ?thesis by simp
next
  case (written res)
  show ?thesis
    unfolding ms_extends_def
  proof (intro allI impI)
    fix i s
    assume st: "st i = Some s"
    have "st' i = Some (if i = ID new then f s else s)" 
      unfolding written(3) written(2) fun_upd_apply using st by (cases "i = ID new") simp_all
    with assms(1) show "\<exists>s'. st' i = Some s' \<and> ID s' = ID s \<and> Phase s' = Phase s \<and> Finalizers s' = Finalizers s \<and>
        (Initialized (Spec s) \<longrightarrow> Initialized (Spec s')) \<and> (Phase s = PhaseTearingDown \<longrightarrow> s' = s)"
      unfolding ms_update_def by (intro exI [of _ "if i = ID new then f s else s"]) presburger
  qed
qed

lemma ms_updates:
  "ms_update (\<lambda>res. if Phase res = PhaseTearingDown then res
     else res\<lparr>Spec := (Spec res)\<lparr>PowerState := ps, AgentAccessible := acc\<rparr>\<rparr>)"
  "ms_update (\<lambda>res. if Phase res = PhaseTearingDown then res else res\<lparr>Spec := (Spec res)\<lparr>AgentAccessible := acc\<rparr>\<rparr>)"
  "ms_update (\<lambda>res. if Phase res = PhaseTearingDown then res else res\<lparr>Spec := (Spec res)\<lparr>Initialized := True\<rparr>\<rparr>)"
  by (simp_all add: ms_update_def)

lemma pollSingle_safe:
  assumes "pollSingle rf env i bmc conn st w = ((r, st'), w')"
  shows "ms_extends st st' \<and> emits no_command w w'"
  using assms
proof (cases rule: pollSingle_cases)
  case (1 ps acc w1)
  then show ?thesis using WriterModify_extends [OF ms_updates(1) 1(1) [symmetric]] by simp
qed

lemma ms_poll_list_safe:
  "ms_poll_list rf env bmcs conn ss st w = (st', w') \<Longrightarrow> ms_extends st st' \<and> emits no_command w w'"
proof (induction ss arbitrary: st w)
  case Nil
  then show ?case by simp
next
  case (Cons s ss)
  obtain r st1 w1 where p: "pollSingle rf env (ID s) (bmcs (ID s)) conn st w = ((r, st1), w1)" by (metis surj_pair)
  show ?case
  proof (cases "Phase s = PhaseTearingDown")
    case True
    with Cons show ?thesis by simp
  next
    case False
    with Cons.prems p have "ms_poll_list rf env bmcs conn ss st1 w1 = (st', w')" by simp
    from Cons.IH [OF this] pollSingle_safe [OF p] show ?thesis by (blast intro: ms_extends_trans emits_trans)
  qed
qed

lemma AllConnectedMachines_no_command:
  "agent_AllConnectedMachines env w = (ms, w') \<Longrightarrow> emits no_command w w'"
  using agent_calls_no_command(2) by (fastforce simp: emits_def no_command_def)

lemma ms_step_safe:
  assumes "ms_step rf env ev st w = ((r, st'), w')"
  shows "ms_extends st st' \<and> emits no_command w w'"
proof (cases ev)
  case (Tick bmcs statuses)
  show ?thesis
  proof (cases "\<exists>bs ss. bmcs = Inr bs \<and> statuses = Inr ss")
    case True
    then obtain bs ss where l: "bmcs = Inr bs" "statuses = Inr ss" by blast
    obtain ms w1 where c: "agent_AllConnectedMachines env w = (ms, w1)" by fastforce
    with assms Tick l have "ms_poll_list rf env (ms_bmc_map bs Map.empty) ms ss st w1 = (st', w')"
      by (simp add: ms_step_def pollAll_def split: prod.splits)
    from ms_poll_list_safe [OF this] AllConnectedMachines_no_command [OF c] show ?thesis by (blast intro: emits_trans)
  next
    case False
    with assms Tick show ?thesis by (auto simp: ms_step_def pollAll_def split: sum.splits)
  qed
next
  case (AgentConnection event)
  with assms have w: "w' = w" and h: "handleAgentConnectionEvent env event st w = (r, st')" by (auto simp: ms_step_def)
  then obtain x where "WriterModify env (NewMachineStatus (ev_MachineID event))
             (\<lambda>res. if Phase res = PhaseTearingDown then res
                    else res\<lparr>Spec := (Spec res)\<lparr>AgentAccessible := ev_Connected event\<rparr>\<rparr>) st w = (x, st')"
    by (auto simp: handleAgentConnectionEvent_def split: sum.splits prod.splits)
  from WriterModify_extends [OF ms_updates(2) this] w show ?thesis by simp
next
  case (PXEBoot rd i)
  then have h: "handlePXEBootEvent rf env rd i st w = ((r, st'), w')" using assms by (simp add: ms_step_def)
  obtain x st1 where m: "WriterModify env (NewMachineStatus i)
     (\<lambda>res. if Phase res = PhaseTearingDown then res else res\<lparr>Spec := (Spec res)\<lparr>Initialized := True\<rparr>\<rparr>) st w = (x, st1)"
    by fastforce
  note e1 = WriterModify_extends [OF ms_updates(3) m]
  consider "st' = st1" "w' = w" | bmc conn w1 y where "agent_AllConnectedMachines env w = (conn, w1)"
     "pollSingle rf env i bmc conn st1 w1 = ((y, st'), w')"
    using h m by (auto simp: handlePXEBootEvent_def Let_def split: sum.splits if_splits prod.splits)
  then show ?thesis
  proof cases
    case 1
    with e1 show ?thesis by simp
  next
    case 2
    with e1 pollSingle_safe [OF 2(2)] AllConnectedMachines_no_command [OF 2(1)]
    show ?thesis by (blast intro: ms_extends_trans emits_trans)
  qed
qed

lemma ms_RunHook_safe:
  assumes "ms_RunHook rf evs st w = ((r, st'), w')"
  shows "ms_extends st st' \<and> emits no_command w w'"
  using assms
proof (induction evs arbitrary: st w)
  case Nil
  then show ?case by simp
next
  case (Cons x evs)
  obtain env ev where x: "x = (env, ev)" by fastforce
  obtain e st1 w1 where s: "ms_step rf env ev st w = ((e, st1), w1)" by (metis surj_pair)
  note safe = ms_step_safe [OF s]
  show ?case
  proof (cases e)
    case None
    with Cons.prems x s have "ms_RunHook rf evs st1 w1 = ((r, st'), w')" by simp
    from Cons.IH [OF this] safe show ?thesis by (blast intro: ms_extends_trans emits_trans)
  next
    case (Some y)
    with Cons.prems x s safe show ?thesis by auto
  qed
qed

section \<open>Properties\<close>

text \<open>
  C20. Watching machines is harmless. Whatever sequence of polls, tunnel events and PXE boot events the
  controller handles, it never sends a power or boot command and asks the agents nothing but whether they are there; it keeps every status, never touches one that is
  being torn down, and never forgets that a machine was seen.
\<close>

theorem ms_run_safe:
  assumes "ms_RunHook rf evs st w = ((r, st'), w')"
  shows "\<exists>qs. requests w' = requests w @ qs \<and> commands qs = [] \<and> filter (\<lambda>q. \<not> quiet_agent q) qs = [] \<and>
    (\<forall>i s. st i = Some s \<longrightarrow>
       (\<exists>s'. st' i = Some s' \<and> (Initialized (Spec s) \<longrightarrow> Initialized (Spec s')) \<and>
          (Phase s = PhaseTearingDown \<longrightarrow> s' = s)))"
  using ms_RunHook_safe [OF assms] by (fastforce simp: emits_def commands_Nil filter_empty_conv elim: ms_extendsE)

definition ms_evs :: "(env \<times> ms_event) list" where
  "ms_evs = [(ok_env True 1, PXEBoot (reader_of None (Some m1_api) None None None None None) ''m1''),
             (ok_env False 2, Tick (Inr [m1_api]) (Inr [m1_agent True]))]"

lemma ms_run0:
  "fst (fst (ms_RunHook default_redfish ms_evs Map.empty empty_world)) = None"
  "requests (snd (ms_RunHook default_redfish ms_evs Map.empty empty_world)) =
     [ListTunnels, HttpGet ''10.0.0.9:80'' ''/status'', AgentHello ''m1'', ListTunnels, HttpGet ''10.0.0.9:80'' ''/status'']"
  by code_simp+

theorem ms_run_safe_witness:
  "\<exists>st' w' qs. ms_RunHook default_redfish ms_evs Map.empty empty_world = ((None, st'), w') \<and>
     requests w' = qs \<and> length qs = 5 \<and> commands qs = []"
proof -
  obtain st' w' where t: "ms_RunHook default_redfish ms_evs Map.empty empty_world = ((None, st'), w')"
    using ms_run0(1) by (metis prod.collapse)
  from ms_run_safe [OF t] ms_run0(2) t show ?thesis by (auto simp: empty_world_def)
qed

text \<open>
  A poll reports what it saw. Off is only reported for a machine with a BMC, and then the agent was not
  asked and counts as inaccessible; the agent counts as accessible only when the machine has an open tunnel and
  its agent answered the ping of this poll; a machine without a BMC is on exactly when its agent answers and
  never off; a machine without BMC configuration has an unknown power state.
\<close>

theorem ms_poll_reports:
  assumes "pollSingle rf env i bmc conn st w = ((Inr res, st'), w')"
    and "\<forall>s. st i = Some s \<longrightarrow> Phase s \<noteq> PhaseTearingDown"
  shows "st' = st(i \<mapsto> res) \<and>
    (PowerState (Spec res) = POWER_STATE_OFF \<longrightarrow>
       bmc \<noteq> None \<and> \<not> IsManuallyPowered bmc \<and> \<not> AgentAccessible (Spec res) \<and> issued w w' []) \<and>
    (AgentAccessible (Spec res) \<longrightarrow> i \<in> conn \<and>
       (\<exists>qs. requests w' = qs @ [AgentHello i] \<and> answer_act env qs (AgentHello i) = None)) \<and>
    (IsManuallyPowered bmc \<longrightarrow>
       PowerState (Spec res) = (if AgentAccessible (Spec res) then POWER_STATE_ON else POWER_STATE_UNKNOWN)) \<and>
    (bmc = None \<longrightarrow> PowerState (Spec res) = POWER_STATE_UNKNOWN)"
  using assms(1)
proof (cases rule: pollSingle_cases)
  case (1 ps acc w1)
  from 1(1) [symmetric] have "st' = st(i \<mapsto> res)"
    "PowerState (Spec res) = (if IsManuallyPowered bmc \<and> acc then POWER_STATE_ON else ps)"
    "AgentAccessible (Spec res) = acc"
    using assms(2) by (cases rule: WriterModify_cases; auto split: option.splits)+
  with 1 show ?thesis by (auto simp: IsManuallyPowered_def)
qed

lemma ms_run1: "isl (fst (fst (pollSingle default_redfish (ok_env True 1) ''m1'' (Some m1_api) {''m1''} Map.empty empty_world))) = False"
  by code_simp

theorem ms_poll_reports_witness:
  "\<exists>res st' w'. pollSingle default_redfish (ok_env True 1) ''m1'' (Some m1_api) {''m1''} Map.empty empty_world =
     ((Inr res, st'), w') \<and> st' ''m1'' = Some res"
proof -
  obtain x st' w' where t: "pollSingle default_redfish (ok_env True 1) ''m1'' (Some m1_api) {''m1''} Map.empty empty_world =
     ((x, st'), w')" by (metis surj_pair)
  with ms_run1 obtain res where "x = Inr res" by (cases x) auto
  with t ms_poll_reports [of default_redfish "ok_env True 1" "''m1''" "Some m1_api" "{''m1''}" Map.empty empty_world res st' w']
  show ?thesis by auto
qed

text \<open>
  A machine is discovered once: its first PXE boot event marks it as seen and polls it, and every later
  one, whatever happened in between, sends nothing and leaves its status as it is.
\<close>

theorem ms_discovery_once:
  assumes "handlePXEBootEvent rf env rd i st w = ((None, st1), w1)"
    and "\<forall>s. st i = Some s \<longrightarrow> Phase s \<noteq> PhaseTearingDown"
    and "ms_RunHook rf evs st1 w1 = ((r, st2), w2)"
    and "handlePXEBootEvent rf env2 rd2 i st2 w2 = ((r3, st3), w3)"
  shows "(\<exists>s. st1 i = Some s \<and> Initialized (Spec s)) \<and> st3 = st2 \<and> w3 = w2"
proof -
  obtain x st0 where m: "WriterModify env (NewMachineStatus i)
     (\<lambda>res. if Phase res = PhaseTearingDown then res else res\<lparr>Spec := (Spec res)\<lparr>Initialized := True\<rparr>\<rparr>) st w = (x, st0)"
    by fastforce
  with assms(1) obtain res where x: "x = Inr res" by (cases x) (auto simp: handlePXEBootEvent_def Let_def)
  from m x assms(2) obtain s where s: "st0 i = Some s" "Initialized (Spec s)" "Phase s = PhaseRunning"
    by (cases rule: WriterModify_cases) (auto simp: not_tearing_down split: option.splits)
  consider "st1 = st0" | bmc conn v y where "pollSingle rf env i bmc conn st0 v = ((y, st1), w1)"
    using assms(1) m x by (auto simp: handlePXEBootEvent_def Let_def split: sum.splits if_splits prod.splits)
  then have e: "ms_extends st0 st1" by cases (auto dest: pollSingle_safe)
  with ms_RunHook_safe [OF assms(3)] have "ms_extends st0 st2" by (blast intro: ms_extends_trans)
  with s obtain s2 where s2: "st2 i = Some s2" "Initialized (Spec s2)" "Phase s2 = PhaseRunning"
    unfolding ms_extends_def by fastforce
  then have "s2\<lparr>Spec := (Spec s2)\<lparr>Initialized := True\<rparr>\<rparr> = s2" by (cases s2; cases "Spec s2") simp
  with s2 assms(4) have "st3 = st2 \<and> w3 = w2"
    by (auto simp: handlePXEBootEvent_def WriterModify_def Let_def split: option.splits)
  with e s show ?thesis unfolding ms_extends_def by fastforce
qed

definition ms_rd1 :: reader where
  "ms_rd1 = reader_of None (Some m1_api) None None None None None"

lemma ms_run2:
  "fst (fst (handlePXEBootEvent default_redfish (ok_env True 1) ms_rd1 ''m1'' Map.empty empty_world)) = None"
  by code_simp

theorem ms_discovery_once_witness:
  "\<exists>st1 w1. handlePXEBootEvent default_redfish (ok_env True 1) ms_rd1 ''m1'' Map.empty empty_world = ((None, st1), w1) \<and>
     (\<exists>s. st1 ''m1'' = Some s \<and> Initialized (Spec s)) \<and>
     snd (handlePXEBootEvent default_redfish (ok_env True 2) ms_rd1 ''m1'' st1 w1) = w1"
proof -
  obtain st1 w1 where t: "handlePXEBootEvent default_redfish (ok_env True 1) ms_rd1 ''m1'' Map.empty empty_world =
      ((None, st1), w1)" using ms_run2 by (metis prod.collapse)
  obtain r3 st3 w3 where u: "handlePXEBootEvent default_redfish (ok_env True 2) ms_rd1 ''m1'' st1 w1 = ((r3, st3), w3)"
    by (metis surj_pair)
  from ms_discovery_once [OF t _ _ u, of "[]" None] t u show ?thesis by auto
qed

text \<open>
  C21. A machine that is being removed, or is gone, is released only after its status is: the controller asks for
  the removal of its finalizer only when the status was reported missing, or was ready to be destroyed and then
  destroyed or found missing. A machine that is there and not being removed only gets the finalizer.
\<close>

theorem ms_finalizer_order:
  assumes "ms_Reconcile name env get i w = (r, w')"
    and "\<forall>m. get i = Inr m \<longrightarrow> ID m = i"
  shows "(\<exists>qs. requests w' = requests w @ qs \<and>
    (RemoveFinalizer InfraMachineKind i name \<in> set qs \<longrightarrow>
      ((\<exists>e. answer_flag env (requests w) (TeardownStatus i) = Inl e \<and> is_not_found e) \<or>
       (answer_flag env (requests w) (TeardownStatus i) = Inr True \<and>
        (case answer_act env (requests w @ [TeardownStatus i]) (DestroyStatus i) of
           None \<Rightarrow> True | Some e \<Rightarrow> is_not_found e)))) \<and>
    (\<forall>m. get i = Inr m \<and> Phase m = PhaseRunning \<longrightarrow> qs = [AddFinalizer InfraMachineKind i name]))"
proof -
  consider (err) "w' = w" "\<forall>m. get i \<noteq> Inr m"
    | (down) m where "ID m = i" "Phase m = PhaseTearingDown" "get i = Inr m \<or> (\<forall>m. get i \<noteq> Inr m)"
        "reconcileTearingDown name env m w = (r, w')"
    | (running) m where "get i = Inr m" "ID m = i" "reconcileRunning name env m w = (r, w')"
  proof (cases "get i")
    case (Inl e)
    show ?thesis
    proof (cases "is_not_found e")
      case True
      with Inl assms(1) show ?thesis
        by (intro down [of "(NewMachine i)\<lparr>Phase := PhaseTearingDown\<rparr>"])
          (auto simp: ms_Reconcile_def NewMachine_def new_resource_def)
    next
      case False
      with Inl assms(1) show ?thesis by (intro err) (auto simp: ms_Reconcile_def)
    qed
  next
    case (Inr m)
    with assms show ?thesis
      by (cases "Phase m") (auto simp: ms_Reconcile_def intro: down running)
  qed
  then show ?thesis
  proof cases
    case err
    then show ?thesis by auto
  next
    case running
    then show ?thesis by (auto simp: reconcileRunning_def act_def)
  next
    case (down m)
    then show ?thesis
      by (auto simp: reconcileTearingDown_def ms_remove_def act_def ask_flag_def
          split: sum.splits option.splits if_splits)
  qed
qed

lemma ms_run3:
  "requests (snd (ms_Reconcile ''ctrl'' (ok_env True 1) (\<lambda>i. Inl (NotFoundErr ''gone'')) ''m1'' empty_world)) =
     [TeardownStatus ''m1'', DestroyStatus ''m1'', RemoveFinalizer InfraMachineKind ''m1'' ''ctrl'']"
  by code_simp

theorem ms_finalizer_order_witness:
  "\<exists>r w'. ms_Reconcile ''ctrl'' (ok_env True 1) (\<lambda>i. Inl (NotFoundErr ''gone'')) ''m1'' empty_world = (r, w') \<and>
     RemoveFinalizer InfraMachineKind ''m1'' ''ctrl'' \<in> set (requests w') \<and>
     answer_flag (ok_env True 1) [] (TeardownStatus ''m1'') = Inr True"
proof -
  obtain r w' where t: "ms_Reconcile ''ctrl'' (ok_env True 1) (\<lambda>i. Inl (NotFoundErr ''gone'')) ''m1'' empty_world = (r, w')"
    by fastforce
  from ms_finalizer_order [OF t] ms_run3 t show ?thesis by (auto simp: empty_world_def ok_env_def)
qed

end
