(* ===== verification/Provider.thy ===== *)
theory Provider
  imports BootHandler Dhcp MachineConfig RunGroup AddressReader PowerOperation RebootStatus WipeStatus InfraMachineStatus MachineStatus
begin

text \<open>
  \<open>internal/provider/provider.go\<close> and \<open>options.go\<close>: how the provider starts, from its options to the components it runs.
  Omni's client, the COSI runtime, the state store's failures and the file system are parameters (\<open>run_env\<close>); the state the
  provider keeps in Omni is the record \<open>omni_state\<close>. What \<open>Run\<close> wires together is its result: the record \<open>wiring\<close>, with the
  controllers' helpers, the boot handler, the server and the DHCP proxy as the other theories model them.
\<close>

section \<open>Options\<close>

record provider_options =
  opt_IPMIPXEBootMode :: string
  opt_DHCPProxyIfaceOrIP :: string
  opt_OmniAPIEndpoint :: string
  opt_AgentModeTalosVersion :: string
  opt_APIListenAddress :: string
  opt_APIAdvertiseAddress :: string
  opt_APIPowerMgmtStateDir :: string
  opt_Name :: string
  opt_Description :: string
  opt_BootFromDiskMethod :: string
  opt_ExtraMachineConfigPath :: string
  opt_BootAssetsPath :: string
  opt_RPiFirmwarePath :: string
  opt_MachineLabels :: "string list"
  opt_TLS :: tls_options
  opt_AgentClient :: agent_options
  opt_Redfish :: redfish_options
  opt_MinRebootInterval :: int
  opt_APIPort :: int
  opt_UseLocalBootAssets :: bool
  opt_AgentTestMode :: bool
  opt_InsecureSkipTLSVerify :: bool
  opt_EnableResourceCache :: bool
  opt_ClearState :: bool
  opt_DisableDHCPProxy :: bool
  opt_DisableDHCPProxyBroadcast :: bool
  opt_SecureBootEnabled :: bool
  opt_AllowMachinesWithoutBMC :: bool
  opt_AlwaysNetboot :: bool

definition DefaultOptions :: provider_options where
  "DefaultOptions =
     \<lparr>opt_IPMIPXEBootMode = BootModeUEFI, opt_DHCPProxyIfaceOrIP = [], opt_OmniAPIEndpoint = [],
      opt_AgentModeTalosVersion = ''v1.13.7'', opt_APIListenAddress = [], opt_APIAdvertiseAddress = [],
      opt_APIPowerMgmtStateDir = [], opt_Name = ''Bare Metal'', opt_Description = ''Bare metal infrastructure provider'',
      opt_BootFromDiskMethod = ''ipxe-exit'', opt_ExtraMachineConfigPath = [], opt_BootAssetsPath = ''/assets'',
      opt_RPiFirmwarePath = [], opt_MachineLabels = [],
      opt_TLS = \<lparr>CACertFile = [], CertFile = [], KeyFile = [], CustomIPXECACertFile = [], TLS_APIPort = 50043,
                 CATTL = 30 * 365 * 24 * 3600 * second, CertTTL = 24 * 3600 * second, TLS_Enabled = False, AgentSkipVerify = False\<rparr>,
      opt_AgentClient = Agent_DefaultClientOptions, opt_Redfish = Redfish_DefaultOptions,
      opt_MinRebootInterval = 15 * 60 * second, opt_APIPort = 50042, opt_UseLocalBootAssets = False, opt_AgentTestMode = False,
      opt_InsecureSkipTLSVerify = False, opt_EnableResourceCache = False, opt_ClearState = False, opt_DisableDHCPProxy = False,
      opt_DisableDHCPProxyBroadcast = False, opt_SecureBootEnabled = False, opt_AllowMachinesWithoutBMC = True,
      opt_AlwaysNetboot = False\<rparr>"

text \<open>\<open>stat\<close> is \<open>os.Stat\<close>: whether the path is a directory.\<close>

definition validateOptions :: "(string \<Rightarrow> err + bool) \<Rightarrow> provider_options \<Rightarrow> pxe_boot_mode \<Rightarrow> err option" where
  "validateOptions stat options pxeBootMode =
     (if opt_SecureBootEnabled options \<and> pxeBootMode \<noteq> BootModeUEFI
      then Some (Plain ''secure boot is only supported with UEFI boot mode'')
      else if opt_SecureBootEnabled options \<and> opt_UseLocalBootAssets options
      then Some (Plain ''local boot assets cannot be used with secure boot'')
      else if opt_AgentTestMode options \<and> opt_APIPowerMgmtStateDir options = []
      then Some (Plain ''--agent-test-mode requires --api-power-mgmt-state-dir'')
      else if opt_APIPowerMgmtStateDir options \<noteq> []
      then (case stat (opt_APIPowerMgmtStateDir options) of
              Inl e \<Rightarrow> Some (Wrapped ''failed to read the API power management state directory given by --api-power-mgmt-state-dir'' e)
            | Inr isDir \<Rightarrow>
                if \<not> isDir
                then Some (Plain ''the API power management state directory given by --api-power-mgmt-state-dir is not a directory'')
                else None)
      else None)"

text \<open>\<open>strings.Split\<close> of a label; the map is filled in the order of the options.\<close>

fun parseLabels :: "string list \<Rightarrow> (string \<rightharpoonup> string) \<Rightarrow> err + (string \<rightharpoonup> string)" where
  "parseLabels [] labels = Inr labels"
| "parseLabels (l # ls) labels =
     (let parts = split_at CHR ''='' l
      in if length parts > 2 then Inl (Plain (''malformed label '' @ l))
         else (let value = (if length parts > 1 then parts ! 1 else []) in parseLabels ls (labels(parts ! 0 \<mapsto> value))))"

section \<open>The state in Omni\<close>

record provider_status =
  ps_Labels :: "string \<rightharpoonup> string"
  ps_Name :: string
  ps_Description :: string
  ps_Icon :: string
  ps_Version :: string

datatype provider_kind = KBMCConfiguration | KMachineStatus | KPowerOperation | KRebootStatus | KTLSConfig | KWipeStatus

record stored =
  st_kind :: provider_kind
  st_id :: resource_id
  st_owner :: string

text \<open>The provider's status, its stored resources other than the TLS configuration, and the TLS configuration.\<close>

record omni_state =
  os_ProviderStatus :: "provider_status option"
  os_stored :: "stored list"
  os_TLSConfig :: "tls_config option"

text \<open>The failures of the state store; an operation that does not fail does what it is documented to do.\<close>

record store_env =
  se_create :: "err option"
  se_update :: "err option"
  se_list :: "provider_kind \<Rightarrow> err option"
  se_get :: "stored \<Rightarrow> err option"
  se_destroy :: "stored \<Rightarrow> err option"

text \<open>\<open>state.IsConflictError\<close>: it looks through wrapping.\<close>

fun is_conflict :: "err \<Rightarrow> bool" where
  "is_conflict (ConflictErr s) = True"
| "is_conflict (Wrapped s e) = is_conflict e"
| "is_conflict _ = False"

text \<open>\<open>base64.RawStdEncoding\<close> leaves the padding out. The label, the icon and the version come from Omni and the build.\<close>

definition base64_raw :: "byte list \<Rightarrow> string" where
  "base64_raw bs = filter (\<lambda>c. c \<noteq> CHR ''='') (base64_encode bs)"

record build_info =
  bi_LabelIsStatic :: string
  bi_icon :: "byte list"
  bi_Tag :: string

definition populate :: "build_info \<Rightarrow> provider_options \<Rightarrow> provider_status \<Rightarrow> provider_status" where
  "populate bi options res =
     res\<lparr>ps_Labels := (ps_Labels res)(bi_LabelIsStatic bi \<mapsto> []), ps_Name := opt_Name options,
         ps_Description := opt_Description options, ps_Icon := base64_raw (bi_icon bi), ps_Version := bi_Tag bi\<rparr>"

definition NewProviderStatus :: provider_status where
  "NewProviderStatus = \<lparr>ps_Labels = Map.empty, ps_Name = [], ps_Description = [], ps_Icon = [], ps_Version = []\<rparr>"

definition create_status :: "store_env \<Rightarrow> provider_status \<Rightarrow> omni_state \<Rightarrow> err option \<times> omni_state" where
  "create_status st res s =
     (case se_create st of
        Some e \<Rightarrow> (Some e, s)
      | None \<Rightarrow> (case os_ProviderStatus s of
                   Some _ \<Rightarrow> (Some (ConflictErr ''provider status''), s)
                 | None \<Rightarrow> (None, s\<lparr>os_ProviderStatus := Some res\<rparr>)))"

definition update_status :: "store_env \<Rightarrow> (provider_status \<Rightarrow> provider_status) \<Rightarrow> omni_state \<Rightarrow> err option \<times> omni_state" where
  "update_status st f s =
     (case se_update st of
        Some e \<Rightarrow> (Some e, s)
      | None \<Rightarrow> (case os_ProviderStatus s of
                   None \<Rightarrow> (Some (NotFoundErr ''provider status''), s)
                 | Some res \<Rightarrow> (None, s\<lparr>os_ProviderStatus := Some (f res)\<rparr>)))"

definition ensureProviderStatus :: "build_info \<Rightarrow> store_env \<Rightarrow> provider_options \<Rightarrow> omni_state \<Rightarrow> err option \<times> omni_state" where
  "ensureProviderStatus bi st options s =
     (case create_status st (populate bi options NewProviderStatus) s of
        (None, s1) \<Rightarrow> (None, s1)
      | (Some e, s1) \<Rightarrow>
          if \<not> is_conflict e then (Some e, s1)
          else (case update_status st (populate bi options) s1 of
                  (Some e', s2) \<Rightarrow> (Some e', s2)
                | (None, s2) \<Rightarrow> (None, s2)))"

text \<open>\<open>List\<close>, \<open>Get\<close> and \<open>Destroy\<close> with the owner of the resource, over both parts of the state.\<close>

definition stored_of :: "omni_state \<Rightarrow> provider_kind \<Rightarrow> stored list" where
  "stored_of s kind =
     (if kind = KTLSConfig
      then (case os_TLSConfig s of None \<Rightarrow> [] | Some r \<Rightarrow> [\<lparr>st_kind = KTLSConfig, st_id = ID r, st_owner = Owner r\<rparr>])
      else filter (\<lambda>x. st_kind x = kind) (os_stored s))"

definition destroy_stored :: "stored \<Rightarrow> omni_state \<Rightarrow> omni_state" where
  "destroy_stored item s =
     (if st_kind item = KTLSConfig then s\<lparr>os_TLSConfig := None\<rparr>
      else s\<lparr>os_stored := filter (\<lambda>x. x \<noteq> item) (os_stored s)\<rparr>)"

definition cleared_kinds :: "provider_kind list" where
  "cleared_kinds = [KBMCConfiguration, KMachineStatus, KPowerOperation, KRebootStatus, KTLSConfig, KWipeStatus]"

fun list_kinds :: "store_env \<Rightarrow> omni_state \<Rightarrow> provider_kind list \<Rightarrow> err + stored list" where
  "list_kinds st s [] = Inr []"
| "list_kinds st s (kind # kinds) =
     (case se_list st kind of
        Some e \<Rightarrow> Inl (Wrapped ''failed to list bare metal machinees'' e)
      | None \<Rightarrow> (case list_kinds st s kinds of
                   Inl e \<Rightarrow> Inl e
                 | Inr items \<Rightarrow> Inr (stored_of s kind @ items)))"

fun destroy_all :: "store_env \<Rightarrow> stored list \<Rightarrow> omni_state \<Rightarrow> err list \<times> omni_state" where
  "destroy_all st [] s = ([], s)"
| "destroy_all st (item # items) s =
     (case se_get st item of
        Some getErr \<Rightarrow> (case destroy_all st items s of (errs, s') \<Rightarrow> (getErr # errs, s'))
      | None \<Rightarrow>
          (case se_destroy st item of
             Some destroyErr \<Rightarrow> (case destroy_all st items s of (errs, s') \<Rightarrow> (destroyErr # errs, s'))
           | None \<Rightarrow> destroy_all st items (destroy_stored item s)))"

definition clearState :: "bool \<Rightarrow> store_env \<Rightarrow> omni_state \<Rightarrow> err option \<times> omni_state" where
  "clearState isDebugBuild st s =
     (if \<not> isDebugBuild then (None, s)
      else (case list_kinds st s cleared_kinds of
              Inl e \<Rightarrow> (Some e, s)
            | Inr resourcesToDestroy \<Rightarrow>
                (case destroy_all st resourcesToDestroy s of
                   (errs, s') \<Rightarrow>
                     (if errs \<noteq> [] then Some (Wrapped ''failed to clear state'' (Plain (join ''; '' (map err_text errs)))) else None, s'))))"

text \<open>The options the Omni client is created with.\<close>

datatype client_option = WithInsecureSkipTLSVerify bool | WithServiceAccount string

definition buildOmniAPIClient ::
  "(string \<Rightarrow> client_option list \<Rightarrow> err option) \<Rightarrow> string \<Rightarrow> string \<Rightarrow> bool \<Rightarrow> err option" where
  "buildOmniAPIClient client_New serviceAccountKey endpoint insecureSkipTLSVerify =
     (if endpoint = [] then Some (Plain ''missing Omni API endpoint'')
      else client_New endpoint ([WithInsecureSkipTLSVerify insecureSkipTLSVerify]
             @ (if serviceAccountKey \<noteq> [] then [WithServiceAccount serviceAccountKey] else [])))"

section \<open>Labels\<close>

text \<open>A label as the flag describes it: a key, and what follows its first equals sign.\<close>

definition label_pair :: "string \<Rightarrow> string \<times> string" where
  "label_pair l = (takeWhile (\<lambda>c. c \<noteq> CHR ''='') l, drop 1 (dropWhile (\<lambda>c. c \<noteq> CHR ''='') l))"

lemma split_at_length: "length (split_at c l) = Suc (count_list l c)"
  by (induction l) (auto split: list.splits)

lemma split_at_no_sep: "c \<notin> set l \<Longrightarrow> split_at c l = [l]"
  by (induction l) auto

lemma split_at_first: "c \<in> set l \<Longrightarrow> split_at c l = takeWhile (\<lambda>x. x \<noteq> c) l # split_at c (drop 1 (dropWhile (\<lambda>x. x \<noteq> c) l))"
  by (induction l) auto

lemma count_list_after: "c \<in> set l \<Longrightarrow> count_list l c = Suc (count_list (drop 1 (dropWhile (\<lambda>x. x \<noteq> c) l)) c)"
  by (induction l) auto

lemma label_parts:
  assumes "count_list l (CHR ''='') \<le> 1"
  shows "(split_at (CHR ''='') l ! 0, if length (split_at (CHR ''='') l) > 1 then split_at (CHR ''='') l ! 1 else []) = label_pair l"
proof (cases "CHR ''='' \<in> set l")
  case True
  let ?v = "drop 1 (dropWhile (\<lambda>x. x \<noteq> CHR ''='') l)"
  have "count_list ?v (CHR ''='') = 0" using count_list_after[OF True] assms by simp
  then have "CHR ''='' \<notin> set ?v" by (simp add: count_list_0_iff)
  then have "split_at (CHR ''='') ?v = [?v]" by (rule split_at_no_sep)
  then have "split_at (CHR ''='') l = [takeWhile (\<lambda>x. x \<noteq> CHR ''='') l, ?v]" using split_at_first[OF True] by simp
  then show ?thesis by (simp add: label_pair_def)
next
  case False
  then have tw: "takeWhile (\<lambda>c. c \<noteq> CHR ''='') l = l" by (induction l) auto
  from False have dw: "dropWhile (\<lambda>c. c \<noteq> CHR ''='') l = []" by (induction l) auto
  show ?thesis by (simp add: label_pair_def tw dw split_at_no_sep[OF False])
qed

lemma parseLabels_acc:
  "parseLabels ls m =
     (case filter (\<lambda>l. count_list l (CHR ''='') > 1) ls of
        l # _ \<Rightarrow> Inl (Plain (''malformed label '' @ l))
      | [] \<Rightarrow> Inr (m ++ map_of (rev (map label_pair ls))))"
proof (induction ls arbitrary: m)
  case (Cons l ls)
  show ?case
  proof (cases "count_list l (CHR ''='') > 1")
    case True
    then show ?thesis by (simp add: split_at_length)
  next
    case False
    then have c: "count_list l (CHR ''='') \<le> 1" by simp
    have "parseLabels (l # ls) m = parseLabels ls (m(fst (label_pair l) \<mapsto> snd (label_pair l)))"
      using False label_parts[OF c, symmetric] by (simp add: split_at_length Let_def)
    moreover have acc: "m(fst (label_pair l) \<mapsto> snd (label_pair l)) ++ map_of (rev (map label_pair ls)) =
        m ++ map_of (rev (map label_pair (l # ls)))"
      by (simp add: map_add_def fun_eq_iff split: option.split)
    ultimately show ?thesis using False by (simp only: Cons.IH acc filter.simps if_False)
  qed
qed simp

text \<open>
  The machine labels are read as documented: each entry is a key and whatever follows its equals sign (nothing when it
  has none), the last entry for a key wins, and the first entry with a second equals sign is refused by name.
\<close>

theorem parseLabels_exact:
  "parseLabels ls Map.empty =
     (case filter (\<lambda>l. count_list l (CHR ''='') > 1) ls of
        l # _ \<Rightarrow> Inl (Plain (''malformed label '' @ l))
      | [] \<Rightarrow> Inr (map_of (rev (map label_pair ls))))"
  by (simp add: parseLabels_acc split: list.split)

section \<open>The state at startup\<close>

lemma populate_idem: "populate bi opts (populate bi opts res) = populate bi opts res"
  by (simp add: populate_def)

lemma ensureProviderStatus_None:
  assumes "ensureProviderStatus bi st opts s = (None, s')"
  shows "s' = s\<lparr>os_ProviderStatus := Some (populate bi opts
           (case os_ProviderStatus s of None \<Rightarrow> NewProviderStatus | Some res \<Rightarrow> res))\<rparr>"
  using assms
  by (auto simp: ensureProviderStatus_def create_status_def update_status_def split: option.splits if_splits)

lemma ensureProviderStatus_Some: "ensureProviderStatus bi st opts s = (Some e, s') \<Longrightarrow> s' = s"
  by (auto simp: ensureProviderStatus_def create_status_def update_status_def split: option.splits if_splits)

text \<open>What remains of the state when \<open>clearState\<close> ran through.\<close>

definition undeletable :: "store_env \<Rightarrow> stored \<Rightarrow> bool" where
  "undeletable st x \<longleftrightarrow> se_get st x \<noteq> None \<or> se_destroy st x \<noteq> None"

definition well_stored :: "omni_state \<Rightarrow> bool" where
  "well_stored s \<longleftrightarrow> (\<forall>x \<in> set (os_stored s). st_kind x \<noteq> KTLSConfig)"

lemma stored_of_destroy:
  "well_stored s \<Longrightarrow> stored_of (destroy_stored x s) k = filter (\<lambda>y. y \<noteq> x \<and> \<not> (st_kind x = KTLSConfig \<and> k = KTLSConfig)) (stored_of s k)"
  by (auto simp: stored_of_def destroy_stored_def well_stored_def intro: filter_cong split: option.splits)

lemma list_kinds_Inr:
  "list_kinds st s kinds = Inr items \<Longrightarrow> items = concat (map (stored_of s) kinds) \<and> (\<forall>k \<in> set kinds. se_list st k = None)"
  by (induction kinds arbitrary: items) (auto split: option.splits sum.splits)

lemma list_kinds_None:
  "\<forall>k \<in> set kinds. se_list st k = None \<Longrightarrow> list_kinds st s kinds = Inr (concat (map (stored_of s) kinds))"
  by (induction kinds) auto

lemma destroy_all_exact:
  "well_stored s \<Longrightarrow> destroy_all st items s = (errs, s') \<Longrightarrow>
     os_stored s' = filter (\<lambda>x. x \<notin> set items \<or> undeletable st x) (os_stored s) \<and>
     os_TLSConfig s' = (if \<exists>x \<in> set items. st_kind x = KTLSConfig \<and> \<not> undeletable st x then None else os_TLSConfig s) \<and>
     os_ProviderStatus s' = os_ProviderStatus s \<and> (errs = []) = (\<forall>x \<in> set items. \<not> undeletable st x)"
proof (induction items arbitrary: s errs)
  case (Cons x items)
  show ?case
  proof (cases "undeletable st x")
    case True
    then obtain errs' where "destroy_all st items s = (errs', s')" "errs \<noteq> []"
      using Cons.prems(2) by (auto simp: undeletable_def split: option.splits prod.splits)
    from Cons.IH[OF Cons.prems(1) this(1)] True this(2) show ?thesis by (auto intro!: filter_cong)
  next
    case False
    then have d: "destroy_all st items (destroy_stored x s) = (errs, s')"
      using Cons.prems(2) by (simp add: undeletable_def)
    have w: "well_stored (destroy_stored x s)" using Cons.prems(1) by (auto simp: well_stored_def destroy_stored_def)
    have o: "os_stored (destroy_stored x s) = filter (\<lambda>y. y \<noteq> x) (os_stored s)"
      using Cons.prems(1) by (auto simp: destroy_stored_def well_stored_def intro!: filter_True[symmetric])
    have t: "os_TLSConfig (destroy_stored x s) = (if st_kind x = KTLSConfig then None else os_TLSConfig s)"
      "os_ProviderStatus (destroy_stored x s) = os_ProviderStatus s"
      by (simp_all add: destroy_stored_def)
    from Cons.IH[OF w d] o t False show ?thesis by (auto intro!: filter_cong)
  qed
qed simp

text \<open>
  Clearing the state does what it says and no more. Outside a debug build it changes nothing. In a debug build it changes
  nothing when a kind of resource cannot be listed; otherwise exactly the provider's resources that can be read and destroyed
  are gone (the certificate authority among them), all others and the provider's status are kept, and there is an error exactly
  when one of them could not be destroyed: one failure does not stop the rest.
\<close>

theorem clearState_exact:
  assumes "\<forall>x \<in> set (os_stored s). st_kind x \<noteq> KTLSConfig" and "clearState isDebugBuild st s = (r, s')"
  shows "if \<not> isDebugBuild then r = None \<and> s' = s
    else if \<exists>k. se_list st k \<noteq> None then r \<noteq> None \<and> s' = s
    else os_stored s' = filter (\<lambda>x. se_get st x \<noteq> None \<or> se_destroy st x \<noteq> None) (os_stored s) \<and>
         os_TLSConfig s' = (if \<forall>x \<in> set (stored_of s KTLSConfig). se_get st x \<noteq> None \<or> se_destroy st x \<noteq> None
                            then os_TLSConfig s else None) \<and>
         os_ProviderStatus s' = os_ProviderStatus s \<and>
         (r = None) = (\<forall>k. \<forall>x \<in> set (stored_of s k). se_get st x = None \<and> se_destroy st x = None)"
proof (cases "isDebugBuild \<and> (\<forall>k. se_list st k = None)")
  case False
  have k: "k \<in> set cleared_kinds" for k by (cases k) (simp_all add: cleared_kinds_def)
  have "isl (list_kinds st s cleared_kinds)" if "\<exists>k. se_list st k \<noteq> None"
    using that k list_kinds_Inr[of st s cleared_kinds] by (cases "list_kinds st s cleared_kinds") auto
  then show ?thesis using False assms(2) by (auto simp: clearState_def split: sum.splits prod.splits if_splits)
next
  case True
  have k: "k \<in> set cleared_kinds" for k by (cases k) (simp_all add: cleared_kinds_def)
  let ?items = "concat (map (stored_of s) cleared_kinds)"
  obtain errs where d: "destroy_all st ?items s = (errs, s')" and r: "(r = None) = (errs = [])"
    using assms(2) True list_kinds_None[of cleared_kinds st s]
    by (auto simp: clearState_def split: prod.splits if_splits)
  have w: "well_stored s" using assms(1) by (simp add: well_stored_def)
  have i: "set ?items = (\<Union>k. set (stored_of s k))" using k by auto
  have own: "x \<in> set (stored_of s (st_kind x))" if "x \<in> set (os_stored s)" for x
    using that assms(1) by (auto simp: stored_of_def)
  have kind: "st_kind x = k" if "x \<in> set (stored_of s k)" for x k
    using that by (auto simp: stored_of_def split: if_splits option.splits)
  have some: "(\<exists>x \<in> set ?items. st_kind x = KTLSConfig \<and> \<not> undeletable st x) =
      (\<not> (\<forall>x \<in> set (stored_of s KTLSConfig). undeletable st x))"
    unfolding i by simp (metis kind)
  note ex = destroy_all_exact[OF w d]
  have o: "os_stored s' = filter (undeletable st) (os_stored s)"
    using ex[THEN conjunct1] own unfolding i by (auto intro!: filter_cong)
  have t: "os_TLSConfig s' = (if \<forall>x \<in> set (stored_of s KTLSConfig). undeletable st x then os_TLSConfig s else None)"
    using ex[THEN conjunct2, THEN conjunct1] unfolding some by simp
  have p: "os_ProviderStatus s' = os_ProviderStatus s" using ex by blast
  have e: "(r = None) = (\<forall>k. \<forall>x \<in> set (stored_of s k). \<not> undeletable st x)"
    unfolding r using ex[THEN conjunct2, THEN conjunct2, THEN conjunct2] unfolding i by blast
  have u: "undeletable st x = (se_get st x \<noteq> None \<or> se_destroy st x \<noteq> None)" for x by (rule undeletable_def)
  have c: "isDebugBuild" "\<not> (\<exists>k. se_list st k \<noteq> None)" using True by auto
  show ?thesis using c o t p e unfolding u by simp
qed

definition sample_store :: store_env where
  "sample_store = \<lparr>se_create = None, se_update = None, se_list = (\<lambda>k. None), se_get = (\<lambda>x. None),
     se_destroy = (\<lambda>x. if st_kind x = KWipeStatus then Some (Plain ''destroying a resource with finalizers'') else None)\<rparr>"

definition sample_omni :: omni_state where
  "sample_omni = \<lparr>os_ProviderStatus = None,
     os_stored = [\<lparr>st_kind = KMachineStatus, st_id = ''m1'', st_owner = ''MachineStatusController''\<rparr>,
                  \<lparr>st_kind = KWipeStatus, st_id = ''m1'', st_owner = ''WipeStatusController''\<rparr>],
     os_TLSConfig = Some NewTLSConfig\<rparr>"

text \<open>The wipe status still has a finalizer: it is kept, the rest is gone, and there is an error.\<close>

theorem clearState_exact_witness:
  "os_stored (snd (clearState True sample_store sample_omni)) =
     [\<lparr>st_kind = KWipeStatus, st_id = ''m1'', st_owner = ''WipeStatusController''\<rparr>] \<and>
   fst (clearState True sample_store sample_omni) \<noteq> None"
proof -
  obtain r s' where c: "clearState True sample_store sample_omni = (r, s')" by fastforce
  have "\<forall>x \<in> set (os_stored sample_omni). st_kind x \<noteq> KTLSConfig" by (simp add: sample_omni_def)
  from clearState_exact[OF this c] have o: "os_stored s' = filter (\<lambda>x. se_get sample_store x \<noteq> None \<or> se_destroy sample_store x \<noteq> None) (os_stored sample_omni)"
    and "(r = None) = (\<forall>k. \<forall>x \<in> set (stored_of sample_omni k). se_get sample_store x = None \<and> se_destroy sample_store x = None)"
    by (simp_all add: sample_store_def)
  moreover define w where "w = \<lparr>st_kind = KWipeStatus, st_id = ''m1'', st_owner = ''WipeStatusController''\<rparr>"
  have "w \<in> set (stored_of sample_omni KWipeStatus)" "se_destroy sample_store w \<noteq> None"
    by (simp_all add: stored_of_def sample_omni_def sample_store_def w_def)
  ultimately have "r \<noteq> None" by metis
  moreover have "os_stored s' = [\<lparr>st_kind = KWipeStatus, st_id = ''m1'', st_owner = ''WipeStatusController''\<rparr>]"
    using o by (simp add: sample_store_def sample_omni_def)
  ultimately show ?thesis using c by simp
qed

end
