(* ===== verification/ResourceTypes.thy ===== *)
theory ResourceTypes
  imports Resources
begin

text \<open>
  The types of the resources the provider owns, from \<open>internal/provider/resources\<close>: the names they are stored under, their
  definitions, and their registration. How a name is made from a resource's own and the provider's ID is Omni's.
\<close>

record omni_names =
  on_ResourceType :: "string \<Rightarrow> string \<Rightarrow> string"
  on_ResourceNamespace :: "string \<Rightarrow> string"
  on_InfraMachineType :: string
  on_InfraProviderNamespace :: string

section \<open>Names\<close>

definition Namespace :: "omni_names \<Rightarrow> string \<Rightarrow> string" where
  "Namespace omni providerID = on_ResourceNamespace omni providerID"

definition BMCConfigurationType :: "omni_names \<Rightarrow> string \<Rightarrow> string" where
  "BMCConfigurationType omni providerID = on_ResourceType omni ''BMCConfiguration'' providerID"

definition MachineStatusType :: "omni_names \<Rightarrow> string \<Rightarrow> string" where
  "MachineStatusType omni providerID = on_ResourceType omni ''MachineStatus'' providerID"

definition PowerOperationType :: "omni_names \<Rightarrow> string \<Rightarrow> string" where
  "PowerOperationType omni providerID = on_ResourceType omni ''PowerOperation'' providerID"

definition RebootStatusType :: "omni_names \<Rightarrow> string \<Rightarrow> string" where
  "RebootStatusType omni providerID = on_ResourceType omni ''RebootStatus'' providerID"

definition TLSConfigType :: "omni_names \<Rightarrow> string \<Rightarrow> string" where
  "TLSConfigType omni providerID = on_ResourceType omni ''TLSConfig'' providerID"

definition WipeStatusType :: "omni_names \<Rightarrow> string \<Rightarrow> string" where
  "WipeStatusType omni providerID = on_ResourceType omni ''WipeStatus'' providerID"

section \<open>Definitions\<close>

record resource_definition =
  def_Type :: string
  def_Aliases :: "string list"
  def_DefaultNamespace :: string
  def_PrintColumns :: "(string \<times> string) list"

definition BMCConfigurationExtension_ResourceDefinition :: "omni_names \<Rightarrow> string \<Rightarrow> resource_definition" where
  "BMCConfigurationExtension_ResourceDefinition omni providerID =
     \<lparr>def_Type = BMCConfigurationType omni providerID, def_Aliases = [], def_DefaultNamespace = Namespace omni providerID,
      def_PrintColumns = []\<rparr>"

definition MachineStatusExtension_ResourceDefinition :: "omni_names \<Rightarrow> string \<Rightarrow> resource_definition" where
  "MachineStatusExtension_ResourceDefinition omni providerID =
     \<lparr>def_Type = MachineStatusType omni providerID, def_Aliases = [], def_DefaultNamespace = Namespace omni providerID,
      def_PrintColumns = []\<rparr>"

definition PowerOperationExtension_ResourceDefinition :: "omni_names \<Rightarrow> string \<Rightarrow> resource_definition" where
  "PowerOperationExtension_ResourceDefinition omni providerID =
     \<lparr>def_Type = PowerOperationType omni providerID, def_Aliases = [], def_DefaultNamespace = Namespace omni providerID,
      def_PrintColumns = []\<rparr>"

definition RebootStatusExtension_ResourceDefinition :: "omni_names \<Rightarrow> string \<Rightarrow> resource_definition" where
  "RebootStatusExtension_ResourceDefinition omni providerID =
     \<lparr>def_Type = RebootStatusType omni providerID, def_Aliases = [], def_DefaultNamespace = Namespace omni providerID,
      def_PrintColumns = []\<rparr>"

definition TLSConfigExtension_ResourceDefinition :: "omni_names \<Rightarrow> string \<Rightarrow> resource_definition" where
  "TLSConfigExtension_ResourceDefinition omni providerID =
     \<lparr>def_Type = TLSConfigType omni providerID, def_Aliases = [], def_DefaultNamespace = Namespace omni providerID,
      def_PrintColumns = []\<rparr>"

definition WipeStatusExtension_ResourceDefinition :: "omni_names \<Rightarrow> string \<Rightarrow> resource_definition" where
  "WipeStatusExtension_ResourceDefinition omni providerID =
     \<lparr>def_Type = WipeStatusType omni providerID, def_Aliases = [], def_DefaultNamespace = Namespace omni providerID,
      def_PrintColumns = []\<rparr>"

section \<open>Registration\<close>

text \<open>
  \<open>errors.Join\<close>: nil when every error is nil. The joined error is only reported, so its text is all that is kept of it.
\<close>

definition errors_Join :: "err option list \<Rightarrow> err option" where
  "errors_Join errs =
     (case List.map_filter (\<lambda>e. e) errs of
        [] \<Rightarrow> None
      | es \<Rightarrow> Some (Plain (join [CHR 0x0A] (map err_text es))))"

text \<open>\<open>protobuf.RegisterResource\<close> is the library's: it answers for the name of a type.\<close>

definition RegisterResources :: "omni_names \<Rightarrow> string \<Rightarrow> (string \<Rightarrow> err option) \<Rightarrow> err option" where
  "RegisterResources omni providerID register =
     errors_Join
       [register (BMCConfigurationType omni providerID),
        register (MachineStatusType omni providerID),
        register (PowerOperationType omni providerID),
        register (RebootStatusType omni providerID),
        register (TLSConfigType omni providerID),
        register (WipeStatusType omni providerID)]"

lemmas resource_type_defs =
  BMCConfigurationType_def MachineStatusType_def PowerOperationType_def RebootStatusType_def TLSConfigType_def WipeStatusType_def

lemma errors_Join_None: "errors_Join errs = None \<longleftrightarrow> (\<forall>e \<in> set errs. e = None)"
proof -
  have "List.map_filter (\<lambda>e. e) errs = [] \<longleftrightarrow> (\<forall>e \<in> set errs. e = None)"
    by (induction errs) (auto simp: map_filter_simps split: option.splits)
  then show ?thesis by (cases "List.map_filter (\<lambda>e. e) errs") (simp_all add: errors_Join_def)
qed

text \<open>Registering succeeds exactly when every type could be registered.\<close>

lemma RegisterResources_None:
  "RegisterResources omni p register = None \<longleftrightarrow>
     (\<forall>t \<in> {BMCConfigurationType omni p, MachineStatusType omni p, PowerOperationType omni p, RebootStatusType omni p,
            TLSConfigType omni p, WipeStatusType omni p}. register t = None)"
  by (simp add: RegisterResources_def errors_Join_None)

lemma RegisterResources_ok: "(\<And>t. register t = None) \<Longrightarrow> RegisterResources omni p register = None"
  by (simp add: RegisterResources_None)

end
