(* ===== verification/Startup.thy ===== *)
theory Startup
  imports Provider ResourceTypes
begin

text \<open>
  \<open>Provider.Run\<close> in \<open>internal/provider/provider.go\<close>: the order in which the provider starts, what it has written to Omni's
  state when it fails half way, and how the options reach the controllers, the boot handler, the server and the DHCP proxy.
\<close>

record 'd run_env =
  re_stat :: "string \<Rightarrow> err + bool"
  re_stat_file :: "string \<Rightarrow> err + (bool \<times> int)"
  re_text6 :: "net_ip \<Rightarrow> string"
  re_InterfaceAddrs :: "err + net_ip option list"
  re_client_New :: "string \<Rightarrow> client_option list \<Rightarrow> err option"
  re_serviceAccountKey :: string
  re_omni :: omni_names
  re_registerResource :: "string \<Rightarrow> err option"
  re_NewRuntime :: "provider_kind list \<Rightarrow> err option"
  re_isDebugBuild :: bool
  re_store :: store_env
  re_build_info :: build_info
  re_x509 :: x509_lib
  re_readFile :: "string \<Rightarrow> err + byte list"
  re_text :: "byte list \<Rightarrow> string"
  re_tls_store :: tls_store_env
  re_now :: int
  re_config_lib :: "'d config_lib"
  re_config_reader :: config_reader
  re_ProviderJoinConfigType :: string
  re_ProviderID :: string
  re_ipxe :: ipxe_env
  re_zstd :: zstd_encoder
  re_params :: kernel_params
  re_rangeOrder :: "file_map \<Rightarrow> string list"
  re_ReadDir :: "string \<Rightarrow> err + dir_entry list"
  re_state_dir :: state_dir_io
  re_random :: "nat \<Rightarrow> nat \<Rightarrow> err + nat"
  re_nowFunc :: "request list \<Rightarrow> int"
  re_labels :: "string \<times> string \<times> string \<times> string \<times> string"
  re_NewHealth :: "err option"
  re_register_health :: "err option"
  re_register :: "nat \<Rightarrow> err option"

text \<open>\<open>BuildCOSIRuntime\<close>: the resources the runtime caches.\<close>

definition BuildCOSIRuntime :: "(provider_kind list \<Rightarrow> err option) \<Rightarrow> bool \<Rightarrow> err option" where
  "BuildCOSIRuntime NewRuntime enableResourceCache =
     (case NewRuntime (if enableResourceCache then [KBMCConfiguration, KMachineStatus, KPowerOperation, KRebootStatus, KTLSConfig, KWipeStatus] else []) of
        Some e \<Rightarrow> Some (Wrapped ''failed to create runtime'' e)
      | None \<Rightarrow> None)"

section \<open>What is wired together\<close>

datatype qcontroller =
    MachineStatusController redfish_options agent_options int
  | InfraMachineStatusController ims_helper
  | BMCConfigurationController bcc_helper
  | PowerOperationController po_helper
  | RebootStatusController rs_helper agent_options
  | WipeStatusController agent_options

definition NewMachineStatusController :: "redfish_options \<Rightarrow> agent_options \<Rightarrow> int \<Rightarrow> qcontroller" where
  "NewMachineStatusController bmcClientFactory agentClient pollInterval =
     MachineStatusController bmcClientFactory agentClient pollInterval"

definition NewInfraMachineStatusController :: "string \<times> string \<times> string \<times> string \<times> string \<Rightarrow> (string \<rightharpoonup> string) \<Rightarrow> qcontroller" where
  "NewInfraMachineStatusController names labels =
     (case names of (prefix, cluster, machineSet, controlPlane, worker) \<Rightarrow>
        InfraMachineStatusController
          \<lparr>machineLabels = labels, SystemLabelPrefix = prefix, LabelCluster = cluster, LabelMachineSet = machineSet,
           LabelControlPlaneRole = controlPlane, LabelWorkerRole = worker\<rparr>)"

definition NewBMCConfigurationController :: "(resource_id \<Rightarrow> err + string) \<Rightarrow> (nat \<Rightarrow> nat \<Rightarrow> err + nat) \<Rightarrow> bool \<Rightarrow> qcontroller" where
  "NewBMCConfigurationController bmcAPIAddressReader rand allow =
     BMCConfigurationController \<lparr>AllowMachinesWithoutBMC = allow, ReadManagementAddressOf = bmcAPIAddressReader, random = rand\<rparr>"

definition NewPowerOperationController ::
  "(request list \<Rightarrow> int) \<Rightarrow> redfish_options \<Rightarrow> int \<Rightarrow> pxe_boot_mode \<Rightarrow> boot_options \<Rightarrow> qcontroller" where
  "NewPowerOperationController nowFunc bmcClientFactory minRebootInterval pxeBootMode bootOptions =
     PowerOperationController
       \<lparr>po_redfish = bmcClientFactory, po_nowFunc = nowFunc, po_pxeBootMode = pxeBootMode, po_bootOptions = bootOptions,
        po_minRebootInterval = minRebootInterval\<rparr>"

definition NewRebootStatusController ::
  "string \<Rightarrow> redfish_options \<Rightarrow> agent_options \<Rightarrow> int \<Rightarrow> pxe_boot_mode \<Rightarrow> boot_options \<Rightarrow> qcontroller" where
  "NewRebootStatusController providerID bmcClientFactory agentClient minRebootInterval pxeBootMode bootOptions =
     RebootStatusController
       \<lparr>rs_redfish = bmcClientFactory, rs_bootOptions = bootOptions, rs_pxeBootMode = pxeBootMode,
        rs_controllerName = providerID @ ''.RebootStatusController'', rs_minRebootInterval = minRebootInterval\<rparr> agentClient"

definition NewWipeStatusController :: "agent_options \<Rightarrow> qcontroller" where
  "NewWipeStatusController agentClient = WipeStatusController agentClient"

text \<open>\<open>server.New\<close>: what the two listeners serve and where.\<close>

record server_config =
  sv_httpAddr :: string
  sv_tlsAddr :: "string option"
  sv_certs :: "certs option"
  sv_assetsDir :: string
  sv_machineConfig :: "byte list"
  sv_handler :: handler
  sv_files :: file_map

definition server_New :: "string \<Rightarrow> int \<Rightarrow> int \<Rightarrow> string \<Rightarrow> certs option \<Rightarrow> byte list \<Rightarrow> handler \<Rightarrow> file_map \<Rightarrow> server_config" where
  "server_New listenAddress port tlsPort assetsDir certs machineConfig ipxeHandler files =
     \<lparr>sv_httpAddr = join_host_port listenAddress (itoa port),
      sv_tlsAddr = (case certs of None \<Rightarrow> None | Some _ \<Rightarrow> Some (join_host_port listenAddress (itoa tlsPort))),
      sv_certs = certs, sv_assetsDir = assetsDir, sv_machineConfig = machineConfig, sv_handler = ipxeHandler, sv_files = files\<rparr>"

record wiring =
  w_server :: server_config
  w_tftp :: tftp_server
  w_controllers :: "qcontroller list"
  w_factory :: factory_client
  w_dhcp :: "proxy_options option"
  w_components :: "string list"

section \<open>Run\<close>

text \<open>Up to the Omni client and the runtime: nothing has been written yet.\<close>

definition prepare_Run :: "'d run_env \<Rightarrow> provider_options \<Rightarrow> err + pxe_boot_mode \<times> string" where
  "prepare_Run env options =
     (case ParseBootMode (opt_IPMIPXEBootMode options) of
        Inl e \<Rightarrow> Inl (Wrapped ''failed to parse IPMI PXE boot mode'' e)
      | Inr pxeBootMode \<Rightarrow>
     (case validateOptions (re_stat env) options pxeBootMode of
        Some e \<Rightarrow> Inl e
      | None \<Rightarrow>
     (case (if opt_UseLocalBootAssets options then ValidateBootAssets (re_stat_file env) (opt_BootAssetsPath options) else None) of
        Some e \<Rightarrow> Inl e
      | None \<Rightarrow>
     (case determineAPIAdvertiseAddress (re_text6 env) (opt_APIAdvertiseAddress options) (re_InterfaceAddrs env) of
        Inl e \<Rightarrow> Inl (Wrapped ''failed to determine API advertise address'' e)
      | Inr apiAdvertiseAddress \<Rightarrow>
     (case buildOmniAPIClient (re_client_New env) (re_serviceAccountKey env) (opt_OmniAPIEndpoint options) (opt_InsecureSkipTLSVerify options) of
        Some e \<Rightarrow> Inl (Wrapped ''failed to build omni client'' e)
      | None \<Rightarrow>
     (case RegisterResources (re_omni env) (re_ProviderID env) (re_registerResource env) of
        Some e \<Rightarrow> Inl (Wrapped ''failed to register resources'' e)
      | None \<Rightarrow>
     (case BuildCOSIRuntime (re_NewRuntime env) (opt_EnableResourceCache options) of
        Some e \<Rightarrow> Inl (Wrapped ''failed to build COSI runtime'' e)
      | None \<Rightarrow> Inr (pxeBootMode, apiAdvertiseAddress))))))))"

text \<open>What Run writes to Omni's state itself: the cleared state, the provider's status, the certificate authority.\<close>

definition init_state :: "'d run_env \<Rightarrow> provider_options \<Rightarrow> string \<Rightarrow> omni_state \<Rightarrow> (err + certs option) \<times> omni_state" where
  "init_state env options apiAdvertiseAddress s =
     (case (if opt_ClearState options then clearState (re_isDebugBuild env) (re_store env) s else (None, s)) of
        (Some e, s1) \<Rightarrow> (Inl (Wrapped ''failed to clear state'' e), s1)
      | (None, s1) \<Rightarrow>
     (case ensureProviderStatus (re_build_info env) (re_store env) options s1 of
        (Some e, s2) \<Rightarrow> (Inl e, s2)
      | (None, s2) \<Rightarrow>
          if \<not> TLS_Enabled (opt_TLS options) then (Inr None, s2)
          else (case Tls_Initialize (re_x509 env) (re_readFile env) (re_text env) (re_tls_store env) (re_now env) apiAdvertiseAddress
                       (opt_TLS options) (os_TLSConfig s2) of
                  (Inl e, t) \<Rightarrow> (Inl (Wrapped ''failed to initialize TLS'' e), s2\<lparr>os_TLSConfig := t\<rparr>)
                | (Inr certs, t) \<Rightarrow> (Inr (Some certs), s2\<lparr>os_TLSConfig := t\<rparr>))))"

definition wire_controllers :: "'d run_env \<Rightarrow> provider_options \<Rightarrow> pxe_boot_mode \<Rightarrow> boot_options \<Rightarrow> (string \<rightharpoonup> string) \<Rightarrow> qcontroller list" where
  "wire_controllers env options pxeBootMode bootOptions parsedMachineLabels =
     [NewMachineStatusController (opt_Redfish options) (opt_AgentClient options) (30 * second),
      NewInfraMachineStatusController (re_labels env) parsedMachineLabels,
      NewBMCConfigurationController (ReadManagementAddress (re_state_dir env) (opt_APIPowerMgmtStateDir options)) (re_random env)
        (opt_AllowMachinesWithoutBMC options),
      NewPowerOperationController (re_nowFunc env) (opt_Redfish options) (opt_MinRebootInterval options) pxeBootMode bootOptions,
      NewRebootStatusController (re_ProviderID env) (opt_Redfish options) (opt_AgentClient options) (opt_MinRebootInterval options)
        pxeBootMode bootOptions,
      NewWipeStatusController (opt_AgentClient options)]"

text \<open>The loop that registers the controllers; \<open>i\<close> is the index of the next.\<close>

fun register_all :: "(nat \<Rightarrow> err option) \<Rightarrow> nat \<Rightarrow> qcontroller list \<Rightarrow> err option" where
  "register_all reg i [] = None"
| "register_all reg i (q # qs) =
     (case reg i of Some e \<Rightarrow> Some (Wrapped ''failed to register QController'' e) | None \<Rightarrow> register_all reg (Suc i) qs)"

definition wire :: "'d run_env \<Rightarrow> provider_options \<Rightarrow> pxe_boot_mode \<Rightarrow> string \<Rightarrow> certs option \<Rightarrow> err + wiring" where
  "wire env options pxeBootMode apiAdvertiseAddress certs =
     (let dhcpProxyIfaceOrIP = (if opt_DHCPProxyIfaceOrIP options = [] then apiAdvertiseAddress else opt_DHCPProxyIfaceOrIP options);
          imageFactoryClient = \<lparr>fc_agentModeTalosVersion = opt_AgentModeTalosVersion options, fc_secureBootEnabled = opt_SecureBootEnabled options\<rparr>
      in case machineconfig_Build (re_config_lib env) (re_config_reader env) (re_ProviderJoinConfigType env) (re_ProviderID env) certs
                (opt_ExtraMachineConfigPath options) of
           Inl e \<Rightarrow> Inl (Wrapped ''failed to build machine config'' e)
         | Inr machineConfig \<Rightarrow>
     (let bootOptions = \<lparr>AlwaysNetboot = opt_AlwaysNetboot options\<rparr>
      in case NewHandler (re_ipxe env) (re_zstd env) (re_params env) machineConfig
                \<lparr>ho_APIAdvertiseAddress = apiAdvertiseAddress, ho_BootFromDiskMethod = opt_BootFromDiskMethod options,
                 ho_BootAssetsPath = opt_BootAssetsPath options, ho_TLS = opt_TLS options, ho_APIPort = opt_APIPort options,
                 ho_Boot = bootOptions, ho_UseLocalBootAssets = opt_UseLocalBootAssets options, ho_AgentTestMode = opt_AgentTestMode options\<rparr> of
           Inl e \<Rightarrow> Inl (Wrapped ''failed to create iPXE handler'' e)
         | Inr ipxeHandler \<Rightarrow>
     (case parseLabels (opt_MachineLabels options) Map.empty of
        Inl e \<Rightarrow> Inl (Wrapped ''failed to parse machine labels'' e)
      | Inr parsedMachineLabels \<Rightarrow>
     (case bootFiles (re_rangeOrder env) (rpi_Load (re_ReadDir env) (re_readFile env)) (opt_RPiFirmwarePath options) (h_files ipxeHandler) of
        Inl e \<Rightarrow> Inl e
      | Inr files \<Rightarrow>
     (let assetsDir = (if opt_UseLocalBootAssets options then opt_BootAssetsPath options else []);
          srvr = server_New (opt_APIListenAddress options) (opt_APIPort options) (TLS_APIPort (opt_TLS options)) assetsDir certs machineConfig
                   ipxeHandler files;
          controllers = wire_controllers env options pxeBootMode bootOptions parsedMachineLabels
      in case re_NewHealth env of
           Some e \<Rightarrow> Inl (Wrapped ''failed to create health check controller'' e)
         | None \<Rightarrow>
     (case re_register_health env of
        Some e \<Rightarrow> Inl (Wrapped ''failed to register health check controller'' e)
      | None \<Rightarrow>
     (case register_all (re_register env) 0 controllers of
        Some e \<Rightarrow> Inl e
      | None \<Rightarrow>
          Inr \<lparr>w_server = srvr, w_tftp = tftp_NewServer (opt_APIListenAddress options) files, w_controllers = controllers,
               w_factory = imageFactoryClient,
               w_dhcp = (if opt_DisableDHCPProxy options then None
                         else Some \<lparr>APIAdvertiseAddress = apiAdvertiseAddress, ProxyIfaceOrIP = dhcpProxyIfaceOrIP, APIPort = opt_APIPort options,
                                    DisableBroadcastListener = opt_DisableDHCPProxyBroadcast options,
                                    ServeRaspberryPi = opt_RPiFirmwarePath options \<noteq> []\<rparr>),
               w_components = [''COSI runtime'', ''server'', ''TFTP server''] @ (if opt_DisableDHCPProxy options then [] else [''DHCP proxy''])\<rparr>)))))))"

definition provider_Run :: "'d run_env \<Rightarrow> provider_options \<Rightarrow> omni_state \<Rightarrow> (err + wiring) \<times> omni_state" where
  "provider_Run env options s =
     (case prepare_Run env options of
        Inl e \<Rightarrow> (Inl e, s)
      | Inr (pxeBootMode, apiAdvertiseAddress) \<Rightarrow>
     (case init_state env options apiAdvertiseAddress s of
        (Inl e, s1) \<Rightarrow> (Inl e, s1)
      | (Inr certs, s1) \<Rightarrow> (wire env options pxeBootMode apiAdvertiseAddress certs, s1)))"

section \<open>What a start needs and writes\<close>

definition options_ok :: "'d run_env \<Rightarrow> provider_options \<Rightarrow> bool" where
  "options_ok env options \<longleftrightarrow>
     opt_IPMIPXEBootMode options \<in> {BootModeBIOS, BootModeUEFI} \<and>
     (opt_SecureBootEnabled options \<longrightarrow> opt_IPMIPXEBootMode options = BootModeUEFI \<and> \<not> opt_UseLocalBootAssets options) \<and>
     (opt_AgentTestMode options \<longrightarrow> opt_APIPowerMgmtStateDir options \<noteq> []) \<and>
     (opt_APIPowerMgmtStateDir options \<noteq> [] \<longrightarrow> re_stat env (opt_APIPowerMgmtStateDir options) = Inr True) \<and>
     (opt_UseLocalBootAssets options \<longrightarrow> ValidateBootAssets (re_stat_file env) (opt_BootAssetsPath options) = None) \<and>
     opt_OmniAPIEndpoint options \<noteq> []"

lemma ParseBootMode_Inr: "ParseBootMode mode = Inr m \<longleftrightarrow> mode \<in> {BootModeBIOS, BootModeUEFI} \<and> m = mode"
  by (auto simp: ParseBootMode_def)

lemma validateOptions_None:
  "validateOptions stat options m = None \<longleftrightarrow>
     (opt_SecureBootEnabled options \<longrightarrow> m = BootModeUEFI \<and> \<not> opt_UseLocalBootAssets options) \<and>
     (opt_AgentTestMode options \<longrightarrow> opt_APIPowerMgmtStateDir options \<noteq> []) \<and>
     (opt_APIPowerMgmtStateDir options \<noteq> [] \<longrightarrow> stat (opt_APIPowerMgmtStateDir options) = Inr True)"
  by (auto simp: validateOptions_def split: sum.splits if_splits)

lemma prepare_Run_ok:
  assumes "prepare_Run env options = Inr (m, a)"
  shows "options_ok env options \<and> m = opt_IPMIPXEBootMode options \<and>
     determineAPIAdvertiseAddress (re_text6 env) (opt_APIAdvertiseAddress options) (re_InterfaceAddrs env) = Inr a"
  using assms
  by (auto simp: prepare_Run_def options_ok_def ParseBootMode_Inr validateOptions_None buildOmniAPIClient_def
      split: sum.splits option.splits if_splits)

text \<open>The parts of the state the start does not own.\<close>

lemma init_state_keeps:
  assumes "init_state env options a s = (r, s')" and "\<not> (opt_ClearState options \<and> re_isDebugBuild env)"
  shows "os_stored s' = os_stored s"
  using assms
  by (auto simp: init_state_def clearState_def dest!: ensureProviderStatus_None ensureProviderStatus_Some
      split: prod.splits option.splits sum.splits if_splits)

lemma provider_Run_cases:
  assumes "provider_Run env options s = (r, s')"
  obtains (refused) e where "prepare_Run env options = Inl e" "r = Inl e" "s' = s"
    | (failed) m a e where "prepare_Run env options = Inr (m, a)" "init_state env options a s = (Inl e, s')" "r = Inl e"
    | (started) m a certs where "prepare_Run env options = Inr (m, a)" "init_state env options a s = (Inr certs, s')"
        "wire env options m a certs = r"
  using assms by (auto simp: provider_Run_def split: sum.splits prod.splits)


section \<open>What a running provider is\<close>

lemma NewHandler_Inr:
  assumes "NewHandler io zstd params mc options = Inr h"
  shows "h_options h = options \<and>
    patchBinaries io (bytes_of (h_initScript h)) (CustomIPXECACertFile (ho_TLS options)) = Inr (h_files h)"
  using assms by (auto simp: NewHandler_def Let_def split: sum.splits if_splits)

definition wired_handler_options :: "provider_options \<Rightarrow> string \<Rightarrow> handler_options" where
  "wired_handler_options options a =
     \<lparr>ho_APIAdvertiseAddress = a, ho_BootFromDiskMethod = opt_BootFromDiskMethod options,
      ho_BootAssetsPath = opt_BootAssetsPath options, ho_TLS = opt_TLS options, ho_APIPort = opt_APIPort options,
      ho_Boot = \<lparr>AlwaysNetboot = opt_AlwaysNetboot options\<rparr>, ho_UseLocalBootAssets = opt_UseLocalBootAssets options,
      ho_AgentTestMode = opt_AgentTestMode options\<rparr>"

lemma wireE:
  assumes "wire env options m a certs = Inr w"
  obtains mc h labels files where
    "machineconfig_Build (re_config_lib env) (re_config_reader env) (re_ProviderJoinConfigType env) (re_ProviderID env) certs
      (opt_ExtraMachineConfigPath options) = Inr mc"
    "NewHandler (re_ipxe env) (re_zstd env) (re_params env) mc (wired_handler_options options a) = Inr h"
    "bootFiles (re_rangeOrder env) (rpi_Load (re_ReadDir env) (re_readFile env)) (opt_RPiFirmwarePath options) (h_files h) = Inr files"
    "w_server w = server_New (opt_APIListenAddress options) (opt_APIPort options) (TLS_APIPort (opt_TLS options))
       (if opt_UseLocalBootAssets options then opt_BootAssetsPath options else []) certs mc h files"
    "w_tftp w = tftp_NewServer (opt_APIListenAddress options) files"
    "w_controllers w = wire_controllers env options m \<lparr>AlwaysNetboot = opt_AlwaysNetboot options\<rparr> labels"
    "w_dhcp w = (if opt_DisableDHCPProxy options then None
       else Some \<lparr>APIAdvertiseAddress = a, ProxyIfaceOrIP = (if opt_DHCPProxyIfaceOrIP options = [] then a else opt_DHCPProxyIfaceOrIP options),
                  APIPort = opt_APIPort options, DisableBroadcastListener = opt_DisableDHCPProxyBroadcast options,
                  ServeRaspberryPi = opt_RPiFirmwarePath options \<noteq> []\<rparr>)"
  using assms unfolding wire_def Let_def wired_handler_options_def [symmetric]
  by (simp split: sum.splits option.splits) force

text \<open>
  The handler, the power operation controller and the reboot controller boot every machine the same way: one decision, with
  the same options, network boot mode and Redfish settings.
\<close>

lemma provider_Run_Inr:
  assumes "provider_Run env options s = (Inr w, s')"
  obtains m a certs where "prepare_Run env options = Inr (m, a)" "init_state env options a s = (Inr certs, s')"
    "wire env options m a certs = Inr w"
  using assms by (cases rule: provider_Run_cases) (auto intro: that)

lemma wired_helpers:
  assumes "wire env options m a certs = Inr w"
      and "PowerOperationController po \<in> set (w_controllers w)" "RebootStatusController rs ag \<in> set (w_controllers w)"
  shows "po_bootOptions po = ho_Boot (h_options (sv_handler (w_server w))) \<and> rs_bootOptions rs = po_bootOptions po \<and>
    rs_pxeBootMode rs = po_pxeBootMode po \<and> rs_redfish rs = po_redfish po \<and> rs_minRebootInterval rs = po_minRebootInterval po"
  using assms(1)
proof (cases rule: wireE)
  case (1 mc h labels files)
  then show ?thesis
    using assms(2,3) NewHandler_Inr[OF 1(2)]
    by (auto simp: wire_controllers_def NewMachineStatusController_def NewInfraMachineStatusController_def
        NewBMCConfigurationController_def NewPowerOperationController_def NewRebootStatusController_def NewWipeStatusController_def
        server_New_def wired_handler_options_def split: prod.splits)
qed


lemma bootFiles_firmware:
  assumes "bootFiles order load path ipxe = Inr files" and "path \<noteq> []"
      and "\<And>fw. load path = Inr fw \<Longrightarrow> distinct (order fw) \<and> set (order fw) = dom fw"
  shows "\<exists>fw. load path = Inr fw \<and> dom fw \<subseteq> dom files"
proof -
  obtain fw where fw: "load path = Inr fw" and m: "merge_firmware (order fw) fw ipxe = Inr files"
    using assms(1,2) by (auto simp: bootFiles_def split: sum.splits)
  from merge_firmware_Inr[OF m] assms(3)[OF fw] have "files = ipxe ++ (fw |` dom fw)" by simp
  then show ?thesis using fw by (auto simp: restrict_map_def map_add_def split: option.splits)
qed

lemma rpi_Load_required: "rpi_Load readDir readFile dir = Inr fw \<Longrightarrow> set requiredFiles \<subseteq> dom fw"
  by (auto simp: rpi_Load_def Let_def filter_empty_conv split: sum.splits if_splits)


lemma init_state_tls:
  assumes "init_state env options a s = (Inr certs, s')" and "TLS_Enabled (opt_TLS options)"
      and "CACertFile (opt_TLS options) = [] \<and> CertFile (opt_TLS options) = [] \<and> KeyFile (opt_TLS options) = []"
  shows "\<exists>t0 ca p. initCA (re_x509 env) (re_tls_store env) (re_now env) (CATTL (opt_TLS options)) t0 = (Inr ca, os_TLSConfig s') \<and>
    newRenewingCertificateProvider (re_x509 env) (Some ca) a (CertTTL (opt_TLS options)) = Inr p \<and>
    certs = Some \<lparr>cs_source = Renewing p, CACertPEM = ca_CrtPEM ca\<rparr>"
proof -
  obtain t0 where t: "Tls_Initialize (re_x509 env) (re_readFile env) (re_text env) (re_tls_store env) (re_now env) a
      (opt_TLS options) t0 = (Inr (the certs), os_TLSConfig s')" "certs \<noteq> None"
    using assms(1,2) by (auto simp: init_state_def split: prod.splits option.splits sum.splits if_splits)
  obtain ca t' where ca: "initCA (re_x509 env) (re_tls_store env) (re_now env) (CATTL (opt_TLS options)) t0 = (Inr ca, t')"
    using t(1) assms(3) by (auto simp: Tls_Initialize_def split: prod.splits sum.splits)
  then show ?thesis using t assms(3)
    by (intro exI[of _ t0] exI[of _ ca]) (auto simp: Tls_Initialize_def split: sum.splits)
qed

text \<open>
  C30. The machines trust the provider they talk to. When TLS is enabled without certificate files, the certificates of a
  running provider's TLS listener are signed by the certificate authority that is stored in Omni, for the advertised address;
  and the machine configuration, which is what every machine is given inline in its kernel arguments, was built from documents
  that make that same authority a trusted root.
\<close>

theorem machines_trust_server:
  assumes "provider_Run env options s = (Inr w, s')" and "TLS_Enabled (opt_TLS options)"
      and "CACertFile (opt_TLS options) = [] \<and> CertFile (opt_TLS options) = [] \<and> KeyFile (opt_TLS options) = []"
      and "x509_reads_back (re_x509 env)"
  shows "\<exists>ca p cfg docs inline.
    sv_certs (w_server w) = Some \<lparr>cs_source = Renewing p, CACertPEM = ca_CrtPEM ca\<rparr> \<and> sv_tlsAddr (w_server w) \<noteq> None \<and>
    cp_ca p = ca \<and> cp_host p = ho_APIAdvertiseAddress (h_options (sv_handler (w_server w))) \<and>
    os_TLSConfig s' = Some cfg \<and> decodeCA (re_x509 env) cfg = Inr ca \<and>
    (ca_CrtPEM ca = [] \<or> cl_NewTrustedRoots (re_config_lib env) infraProviderCAName (ca_CrtPEM ca) \<in> set docs) \<and>
    (cl_EncodeBytes (re_config_lib env) docs = Inr (sv_machineConfig (w_server w)) \<or>
     (\<exists>jo. cl_RenderJoinConfig (re_config_lib env) jo docs = Inr (sv_machineConfig (w_server w)))) \<and>
    compressInlineConfig (re_zstd env) (sv_machineConfig (w_server w)) = Inr inline \<and>
    KernelParamConfigInline (re_params env) @ ''='' @ inline \<in> set (h_defaultKernelArgs (sv_handler (w_server w)))"
proof -
  from assms(1) obtain m a certs where init: "init_state env options a s = (Inr certs, s')"
    and wire: "wire env options m a certs = Inr w" by (rule provider_Run_Inr)
  from init_state_tls[OF init assms(2,3)] obtain t0 ca p where
    ca: "initCA (re_x509 env) (re_tls_store env) (re_now env) (CATTL (opt_TLS options)) t0 = (Inr ca, os_TLSConfig s')"
    and p: "newRenewingCertificateProvider (re_x509 env) (Some ca) a (CertTTL (opt_TLS options)) = Inr p"
    and certs: "certs = Some \<lparr>cs_source = Renewing p, CACertPEM = ca_CrtPEM ca\<rparr>" by blast
  from initCA_stores[OF ca assms(4)] obtain cfg where cfg: "os_TLSConfig s' = Some cfg" "decodeCA (re_x509 env) cfg = Inr ca" by blast
  have cp: "cp_ca p = ca \<and> cp_host p = a"
    using p by (auto simp: newRenewingCertificateProvider_def Let_def split: if_splits)
  from wire obtain mc h labels files where
    mc: "machineconfig_Build (re_config_lib env) (re_config_reader env) (re_ProviderJoinConfigType env) (re_ProviderID env) certs
      (opt_ExtraMachineConfigPath options) = Inr mc"
    and h: "NewHandler (re_ipxe env) (re_zstd env) (re_params env) mc (wired_handler_options options a) = Inr h"
    and srv: "sv_handler (w_server w) = h" "sv_machineConfig (w_server w) = mc" "sv_certs (w_server w) = certs"
      "sv_tlsAddr (w_server w) \<noteq> None"
    by (rule wireE) (simp add: server_New_def certs)
  have o: "ho_APIAdvertiseAddress (h_options h) = a"
    using NewHandler_Inr[OF h] by (simp add: wired_handler_options_def)
  obtain inline where i: "compressInlineConfig (re_zstd env) mc = Inr inline"
    "KernelParamConfigInline (re_params env) @ ''='' @ inline \<in> set (h_defaultKernelArgs h)"
    using h assms(2) by (auto simp: NewHandler_def Let_def wired_handler_options_def split: sum.splits if_splits)
  let ?lib = "re_config_lib env"
  from machineconfig_Build_Inr[OF mc] obtain extra where
    "(\<exists>ds. cl_EncodeBytes ?lib (ds @ ca_documents ?lib certs @ extra) = Inr mc) \<or>
     (\<exists>jo. cl_RenderJoinConfig ?lib jo (ca_documents ?lib certs @ extra) = Inr mc)" by blast
  then obtain docs where docs: "set (ca_documents ?lib certs) \<subseteq> set docs"
    "cl_EncodeBytes ?lib docs = Inr mc \<or> (\<exists>jo. cl_RenderJoinConfig ?lib jo docs = Inr mc)"
    by (metis Un_upper1 Un_upper2 order_trans set_append)
  have "ca_CrtPEM ca = [] \<or> cl_NewTrustedRoots ?lib infraProviderCAName (ca_CrtPEM ca) \<in> set docs"
    using docs(1) by (cases "ca_CrtPEM ca = []") (simp_all add: ca_documents_def certs)
  then show ?thesis using cfg cp srv certs o i docs(2)
    by (intro exI[of _ ca] exI[of _ p] exI[of _ cfg] exI[of _ docs] exI[of _ inline]) simp
qed

section \<open>A provider that starts\<close>

text \<open>Configuration documents are strings here; the iPXE binaries have room for any script of the given length.\<close>

definition sample_config_lib :: "string config_lib" where
  "sample_config_lib =
     \<lparr>cl_Kind = (\<lambda>d. d), cl_AsKmsgLog = (\<lambda>d. None), cl_AsTrustedRoots = (\<lambda>d. None),
      cl_NewTrustedRoots = (\<lambda>n c. n @ c), cl_NewFromFile = (\<lambda>p. Inr []), cl_NewFromReader = (\<lambda>c. Inr [c]),
      cl_container_New = (\<lambda>ds. None), cl_EncodeBytes = (\<lambda>ds. Inr (bytes_of (concat ds))), cl_NewJoinOptions = (\<lambda>jo. None),
      cl_RenderJoinConfig = (\<lambda>jo ds. Inr []), Kind_v1alpha1 = ''v1alpha1'', Kind_siderolink = ''SideroLinkConfig'',
      Kind_EventSink = ''EventSinkConfig'', Kind_KmsgLog = ''KmsgLogConfig'', Kind_TrustedRoots = ''TrustedRootsConfig''\<rparr>"

definition sample_omni_names :: omni_names where
  "sample_omni_names =
     \<lparr>on_ResourceType = (\<lambda>n i. n @ ''.'' @ i), on_ResourceNamespace = (\<lambda>i. ''infra-provider:'' @ i),
      on_InfraMachineType = ''InfraMachines.omni.sidero.dev'', on_InfraProviderNamespace = ''infra-provider''\<rparr>"

definition sample_run_env :: "nat \<Rightarrow> string run_env" where
  "sample_run_env n =
     \<lparr>re_stat = (\<lambda>p. Inr True), re_stat_file = (\<lambda>p. Inr (True, 1)), re_text6 = (\<lambda>ip. '':''), re_InterfaceAddrs = Inr [],
      re_client_New = (\<lambda>e opts. None), re_serviceAccountKey = ''key'', re_omni = sample_omni_names, re_registerResource = (\<lambda>t. None),
      re_NewRuntime = (\<lambda>ks. None), re_isDebugBuild = False, re_store = sample_store,
      re_build_info = \<lparr>bi_LabelIsStatic = ''omni.sidero.dev/is-static-infra-provider'', bi_icon = [1], bi_Tag = ''v0''\<rparr>,
      re_x509 = sample_x509, re_readFile = (\<lambda>p. Inr [1]), re_text = (\<lambda>b. []), re_tls_store = sample_tls_store, re_now = 3,
      re_config_lib = sample_config_lib,
      re_config_reader = \<lparr>cr_ResourceDefinition = (\<lambda>t. Inr ()), cr_ConnectionParams = Inl (NotFoundErr []),
                          cr_ProviderJoinConfig = (\<lambda>i. Inr (Some ''join''))\<rparr>,
      re_ProviderJoinConfigType = ''ProviderJoinConfigs.omni.sidero.dev'', re_ProviderID = ''bare-metal'',
      re_ipxe = roomy_io n, re_zstd = sample_zstd, re_params = sample_params, re_rangeOrder = sample_order,
      re_ReadDir = (\<lambda>d. Inr sample_entries), re_state_dir = sample_state_dir, re_random = (\<lambda>i n. Inr 0), re_nowFunc = (\<lambda>qs. 3),
      re_labels = (''omni.sidero.dev/'', ''cluster'', ''machine-set'', ''role-controlplane'', ''role-worker''),
      re_NewHealth = None, re_register_health = None, re_register = (\<lambda>i. None)\<rparr>"

text \<open>The defaults with TLS, an address, an interface, an endpoint, the Raspberry Pi firmware and a label.\<close>

definition sample_run_options :: provider_options where
  "sample_run_options = DefaultOptions
     \<lparr>opt_APIAdvertiseAddress := ''10.0.0.1'', opt_DHCPProxyIfaceOrIP := ''eth0'', opt_OmniAPIEndpoint := ''https://omni'',
      opt_RPiFirmwarePath := ''fw'', opt_TLS := (opt_TLS DefaultOptions)\<lparr>TLS_Enabled := True\<rparr>\<rparr>"

definition sample_start_state :: omni_state where
  "sample_start_state = \<lparr>os_ProviderStatus = None,
     os_stored = [\<lparr>st_kind = KMachineStatus, st_id = ''m1'', st_owner = ''MachineStatusController''\<rparr>],
     os_TLSConfig = Some (NewTLSConfig\<lparr>Spec := \<lparr>CaCert = ''xxxxx'', CaKey = ''key'', tls_unknownFields = []\<rparr>\<rparr>)\<rparr>"

definition sample_certs :: certs where
  "sample_certs = \<lparr>cs_source = Renewing
       \<lparr>cp_ca = \<lparr>ca_CrtPEM = ''xxxxx'', ca_KeyPEM = ''key'', ca_NotAfter = 5\<rparr>, cp_cert = None, cp_host = ''10.0.0.1'',
        cp_opts = [CommonName ''omni-infra-provider-bare-metal'', Organization ''siderolabs'',
                   KeyUsage [''KeyEncipherment'', ''DigitalSignature''], DNSNames [''10.0.0.1'']],
        cp_certTTL = 24 * 3600 * second\<rparr>, CACertPEM = ''xxxxx''\<rparr>"

lemma sample_prepared: "prepare_Run (sample_run_env n) sample_run_options = Inr (BootModeUEFI, ''10.0.0.1'')"
  by (simp add: prepare_Run_def sample_run_env_def sample_run_options_def DefaultOptions_def ParseBootMode_def validateOptions_def
      determineAPIAdvertiseAddress_def buildOmniAPIClient_def BuildCOSIRuntime_def RegisterResources_ok)

lemma sample_initialized:
  "\<exists>s'. init_state (sample_run_env n) sample_run_options ''10.0.0.1'' sample_start_state = (Inr (Some sample_certs), s') \<and> s' \<noteq> sample_start_state"
  by (simp add: init_state_def sample_run_env_def sample_run_options_def DefaultOptions_def sample_start_state_def
      ensureProviderStatus_def create_status_def sample_store_def Tls_Initialize_def initCA_def ReaderGetTLSConfig_def sample_tls_store_def
      decodeCA_def sample_x509_def newRenewingCertificateProvider_def sample_certs_def second_def)

definition sample_room :: nat where
  "sample_room = length (bytes_of (buildInitScript ''10.0.0.1'' 50042))"

lemma register_all_ok: "(\<And>i. reg i = None) \<Longrightarrow> register_all reg i qs = None"
  by (induction qs arbitrary: i) auto

lemma sample_wired:
  "\<exists>w. wire (sample_run_env sample_room) sample_run_options BootModeUEFI ''10.0.0.1'' (Some sample_certs) = Inr w"
proof -
  let ?env = "sample_run_env sample_room"
  have env: "re_config_lib ?env = sample_config_lib" "re_ipxe ?env = roomy_io sample_room" "re_zstd ?env = sample_zstd"
    "re_rangeOrder ?env = sample_order" "re_ReadDir ?env = (\<lambda>d. Inr sample_entries)" "re_readFile ?env = (\<lambda>p. Inr [1])"
    "re_NewHealth ?env = None" "re_register_health ?env = None" "re_register ?env = (\<lambda>i. None)"
    by (simp_all add: sample_run_env_def)
  have mc: "\<exists>mc. machineconfig_Build (re_config_lib ?env) (re_config_reader ?env) (re_ProviderJoinConfigType ?env) (re_ProviderID ?env)
      (Some sample_certs) (opt_ExtraMachineConfigPath sample_run_options) = Inr mc"
    by (simp add: machineconfig_Build_def extra_documents_def sample_run_env_def sample_run_options_def DefaultOptions_def
        buildV2MachineConfig_def sample_config_lib_def Let_def)
  then obtain mc where mc: "machineconfig_Build (re_config_lib ?env) (re_config_reader ?env) (re_ProviderJoinConfigType ?env) (re_ProviderID ?env)
      (Some sample_certs) (opt_ExtraMachineConfigPath sample_run_options) = Inr mc" by blast
  obtain ipxe where p: "patchBinaries (roomy_io sample_room) (bytes_of (buildInitScript ''10.0.0.1'' 50042)) [] = Inr ipxe"
    using roomy_io_patched[of "bytes_of (buildInitScript ''10.0.0.1'' 50042)" sample_room] by (auto simp: sample_room_def)
  then obtain h where h: "NewHandler (re_ipxe ?env) (re_zstd ?env) (re_params ?env) mc (wired_handler_options sample_run_options ''10.0.0.1'') = Inr h"
    "h_files h = ipxe"
    by (auto simp: NewHandler_def env wired_handler_options_def sample_run_options_def DefaultOptions_def parseBootFromDiskMethod_def
        compressInlineConfig_def sample_zstd_def Let_def)
  obtain files where f: "bootFiles sample_order (rpi_Load (\<lambda>d. Inr sample_entries) (\<lambda>p. Inr [1])) ''fw'' ipxe = Inr files"
    using sample_boot_files[OF p] by blast
  have o: "opt_MachineLabels sample_run_options = []" "opt_RPiFirmwarePath sample_run_options = ''fw''"
    by (simp_all add: sample_run_options_def DefaultOptions_def)
  show ?thesis
    unfolding wire_def Let_def wired_handler_options_def[symmetric]
    by (simp add: mc[unfolded env] h[unfolded env] o f env register_all_ok)
qed

lemma sample_started:
  "\<exists>w s'. provider_Run (sample_run_env sample_room) sample_run_options sample_start_state = (Inr w, s') \<and> s' \<noteq> sample_start_state"
proof -
  obtain w where "wire (sample_run_env sample_room) sample_run_options BootModeUEFI ''10.0.0.1'' (Some sample_certs) = Inr w"
    using sample_wired by blast
  moreover obtain s' where "init_state (sample_run_env sample_room) sample_run_options ''10.0.0.1'' sample_start_state = (Inr (Some sample_certs), s')"
    "s' \<noteq> sample_start_state" using sample_initialized by blast
  ultimately show ?thesis by (simp add: provider_Run_def sample_prepared)
qed

lemma sample_run_env_simps:
  "re_x509 (sample_run_env n) = sample_x509" "re_rangeOrder (sample_run_env n) = sample_order"
  "re_ReadDir (sample_run_env n) = (\<lambda>d. Inr sample_entries)" "re_readFile (sample_run_env n) = (\<lambda>p. Inr [1])"
  "opt_TLS sample_run_options = (opt_TLS DefaultOptions)\<lparr>TLS_Enabled := True\<rparr>" "opt_RPiFirmwarePath sample_run_options = ''fw''"
  "opt_DHCPProxyIfaceOrIP sample_run_options = ''eth0''" "opt_APIPort sample_run_options = 50042"
  "opt_AlwaysNetboot sample_run_options = False" "opt_DisableDHCPProxy sample_run_options = False" "opt_DisableDHCPProxyBroadcast sample_run_options = False"
  "opt_ClearState sample_run_options = False" "opt_UseLocalBootAssets sample_run_options = False"
  by (simp_all add: sample_run_env_def sample_run_options_def DefaultOptions_def)


lemma sample_controllers:
  assumes "provider_Run (sample_run_env n) sample_run_options s = (Inr w, s')"
  shows "\<exists>po rs ag. PowerOperationController po \<in> set (w_controllers w) \<and> RebootStatusController rs ag \<in> set (w_controllers w) \<and>
    po_bootOptions po = \<lparr>AlwaysNetboot = False\<rparr>"
proof -
  obtain m a certs where wire: "wire (sample_run_env n) sample_run_options m a certs = Inr w"
    using assms by (rule provider_Run_Inr)
  then obtain labels where "w_controllers w = wire_controllers (sample_run_env n) sample_run_options m \<lparr>AlwaysNetboot = False\<rparr> labels"
    by (rule wireE) (simp add: sample_run_env_simps)
  note c = this[unfolded wire_controllers_def NewPowerOperationController_def NewRebootStatusController_def]
  have "d \<in> set xs \<and> e \<in> set xs" if "xs = [a, b, c, d, e, f]" for a b c d e f :: qcontroller and xs
    using that by simp
  from this[OF c] show ?thesis by (metis po_helper.select_convs(4))
qed



theorem machines_trust_server_witness:
  "\<exists>w s' cfg ca. provider_Run (sample_run_env sample_room) sample_run_options sample_start_state = (Inr w, s') \<and>
     os_TLSConfig s' = Some cfg \<and> decodeCA sample_x509 cfg = Inr ca \<and> map_option CACertPEM (sv_certs (w_server w)) = Some (ca_CrtPEM ca)"
proof -
  obtain w s' where r: "provider_Run (sample_run_env sample_room) sample_run_options sample_start_state = (Inr w, s')"
    using sample_started by blast
  have "TLS_Enabled (opt_TLS sample_run_options)"
    "CACertFile (opt_TLS sample_run_options) = [] \<and> CertFile (opt_TLS sample_run_options) = [] \<and> KeyFile (opt_TLS sample_run_options) = []"
    "x509_reads_back (re_x509 (sample_run_env sample_room))"
    using sample_x509_reads_back by (simp_all add: sample_run_env_simps DefaultOptions_def)
  from machines_trust_server[OF r this] obtain ca p cfg where
    "sv_certs (w_server w) = Some \<lparr>cs_source = Renewing p, CACertPEM = ca_CrtPEM ca\<rparr>"
    "os_TLSConfig s' = Some cfg" "decodeCA (re_x509 (sample_run_env sample_room)) cfg = Inr ca" by blast
  then show ?thesis using r by (auto simp: sample_run_env_simps)
qed

end
