(* ===== verification/VirtualBmc.thy ===== *)
theory VirtualBmc
  imports Bmc Ip Samples
begin

text \<open>
  \<open>internal/qemu/virtualbmc\<close>: the emulated IPMI BMC of a QEMU machine. \<open>hal.go\<close> turns chassis operations into
  requests to the launcher's HTTP power API, in the same world of requests the provider's own BMC backends use;
  \<open>virtualbmc.go\<close> binds the sockets and seeds the administrator. The IPMI server library in between is a parameter.
\<close>

section \<open>The chassis (hal.go)\<close>

record boot_flags =
  bf_selector :: boot_device_selector
  bf_biosType :: bios_boot_type
  bf_persistent :: bool

record chassis_hal =
  ch_baseURL :: string
  ch_bootFlags :: "boot_flags option"

definition hal_ErrNotSupported :: err where "hal_ErrNotSupported = Plain ''not supported''"

text \<open>The host and port a request to the launcher goes to; its URLs are http ones.\<close>

definition launcher_host :: "chassis_hal \<Rightarrow> string" where
  "launcher_host c = trim_prefix (ch_baseURL c) ''http://''"

definition chassis_post :: "env \<Rightarrow> chassis_hal \<Rightarrow> string \<Rightarrow> world \<Rightarrow> err option \<times> world" where
  "chassis_post env c path w =
     (case check_url env (ch_baseURL c @ path) of
        Some e \<Rightarrow> (Some e, w)
      | None \<Rightarrow>
          (case ask_http env (HttpPost (launcher_host c) path) w of
             (Inl e, w1) \<Rightarrow> (Some e, w1)
           | (Inr resp, w1) \<Rightarrow>
               if http_StatusCode resp \<noteq> 200
               then (Some (Plain (''power API '' @ path @ '' returned '' @ itoa (http_StatusCode resp))), w1)
               else (None, w1)))"

definition chassis_PowerState :: "env \<Rightarrow> chassis_hal \<Rightarrow> world \<Rightarrow> (err + bool) \<times> world" where
  "chassis_PowerState env c w =
     (case check_url env (ch_baseURL c @ ''/status'') of
        Some e \<Rightarrow> (Inl e, w)
      | None \<Rightarrow>
          (case ask_http env (HttpGet (launcher_host c) ''/status'') w of
             (Inl e, w1) \<Rightarrow> (Inl e, w1)
           | (Inr resp, w1) \<Rightarrow>
               if http_StatusCode resp \<noteq> 200
               then (Inl (Plain (''power API /status returned '' @ itoa (http_StatusCode resp))), w1)
               else (case http_PoweredOn resp of
                       Inl e \<Rightarrow> (Inl (Wrapped ''decode power status'' e), w1)
                     | Inr on \<Rightarrow> (Inr on, w1))))"

definition chassis_SetPower :: "env \<Rightarrow> chassis_hal \<Rightarrow> bool \<Rightarrow> world \<Rightarrow> err option \<times> world" where
  "chassis_SetPower env c on w = (if on then chassis_post env c ''/poweron'' w else chassis_post env c ''/poweroff'' w)"

definition chassis_PowerCycle :: "env \<Rightarrow> chassis_hal \<Rightarrow> world \<Rightarrow> err option \<times> world" where
  "chassis_PowerCycle env c w = chassis_post env c ''/reboot'' w"

definition chassis_ColdReset :: "env \<Rightarrow> chassis_hal \<Rightarrow> world \<Rightarrow> err option \<times> world" where
  "chassis_ColdReset env c w = chassis_post env c ''/reboot'' w"

definition chassis_WarmReset :: "env \<Rightarrow> chassis_hal \<Rightarrow> world \<Rightarrow> err option \<times> world" where
  "chassis_WarmReset env c w = chassis_post env c ''/reboot'' w"

definition chassis_Identify :: "env \<Rightarrow> chassis_hal \<Rightarrow> world \<Rightarrow> err option \<times> world" where
  "chassis_Identify env c w = (None, w)"

definition chassis_IntrusionState :: "chassis_hal \<Rightarrow> err + bool" where
  "chassis_IntrusionState c = Inl hal_ErrNotSupported"

text \<open>A nil pointer to the flags is \<open>None\<close>; the flags are kept whatever becomes of the request.\<close>

definition chassis_SetBootFlags ::
  "env \<Rightarrow> chassis_hal \<Rightarrow> boot_flags option \<Rightarrow> world \<Rightarrow> (err option \<times> chassis_hal) \<times> world" where
  "chassis_SetBootFlags env c flags w =
     (let c' = c\<lparr>ch_bootFlags := flags\<rparr>
      in if (case flags of None \<Rightarrow> False | Some f \<Rightarrow> bf_selector f = BootDeviceSelectorForcePXE)
         then (case chassis_post env c' ''/pxeboot'' w of (r, w1) \<Rightarrow> ((r, c'), w1))
         else ((None, c'), w))"

definition chassis_GetBootFlags :: "chassis_hal \<Rightarrow> err + boot_flags" where
  "chassis_GetBootFlags c = (case ch_bootFlags c of None \<Rightarrow> Inl hal_ErrNotSupported | Some f \<Rightarrow> Inr f)"

definition chassis_SetBootInfoAcknowledge :: "chassis_hal \<Rightarrow> err option" where
  "chassis_SetBootInfoAcknowledge c = None"

definition chassis_GetBootInfoAcknowledge :: "chassis_hal \<Rightarrow> err + unit" where
  "chassis_GetBootInfoAcknowledge c = Inl hal_ErrNotSupported"

section \<open>The network and the other subsystems\<close>

record ip_config =
  ic_IP :: "byte list"
  ic_Port :: "16 word"

definition network_GetConfig :: "ip_config \<Rightarrow> err + ip_config" where "network_GetConfig cfg = Inr cfg"
definition network_SetConfig :: "ip_config \<Rightarrow> ip_config \<Rightarrow> err option" where
  "network_SetConfig cfg new = Some hal_ErrNotSupported"

record launcher_hal =
  lh_chassis :: chassis_hal
  lh_network :: ip_config

definition newLauncherHAL :: "string \<Rightarrow> ip_config \<Rightarrow> launcher_hal" where
  "newLauncherHAL powerAPIURL ipCfg =
     \<lparr>lh_chassis = \<lparr>ch_baseURL = powerAPIURL, ch_bootFlags = None\<rparr>, lh_network = ipCfg\<rparr>"

section \<open>Serving IPMI\<close>

text \<open>The operations the IPMI server calls, and what serving one does.\<close>

datatype hal_call =
    HalSetPower bool
  | HalPowerCycle
  | HalColdReset
  | HalWarmReset
  | HalIdentify
  | HalSetBootFlags "boot_flags option"

fun serve_hal :: "env \<Rightarrow> hal_call \<Rightarrow> chassis_hal \<Rightarrow> world \<Rightarrow> (err option \<times> chassis_hal) \<times> world" where
  "serve_hal env (HalSetPower on) c w = (case chassis_SetPower env c on w of (r, w1) \<Rightarrow> ((r, c), w1))"
| "serve_hal env HalPowerCycle c w = (case chassis_PowerCycle env c w of (r, w1) \<Rightarrow> ((r, c), w1))"
| "serve_hal env HalColdReset c w = (case chassis_ColdReset env c w of (r, w1) \<Rightarrow> ((r, c), w1))"
| "serve_hal env HalWarmReset c w = (case chassis_WarmReset env c w of (r, w1) \<Rightarrow> ((r, c), w1))"
| "serve_hal env HalIdentify c w = (case chassis_Identify env c w of (r, w1) \<Rightarrow> ((r, c), w1))"
| "serve_hal env (HalSetBootFlags f) c w = chassis_SetBootFlags env c f w"

text \<open>
  What the IPMI server library does with the chassis requests of the provider's IPMI backend: it hands each to the
  operation of the same meaning.
\<close>

definition ipmi_server_ok :: "(request \<Rightarrow> hal_call option) \<Rightarrow> bool" where
  "ipmi_server_ok dispatch \<longleftrightarrow>
     (\<forall>t. dispatch (IpmiChassisControl t ChassisControlPowerUp) = Some (HalSetPower True) \<and>
        dispatch (IpmiChassisControl t ChassisControlPowerDown) = Some (HalSetPower False) \<and>
        dispatch (IpmiChassisControl t ChassisControlPowerCycle) = Some HalPowerCycle \<and>
        (\<forall>sel b p. dispatch (IpmiSetBootDevice t sel b p) =
           Some (HalSetBootFlags (Some \<lparr>bf_selector = sel, bf_biosType = b, bf_persistent = p\<rparr>))))"

section \<open>The emulated BMC refines the launcher's power API\<close>

text \<open>The operations of the provider's BMC client that drive a machine, over the two backends.\<close>

datatype bmc_op = OpReboot | OpPowerOn | OpPowerOff | OpSetPXEBootOnce pxe_boot_mode | OpResetBootDevice

fun api_op :: "env \<Rightarrow> string \<Rightarrow> bmc_op \<Rightarrow> world \<Rightarrow> err option \<times> world" where
  "api_op env a OpReboot w = api_Reboot env a w"
| "api_op env a OpPowerOn w = api_PowerOn env a w"
| "api_op env a OpPowerOff w = api_PowerOff env a w"
| "api_op env a (OpSetPXEBootOnce mode) w = api_SetPXEBootOnce env a mode w"
| "api_op env a OpResetBootDevice w = api_ResetBootDevice env a w"

fun ipmi_op :: "env \<Rightarrow> ipmi_target \<Rightarrow> bmc_op \<Rightarrow> world \<Rightarrow> err option \<times> world" where
  "ipmi_op env t OpReboot w = ipmi_Reboot env t w"
| "ipmi_op env t OpPowerOn w = ipmi_PowerOn env t w"
| "ipmi_op env t OpPowerOff w = ipmi_PowerOff env t w"
| "ipmi_op env t (OpSetPXEBootOnce mode) w = ipmi_SetPXEBootOnce env t mode w"
| "ipmi_op env t OpResetBootDevice w = ipmi_ResetBootDevice env t w"

fun op_ok :: "bmc_op \<Rightarrow> bool" where
  "op_ok (OpSetPXEBootOnce mode) = (mode = BootModeBIOS \<or> mode = BootModeUEFI)"
| "op_ok _ = True"

text \<open>
  The provider's IPMI backend driving the emulated BMC: the requests an operation sends over IPMI are served one
  by one, and the launcher sees what serving them sends.
\<close>

fun serve_requests ::
  "(request \<Rightarrow> hal_call option) \<Rightarrow> env \<Rightarrow> request list \<Rightarrow> chassis_hal \<Rightarrow> world \<Rightarrow> (err option \<times> chassis_hal) \<times> world" where
  "serve_requests dispatch env [] c w = ((None, c), w)"
| "serve_requests dispatch env (q # qs) c w =
     (case dispatch q of
        None \<Rightarrow> serve_requests dispatch env qs c w
      | Some h \<Rightarrow> (case serve_hal env h c w of
            ((Some e, c1), w1) \<Rightarrow> ((Some e, c1), w1)
          | ((None, c1), w1) \<Rightarrow> serve_requests dispatch env qs c1 w1))"

definition emulated_op ::
  "(request \<Rightarrow> hal_call option) \<Rightarrow> env \<Rightarrow> env \<Rightarrow> ipmi_target \<Rightarrow> bmc_op \<Rightarrow> world \<times> chassis_hal \<times> world
     \<Rightarrow> err option \<times> world \<times> chassis_hal \<times> world" where
  "emulated_op dispatch env launcher t opr st =
     (let (w, c, lw) = st;
          w' = snd (ipmi_op env t opr w);
          ((r, c'), lw') = serve_requests dispatch launcher (drop (length (requests w)) (requests w')) c lw
      in (r, w', c', lw'))"

fun emulated_ops ::
  "(request \<Rightarrow> hal_call option) \<Rightarrow> env \<Rightarrow> env \<Rightarrow> ipmi_target \<Rightarrow> bmc_op list \<Rightarrow> world \<times> chassis_hal \<times> world
     \<Rightarrow> bool list \<times> world \<times> chassis_hal \<times> world" where
  "emulated_ops dispatch env launcher t [] st = ([], st)"
| "emulated_ops dispatch env launcher t (opr # oprs) st =
     (let (r, st1) = emulated_op dispatch env launcher t opr st; (rs, st2) = emulated_ops dispatch env launcher t oprs st1
      in ((r = None) # rs, st2))"

fun api_ops :: "env \<Rightarrow> string \<Rightarrow> bmc_op list \<Rightarrow> world \<Rightarrow> bool list \<times> world" where
  "api_ops env a [] w = ([], w)"
| "api_ops env a (opr # oprs) w =
     (let (r, w1) = api_op env a opr w; (rs, w2) = api_ops env a oprs w1 in ((r = None) # rs, w2))"

text \<open>The launcher of a chassis: its base URL is the http URL of this address.\<close>

definition of_launcher :: "string \<Rightarrow> chassis_hal \<Rightarrow> bool" where
  "of_launcher a c \<longleftrightarrow> ch_baseURL c = ''http://'' @ a"

lemma of_launcher_host: "of_launcher a c \<Longrightarrow> launcher_host c = a"
  using trim_prefix_append [of "''http://''" a] by (simp add: of_launcher_def launcher_host_def)

lemma chassis_post_api:
  "of_launcher a c \<Longrightarrow> snd (chassis_post env c path w) = snd (api_doPost env a path w) \<and>
   (fst (chassis_post env c path w) = None \<longleftrightarrow> fst (api_doPost env a path w) = None)"
  using of_launcher_host [of a c] unfolding of_launcher_def
  by (auto simp: chassis_post_def api_doPost_def split: option.splits sum.splits prod.splits)

text \<open>The request an operation sends, and the operation of the chassis it arrives at.\<close>

fun ipmi_request :: "ipmi_target \<Rightarrow> bmc_op \<Rightarrow> request" where
  "ipmi_request t OpReboot = IpmiChassisControl t ChassisControlPowerCycle"
| "ipmi_request t OpPowerOn = IpmiChassisControl t ChassisControlPowerUp"
| "ipmi_request t OpPowerOff = IpmiChassisControl t ChassisControlPowerDown"
| "ipmi_request t (OpSetPXEBootOnce mode) =
     IpmiSetBootDevice t BootDeviceSelectorForcePXE (if mode = BootModeBIOS then BIOSBootTypeLegacy else BIOSBootTypeEFI) False"
| "ipmi_request t OpResetBootDevice = IpmiSetBootDevice t BootDeviceSelectorNoOverride BIOSBootTypeEFI False"

fun hal_of :: "bmc_op \<Rightarrow> hal_call" where
  "hal_of OpReboot = HalPowerCycle"
| "hal_of OpPowerOn = HalSetPower True"
| "hal_of OpPowerOff = HalSetPower False"
| "hal_of (OpSetPXEBootOnce mode) = HalSetBootFlags (Some \<lparr>bf_selector = BootDeviceSelectorForcePXE,
     bf_biosType = (if mode = BootModeBIOS then BIOSBootTypeLegacy else BIOSBootTypeEFI), bf_persistent = False\<rparr>)"
| "hal_of OpResetBootDevice = HalSetBootFlags (Some \<lparr>bf_selector = BootDeviceSelectorNoOverride,
     bf_biosType = BIOSBootTypeEFI, bf_persistent = False\<rparr>)"

lemma ipmi_op_sends: "op_ok opr \<Longrightarrow> requests (snd (ipmi_op env t opr w)) = requests w @ [ipmi_request t opr]"
  by (cases opr) (auto simp: effect_simps ipmi_Reboot_def ipmi_PowerOn_def ipmi_PowerOff_def ipmi_SetPXEBootOnce_def
      ipmi_ResetBootDevice_def)

lemma dispatch_hal: "ipmi_server_ok dispatch \<Longrightarrow> dispatch (ipmi_request t opr) = Some (hal_of opr)"
  by (cases opr) (simp_all add: ipmi_server_ok_def)

lemma serve_hal_api:
  assumes "serve_hal launcher (hal_of opr) c lw = ((r, c'), lw')" and l: "of_launcher a c"
  shows "lw' = snd (api_op launcher a opr lw) \<and>
    (r = None \<longleftrightarrow> fst (api_op launcher a opr lw) = None) \<and> of_launcher a c'"
proof (cases opr)
  case (OpSetPXEBootOnce mode)
  with assms chassis_post_api [of a c' launcher "''/pxeboot''" lw] show ?thesis
    by (auto simp: chassis_SetBootFlags_def api_SetPXEBootOnce_def of_launcher_def Let_def split: prod.splits)
next
  case OpResetBootDevice
  with assms show ?thesis by (auto simp: chassis_SetBootFlags_def api_ResetBootDevice_def of_launcher_def)
next
  case OpReboot
  with assms chassis_post_api [OF l, of launcher "''/reboot''" lw] show ?thesis
    by (auto simp: chassis_PowerCycle_def api_Reboot_def split: prod.splits)
next
  case OpPowerOn
  with assms chassis_post_api [OF l, of launcher "''/poweron''" lw] show ?thesis
    by (auto simp: chassis_SetPower_def api_PowerOn_def split: prod.splits)
next
  case OpPowerOff
  with assms chassis_post_api [OF l, of launcher "''/poweroff''" lw] show ?thesis
    by (auto simp: chassis_SetPower_def api_PowerOff_def split: prod.splits)
qed

lemma emulated_op_simulates:
  assumes "ipmi_server_ok dispatch" and "op_ok opr" and "emulated_op dispatch env launcher t opr (w, c, lw) = (r, w', c', lw')"
    and l: "of_launcher a c"
  shows "lw' = snd (api_op launcher a opr lw) \<and>
    (r = None \<longleftrightarrow> fst (api_op launcher a opr lw) = None) \<and> of_launcher a c'"
proof -
  obtain r1 c1 lw1 where h: "serve_hal launcher (hal_of opr) c lw = ((r1, c1), lw1)" by (metis prod.exhaust)
  have "((r, c'), lw') = ((r1, c1), lw1)"
    using assms(3) h by (cases r1) (auto simp: emulated_op_def Let_def ipmi_op_sends [OF assms(2)] dispatch_hal [OF assms(1)])
  with serve_hal_api [OF h l] show ?thesis by simp
qed

lemma emulated_ops_simulate:
  assumes "ipmi_server_ok dispatch" and "\<forall>opr \<in> set oprs. op_ok opr"
    and "emulated_ops dispatch env launcher t oprs (w, c, lw) = (rs, w', c', lw')" and "of_launcher a c"
  shows "api_ops launcher a oprs lw = (rs, lw')"
  using assms(2-4)
proof (induction oprs arbitrary: w c lw rs)
  case Nil
  then show ?case by simp
next
  case (Cons opr oprs)
  obtain r w1 c1 lw1 where e: "emulated_op dispatch env launcher t opr (w, c, lw) = (r, w1, c1, lw1)" by (metis prod.exhaust)
  with Cons.prems(2) obtain rs1 where rest: "emulated_ops dispatch env launcher t oprs (w1, c1, lw1) = (rs1, w', c', lw')"
    and rs: "rs = (r = None) # rs1" by (auto split: prod.splits)
  have "op_ok opr" using Cons.prems(1) by simp
  note one = emulated_op_simulates [OF assms(1) this e Cons.prems(3)]
  from Cons.IH [OF _ rest] Cons.prems(1) one have "api_ops launcher a oprs lw1 = (rs1, lw')" by simp
  then show ?case using one rs by (cases "api_op launcher a opr lw") simp
qed

section \<open>Binding the sockets (virtualbmc.go)\<close>

definition adminUserSlot :: nat where "adminUserSlot = 2"
definition lanChannel :: nat where "lanChannel = 1"

record vbmc_options =
  vo_BMCIP :: string
  vo_VMSocket :: string
  vo_PowerAPIURL :: string
  vo_Username :: string
  vo_Password :: string
  vo_MaxUsers :: int

datatype privilege = PrivilegeLevelAdministrator | OtherPrivilege nat

record bmc_user =
  bu_slot :: nat
  bu_name :: string
  bu_password :: string
  bu_enabled :: bool
  bu_channels :: "nat \<rightharpoonup> privilege"

text \<open>
  The operating system as \<open>New\<close> sees it: sockets are numbered as they are opened, and the open ones are listed.
  A bound UDP socket reports its port, or (\<open>None\<close>) an address of another type. Removing a file fails with an error
  that says whether the file was missing.
\<close>

record sockets =
  sk_next :: nat
  sk_open :: "nat list"

record vbmc_env =
  ve_parseIP :: "string \<Rightarrow> net_ip"
  ve_listenUDP :: "nat \<Rightarrow> net_ip \<Rightarrow> err + 16 word option"
  ve_remove :: "string \<Rightarrow> (err \<times> bool) option"
  ve_listenUnix :: "string \<Rightarrow> err option"
  ve_userAdd :: "nat \<Rightarrow> string \<Rightarrow> err option"
  ve_maxUsers :: nat

text \<open>\<open>deviceInfo\<close> and \<open>deviceGUID\<close>: what every emulated BMC says it is.\<close>

record device_info =
  DeviceID :: int
  DeviceRevision :: int
  FirmwareMajor :: int
  FirmwareMinor :: int
  IPMIVersion :: int
  ManufacturerID :: int
  ProductID :: int
  AdditionalDeviceSupport :: int

definition deviceInfo :: device_info where
  "deviceInfo = \<lparr>DeviceID = 32, DeviceRevision = 1, FirmwareMajor = 1, FirmwareMinor = 0, IPMIVersion = 0x20,
     ManufacturerID = 0x000157, ProductID = 0x0001, AdditionalDeviceSupport = 0x39\<rparr>"

definition deviceGUID :: string where
  "deviceGUID = (let text = ''omni-bm-virt-bmc'' in take 16 text @ replicate (16 - length text) (CHR 0x00))"

lemma deviceGUID_whole: "deviceGUID = ''omni-bm-virt-bmc''" "length deviceGUID = 16"
  by (simp_all add: deviceGUID_def)

record vbmc_server =
  vs_device :: "device_info \<times> string"
  vs_lan :: nat
  vs_vmListener :: "nat option"
  vs_addr :: "net_ip \<times> 16 word"
  vs_hal :: launcher_hal
  vs_admin :: bmc_user

definition open_socket :: "sockets \<Rightarrow> nat \<times> sockets" where
  "open_socket s = (sk_next s, s\<lparr>sk_next := Suc (sk_next s), sk_open := sk_next s # sk_open s\<rparr>)"

definition close_socket :: "nat \<Rightarrow> sockets \<Rightarrow> sockets" where
  "close_socket k s = s\<lparr>sk_open := removeAll k (sk_open s)\<rparr>"

definition parseIPv4 :: "vbmc_env \<Rightarrow> string \<Rightarrow> err + byte list" where
  "parseIPv4 env s =
     (let ip = ve_parseIP env s
      in if ip = [] then Inl (Plain (''invalid IPv4 address '' @ quoted s))
         else (case ip_To4 ip of
                 None \<Rightarrow> Inl (Plain (''not an IPv4 address: '' @ quoted s))
               | Some ip4 \<Rightarrow> Inr ip4))"

definition listenVMSocket :: "vbmc_env \<Rightarrow> string \<Rightarrow> sockets \<Rightarrow> (err + nat) \<times> sockets" where
  "listenVMSocket env path s =
     (case ve_remove env path of
        Some (e, False) \<Rightarrow> (Inl (Wrapped (''remove stale VM socket '' @ path) e), s)
      | _ \<Rightarrow>
          (case ve_listenUnix env path of
             Some e \<Rightarrow> (Inl (Wrapped (''listen on VM socket '' @ path) e), s)
           | None \<Rightarrow> (case open_socket s of (k, s1) \<Rightarrow> (Inr k, s1))))"

definition seedAdmin :: "vbmc_env \<Rightarrow> string \<Rightarrow> string \<Rightarrow> err + bmc_user" where
  "seedAdmin env username password =
     (case ve_userAdd env adminUserSlot username of
        Some e \<Rightarrow> Inl e
      | None \<Rightarrow> Inr \<lparr>bu_slot = adminUserSlot, bu_name = username, bu_password = password, bu_enabled = True,
                   bu_channels = [lanChannel \<mapsto> PrivilegeLevelAdministrator]\<rparr>)"

text \<open>\<open>New\<close> once the UDP socket is bound: the in-band listener if one is configured, then the administrator.\<close>

definition vbmc_listenVM :: "vbmc_env \<Rightarrow> vbmc_options \<Rightarrow> nat \<Rightarrow> sockets \<Rightarrow> (err + nat option) \<times> sockets" where
  "vbmc_listenVM env opts conn s =
     (if vo_VMSocket opts = [] then (Inr None, s)
      else (case listenVMSocket env (vo_VMSocket opts) s of
              (Inl e, s1) \<Rightarrow> (Inl e, close_socket conn s1)
            | (Inr vm, s1) \<Rightarrow> (Inr (Some vm), s1)))"

definition vbmc_seed ::
  "vbmc_env \<Rightarrow> vbmc_options \<Rightarrow> nat \<Rightarrow> nat option \<Rightarrow> byte list \<Rightarrow> 16 word \<Rightarrow> sockets \<Rightarrow> (err + vbmc_server) \<times> sockets" where
  "vbmc_seed env opts conn vmListener ip port s =
     (case seedAdmin env (vo_Username opts) (vo_Password opts) of
        Inl e \<Rightarrow>
          (Inl (Wrapped ''seed admin user'' e),
           (case vmListener of None \<Rightarrow> close_socket conn s | Some vm \<Rightarrow> close_socket vm (close_socket conn s)))
      | Inr admin \<Rightarrow>
          (Inr \<lparr>vs_device = (deviceInfo, deviceGUID), vs_lan = conn, vs_vmListener = vmListener, vs_addr = (ip, port),
              vs_hal = newLauncherHAL (vo_PowerAPIURL opts) \<lparr>ic_IP = ip, ic_Port = port\<rparr>, vs_admin = admin\<rparr>, s))"

definition vbmc_New :: "vbmc_env \<Rightarrow> vbmc_options \<Rightarrow> sockets \<Rightarrow> (err + vbmc_server) \<times> sockets" where
  "vbmc_New env opts s =
     (if vo_PowerAPIURL opts = [] then (Inl (Plain ''power API URL is required''), s)
      else if vo_MaxUsers opts < int adminUserSlot \<or> vo_MaxUsers opts > int (ve_maxUsers env)
      then (Inl (Plain (''max users must be between '' @ itoa (int adminUserSlot) @ '' and '' @ itoa (int (ve_maxUsers env)))), s)
      else (case parseIPv4 env (vo_BMCIP opts) of
              Inl e \<Rightarrow> (Inl (Wrapped ''BMC IP'' e), s)
            | Inr ip \<Rightarrow>
           (case ve_listenUDP env (sk_next s) ip of
              Inl e \<Rightarrow> (Inl (Wrapped (''listen on '' @ vo_BMCIP opts) e), s)
            | Inr bound \<Rightarrow>
                (let (conn, s1) = open_socket s
                 in case bound of
                      None \<Rightarrow> (Inl (Plain ''unexpected LAN listener address type''), close_socket conn s1)
                    | Some port \<Rightarrow>
                        (case vbmc_listenVM env opts conn s1 of
                           (Inl e, s2) \<Rightarrow> (Inl e, s2)
                         | (Inr vmListener, s2) \<Rightarrow> vbmc_seed env opts conn vmListener ip port s2)))))"

definition vbmc_Close :: "vbmc_server \<Rightarrow> sockets \<Rightarrow> sockets" where
  "vbmc_Close srv s =
     (let s1 = close_socket (vs_lan srv) s
      in case vs_vmListener srv of None \<Rightarrow> s1 | Some vm \<Rightarrow> close_socket vm s1)"

definition vbmc_Addr :: "vbmc_server \<Rightarrow> net_ip \<times> 16 word" where
  "vbmc_Addr srv = vs_addr srv"

section \<open>Sockets\<close>

definition sockets_ok :: "sockets \<Rightarrow> bool" where
  "sockets_ok s \<longleftrightarrow> (\<forall>k \<in> set (sk_open s). k < sk_next s)"

definition server_sockets :: "vbmc_server \<Rightarrow> nat set" where
  "server_sockets srv = insert (vs_lan srv) (set_option (vs_vmListener srv))"

lemma open_close [simp]:
  "sockets_ok s \<Longrightarrow> set (sk_open (close_socket (sk_next s) (snd (open_socket s)))) = set (sk_open s)"
  by (auto simp: open_socket_def close_socket_def sockets_ok_def)

lemma vbmc_Close_open: "set (sk_open (vbmc_Close srv s)) = set (sk_open s) - server_sockets srv"
  "sk_next (vbmc_Close srv s) = sk_next s"
  by (auto simp: vbmc_Close_def server_sockets_def close_socket_def Let_def split: option.splits)

lemma vbmc_listenVM_cases:
  "vbmc_listenVM env opts conn s = (r, s') \<Longrightarrow>
     (\<exists>e. r = Inl e \<and> s' = close_socket conn s) \<or> (r = Inr None \<and> s' = s) \<or> (r = Inr (Some (sk_next s)) \<and> s' = snd (open_socket s))"
  by (auto simp: vbmc_listenVM_def listenVMSocket_def open_socket_def split: option.splits if_splits bool.splits)

lemma vbmc_seed_cases:
  "vbmc_seed env opts conn vm ip port s = (r, s') \<Longrightarrow>
     (\<exists>e. r = Inl e \<and> set (sk_open s') = set (sk_open s) - insert conn (set_option vm) \<and> sk_next s' = sk_next s) \<or>
     (\<exists>srv. r = Inr srv \<and> server_sockets srv = insert conn (set_option vm) \<and> s' = s)"
  by (auto simp: vbmc_seed_def server_sockets_def close_socket_def split: sum.splits option.splits)

text \<open>Creating a server opens exactly its own sockets, and none when it fails.\<close>

definition new_sockets :: "sockets \<Rightarrow> err + vbmc_server \<Rightarrow> sockets \<Rightarrow> bool" where
  "new_sockets s r s' \<longleftrightarrow> sockets_ok s' \<and> sk_next s \<le> sk_next s' \<and>
    (case r of Inl e \<Rightarrow> set (sk_open s') = set (sk_open s)
     | Inr srv \<Rightarrow> set (sk_open s') = set (sk_open s) \<union> server_sockets srv \<and> (\<forall>k \<in> server_sockets srv. sk_next s \<le> k))"

lemma seed_sockets:
  assumes "sockets_ok s" and "vbmc_listenVM env opts (sk_next s) (snd (open_socket s)) = (Inr vm, s2)"
    and "vbmc_seed env opts (sk_next s) vm ip port s2 = (r, s')"
  shows "new_sockets s r s'"
proof -
  define n where "n = sk_next s"
  have s: "\<forall>k \<in> set (sk_open s). k < n" using assms(1) by (simp add: sockets_ok_def n_def)
  then have fresh: "n \<notin> set (sk_open s)" "Suc n \<notin> set (sk_open s)" by auto
  have "\<exists>m. sk_next s2 = m \<and> Suc n \<le> m \<and> set (sk_open s2) = set (sk_open s) \<union> insert n (set_option vm) \<and>
      (\<forall>k \<in> insert n (set_option vm). n \<le> k \<and> k < m) \<and> set (sk_open s) \<inter> insert n (set_option vm) = {}"
    using vbmc_listenVM_cases [OF assms(2)] fresh by (elim disjE) (auto simp: open_socket_def n_def)
  then obtain m where m: "sk_next s2 = m" "Suc n \<le> m" "set (sk_open s2) = set (sk_open s) \<union> insert n (set_option vm)"
      "\<forall>k \<in> insert n (set_option vm). n \<le> k \<and> k < m" "set (sk_open s) \<inter> insert n (set_option vm) = {}" by blast
  from vbmc_seed_cases [OF assms(3)] show ?thesis
  proof (elim disjE exE conjE)
    fix e assume e: "r = Inl e" "set (sk_open s') = set (sk_open s2) - insert (sk_next s) (set_option vm)" "sk_next s' = sk_next s2"
    then have "set (sk_open s') = set (sk_open s)" using m(3,5) by (auto simp: n_def)
    then show ?thesis using e m(1,2) s by (auto simp: new_sockets_def sockets_ok_def n_def)
  next
    fix srv assume v: "r = Inr srv" "server_sockets srv = insert (sk_next s) (set_option vm)" "s' = s2"
    then show ?thesis using m s by (auto simp: new_sockets_def sockets_ok_def n_def)
  qed
qed

lemma vbmc_New_sockets:
  assumes "sockets_ok s" and "vbmc_New env opts s = (r, s')"
  shows "new_sockets s r s'"
proof -
  have early: "new_sockets s (Inl e) s" for e using assms(1) by (simp add: new_sockets_def)
  have closed: "new_sockets s (Inl e) (close_socket (sk_next s) (snd (open_socket s)))" for e
    using assms(1) by (auto simp: new_sockets_def sockets_ok_def open_socket_def close_socket_def)
  have o: "open_socket s = (sk_next s, snd (open_socket s))" by (simp add: open_socket_def)
  obtain r2 s2 where vm: "vbmc_listenVM env opts (sk_next s) (snd (open_socket s)) = (r2, s2)" by (metis prod.exhaust)
  show ?thesis
  proof (cases r2)
    case (Inl e)
    then have "s2 = close_socket (sk_next s) (snd (open_socket s))" using vbmc_listenVM_cases [OF vm] by auto
    with assms(2) vm Inl early closed show ?thesis
      unfolding vbmc_New_def by (subst (asm) o) (auto split: if_splits sum.splits option.splits)
  next
    case (Inr v)
    with assms(2) vm early closed seed_sockets [OF assms(1)] show ?thesis
      unfolding vbmc_New_def by (subst (asm) o) (auto split: if_splits sum.splits option.splits)
  qed
qed

section \<open>Properties\<close>

text \<open>
  C36. The emulated BMC refines the launcher's power API: whatever sequence of power and boot-device operations the
  provider's IPMI backend performs against it, the launcher receives exactly the requests the provider's API backend
  would have sent it, in the same order, and every operation succeeds in the one setting exactly if it does in the
  other.
\<close>

theorem emulated_bmc_refines_api:
  assumes "ipmi_server_ok dispatch" and "\<forall>opr \<in> set oprs. op_ok opr" and "ch_baseURL c = ''http://'' @ address"
    and "emulated_ops dispatch env launcher t oprs (w, c, lw) = (rs, w', c', lw')"
  shows "api_ops launcher address oprs lw = (rs, lw')"
  using emulated_ops_simulate [OF assms(1,2,4)] assms(3) by (simp add: of_launcher_def)

fun sample_dispatch :: "request \<Rightarrow> hal_call option" where
  "sample_dispatch (IpmiChassisControl t ChassisControlPowerUp) = Some (HalSetPower True)"
| "sample_dispatch (IpmiChassisControl t ChassisControlPowerDown) = Some (HalSetPower False)"
| "sample_dispatch (IpmiChassisControl t ChassisControlPowerCycle) = Some HalPowerCycle"
| "sample_dispatch (IpmiSetBootDevice t sel b p) =
     Some (HalSetBootFlags (Some \<lparr>bf_selector = sel, bf_biosType = b, bf_persistent = p\<rparr>))"
| "sample_dispatch q = None"

definition sample_target :: ipmi_target where
  "sample_target = \<lparr>tgt_Address = ''127.0.0.1'', tgt_Port = 6230, tgt_Username = ''ADMIN'', tgt_Password = ''ADMIN''\<rparr>"

definition sample_chassis :: chassis_hal where
  "sample_chassis = \<lparr>ch_baseURL = ''http://10.5.0.1:40000'', ch_bootFlags = None\<rparr>"

theorem emulated_bmc_refines_api_witness:
  "\<exists>rs lw. api_ops (ok_env True 0) ''10.5.0.1:40000'' [OpSetPXEBootOnce ''uefi'', OpReboot, OpResetBootDevice] empty_world = (rs, lw) \<and>
     rs = [True, True, True] \<and> requests lw = [HttpPost ''10.5.0.1:40000'' ''/pxeboot'', HttpPost ''10.5.0.1:40000'' ''/reboot'']"
proof -
  let ?oprs = "[OpSetPXEBootOnce ''uefi'', OpReboot, OpResetBootDevice]"
  obtain rs w' c' lw where e: "emulated_ops sample_dispatch (ok_env True 0) (ok_env True 0) sample_target ?oprs
      (empty_world, sample_chassis, empty_world) = (rs, w', c', lw)" by (metis prod.exhaust)
  have 1: "ipmi_server_ok sample_dispatch" by (simp add: ipmi_server_ok_def)
  have 2: "\<forall>opr \<in> set ?oprs. op_ok opr" by (simp add: BootModeUEFI_def)
  have 3: "ch_baseURL sample_chassis = ''http://'' @ ''10.5.0.1:40000''" by (simp add: sample_chassis_def)
  have a: "api_ops (ok_env True 0) ''10.5.0.1:40000'' ?oprs empty_world = (rs, lw)"
    by (rule emulated_bmc_refines_api [OF 1 2 3 e])
  moreover have "api_ops (ok_env True 0) ''10.5.0.1:40000'' ?oprs empty_world = ([True, True, True],
      empty_world\<lparr>requests := [HttpPost ''10.5.0.1:40000'' ''/pxeboot'', HttpPost ''10.5.0.1:40000'' ''/reboot'']\<rparr>)"
    by (simp add: api_SetPXEBootOnce_def api_Reboot_def api_ResetBootDevice_def api_doPost_def effect_simps ok_env_def empty_world_def)
  ultimately show ?thesis by (intro exI [of _ rs] exI [of _ lw]) simp
qed

end
