(* ===== verification/Qemu.thy ===== *)
theory Qemu
  imports VirtualBmc Dhcp
begin

text \<open>
  \<open>internal/qemu\<close>: the QEMU machines of the development setup. \<open>machines.go\<close> builds the request for the Talos
  provisioner, \<open>bmc.go\<close> hosts an emulated BMC per machine. The provisioner, the operating system and the libraries
  that parse addresses and numbers are the fields of \<open>qemu_env\<close>.
\<close>

record qemu_options =
  qo_Name :: string
  qo_CIDR :: string
  qo_CNIBundleURL :: string
  qo_TalosctlPath :: string
  qo_CPUs :: string
  qo_DefaultBootOrder :: string
  qo_VirtualBMCUsername :: string
  qo_VirtualBMCPassword :: string
  qo_Nameservers :: "string list"
  qo_MTU :: int
  qo_MemSize :: int
  qo_DiskSize :: "64 word"
  qo_NumMachines :: int
  qo_UEFIEnabled :: bool
  qo_PXEBootViaDHCPD :: bool
  qo_VirtualBMC :: bool

definition Qemu_DefaultOptions :: qemu_options where
  "Qemu_DefaultOptions =
     \<lparr>qo_Name = ''bare-metal'', qo_CIDR = ''172.29.0.0/24'',
      qo_CNIBundleURL = ''https://github.com/siderolabs/talos/releases/latest/download/talosctl-cni-bundle-amd64.tar.gz'',
      qo_TalosctlPath = [], qo_CPUs = ''3'', qo_DefaultBootOrder = ''cn'',
      qo_VirtualBMCUsername = ''ADMIN'', qo_VirtualBMCPassword = ''ADMIN'',
      qo_Nameservers = [''1.1.1.1'', ''1.0.0.1''], qo_MTU = 1440, qo_MemSize = 3072 * 1024 * 1024,
      qo_DiskSize = 6 * 1024 * 1024 * 1024, qo_NumMachines = 4, qo_UEFIEnabled = False, qo_PXEBootViaDHCPD = False,
      qo_VirtualBMC = False\<rparr>"

type_synonym prefix = "net_ip \<times> nat"

text \<open>What the source fills in of the provisioner's types.\<close>

record node_request =
  nr_Name :: string
  nr_IPs :: "net_ip list"
  nr_Memory :: int
  nr_NanoCPUs :: int
  nr_Disks :: "(64 word \<times> string) list"
  nr_SkipInjectingConfig :: bool
  nr_UUID :: string
  nr_PXEBooted :: bool
  nr_DefaultBootOrder :: string
  nr_TFTPServer :: string
  nr_IPXEBootFilename :: string
  nr_ExtraQEMUArgs :: "string list"

record cluster_request =
  cr_Name :: string
  cr_CIDRs :: "prefix list"
  cr_GatewayAddrs :: "net_ip list"
  cr_MTU :: int
  cr_Nameservers :: "net_ip list"
  cr_CNI :: "string \<times> string \<times> string \<times> string"
  cr_SelfExecutable :: string
  cr_StateDirectory :: string
  cr_Nodes :: "node_request list"
  cr_UEFI :: bool

record node_info =
  ni_Name :: string
  ni_APIPort :: int

record cluster_info =
  ci_GatewayAddrs :: "net_ip list"
  ci_Nodes :: "node_info list"
  ci_ExtraNodes :: "node_info list"

text \<open>\<open>exec.LookPath\<close>, \<open>os.Stat\<close> (whether the path is a directory) and the rest of the outside. An error of
  \<open>Reflect\<close> comes with whether it wraps \<open>os.ErrNotExist\<close>; a rational number is its numerator and denominator.\<close>

record qemu_env =
  qe_GOOS :: string
  qe_GOARCH :: string
  qe_TalosDirectory :: "err + string"
  qe_Stat :: "string \<Rightarrow> err + bool"
  qe_LookPath :: "string \<Rightarrow> err + string"
  qe_ChardevHelp :: "string \<Rightarrow> string"
  qe_ParsePrefix :: "string \<Rightarrow> err + prefix"
  qe_ParseAddr :: "string \<Rightarrow> err + net_ip"
  qe_ParseRat :: "string \<Rightarrow> (int \<times> int) option"
  qe_NthIP :: "prefix \<Rightarrow> nat \<Rightarrow> err + net_ip"
  qe_IPText :: "net_ip \<Rightarrow> string"
  qe_UUID :: "nat \<Rightarrow> string"
  qe_Factory :: "err option"
  qe_Reflect :: "string \<Rightarrow> string \<Rightarrow> (err \<times> bool) + cluster_info"
  qe_Create :: "cluster_request \<Rightarrow> err + cluster_info"
  qe_Destroy :: "err option"
  qe_RemoveAll :: "string \<Rightarrow> err option"
  qe_vbmc :: "nat \<Rightarrow> vbmc_env"

definition TalosctlBinary :: string where "TalosctlBinary = ''talosctl''"
definition bmcLoopbackIP :: string where "bmcLoopbackIP = ''127.0.0.1''"
definition bmcMaxUsers :: int where "bmcMaxUsers = 8"
definition diskDriver :: string where "diskDriver = ''virtio''"

record machines =
  mc_subnetCIDR :: prefix
  mc_stateDir :: string
  mc_cniDir :: string
  mc_nameservers :: "net_ip list"
  mc_options :: qemu_options
  mc_nanoCPUs :: int

section \<open>Building the machine set (machines.go)\<close>

definition parseCPUShare :: "qemu_env \<Rightarrow> string \<Rightarrow> err + int" where
  "parseCPUShare env cpus =
     (case qe_ParseRat env cpus of
        None \<Rightarrow> Inl (Plain (''failed to parse as a rational number: '' @ cpus))
      | Some (num, den) \<Rightarrow>
          if num * 1000000000 mod den \<noteq> 0 then Inl (Plain ''value is too precise'')
          else Inr (int64_wrap (num * 1000000000 div den)))"

definition findTalosctl :: "qemu_env \<Rightarrow> err + string" where
  "findTalosctl env =
     (if qe_Stat env TalosctlBinary = Inr False then Inr TalosctlBinary
      else (case qe_LookPath env TalosctlBinary of
              Inl e \<Rightarrow> Inl (Wrapped ''failed to find talosctl binary'' e)
            | Inr path \<Rightarrow> Inr path))"

fun parseNameservers :: "qemu_env \<Rightarrow> string list \<Rightarrow> err + net_ip list" where
  "parseNameservers env [] = Inr []"
| "parseNameservers env (ns # nameservers) =
     (case qe_ParseAddr env ns of
        Inl e \<Rightarrow> Inl (Wrapped (''failed to parse nameserver '' @ quoted ns) e)
      | Inr addr \<Rightarrow>
          (case parseNameservers env nameservers of Inl e \<Rightarrow> Inl e | Inr nss \<Rightarrow> Inr (addr # nss)))"

definition Machines_New :: "qemu_env \<Rightarrow> qemu_options \<Rightarrow> err + machines" where
  "Machines_New env options =
     (case qe_TalosDirectory env of
        Inl e \<Rightarrow> Inl (Wrapped ''failed to get Talos directory'' e)
      | Inr talosDir \<Rightarrow>
     (case (if qo_TalosctlPath options = []
            then (case findTalosctl env of
                    Inl e \<Rightarrow> Inl (Wrapped ''failed to find talosctl binary'' e)
                  | Inr path \<Rightarrow> Inr (options\<lparr>qo_TalosctlPath := path\<rparr>))
            else Inr options) of
        Inl e \<Rightarrow> Inl e
      | Inr options \<Rightarrow>
     (case qe_ParsePrefix env (qo_CIDR options) of
        Inl e \<Rightarrow> Inl (Wrapped ''failed to parse subnet CIDR'' e)
      | Inr cidr \<Rightarrow>
     (case parseNameservers env (qo_Nameservers options) of
        Inl e \<Rightarrow> Inl (Wrapped ''failed to parse nameservers'' e)
      | Inr nss \<Rightarrow>
     (case parseCPUShare env (qo_CPUs options) of
        Inl e \<Rightarrow> Inl (Wrapped ''failed to parse CPU share'' e)
      | Inr nanoCPUs \<Rightarrow>
          Inr \<lparr>mc_subnetCIDR = cidr, mc_stateDir = filepath_Join talosDir ''clusters'', mc_cniDir = filepath_Join talosDir ''cni'',
               mc_nameservers = nss, mc_options = options, mc_nanoCPUs = nanoCPUs\<rparr>)))))"

section \<open>Emulated BMCs (bmc.go)\<close>

definition attachKCS :: "qemu_env \<Rightarrow> bool" where
  "attachKCS env \<longleftrightarrow> qe_GOOS env = ''linux'' \<and> qe_GOARCH env = ''amd64''"

definition statePath :: "machines \<Rightarrow> string" where
  "statePath m = filepath_Join (mc_stateDir m) (qo_Name (mc_options m))"

definition bmcSocketPath :: "string \<Rightarrow> string \<Rightarrow> string" where
  "bmcSocketPath state nodeName = filepath_Join state (nodeName @ ''-bmc.sock'')"

definition bmcExtraQEMUArgs :: "string \<Rightarrow> string \<Rightarrow> string list" where
  "bmcExtraQEMUArgs socketPath reconnectOpt =
     [''-chardev'', ''socket,id=ipmi0,path='' @ socketPath @ '','' @ reconnectOpt,
      ''-device'', ''ipmi-bmc-extern,id=bmc0,chardev=ipmi0'',
      ''-device'', ''isa-ipmi-kcs,bmc=bmc0'']"

fun first_path :: "qemu_env \<Rightarrow> string list \<Rightarrow> string" where
  "first_path env [] = []"
| "first_path env (candidate # rest) = (case qe_LookPath env candidate of Inr path \<Rightarrow> path | Inl e \<Rightarrow> first_path env rest)"

definition qemuReconnectOpt :: "qemu_env \<Rightarrow> string" where
  "qemuReconnectOpt env =
     (let binary = first_path env [''qemu-system-x86_64'', ''qemu-kvm'', ''/usr/libexec/qemu-kvm'']
      in if binary = [] then ''reconnect-ms=2000''
         else (let out = qe_ChardevHelp env binary
               in if contains_sub out ''reconnect-ms'' then ''reconnect-ms=2000''
                  else if contains_sub out ''reconnect'' then ''reconnect=2''
                  else ''reconnect-ms=2000''))"

fun close_all :: "vbmc_server list \<Rightarrow> sockets \<Rightarrow> sockets" where
  "close_all [] s = s"
| "close_all (srv # servers) s = close_all servers (vbmc_Close srv s)"

text \<open>The loop of \<open>serveBMCs\<close> over the nodes; \<open>servers\<close> are the ones started so far.\<close>

fun start_bmcs ::
  "qemu_env \<Rightarrow> machines \<Rightarrow> net_ip \<Rightarrow> node_info list \<Rightarrow> vbmc_server list \<Rightarrow> sockets \<Rightarrow> (err + vbmc_server list) \<times> sockets" where
  "start_bmcs env m gateway [] servers s = (Inr servers, s)"
| "start_bmcs env m gateway (node # nodes) servers s =
     (let vmSocket = (if attachKCS env then bmcSocketPath (statePath m) (ni_Name node) else [])
      in case vbmc_New (qe_vbmc env (length servers))
                \<lparr>vo_BMCIP = bmcLoopbackIP, vo_VMSocket = vmSocket,
                 vo_PowerAPIURL = ''http://'' @ join_host_port (qe_IPText env gateway) (itoa (ni_APIPort node)),
                 vo_Username = qo_VirtualBMCUsername (mc_options m), vo_Password = qo_VirtualBMCPassword (mc_options m),
                 vo_MaxUsers = bmcMaxUsers\<rparr> s of
           (Inl e, s1) \<Rightarrow>
             (Inl (Wrapped (''failed to start virtual BMC for node '' @ quoted (ni_Name node)) e), close_all servers s1)
         | (Inr srv, s1) \<Rightarrow> start_bmcs env m gateway nodes (servers @ [srv]) s1)"

text \<open>\<open>serveBMCs\<close> up to the point where the servers run; \<open>served\<close> is how running them ends.\<close>

definition serveBMCs ::
  "qemu_env \<Rightarrow> machines \<Rightarrow> (vbmc_server list \<Rightarrow> err option) \<Rightarrow> cluster_info \<Rightarrow> sockets \<Rightarrow> err option \<times> sockets" where
  "serveBMCs env m served info s =
     (if ci_GatewayAddrs info = [] then (Some (Plain ''cluster has no gateway address''), s)
      else (case start_bmcs env m (hd (ci_GatewayAddrs info)) (ci_Nodes info @ ci_ExtraNodes info) [] s of
              (Inl e, s1) \<Rightarrow> (Some e, s1)
            | (Inr servers, s1) \<Rightarrow>
                (case served servers of
                   None \<Rightarrow> (None, close_all servers s1)
                 | Some e \<Rightarrow> (if err_is e CtxCanceled then None else Some e, close_all servers s1))))"

section \<open>Creating, loading and destroying (machines.go)\<close>

definition ipxeBootFilename :: "qemu_env \<Rightarrow> qemu_options \<Rightarrow> string" where
  "ipxeBootFilename env options =
     (if \<not> qo_PXEBootViaDHCPD options then []
      else if \<not> qo_UEFIEnabled options then ''undionly.kpxe''
      else if qe_GOARCH env = ''arm64'' then ''snp-arm64.efi''
      else ''snp.efi'')"

fun node_requests ::
  "qemu_env \<Rightarrow> machines \<Rightarrow> string \<Rightarrow> string \<Rightarrow> string option \<Rightarrow> nat list \<Rightarrow> err + node_request list" where
  "node_requests env m tftpServer bootFilename reconnectOpt [] = Inr []"
| "node_requests env m tftpServer bootFilename reconnectOpt (i # is) =
     (let uuid = qe_UUID env i
      in case qe_NthIP env (mc_subnetCIDR m) (i + 2) of
           Inl e \<Rightarrow> Inl (Wrapped (''failed to calculate offset '' @ itoa (int i + 2)) e)
         | Inr ip \<Rightarrow>
             (let req = \<lparr>nr_Name = uuid, nr_IPs = [ip], nr_Memory = qo_MemSize (mc_options m), nr_NanoCPUs = mc_nanoCPUs m,
                         nr_Disks = [(qo_DiskSize (mc_options m), diskDriver)], nr_SkipInjectingConfig = True, nr_UUID = uuid,
                         nr_PXEBooted = True, nr_DefaultBootOrder = qo_DefaultBootOrder (mc_options m),
                         nr_TFTPServer = tftpServer, nr_IPXEBootFilename = bootFilename,
                         nr_ExtraQEMUArgs =
                           (case reconnectOpt of
                              None \<Rightarrow> []
                            | Some opt \<Rightarrow> bmcExtraQEMUArgs (bmcSocketPath (statePath m) uuid) opt)\<rparr>
              in case node_requests env m tftpServer bootFilename reconnectOpt is of
                   Inl e \<Rightarrow> Inl e
                 | Inr reqs \<Rightarrow> Inr (req # reqs)))"

text \<open>
  A negative number of machines makes \<open>make\<close> panic when it allocates the node requests; the panic is kept as an error.
\<close>

definition cluster_request_of :: "qemu_env \<Rightarrow> machines \<Rightarrow> err + cluster_request" where
  "cluster_request_of env m =
     (case qe_NthIP env (mc_subnetCIDR m) 1 of
        Inl e \<Rightarrow> Inl (Wrapped ''failed to get gateway address'' e)
      | Inr gatewayAddr \<Rightarrow>
          (let tftpServer = (if qo_PXEBootViaDHCPD (mc_options m) then qe_IPText env gatewayAddr else []);
               attachBMCKCS = (qo_VirtualBMC (mc_options m) \<and> attachKCS env);
               reconnectOpt = (if attachBMCKCS then Some (qemuReconnectOpt env) else None)
           in if qo_NumMachines (mc_options m) < 0 then Inl (Plain ''runtime error: makeslice: cap out of range'')
              else case node_requests env m tftpServer (ipxeBootFilename env (mc_options m)) reconnectOpt
                     [0..<nat (qo_NumMachines (mc_options m))] of
                Inl e \<Rightarrow> Inl e
              | Inr nodes \<Rightarrow>
                  Inr \<lparr>cr_Name = qo_Name (mc_options m), cr_CIDRs = [mc_subnetCIDR m], cr_GatewayAddrs = [gatewayAddr],
                       cr_MTU = qo_MTU (mc_options m), cr_Nameservers = mc_nameservers m,
                       cr_CNI = (filepath_Join (mc_cniDir m) ''bin'', filepath_Join (mc_cniDir m) ''conf.d'',
                                 filepath_Join (mc_cniDir m) ''cache'', qo_CNIBundleURL (mc_options m)),
                       cr_SelfExecutable = qo_TalosctlPath (mc_options m), cr_StateDirectory = mc_stateDir m,
                       cr_Nodes = nodes, cr_UEFI = qo_UEFIEnabled (mc_options m)\<rparr>))"

definition createNew :: "qemu_env \<Rightarrow> machines \<Rightarrow> err + cluster_info" where
  "createNew env m =
     (case cluster_request_of env m of
        Inl e \<Rightarrow> Inl e
      | Inr request \<Rightarrow>
          (case qe_Create env request of
             Inl e \<Rightarrow> Inl (Wrapped ''failed to create machines'' e)
           | Inr cluster \<Rightarrow> Inr cluster))"

definition loadExisting :: "qemu_env \<Rightarrow> machines \<Rightarrow> err + cluster_info option" where
  "loadExisting env m =
     (case qe_Reflect env (qo_Name (mc_options m)) (mc_stateDir m) of
        Inl (e, notExist) \<Rightarrow> if \<not> notExist then Inl (Wrapped ''failed to load existing cluster'' e) else Inr None
      | Inr cluster \<Rightarrow> Inr (Some cluster))"

definition Machines_Run ::
  "qemu_env \<Rightarrow> (vbmc_server list \<Rightarrow> err option) \<Rightarrow> machines \<Rightarrow> sockets \<Rightarrow> err option \<times> sockets" where
  "Machines_Run env served m s =
     (case qe_Factory env of
        Some e \<Rightarrow> (Some (Wrapped ''failed to create provisioner'' e), s)
      | None \<Rightarrow>
     (case loadExisting env m of
        Inl e \<Rightarrow> (Some e, s)
      | Inr (Some cluster) \<Rightarrow>
          if qo_VirtualBMC (mc_options m)
          then (Some (Plain ''virtual BMC machines cannot be re-attached - destroy and recreate the machines''), s)
          else (None, s)
      | Inr None \<Rightarrow>
     (case createNew env m of
        Inl e \<Rightarrow> (Some e, s)
      | Inr cluster \<Rightarrow>
          if qo_VirtualBMC (mc_options m) then serveBMCs env m served cluster s else (None, s))))"

text \<open>The result, and the directories removed: that of the set, on every path, unless removing it fails, which is only logged.\<close>

definition Machines_Destroy :: "qemu_env \<Rightarrow> machines \<Rightarrow> err option \<times> string list" where
  "Machines_Destroy env m =
     (let dir = filepath_Join (mc_stateDir m) (qo_Name (mc_options m))
      in LogErr (\<lambda>removed. case qe_RemoveAll env dir of None \<Rightarrow> (None, removed @ [dir]) | Some e \<Rightarrow> (Some e, removed))
     (case qe_Factory env of
         Some e \<Rightarrow> Some (Wrapped ''failed to create provisioner'' e)
       | None \<Rightarrow>
      (case qe_Reflect env (qo_Name (mc_options m)) (mc_stateDir m) of
         Inl (e, notExist) \<Rightarrow> if notExist then None else Some (Wrapped ''failed to load existing cluster while clearing state'' e)
       | Inr cluster \<Rightarrow>
      (case qe_Destroy env of
         None \<Rightarrow> None
       | Some e \<Rightarrow> if contains_sub (err_text e) ''no such network interface'' then None
                   else Some (Wrapped ''failed to destroy cluster'' e))), []))"

section \<open>Lemmas\<close>

lemma close_all_open:
  "set (sk_open (close_all servers s)) = set (sk_open s) - (\<Union>srv \<in> set servers. server_sockets srv)"
  by (induction servers arbitrary: s) (auto simp: vbmc_Close_open)

text \<open>While BMCs are started, the open sockets are those open before and those of the servers.\<close>

lemma start_bmcs_sockets:
  assumes "start_bmcs env m gateway nodes servers s = (r, s')" and "sockets_ok s" and "\<forall>k \<in> base. k < n" and "n \<le> sk_next s"
    and "set (sk_open s) = base \<union> (\<Union>srv \<in> set servers. server_sockets srv)"
    and "\<forall>srv \<in> set servers. \<forall>k \<in> server_sockets srv. n \<le> k"
  shows "case r of Inl e \<Rightarrow> set (sk_open s') = base | Inr servers' \<Rightarrow> set (sk_open (close_all servers' s')) = base"
  using assms
proof (induction nodes arbitrary: servers s)
  case Nil
  then have "r = Inr servers" "s' = s" by simp_all
  moreover have "base \<inter> (\<Union>srv \<in> set servers. server_sockets srv) = {}" using Nil.prems(3,6) by fastforce
  ultimately show ?case using Nil.prems(5) by (auto simp: close_all_open)
next
  case (Cons node nodes)
  obtain r1 s1 where v: "vbmc_New (qe_vbmc env (length servers))
      \<lparr>vo_BMCIP = bmcLoopbackIP, vo_VMSocket = (if attachKCS env then bmcSocketPath (statePath m) (ni_Name node) else []),
       vo_PowerAPIURL = ''http://'' @ join_host_port (qe_IPText env gateway) (itoa (ni_APIPort node)),
       vo_Username = qo_VirtualBMCUsername (mc_options m), vo_Password = qo_VirtualBMCPassword (mc_options m),
       vo_MaxUsers = bmcMaxUsers\<rparr> s = (r1, s1)" by (metis prod.exhaust)
  have "new_sockets s r1 s1" by (rule vbmc_New_sockets [OF Cons.prems(2) v])
  then have n: "sockets_ok s1" "sk_next s \<le> sk_next s1"
    "case r1 of Inl e \<Rightarrow> set (sk_open s1) = set (sk_open s)
     | Inr srv \<Rightarrow> set (sk_open s1) = set (sk_open s) \<union> server_sockets srv \<and> (\<forall>k \<in> server_sockets srv. sk_next s \<le> k)"
    by (simp_all add: new_sockets_def)
  have disj: "base \<inter> (\<Union>srv \<in> set servers. server_sockets srv) = {}" using Cons.prems(3,6) by fastforce
  show ?case
  proof (cases r1)
    case (Inl e)
    then have "r = Inl (Wrapped (''failed to start virtual BMC for node '' @ quoted (ni_Name node)) e)" "s' = close_all servers s1"
      using Cons.prems(1) v by (simp_all add: Let_def)
    with n Inl disj Cons.prems(5) show ?thesis by (auto simp: close_all_open)
  next
    case (Inr srv)
    have go: "start_bmcs env m gateway nodes (servers @ [srv]) s1 = (r, s')"
      using Cons.prems(1) v Inr by (simp add: Let_def)
    show ?thesis
    proof (rule Cons.IH [OF go _ Cons.prems(3)])
      show "sockets_ok s1" "n \<le> sk_next s1" using n Cons.prems(4) by auto
      show "set (sk_open s1) = base \<union> (\<Union>srv \<in> set (servers @ [srv]). server_sockets srv)"
        using n Inr Cons.prems(5) by auto
      show "\<forall>srv \<in> set (servers @ [srv]). \<forall>k \<in> server_sockets srv. n \<le> k"
        using n Inr Cons.prems(4,6) by fastforce
    qed
  qed
qed

lemma serveBMCs_sockets:
  assumes "serveBMCs env m served info s = (r, s')" and "sockets_ok s"
  shows "set (sk_open s') = set (sk_open s)"
proof (cases "ci_GatewayAddrs info = []")
  case True
  with assms(1) show ?thesis by (simp add: serveBMCs_def)
next
  case False
  obtain r1 s1 where b: "start_bmcs env m (hd (ci_GatewayAddrs info)) (ci_Nodes info @ ci_ExtraNodes info) [] s = (r1, s1)"
    by (metis prod.exhaust)
  have "\<forall>k \<in> set (sk_open s). k < sk_next s" using assms(2) by (simp add: sockets_ok_def)
  from start_bmcs_sockets [OF b assms(2) this order_refl] have
    "case r1 of Inl e \<Rightarrow> set (sk_open s1) = set (sk_open s) | Inr servers' \<Rightarrow> set (sk_open (close_all servers' s1)) = set (sk_open s)"
    by simp
  with assms(1) False b show ?thesis
    by (auto simp: serveBMCs_def split: sum.splits option.splits)
qed

lemma node_requests_nodes:
  "node_requests env m tftp boot opt is = Inr reqs \<Longrightarrow>
     length reqs = length is \<and> (\<forall>req \<in> set reqs. nr_TFTPServer req = tftp \<and> nr_IPXEBootFilename req = boot \<and> nr_PXEBooted req)"
  by (induction "is" arbitrary: reqs) (auto simp: Let_def split: sum.splits)

section \<open>A sample set of machines\<close>

text \<open>Two machines on linux/amd64; the second emulated BMC cannot seed its administrator.\<close>

definition sample_vbmc :: "nat \<Rightarrow> vbmc_env" where
  "sample_vbmc n =
     \<lparr>ve_parseIP = (\<lambda>s. ip_IPv4 127 0 0 1), ve_listenUDP = (\<lambda>k ip. Inr (Some 40000)), ve_remove = (\<lambda>p. None),
      ve_listenUnix = (\<lambda>p. None), ve_userAdd = (\<lambda>k u. if n = 0 then None else Some (Plain ''user exists'')), ve_maxUsers = 16\<rparr>"

definition sample_qemu :: qemu_env where
  "sample_qemu =
     \<lparr>qe_GOOS = ''linux'', qe_GOARCH = ''amd64'', qe_TalosDirectory = Inr ''/t'', qe_Stat = (\<lambda>p. Inl CtxCanceled),
      qe_LookPath = (\<lambda>p. Inr p), qe_ChardevHelp = (\<lambda>p. ''reconnect''), qe_ParsePrefix = (\<lambda>p. Inr ([10, 5, 0, 0], 24)),
      qe_ParseAddr = (\<lambda>p. Inr [1, 1, 1, 1]), qe_ParseRat = (\<lambda>p. Some (3, 1)),
      qe_NthIP = (\<lambda>p n. Inr [10, 5, 0, word_of_nat n]), qe_IPText = (\<lambda>ip. ''10.5.0.1''), qe_UUID = (\<lambda>n. [CHR ''u'', char_of (n + 48)]),
      qe_Factory = None, qe_Reflect = (\<lambda>n d. Inl (Plain ''no such file'', True)),
      qe_Create = (\<lambda>r. Inr \<lparr>ci_GatewayAddrs = [[10, 5, 0, 1]], ci_Nodes = [],
        ci_ExtraNodes = [\<lparr>ni_Name = ''u0'', ni_APIPort = 1\<rparr>, \<lparr>ni_Name = ''u1'', ni_APIPort = 2\<rparr>]\<rparr>),
      qe_Destroy = None, qe_RemoveAll = (\<lambda>p. None), qe_vbmc = sample_vbmc\<rparr>"

definition sample_machines :: machines where
  "sample_machines =
     \<lparr>mc_subnetCIDR = ([10, 5, 0, 0], 24), mc_stateDir = ''/t/clusters'', mc_cniDir = ''/t/cni'', mc_nameservers = [],
      mc_options = Qemu_DefaultOptions\<lparr>qo_VirtualBMC := True, qo_PXEBootViaDHCPD := True, qo_UEFIEnabled := True,
        qo_NumMachines := 2\<rparr>, mc_nanoCPUs = 3000000000\<rparr>"

definition no_sockets :: sockets where "no_sockets = \<lparr>sk_next = 0, sk_open = []\<rparr>"

section \<open>Properties\<close>


lemma sample_request: "\<exists>request. cluster_request_of sample_qemu sample_machines = Inr request"
  by (simp add: cluster_request_of_def sample_qemu_def sample_machines_def Qemu_DefaultOptions_def Let_def upt_rec)

lemma vbmc_New_seed_fails:
  assumes "\<And>u p. isl (seedAdmin env u p)"
  shows "\<exists>e s'. vbmc_New env opts s = (Inl e, s')"
proof -
  have "\<exists>e s'. vbmc_seed env opts conn vm ip port s2 = (Inl e, s')" for conn vm ip port s2
    using assms [of "vo_Username opts" "vo_Password opts"] by (auto simp: vbmc_seed_def isl_def)
  then show ?thesis
    by (auto simp: vbmc_New_def open_socket_def split: sum.splits option.splits prod.splits)
qed

lemma sample_second_fails: "isl (fst (start_bmcs sample_qemu sample_machines gw [n1, n2] [] no_sockets))"
proof -
  have "isl (seedAdmin (sample_vbmc (Suc 0)) u p)" for u p by (simp add: seedAdmin_def sample_vbmc_def)
  then have "\<exists>e s'. vbmc_New (sample_vbmc (Suc 0)) opts s = (Inl e, s')" for opts s by (rule vbmc_New_seed_fails)
  then obtain e s' where two: "vbmc_New (sample_vbmc (Suc 0)) opts s = (Inl (e opts s), s' opts s)" for opts s by metis
  have q: "qe_vbmc sample_qemu = sample_vbmc" by (simp add: sample_qemu_def)
  show ?thesis
    by (simp add: Let_def q two split: sum.splits prod.splits)
qed


text \<open>
  With the DHCP server of the provisioner in place of the provider's proxy, every machine of the requested
  number boots over the network, from the gateway, the binary the proxy would have offered a client of its
  firmware: the provider's TFTP server answers the boot file name with that iPXE binary.
\<close>

theorem dhcpd_boot_file_served:
  assumes "cluster_request_of env m = Inr request" and "qo_PXEBootViaDHCPD (mc_options m)"
    and "patchBinaries io script ca = Inr ipxe" and "bootFiles order load path ipxe = Inr files"
    and "fw = (if \<not> qo_UEFIEnabled (mc_options m) then FirmwareX86PC
               else if qe_GOARCH env = ''arm64'' then FirmwareARMEFI else FirmwareX86EFI)"
  shows "int (length (cr_Nodes request)) = qo_NumMachines (mc_options m) \<and>
    (\<forall>node \<in> set (cr_Nodes request). nr_PXEBooted node \<and>
       nr_TFTPServer node = qe_IPText env (hd (cr_GatewayAddrs request)) \<and>
       ipxe (loader_key fw) \<noteq> None \<and> tftp_lookup files (nr_IPXEBootFilename node) = ipxe (loader_key fw))"
proof -
  obtain gw opt where gw: "cr_GatewayAddrs request = [gw]" and n: "node_requests env m (qe_IPText env gw)
      (ipxeBootFilename env (mc_options m)) opt [0..<nat (qo_NumMachines (mc_options m))] = Inr (cr_Nodes request)"
    and pos: "0 \<le> qo_NumMachines (mc_options m)"
    using assms(1,2) by (auto simp: cluster_request_of_def Let_def split: sum.splits if_splits)
  note nodes = node_requests_nodes [OF n]
  have k: "ipxeBootFilename env (mc_options m) = loader_key fw" using assms(2,5) by (simp add: ipxeBootFilename_def)
  have "loader_key fw \<in> {''ipxe.efi'', ''snp.efi'', ''ipxe-arm64.efi'', ''snp-arm64.efi'',
      ''amd64/ipxe.efi'', ''amd64/snp.efi'', ''arm64/ipxe.efi'', ''arm64/snp.efi'', ''undionly.kpxe'', ''undionly.kpxe.0''}"
    using assms(5) by simp
  then obtain c where c: "ipxe (loader_key fw) = Some c" and cl: "clean_name (loader_key fw)"
    using patchBinaries_files [OF assms(3), THEN conjunct1] ipxe_names_plain [of "loader_key fw"]
    unfolding plain_key_def by blast
  have "tftp_lookup files (loader_key fw) = Some c"
    by (rule tftp.serves_extension [OF bootFiles_extends [OF assms(4)] cl c])
  with nodes k c gw pos show ?thesis by simp
qed

text \<open>A negative number of machines is not refused: bringing them up panics.\<close>

lemma negative_num_machines_panics:
  assumes "qo_NumMachines (mc_options m) < 0" and "qe_NthIP env (mc_subnetCIDR m) 1 = Inr gw"
  shows "createNew env m = Inl (Plain ''runtime error: makeslice: cap out of range'')"
  using assms by (simp add: createNew_def cluster_request_of_def Let_def)

theorem dhcpd_boot_file_served_witness:
  "\<exists>request files. cluster_request_of sample_qemu sample_machines = Inr request \<and> length (cr_Nodes request) = 2 \<and>
     (\<forall>node \<in> set (cr_Nodes request). tftp_lookup files (nr_IPXEBootFilename node) \<noteq> None)"
proof -
  obtain request where r: "cluster_request_of sample_qemu sample_machines = Inr request" using sample_request by blast
  obtain ipxe where p: "patchBinaries sample_io (bytes_of ''#!ipxe'') [] = Inr ipxe"
    using sample_io_patched by (cases "patchBinaries sample_io (bytes_of ''#!ipxe'') []") auto
  have b: "bootFiles sample_order (\<lambda>d. Inl CtxCanceled) [] ipxe = Inr ipxe" by (simp add: bootFiles_def)
  have o: "qo_PXEBootViaDHCPD (mc_options sample_machines)" "qo_UEFIEnabled (mc_options sample_machines)"
    "qo_NumMachines (mc_options sample_machines) = 2" by (simp_all add: sample_machines_def)
  from dhcpd_boot_file_served [OF r o(1) p b refl] o r show ?thesis by (intro exI [of _ request] exI [of _ ipxe]) auto
qed

end
