(* ===== verification/Cmd.thy ===== *)
theory Cmd
  imports Startup Qemu
begin

text \<open>
  The two commands, \<open>cmd/provider/main.go\<close> and \<open>cmd/qemu-up/main.go\<close>: the flags they register, with the variable each one
  sets, and what they run. Parsing the command line is the flag library's: it hands each flag given, in order, a value of the
  flag's type (a list flag that is given again, what was collected so far), refuses an unknown flag or a value of another
  type, and panics when a flag is registered twice. The defaults are
  the initial values of the variables. The texts of the flags, the logger and the signal handling are left out.
\<close>

datatype flag_value = FString string | FBool bool | FInt int | FUint64 "64 word" | FStrings "string list"

type_synonym 'c flag_setter = "flag_value \<Rightarrow> 'c \<Rightarrow> 'c option"

fun set_flags :: "(string \<times> 'c flag_setter) list \<Rightarrow> (string \<times> flag_value) list \<Rightarrow> 'c \<Rightarrow> err + 'c" where
  "set_flags flags [] c = Inr c"
| "set_flags flags ((name, v) # args) c =
     (case map_of flags name of
        None \<Rightarrow> Inl (Plain (''unknown flag: --'' @ name))
      | Some setter \<Rightarrow>
          (case setter v c of
             None \<Rightarrow> Inl (Plain (''invalid argument for --'' @ name))
           | Some c' \<Rightarrow> set_flags flags args c'))"

text \<open>
  \<open>initLogger\<close>, the same in both commands, and the name both take from \<open>internal/version\<close>: \<open>path\<close> is what the build info says.
\<close>

datatype log_level = DebugLevel | InfoLevel | FatalLevel

record logger_config =
  lc_development :: bool
  lc_capital_color :: bool
  lc_level :: log_level
  lc_stacktrace :: log_level

definition initLogger :: "bool \<Rightarrow> logger_config" where
  "initLogger debug =
     (if debug then \<lparr>lc_development = True, lc_capital_color = True, lc_level = DebugLevel, lc_stacktrace = FatalLevel\<rparr>
      else \<lparr>lc_development = False, lc_capital_color = False, lc_level = InfoLevel, lc_stacktrace = FatalLevel\<rparr>)"

definition version_Name :: "string option \<Rightarrow> err + string" where
  "version_Name path =
     (case path of
        None \<Rightarrow> Inl (Plain ''cannot read build info, something is very wrong'')
      | Some p \<Rightarrow>
          if has_prefix p ''github.com/siderolabs/'' then Inr (rev (takeWhile (\<lambda>c. c \<noteq> CHR ''/'') (rev p)))
          else Inr ''community-project'')"

lemma version_Name_example: "version_Name (Some ''github.com/siderolabs/omni'') = Inr ''omni''"
  by (simp add: version_Name_def has_prefix_def)

section \<open>The provider\<close>

text \<open>The variables the flags are bound to; the provider's ID is the one of \<open>meta.go\<close>.\<close>

record provider_cmd =
  pc_options :: provider_options
  pc_debug :: bool
  pc_ProviderID :: string

definition provider_cmd_defaults :: "string \<Rightarrow> provider_cmd" where
  "provider_cmd_defaults omniEndpointEnv =
     \<lparr>pc_options = DefaultOptions\<lparr>opt_OmniAPIEndpoint := omniEndpointEnv\<rparr>, pc_debug = False, pc_ProviderID = ''bare-metal''\<rparr>"

definition string_flag :: "(string \<Rightarrow> provider_options \<Rightarrow> provider_options) \<Rightarrow> provider_cmd flag_setter" where
  "string_flag f v c = (case v of FString x \<Rightarrow> Some (c\<lparr>pc_options := f x (pc_options c)\<rparr>) | _ \<Rightarrow> None)"

definition bool_flag :: "(bool \<Rightarrow> provider_options \<Rightarrow> provider_options) \<Rightarrow> provider_cmd flag_setter" where
  "bool_flag f v c = (case v of FBool x \<Rightarrow> Some (c\<lparr>pc_options := f x (pc_options c)\<rparr>) | _ \<Rightarrow> None)"

definition int_flag :: "(int \<Rightarrow> provider_options \<Rightarrow> provider_options) \<Rightarrow> provider_cmd flag_setter" where
  "int_flag f v c = (case v of FInt x \<Rightarrow> Some (c\<lparr>pc_options := f x (pc_options c)\<rparr>) | _ \<Rightarrow> None)"

definition strings_flag :: "(string list \<Rightarrow> provider_options \<Rightarrow> provider_options) \<Rightarrow> provider_cmd flag_setter" where
  "strings_flag f v c = (case v of FStrings x \<Rightarrow> Some (c\<lparr>pc_options := f x (pc_options c)\<rparr>) | _ \<Rightarrow> None)"

definition id_flag :: "provider_cmd flag_setter" where
  "id_flag v c = (case v of FString x \<Rightarrow> Some (c\<lparr>pc_ProviderID := x\<rparr>) | _ \<Rightarrow> None)"

definition debug_flag :: "provider_cmd flag_setter" where
  "debug_flag v c = (case v of FBool x \<Rightarrow> Some (c\<lparr>pc_debug := x\<rparr>) | _ \<Rightarrow> None)"

definition provider_flags :: "bool \<Rightarrow> (string \<times> provider_cmd flag_setter) list" where
  "provider_flags isDebugBuild =
     [(''id'', id_flag),
      (''debug'', debug_flag),
      (''api-listen-address'', string_flag (\<lambda>v o'. o'\<lparr>opt_APIListenAddress := v\<rparr>)),
      (''api-advertise-address'', string_flag (\<lambda>v o'. o'\<lparr>opt_APIAdvertiseAddress := v\<rparr>)),
      (''api-port'', int_flag (\<lambda>v o'. o'\<lparr>opt_APIPort := v\<rparr>)),
      (''omni-api-endpoint'', string_flag (\<lambda>v o'. o'\<lparr>opt_OmniAPIEndpoint := v\<rparr>)),
      (''provider-name'', string_flag (\<lambda>v o'. o'\<lparr>opt_Name := v\<rparr>)),
      (''provider-description'', string_flag (\<lambda>v o'. o'\<lparr>opt_Description := v\<rparr>)),
      (''use-local-boot-assets'', bool_flag (\<lambda>v o'. o'\<lparr>opt_UseLocalBootAssets := v\<rparr>)),
      (''boot-assets-path'', string_flag (\<lambda>v o'. o'\<lparr>opt_BootAssetsPath := v\<rparr>)),
      (''dhcp-proxy-iface-or-ip'', string_flag (\<lambda>v o'. o'\<lparr>opt_DHCPProxyIfaceOrIP := v\<rparr>)),
      (''disable-dhcp-proxy-broadcast'', bool_flag (\<lambda>v o'. o'\<lparr>opt_DisableDHCPProxyBroadcast := v\<rparr>)),
      (''agent-mode-talos-version'', string_flag (\<lambda>v o'. o'\<lparr>opt_AgentModeTalosVersion := v\<rparr>)),
      (''agent-test-mode'', bool_flag (\<lambda>v o'. o'\<lparr>opt_AgentTestMode := v\<rparr>)),
      (''api-power-mgmt-state-dir'', string_flag (\<lambda>v o'. o'\<lparr>opt_APIPowerMgmtStateDir := v\<rparr>)),
      (''boot-from-disk-method'', string_flag (\<lambda>v o'. o'\<lparr>opt_BootFromDiskMethod := v\<rparr>)),
      (''ipmi-pxe-boot-mode'', string_flag (\<lambda>v o'. o'\<lparr>opt_IPMIPXEBootMode := v\<rparr>)),
      (''machine-labels'', strings_flag (\<lambda>v o'. o'\<lparr>opt_MachineLabels := v\<rparr>)),
      (''insecure-skip-tls-verify'', bool_flag (\<lambda>v o'. o'\<lparr>opt_InsecureSkipTLSVerify := v\<rparr>)),
      (''rpi-firmware-path'', string_flag (\<lambda>v o'. o'\<lparr>opt_RPiFirmwarePath := v\<rparr>)),
      (''always-netboot'', bool_flag (\<lambda>v o'. o'\<lparr>opt_AlwaysNetboot := v\<rparr>)),
      (''allow-machines-without-bmc'', bool_flag (\<lambda>v o'. o'\<lparr>opt_AllowMachinesWithoutBMC := v\<rparr>)),
      (''min-reboot-interval'', int_flag (\<lambda>v o'. o'\<lparr>opt_MinRebootInterval := v\<rparr>)),
      (''secure-boot-enabled'', bool_flag (\<lambda>v o'. o'\<lparr>opt_SecureBootEnabled := v\<rparr>)),
      (''extra-machine-config-path'', string_flag (\<lambda>v o'. o'\<lparr>opt_ExtraMachineConfigPath := v\<rparr>))]
     @ (if isDebugBuild then [(''clear-state'', bool_flag (\<lambda>v o'. o'\<lparr>opt_ClearState := v\<rparr>))] else []) @
     [(''enable-resource-cache'', bool_flag (\<lambda>v o'. o'\<lparr>opt_EnableResourceCache := v\<rparr>)),
      (''disable-dhcp-proxy'', bool_flag (\<lambda>v o'. o'\<lparr>opt_DisableDHCPProxy := v\<rparr>)),
      (''tls-enabled'', bool_flag (\<lambda>v o'. o'\<lparr>opt_TLS := (opt_TLS o')\<lparr>TLS_Enabled := v\<rparr>\<rparr>)),
      (''tls-api-port'', int_flag (\<lambda>v o'. o'\<lparr>opt_TLS := (opt_TLS o')\<lparr>TLS_APIPort := v\<rparr>\<rparr>)),
      (''tls-agent-skip-verify'', bool_flag (\<lambda>v o'. o'\<lparr>opt_TLS := (opt_TLS o')\<lparr>AgentSkipVerify := v\<rparr>\<rparr>)),
      (''tls-ca-ttl'', int_flag (\<lambda>v o'. o'\<lparr>opt_TLS := (opt_TLS o')\<lparr>CATTL := v\<rparr>\<rparr>)),
      (''tls-cert-ttl'', int_flag (\<lambda>v o'. o'\<lparr>opt_TLS := (opt_TLS o')\<lparr>CertTTL := v\<rparr>\<rparr>)),
      (''tls-ca-cert-file'', string_flag (\<lambda>v o'. o'\<lparr>opt_TLS := (opt_TLS o')\<lparr>CACertFile := v\<rparr>\<rparr>)),
      (''tls-cert-file'', string_flag (\<lambda>v o'. o'\<lparr>opt_TLS := (opt_TLS o')\<lparr>CertFile := v\<rparr>\<rparr>)),
      (''tls-key-file'', string_flag (\<lambda>v o'. o'\<lparr>opt_TLS := (opt_TLS o')\<lparr>KeyFile := v\<rparr>\<rparr>)),
      (''tls-custom-ipxe-ca-cert-file'', string_flag (\<lambda>v o'. o'\<lparr>opt_TLS := (opt_TLS o')\<lparr>CustomIPXECACertFile := v\<rparr>\<rparr>)),
      (''redfish-use-always'', bool_flag (\<lambda>v o'. o'\<lparr>opt_Redfish := (opt_Redfish o')\<lparr>UseAlways := v\<rparr>\<rparr>)),
      (''redfish-use-when-available'', bool_flag (\<lambda>v o'. o'\<lparr>opt_Redfish := (opt_Redfish o')\<lparr>UseWhenAvailable := v\<rparr>\<rparr>)),
      (''redfish-use-https'', bool_flag (\<lambda>v o'. o'\<lparr>opt_Redfish := (opt_Redfish o')\<lparr>UseHTTPS := v\<rparr>\<rparr>)),
      (''redfish-insecure-skip-tls-verify'', bool_flag (\<lambda>v o'. o'\<lparr>opt_Redfish := (opt_Redfish o')\<lparr>InsecureSkipTLSVerify := v\<rparr>\<rparr>)),
      (''redfish-port'', int_flag (\<lambda>v o'. o'\<lparr>opt_Redfish := (opt_Redfish o')\<lparr>Rf_Port := v\<rparr>\<rparr>)),
      (''redfish-set-boot-source-override-mode'', bool_flag (\<lambda>v o'. o'\<lparr>opt_Redfish := (opt_Redfish o')\<lparr>SetBootSourceOverrideMode := v\<rparr>\<rparr>)),
      (''wipe-with-zeroes'', bool_flag (\<lambda>v o'. o'\<lparr>opt_AgentClient := (opt_AgentClient o')\<lparr>WipeWithZeroes := v\<rparr>\<rparr>)),
      (''agent-call-timeout'', int_flag (\<lambda>v o'. o'\<lparr>opt_AgentClient := (opt_AgentClient o')\<lparr>CallTimeout := v\<rparr>\<rparr>)),
      (''agent-fast-wipe-timeout'', int_flag (\<lambda>v o'. o'\<lparr>opt_AgentClient := (opt_AgentClient o')\<lparr>FastWipeTimeout := v\<rparr>\<rparr>)),
      (''agent-zeroes-wipe-timeout'', int_flag (\<lambda>v o'. o'\<lparr>opt_AgentClient := (opt_AgentClient o')\<lparr>ZeroesWipeTimeout := v\<rparr>\<rparr>))]"

text \<open>The command: parse the flags, then \<open>run\<close> the provider with them.\<close>

definition provider_run :: "'d run_env \<Rightarrow> provider_options \<Rightarrow> omni_state \<Rightarrow> (err + wiring) \<times> omni_state" where
  "provider_run env options s =
     (case provider_Run env options s of
        (Inl e, s') \<Rightarrow> (Inl (Wrapped ''failed to run provider'' e), s')
      | (Inr w, s') \<Rightarrow> (Inr w, s'))"

text \<open>
  What the root command runs, with the logger first; \<open>build\<close> is the logging library's \<open>Build\<close>. The error that \<open>main\<close> ends with
  gives the exit status and the text.
\<close>

definition provider_RunE ::
  "(logger_config \<Rightarrow> err option) \<Rightarrow> bool \<Rightarrow> 'd run_env \<Rightarrow> provider_options \<Rightarrow> omni_state \<Rightarrow> (err + wiring) \<times> omni_state" where
  "provider_RunE build debug env options s =
     (case build (initLogger debug) of
        Some e \<Rightarrow> (Inl (Wrapped ''failed to create logger'' e), s)
      | None \<Rightarrow> provider_run env options s)"

text \<open>
  Whether this is a debug build is decided by the tags it is built with; the package debug has a constant of its own for it, which
  nothing reads.
\<close>

definition IsDebugBuild :: "string list \<Rightarrow> bool" where
  "IsDebugBuild tags = (if ''sidero.debug'' \<in> set tags then True else False)"

definition debug_Enabled :: "string list \<Rightarrow> bool" where
  "debug_Enabled tags = (if ''sidero.debug'' \<in> set tags then True else False)"

definition provider_runCmd ::
  "(logger_config \<Rightarrow> err option) \<Rightarrow> (string \<Rightarrow> 'd run_env) \<Rightarrow> string list \<Rightarrow> string \<Rightarrow> (string \<times> flag_value) list \<Rightarrow> omni_state \<Rightarrow>
   (err + wiring) \<times> omni_state" where
  "provider_runCmd build env tags omniEndpointEnv args s =
     (case set_flags (provider_flags (IsDebugBuild tags)) args (provider_cmd_defaults omniEndpointEnv) of
        Inl e \<Rightarrow> (Inl e, s)
      | Inr c \<Rightarrow>
          provider_RunE build (pc_debug c) ((env (pc_ProviderID c))\<lparr>re_isDebugBuild := IsDebugBuild tags, re_ProviderID := pc_ProviderID c\<rparr>)
            (pc_options c) s)"

definition cmd_main :: "err option \<Rightarrow> nat \<times> string" where
  "cmd_main runCmd =
     (case runCmd of
        None \<Rightarrow> (0, [])
      | Some e \<Rightarrow> (1, err_text (Wrapped ''failed to run'' e)))"

section \<open>QEMU up\<close>

record qemu_cmd =
  qc_options :: qemu_options
  qc_destroy :: bool
  qc_debug :: bool

definition qemu_cmd_defaults :: qemu_cmd where
  "qemu_cmd_defaults = \<lparr>qc_options = Qemu_DefaultOptions, qc_destroy = False, qc_debug = False\<rparr>"

definition q_string_flag :: "(string \<Rightarrow> qemu_options \<Rightarrow> qemu_options) \<Rightarrow> qemu_cmd flag_setter" where
  "q_string_flag f v c = (case v of FString x \<Rightarrow> Some (c\<lparr>qc_options := f x (qc_options c)\<rparr>) | _ \<Rightarrow> None)"

definition q_bool_flag :: "(bool \<Rightarrow> qemu_options \<Rightarrow> qemu_options) \<Rightarrow> qemu_cmd flag_setter" where
  "q_bool_flag f v c = (case v of FBool x \<Rightarrow> Some (c\<lparr>qc_options := f x (qc_options c)\<rparr>) | _ \<Rightarrow> None)"

definition q_int_flag :: "(int \<Rightarrow> qemu_options \<Rightarrow> qemu_options) \<Rightarrow> qemu_cmd flag_setter" where
  "q_int_flag f v c = (case v of FInt x \<Rightarrow> Some (c\<lparr>qc_options := f x (qc_options c)\<rparr>) | _ \<Rightarrow> None)"

definition q_uint64_flag :: "(64 word \<Rightarrow> qemu_options \<Rightarrow> qemu_options) \<Rightarrow> qemu_cmd flag_setter" where
  "q_uint64_flag f v c = (case v of FUint64 x \<Rightarrow> Some (c\<lparr>qc_options := f x (qc_options c)\<rparr>) | _ \<Rightarrow> None)"

definition q_strings_flag :: "(string list \<Rightarrow> qemu_options \<Rightarrow> qemu_options) \<Rightarrow> qemu_cmd flag_setter" where
  "q_strings_flag f v c = (case v of FStrings x \<Rightarrow> Some (c\<lparr>qc_options := f x (qc_options c)\<rparr>) | _ \<Rightarrow> None)"

definition q_debug_flag :: "qemu_cmd flag_setter" where
  "q_debug_flag v c = (case v of FBool x \<Rightarrow> Some (c\<lparr>qc_debug := x\<rparr>) | _ \<Rightarrow> None)"

definition destroy_flag :: "qemu_cmd flag_setter" where
  "destroy_flag v c = (case v of FBool x \<Rightarrow> Some (c\<lparr>qc_destroy := x\<rparr>) | _ \<Rightarrow> None)"

definition qemu_flags :: "(string \<times> qemu_cmd flag_setter) list" where
  "qemu_flags =
     [(''debug'', q_debug_flag),
      (''destroy'', destroy_flag),
      (''name'', q_string_flag (\<lambda>v o'. o'\<lparr>qo_Name := v\<rparr>)),
      (''cidr'', q_string_flag (\<lambda>v o'. o'\<lparr>qo_CIDR := v\<rparr>)),
      (''cni-bundle-url'', q_string_flag (\<lambda>v o'. o'\<lparr>qo_CNIBundleURL := v\<rparr>)),
      (''pxe-boot-via-dhcpd'', q_bool_flag (\<lambda>v o'. o'\<lparr>qo_PXEBootViaDHCPD := v\<rparr>)),
      (''talosctl-path'', q_string_flag (\<lambda>v o'. o'\<lparr>qo_TalosctlPath := v\<rparr>)),
      (''cpus'', q_string_flag (\<lambda>v o'. o'\<lparr>qo_CPUs := v\<rparr>)),
      (''num-machines'', q_int_flag (\<lambda>v o'. o'\<lparr>qo_NumMachines := v\<rparr>)),
      (''mtu'', q_int_flag (\<lambda>v o'. o'\<lparr>qo_MTU := v\<rparr>)),
      (''disk-size'', q_uint64_flag (\<lambda>v o'. o'\<lparr>qo_DiskSize := v\<rparr>)),
      (''mem-size'', q_int_flag (\<lambda>v o'. o'\<lparr>qo_MemSize := v\<rparr>)),
      (''nameservers'', q_strings_flag (\<lambda>v o'. o'\<lparr>qo_Nameservers := v\<rparr>)),
      (''default-boot-order'', q_string_flag (\<lambda>v o'. o'\<lparr>qo_DefaultBootOrder := v\<rparr>)),
      (''uefi-enabled'', q_bool_flag (\<lambda>v o'. o'\<lparr>qo_UEFIEnabled := v\<rparr>)),
      (''virtual-bmc'', q_bool_flag (\<lambda>v o'. o'\<lparr>qo_VirtualBMC := v\<rparr>)),
      (''virtual-bmc-username'', q_string_flag (\<lambda>v o'. o'\<lparr>qo_VirtualBMCUsername := v\<rparr>)),
      (''virtual-bmc-password'', q_string_flag (\<lambda>v o'. o'\<lparr>qo_VirtualBMCPassword := v\<rparr>))]"

text \<open>The result, the sockets, and whether existing machines were destroyed.\<close>

definition qemu_run ::
  "qemu_env \<Rightarrow> (vbmc_server list \<Rightarrow> err option) \<Rightarrow> qemu_cmd \<Rightarrow> sockets \<Rightarrow> err option \<times> sockets \<times> string list" where
  "qemu_run env served c s =
     (case Machines_New env (qc_options c) of
        Inl e \<Rightarrow> (Some (Wrapped ''failed to create QEMU machines'' e), s, [])
      | Inr machines \<Rightarrow>
          if qc_destroy c
          then (case Machines_Destroy env machines of
                  (Some e, destroyed) \<Rightarrow> (Some (Wrapped ''failed to destroy machines'' e), s, destroyed)
                | (None, destroyed) \<Rightarrow> (None, s, destroyed))
          else (case Machines_Run env served machines s of (r, s') \<Rightarrow> (r, s', [])))"

definition qemu_RunE ::
  "(logger_config \<Rightarrow> err option) \<Rightarrow> qemu_env \<Rightarrow> (vbmc_server list \<Rightarrow> err option) \<Rightarrow> qemu_cmd \<Rightarrow> sockets \<Rightarrow>
   err option \<times> sockets \<times> string list" where
  "qemu_RunE build env served c s =
     (case build (initLogger (qc_debug c)) of
        Some e \<Rightarrow> (Some (Wrapped ''failed to create logger'' e), s, [])
      | None \<Rightarrow> qemu_run env served c s)"

definition qemu_runCmd ::
  "(logger_config \<Rightarrow> err option) \<Rightarrow> qemu_env \<Rightarrow> (vbmc_server list \<Rightarrow> err option) \<Rightarrow> (string \<times> flag_value) list \<Rightarrow> sockets \<Rightarrow>
   err option \<times> sockets \<times> string list" where
  "qemu_runCmd build env served args s =
     (case set_flags qemu_flags args qemu_cmd_defaults of
        Inl e \<Rightarrow> (Some e, s, [])
      | Inr c \<Rightarrow> qemu_RunE build env served c s)"

text \<open>A run that does not destroy removes nothing; one that does removes at most the directory of its own set.\<close>

lemma qemu_runCmd_removes:
  assumes "qemu_runCmd build env served args s = (r, s', removed)" and "d \<in> set removed"
  shows "\<exists>c m. set_flags qemu_flags args qemu_cmd_defaults = Inr c \<and> qc_destroy c \<and> Machines_New env (qc_options c) = Inr m \<and>
    d = filepath_Join (mc_stateDir m) (qo_Name (mc_options m)) \<and> removed = [d]"
  using assms
  by (auto simp: qemu_runCmd_def qemu_RunE_def qemu_run_def Machines_Destroy_def LogErr_def Let_def
      split: sum.splits option.splits if_splits prod.splits)

section \<open>What the flags do\<close>

lemma string_flag_Some: "string_flag f v c = Some c' \<Longrightarrow> \<exists>x. c' = c\<lparr>pc_options := f x (pc_options c)\<rparr>"
  by (auto simp: string_flag_def split: flag_value.splits)

lemma bool_flag_Some: "bool_flag f v c = Some c' \<Longrightarrow> \<exists>x. c' = c\<lparr>pc_options := f x (pc_options c)\<rparr>"
  by (auto simp: bool_flag_def split: flag_value.splits)

lemma int_flag_Some: "int_flag f v c = Some c' \<Longrightarrow> \<exists>x. c' = c\<lparr>pc_options := f x (pc_options c)\<rparr>"
  by (auto simp: int_flag_def split: flag_value.splits)

lemma strings_flag_Some: "strings_flag f v c = Some c' \<Longrightarrow> \<exists>x. c' = c\<lparr>pc_options := f x (pc_options c)\<rparr>"
  by (auto simp: strings_flag_def split: flag_value.splits)

lemma id_flag_Some: "id_flag v c = Some c' \<Longrightarrow> pc_options c' = pc_options c"
  by (auto simp: id_flag_def split: flag_value.splits)

lemma debug_flag_Some: "debug_flag v c = Some c' \<Longrightarrow> pc_options c' = pc_options c"
  by (auto simp: debug_flag_def split: flag_value.splits)

lemmas flag_Some = string_flag_Some bool_flag_Some int_flag_Some strings_flag_Some id_flag_Some debug_flag_Some

definition keeps_clear :: "provider_cmd flag_setter \<Rightarrow> bool" where
  "keeps_clear setter \<longleftrightarrow> (\<forall>v c c'. setter v c = Some c' \<longrightarrow> opt_ClearState (pc_options c') = opt_ClearState (pc_options c))"

lemma keeps_clear_flags:
  "(\<And>x y. opt_ClearState (f x y) = opt_ClearState y) \<Longrightarrow> keeps_clear (string_flag f)"
  "(\<And>x y. opt_ClearState (g x y) = opt_ClearState y) \<Longrightarrow> keeps_clear (bool_flag g)"
  "(\<And>x y. opt_ClearState (h x y) = opt_ClearState y) \<Longrightarrow> keeps_clear (int_flag h)"
  "(\<And>x y. opt_ClearState (k x y) = opt_ClearState y) \<Longrightarrow> keeps_clear (strings_flag k)"
  "keeps_clear id_flag" "keeps_clear debug_flag"
  by (auto simp: keeps_clear_def dest!: flag_Some)

lemma provider_flags_keep_clear:
  "\<forall>(name, setter) \<in> set (provider_flags isDebugBuild). name = ''clear-state'' \<or> keeps_clear setter"
  unfolding provider_flags_def by (simp add: keeps_clear_flags)

lemma flag_keeps_ClearState:
  assumes "(name, setter) \<in> set (provider_flags isDebugBuild)" and "setter v c = Some c'"
      and "\<not> opt_ClearState (pc_options c)" and "\<not> (isDebugBuild \<and> name = ''clear-state'' \<and> v = FBool True)"
  shows "\<not> opt_ClearState (pc_options c')"
proof (cases "name = ''clear-state''")
  case True
  then have "isDebugBuild" "setter = bool_flag (\<lambda>v o'. o'\<lparr>opt_ClearState := v\<rparr>)"
    using assms(1) unfolding provider_flags_def by (auto split: if_splits)
  then show ?thesis using assms(2,4) True by (cases v) (auto simp: bool_flag_def)
next
  case False
  then have "keeps_clear setter" using provider_flags_keep_clear[of isDebugBuild] assms(1) by auto
  then show ?thesis using assms(2,3) by (auto simp: keeps_clear_def)
qed

lemma set_flags_clear:
  assumes "set_flags (provider_flags isDebugBuild) args c = Inr c'" and "\<not> opt_ClearState (pc_options c)"
      and "opt_ClearState (pc_options c')"
  shows "isDebugBuild \<and> (''clear-state'', FBool True) \<in> set args"
  using assms
proof (induction args arbitrary: c)
  case (Cons a args)
  obtain name v where a: "a = (name, v)" by fastforce
  from Cons.prems(1) a obtain setter c1 where s: "map_of (provider_flags isDebugBuild) name = Some setter" "setter v c = Some c1"
    "set_flags (provider_flags isDebugBuild) args c1 = Inr c'" by (auto split: option.splits)
  show ?case
  proof (cases "opt_ClearState (pc_options c1)")
    case True
    then show ?thesis using flag_keeps_ClearState[OF map_of_SomeD[OF s(1)] s(2) Cons.prems(2)] a by auto
  next
    case False
    then show ?thesis using Cons.IH[OF s(3) False Cons.prems(3)] by simp
  qed
qed simp

lemma provider_Run_keeps:
  assumes "provider_Run env options s = (r, s')" and "\<not> (opt_ClearState options \<and> re_isDebugBuild env)"
  shows "os_stored s' = os_stored s"
  using assms by (cases rule: provider_Run_cases) (auto dest: init_state_keeps)

text \<open>
  What the provider knows of the machines is only ever cleared on purpose. Whatever the command line is, valid or not, and
  however far the start gets, the resources of the controllers are as before afterwards, unless it was built with the debug
  tag and started with --clear-state.
\<close>

theorem command_clears_on_purpose:
  assumes "provider_runCmd build env tags endpoint args s = (r, s')" and "os_stored s' \<noteq> os_stored s"
  shows "''sidero.debug'' \<in> set tags \<and> (''clear-state'', FBool True) \<in> set args"
proof -
  from assms obtain c where c: "set_flags (provider_flags (IsDebugBuild tags)) args (provider_cmd_defaults endpoint) = Inr c"
    by (auto simp: provider_runCmd_def split: sum.splits)
  let ?env = "(env (pc_ProviderID c))\<lparr>re_isDebugBuild := IsDebugBuild tags, re_ProviderID := pc_ProviderID c\<rparr>"
  obtain r' where "provider_Run ?env (pc_options c) s = (r', s')"
    using assms c by (auto simp: provider_runCmd_def provider_RunE_def provider_run_def split: prod.splits sum.splits option.splits)
  from provider_Run_keeps[OF this] assms(2) have "opt_ClearState (pc_options c)" by auto
  moreover have "\<not> opt_ClearState (pc_options (provider_cmd_defaults endpoint))"
    by (simp add: provider_cmd_defaults_def DefaultOptions_def)
  ultimately show ?thesis using set_flags_clear[OF c] by (auto simp: IsDebugBuild_def split: if_splits)
qed

definition sample_args :: "(string \<times> flag_value) list" where
  "sample_args = [(''clear-state'', FBool True), (''api-advertise-address'', FString ''10.0.0.1''),
     (''omni-api-endpoint'', FString ''https://omni'')]"

definition sample_cmd_options :: provider_options where
  "sample_cmd_options = DefaultOptions\<lparr>opt_OmniAPIEndpoint := ''https://omni'', opt_ClearState := True, opt_APIAdvertiseAddress := ''10.0.0.1''\<rparr>"

lemma sample_args_parsed:
  "set_flags (provider_flags True) sample_args (provider_cmd_defaults []) =
     Inr \<lparr>pc_options = sample_cmd_options, pc_debug = False, pc_ProviderID = ''bare-metal''\<rparr>"
  by (simp add: sample_args_def provider_flags_def bool_flag_def string_flag_def provider_cmd_defaults_def sample_cmd_options_def DefaultOptions_def)

lemma sample_cmd_clears:
  "\<exists>r s'. provider_Run ((sample_run_env n)\<lparr>re_isDebugBuild := True, re_ProviderID := i\<rparr>) sample_cmd_options sample_start_state = (r, s') \<and>
     os_stored s' = []"
proof -
  let ?env = "(sample_run_env n)\<lparr>re_isDebugBuild := True, re_ProviderID := i\<rparr>"
  have p: "prepare_Run ?env sample_cmd_options = Inr (BootModeUEFI, ''10.0.0.1'')"
    by (simp add: prepare_Run_def sample_run_env_def sample_cmd_options_def DefaultOptions_def ParseBootMode_def validateOptions_def
        determineAPIAdvertiseAddress_def buildOmniAPIClient_def BuildCOSIRuntime_def RegisterResources_ok)
  have c: "\<exists>s1. clearState True sample_store sample_start_state = (None, s1) \<and> os_stored s1 = [] \<and> os_ProviderStatus s1 = None"
    by (simp add: clearState_def sample_store_def sample_start_state_def cleared_kinds_def stored_of_def destroy_stored_def)
  then obtain s1 where c: "clearState True sample_store sample_start_state = (None, s1)" "os_stored s1 = []" "os_ProviderStatus s1 = None" by blast
  have e: "re_store ?env = sample_store" "re_isDebugBuild ?env" "opt_ClearState sample_cmd_options" "\<not> TLS_Enabled (opt_TLS sample_cmd_options)"
    by (simp_all add: sample_run_env_def sample_cmd_options_def DefaultOptions_def)
  have "\<exists>s2. init_state ?env sample_cmd_options ''10.0.0.1'' sample_start_state = (Inr None, s2) \<and> os_stored s2 = []"
    using c e by (simp add: init_state_def ensureProviderStatus_def create_status_def) (simp add: sample_store_def)
  then show ?thesis by (auto simp: provider_Run_def p)
qed

theorem command_clears_on_purpose_witness:
  "os_stored (snd (provider_runCmd (\<lambda>l. None) (\<lambda>i. sample_run_env 0) [''sidero.debug''] [] sample_args sample_start_state)) = [] \<and>
   (''clear-state'', FBool True) \<in> set sample_args"
proof -
  obtain r0 s' where r0: "provider_Run ((sample_run_env 0)\<lparr>re_isDebugBuild := True, re_ProviderID := ''bare-metal''\<rparr>) sample_cmd_options sample_start_state = (r0, s')"
    and s: "os_stored s' = []" using sample_cmd_clears[where n = 0 and i = "''bare-metal''"] by blast
  obtain r where r: "provider_runCmd (\<lambda>l. None) (\<lambda>i. sample_run_env 0) [''sidero.debug''] [] sample_args sample_start_state = (r, s')"
    using r0 by (cases r0) (auto simp: provider_runCmd_def provider_RunE_def sample_args_parsed provider_run_def IsDebugBuild_def)
  have "os_stored s' \<noteq> os_stored sample_start_state" using s by (simp add: sample_start_state_def)
  from command_clears_on_purpose[OF r this] r s show ?thesis by simp
qed

text \<open>
  Registering the flags of either command does not panic, in either build: no flag is registered twice, and none takes the
  name of a flag the library adds.
\<close>

theorem flags_distinct:
  "distinct (''help'' # ''version'' # map fst (provider_flags isDebugBuild)) \<and> distinct (''help'' # ''version'' # map fst qemu_flags)"
proof
  show "distinct (''help'' # ''version'' # map fst (provider_flags isDebugBuild))"
    by (cases isDebugBuild; simp add: provider_flags_def)
  show "distinct (''help'' # ''version'' # map fst qemu_flags)" by (simp add: qemu_flags_def)
qed

text \<open>The help texts name flags that do not exist.\<close>

lemma flags_in_help_texts:
  "map_of (provider_flags isDebugBuild) ''ca-cert-file'' = None \<and> map_of (provider_flags isDebugBuild) ''cert-file'' = None \<and>
   map_of (provider_flags isDebugBuild) ''key-file'' = None \<and> map_of (provider_flags isDebugBuild) ''tls-ca-cert-file'' \<noteq> None"
  by (simp add: provider_flags_def)

end
