(* ===== verification/Listeners.thy ===== *)
theory Listeners
  imports RunGroup Dhcp Qemu
begin

text \<open>
  The goroutines of the listeners that are not HTTP: \<open>Server.Run\<close> in \<open>internal/provider/tftp/tftp_server.go\<close>, \<open>Proxy.Run\<close>
  and \<open>runServer\<close> in \<open>internal/provider/dhcp/proxy.go\<close>, \<open>Server.Serve\<close> in \<open>internal/qemu/virtualbmc/virtualbmc.go\<close> and the
  group of BMCs in \<open>internal/qemu/bmc.go\<close>. They are error groups, some inside others, and meet the contract of \<open>RunGroup\<close>.
\<close>

section \<open>Groups inside groups\<close>

text \<open>
  A member of the outer group runs a group of its own under the context of the outer one, and returns what that group's
  \<open>Wait\<close> returns; or it fails before.
\<close>

locale nested_group = inner: stop_group inner_may server_cancels
  for inner_may :: "'g \<Rightarrow> bool \<Rightarrow> err option \<Rightarrow> bool" +
  fixes members :: "'h \<Rightarrow> 'g list" and outer_may :: "'h \<Rightarrow> bool \<Rightarrow> err option \<Rightarrow> bool"
  assumes some_member: "members h \<noteq> []"
    and outer_returns: "outer_may h d r \<Longrightarrow> r \<noteq> None \<or>
      (\<exists>s. group_steps inner_may server_cancels (start_group (members h)) s \<and> gr_running s = [] \<and>
           (gr_parent s \<longrightarrow> d) \<and> r = first_error (group_results s))"
    and outer_waits: "group_steps inner_may server_cancels (start_group (members h)) s \<Longrightarrow> gr_running s = [] \<Longrightarrow>
      \<exists>r. outer_may h True r"
begin

lemma outer_ends: "outer_may h d r \<Longrightarrow> d \<or> server_cancels r"
proof -
  assume "outer_may h d r"
  from outer_returns[OF this] show ?thesis
  proof (elim disjE exE conjE)
    fix s assume s: "group_steps inner_may server_cancels (start_group (members h)) s" "gr_running s = []"
      "gr_parent s \<longrightarrow> d" "r = first_error (group_results s)"
    from inner.ends_for_cause[OF s(1,2) some_member] show ?thesis
    proof
      assume "\<exists>x \<in> set (gr_returned s). server_cancels (snd x)"
      then have "first_error (group_results s) \<noteq> None"
        by (auto simp: first_error_None group_results_def server_cancels_def)
      then show ?thesis using s(4) by (simp add: server_cancels_def)
    qed (use s(3) in simp)
  qed (simp add: server_cancels_def)
qed

lemma outer_stops: "\<exists>r. outer_may h True r"
proof -
  have "group_step inner_may server_cancels (start_group (members h)) ((start_group (members h))\<lparr>gr_done := True, gr_parent := True\<rparr>)"
    by (rule group_step.parent_done)
  moreover obtain s where "group_steps inner_may server_cancels ((start_group (members h))\<lparr>gr_done := True, gr_parent := True\<rparr>) s"
    "gr_running s = []"
    using inner.can_finish[of "(start_group (members h))\<lparr>gr_done := True, gr_parent := True\<rparr>"] by auto
  ultimately have "group_steps inner_may server_cancels (start_group (members h)) s" "gr_running s = []"
    by (auto intro: converse_rtranclp_into_rtranclp)
  then show ?thesis by (rule outer_waits)
qed

end

sublocale nested_group \<subseteq> outer: stop_group outer_may server_cancels
  by unfold_locales (use outer_ends outer_stops in \<open>auto simp: server_cancels_def\<close>)

section \<open>The TFTP server\<close>

text \<open>The library's \<open>ListenAndServe\<close> returns without an error only after the shutdown, which follows the context.\<close>

datatype tftp_goroutine = ListenTFTP string | ShutdownTFTP

definition tftp_goroutines :: "tftp_server \<Rightarrow> tftp_goroutine list" where
  "tftp_goroutines srv = [ListenTFTP (join_host_port (tf_listenAddress srv) ''69''), ShutdownTFTP]"

fun tftp_may :: "tftp_goroutine \<Rightarrow> bool \<Rightarrow> err option \<Rightarrow> bool" where
  "tftp_may (ListenTFTP addr) isDone r = (isDone \<or> r \<noteq> None)"
| "tftp_may ShutdownTFTP isDone r = (isDone \<and> r = None)"

definition tftp_Run :: "(err option list \<Rightarrow> err option) \<Rightarrow> tftp_goroutine group \<Rightarrow> err option option" where
  "tftp_Run wait s = (if gr_running s \<noteq> [] then None else Some (wait (group_results s)))"

interpretation tftp: stop_group tftp_may server_cancels
proof
  show "tftp_may g d r \<Longrightarrow> d \<or> server_cancels r" for g d r by (cases g) (auto simp: server_cancels_def)
  show "\<exists>r. tftp_may g True r" for g by (cases g) auto
qed (simp add: server_cancels_def)

section \<open>The DHCP proxy\<close>

text \<open>
  A listener per port: a goroutine that serves and one that closes the socket after the context. Serving ends with
  \<open>net.ErrClosed\<close>, which the code turns into nil, only after that.
\<close>

datatype dhcp_goroutine = ServeDHCP | CloseDHCP

fun dhcp_may :: "dhcp_goroutine \<Rightarrow> bool \<Rightarrow> err option \<Rightarrow> bool" where
  "dhcp_may ServeDHCP isDone r = (isDone \<or> r \<noteq> None)"
| "dhcp_may CloseDHCP isDone r = isDone"

definition dhcp_goroutines :: "int \<Rightarrow> dhcp_goroutine list" where
  "dhcp_goroutines port = [ServeDHCP, CloseDHCP]"

definition runServer ::
  "(err option list \<Rightarrow> err option) \<Rightarrow> (string \<Rightarrow> int \<Rightarrow> err option) \<Rightarrow> string \<Rightarrow> int \<Rightarrow> dhcp_goroutine group \<Rightarrow> err option option" where
  "runServer wait NewServer iface port s =
     (case NewServer iface port of
        Some e \<Rightarrow> Some (Some (Wrapped (''failed to create DHCP server on port '' @ itoa port) e))
      | None \<Rightarrow> if gr_running s \<noteq> [] then None else Some (wait (group_results s)))"

text \<open>What the goroutine of a port returns, and when: what \<open>runServer\<close> does in some run of its own group.\<close>

definition proxy_may ::
  "(err option list \<Rightarrow> err option) \<Rightarrow> (string \<Rightarrow> int \<Rightarrow> err option) \<Rightarrow> string \<Rightarrow> int \<Rightarrow> bool \<Rightarrow> err option \<Rightarrow> bool" where
  "proxy_may wait NewServer iface port isDone r \<longleftrightarrow>
     (\<exists>s. group_steps dhcp_may server_cancels (start_group (dhcp_goroutines port)) s \<and> (gr_parent s \<longrightarrow> isDone) \<and>
          runServer wait NewServer iface port s = Some r)"

text \<open>\<open>Run\<close>, in a state of the group of the ports.\<close>

definition Proxy_Run ::
  "'p dhcp_lib \<Rightarrow> (err option list \<Rightarrow> err option) \<Rightarrow> err + (string \<times> net_ip list) list \<Rightarrow> proxy_options \<Rightarrow> int group \<Rightarrow> err option option" where
  "Proxy_Run lib wait interfaces options s =
     (case determineInterface lib interfaces (ProxyIfaceOrIP options) of
        Inl e \<Rightarrow> Some (Some (Wrapped ''failed to determine interface'' e))
      | Inr iface \<Rightarrow> if gr_running s \<noteq> [] then None else Some (wait (group_results s)))"

interpretation dhcp: stop_group dhcp_may server_cancels
proof
  show "dhcp_may g d r \<Longrightarrow> d \<or> server_cancels r" for g d r by (cases g) (auto simp: server_cancels_def)
  show "\<exists>r. dhcp_may g True r" for g by (cases g) auto
qed (simp add: server_cancels_def)

interpretation proxy: nested_group dhcp_may dhcp_goroutines "proxy_may first_error NewServer iface" for NewServer iface
proof
  show "dhcp_goroutines h \<noteq> []" for h by (simp add: dhcp_goroutines_def)
next
  fix h d r assume "proxy_may first_error NewServer iface h d r"
  then show "r \<noteq> None \<or> (\<exists>s. group_steps dhcp_may server_cancels (start_group (dhcp_goroutines h)) s \<and> gr_running s = [] \<and>
      (gr_parent s \<longrightarrow> d) \<and> r = first_error (group_results s))"
    by (auto simp: proxy_may_def runServer_def split: option.splits if_splits)
next
  fix h s assume "group_steps dhcp_may server_cancels (start_group (dhcp_goroutines h)) s" "gr_running s = []"
  then show "\<exists>r. proxy_may first_error NewServer iface h True r"
    by (intro exI[of _ "the (runServer first_error NewServer iface h s)"])
       (auto simp: proxy_may_def runServer_def intro!: exI[of _ s] split: option.splits)
qed

section \<open>The emulated BMCs\<close>

text \<open>
  A BMC: one goroutine closes the LAN socket after the context, one serves it, one the in-band socket where there is one. The
  LAN frontend ends with the cancellation of the context, which the code turns into nil, only when it is done; an error of the
  in-band frontend counts only while it is not, and the frontend returns without one only after it is.
\<close>

datatype bmc_goroutine = CloseLAN | ServeLAN | ServeVM

definition bmc_goroutines :: "vbmc_server \<Rightarrow> bmc_goroutine list" where
  "bmc_goroutines srv = [CloseLAN, ServeLAN] @ (if vs_vmListener srv \<noteq> None then [ServeVM] else [])"

fun bmc_may :: "bmc_goroutine \<Rightarrow> bool \<Rightarrow> err option \<Rightarrow> bool" where
  "bmc_may CloseLAN isDone r = (isDone \<and> r = None)"
| "bmc_may ServeLAN isDone r = (isDone \<or> r \<noteq> None)"
| "bmc_may ServeVM isDone r = (if isDone then r = None else r \<noteq> None)"

definition vbmc_Serve :: "(err option list \<Rightarrow> err option) \<Rightarrow> bmc_goroutine group \<Rightarrow> err option option" where
  "vbmc_Serve wait s = (if gr_running s \<noteq> [] then None else Some (wait (group_results s)))"

definition bmcs_may :: "(err option list \<Rightarrow> err option) \<Rightarrow> vbmc_server \<Rightarrow> bool \<Rightarrow> err option \<Rightarrow> bool" where
  "bmcs_may wait srv isDone r \<longleftrightarrow>
     (\<exists>s. group_steps bmc_may server_cancels (start_group (bmc_goroutines srv)) s \<and> (gr_parent s \<longrightarrow> isDone) \<and>
          vbmc_Serve wait s = Some r)"

interpretation bmc: stop_group bmc_may server_cancels
proof
  show "bmc_may g d r \<Longrightarrow> d \<or> server_cancels r" for g d r
    by (cases g) (auto simp: server_cancels_def split: if_splits)
  show "\<exists>r. bmc_may g True r" for g by (cases g) auto
qed (simp add: server_cancels_def)

interpretation bmcs: nested_group bmc_may bmc_goroutines "bmcs_may first_error"
proof
  show "bmc_goroutines h \<noteq> []" for h by (simp add: bmc_goroutines_def)
qed (auto simp: bmcs_may_def vbmc_Serve_def split: if_splits)

section \<open>No listener stops silently\<close>

lemma waits_for_first_error: "waits_for_first wait \<Longrightarrow> wait = first_error"
  by (auto simp: waits_for_first_def)

text \<open>The TFTP server, the DHCP proxy and the set of BMCs return without an error only after they were told to stop.\<close>

lemma tftp_never_silent:
  assumes "waits_for_first wait" and "group_steps tftp_may server_cancels (start_group (tftp_goroutines srv)) s"
    and "tftp_Run wait s = Some None"
  shows "gr_parent s"
  using tftp.silent_end[OF assms(2)] assms(3)
  by (auto simp: tftp_Run_def tftp_goroutines_def waits_for_first_error[OF assms(1)] server_cancels_def split: if_splits)

lemma proxy_never_silent:
  assumes "waits_for_first wait" and "determineInterface lib interfaces (ProxyIfaceOrIP options) = Inr iface"
    and "group_steps (proxy_may wait NewServer iface) server_cancels (start_group (listen_ports options)) s"
    and "Proxy_Run lib wait interfaces options s = Some None"
  shows "gr_parent s \<and> (\<forall>port \<in> set (listen_ports options). NewServer iface port = None)"
proof
  have w: "wait = first_error" by (rule waits_for_first_error[OF assms(1)])
  note steps = assms(3)[unfolded w]
  have e: "gr_running s = []" "first_error (group_results s) = None"
    using assms(2,4) by (auto simp: Proxy_Run_def w split: if_splits)
  show "gr_parent s"
    using proxy.outer.silent_end[OF steps e(1) _ e(2)] by (simp add: listen_ports_def server_cancels_def)
  show "\<forall>port \<in> set (listen_ports options). NewServer iface port = None"
  proof
    fix port assume p: "port \<in> set (listen_ports options)"
    have "mset (map fst (gr_returned s)) = mset (listen_ports options)" by (rule proxy.outer.all_returned[OF steps e(1)])
    then have "port \<in> fst ` set (gr_returned s)" using p by (metis list.set_map mset_eq_setD)
    then obtain r where r: "(port, r) \<in> set (gr_returned s)" by auto
    then have "r = None" using e(2) by (auto simp: first_error_None group_results_def)
    moreover have "\<forall>x \<in> set (gr_returned s). \<exists>d. proxy_may first_error NewServer iface (fst x) d (snd x)"
      by (rule returned_may[OF steps])
    ultimately show "NewServer iface port = None" using r
      by (fastforce simp: proxy_may_def runServer_def split: option.splits)
  qed
qed

text \<open>A BMC whose in-band frontend fails, or whose LAN socket does, stops with that error, and so do all the others.\<close>

lemma bmcs_never_silent:
  assumes "waits_for_first wait" and "group_steps (bmcs_may wait) server_cancels (start_group servers) s"
    and "gr_returned s \<noteq> []"
  shows "gr_done s \<and> (gr_running s = [] \<and> wait (group_results s) = None \<longrightarrow> gr_parent s)"
proof
  have w: "wait = first_error" by (rule waits_for_first_error[OF assms(1)])
  note steps = assms(2)[unfolded w]
  have "servers \<noteq> []" using bmcs.outer.stops_together[OF steps assms(3)] assms(3) by auto
  then show "gr_running s = [] \<and> wait (group_results s) = None \<longrightarrow> gr_parent s"
    using bmcs.outer.silent_end[OF steps] by (auto simp: w server_cancels_def)
  show "gr_done s" using bmcs.outer.stops_together[OF steps assms(3)] by simp
qed

end
