(* ===== verification/System.thy ===== *)
theory System
  imports BootHandler PowerOperation RebootStatus WipeStatus BmcConfiguration InfraMachineStatus MachineStatus
begin

text \<open>
  The controllers together, over one store: Omni's machines and BMC configurations, and the resources each controller owns.
  A step is one reconcile of one controller, one event of the machine status controller, a change Omni or the operator makes,
  or resources that go away. Controllers read through a cache: a lookup fails, or answers with any version the resource ever
  had; only the resource a controller owns is current, since the store refuses a conflicting write. A reconcile is one step;
  what it sends concerns the machine it runs for. The clock may differ from step to step.
\<close>

record store =
  so_machines :: "resource_id \<rightharpoonup> infra_machine"
  so_bmc_configs :: "resource_id \<rightharpoonup> infra_bmc_config"
  so_bmc :: "resource_id \<rightharpoonup> bmc_configuration"
  so_ms :: ms_store
  so_ws :: "resource_id \<rightharpoonup> wipe_status"
  so_rs :: "resource_id \<rightharpoonup> reboot_status"
  so_po :: "resource_id \<rightharpoonup> power_operation"
  so_report :: "resource_id \<rightharpoonup> infra_machine_status"

record system =
  sy_now :: store
  sy_past :: "store list"
  sy_world :: world

definition empty_store :: store where
  "empty_store = \<lparr>so_machines = Map.empty, so_bmc_configs = Map.empty, so_bmc = Map.empty, so_ms = Map.empty,
     so_ws = Map.empty, so_rs = Map.empty, so_po = Map.empty, so_report = Map.empty\<rparr>"

definition initial :: "world \<Rightarrow> system" where
  "initial w = \<lparr>sy_now = empty_store, sy_past = [], sy_world = w\<rparr>"

definition seen :: "system \<Rightarrow> store set" where
  "seen sy = insert (sy_now sy) (set (sy_past sy))"

definition advance :: "system \<Rightarrow> store \<Rightarrow> world \<Rightarrow> system" where
  "advance sy s w = \<lparr>sy_now = s, sy_past = sy_now sy # sy_past sy, sy_world = w\<rparr>"

text \<open>A lookup answers with a version from the past, or the present.\<close>

definition was :: "system \<Rightarrow> (store \<Rightarrow> resource_id \<rightharpoonup> 'r) \<Rightarrow> resource_id \<Rightarrow> 'r \<Rightarrow> bool" where
  "was sy table i x \<longleftrightarrow> (\<exists>s \<in> seen sy. table s i = Some x)"

definition reads :: "system \<Rightarrow> reader \<Rightarrow> bool" where
  "reads sy rd \<longleftrightarrow>
     (\<forall>i x. rd_infra_machine rd i = Inr x \<longrightarrow> was sy so_machines i x) \<and>
     (\<forall>i x. rd_bmc_configuration rd i = Inr x \<longrightarrow> was sy so_bmc i x) \<and>
     (\<forall>i x. rd_machine_status rd i = Inr x \<longrightarrow> was sy so_ms i x) \<and>
     (\<forall>i x. rd_wipe_status rd i = Inr x \<longrightarrow> was sy so_ws i x) \<and>
     (\<forall>i x. rd_reboot_status rd i = Inr x \<longrightarrow> was sy so_rs i x) \<and>
     (\<forall>i x. rd_power_operation rd i = Inr x \<longrightarrow> was sy so_po i x) \<and>
     (\<forall>i x. rd_bmc_config rd i = Inr x \<longrightarrow> was sy so_bmc_configs i x)"

text \<open>The runtime creates the resource a controller owns when its transform first succeeds.\<close>

definition reconcile_into ::
  "(err \<Rightarrow> bool) \<Rightarrow> 'o transform \<Rightarrow> (resource_id \<Rightarrow> 'o) \<Rightarrow> env \<Rightarrow> reader \<Rightarrow> infra_machine \<Rightarrow> (resource_id \<rightharpoonup> 'o) \<Rightarrow> world \<Rightarrow>
   (resource_id \<rightharpoonup> 'o) \<times> world" where
  "reconcile_into stores_after transform fresh env rd m table w =
     (case transform env rd m (case table (ID m) of None \<Rightarrow> fresh (ID m) | Some x \<Rightarrow> x) w of
        ((None, out), w') \<Rightarrow> (table(ID m \<mapsto> out), w')
      | ((Some e, out), w') \<Rightarrow> (if stores_after e then table(ID m \<mapsto> out) else table, w'))"

fun event_reads :: "system \<Rightarrow> ms_event \<Rightarrow> bool" where
  "event_reads sy (Tick bmcs statuses) =
     ((\<forall>xs. bmcs = Inr xs \<longrightarrow> (\<forall>x \<in> set xs. was sy so_bmc (ID x) x)) \<and>
      (\<forall>xs. statuses = Inr xs \<longrightarrow> (\<forall>x \<in> set xs. was sy so_ms (ID x) x)))"
| "event_reads sy (AgentConnection ev) = True"
| "event_reads sy (PXEBoot rd i) = reads sy rd"

record controllers =
  ct_po :: po_helper
  ct_rs :: rs_helper
  ct_agent :: agent_options
  ct_bcc :: bcc_helper
  ct_ims :: ims_helper
  ct_redfish :: redfish_options
  ct_ms_name :: string
  ct_stores :: "err \<Rightarrow> bool"
  ct_report :: "resource_id \<Rightarrow> infra_machine_status"

inductive system_step :: "controllers \<Rightarrow> env \<Rightarrow> system \<Rightarrow> system \<Rightarrow> bool" for c env where
  omni: "(\<And>i m. ms i = Some m \<Longrightarrow> ID m = i) \<Longrightarrow>
     system_step c env sy (advance sy ((sy_now sy)\<lparr>so_machines := ms, so_bmc_configs := bs\<rparr>) (sy_world sy))"
| gone: "bmc \<subseteq>\<^sub>m so_bmc (sy_now sy) \<Longrightarrow> ms \<subseteq>\<^sub>m so_ms (sy_now sy) \<Longrightarrow> ws \<subseteq>\<^sub>m so_ws (sy_now sy) \<Longrightarrow> rs \<subseteq>\<^sub>m so_rs (sy_now sy) \<Longrightarrow>
     po \<subseteq>\<^sub>m so_po (sy_now sy) \<Longrightarrow> rep \<subseteq>\<^sub>m so_report (sy_now sy) \<Longrightarrow>
     system_step c env sy (advance sy ((sy_now sy)\<lparr>so_bmc := bmc, so_ms := ms, so_ws := ws, so_rs := rs, so_po := po, so_report := rep\<rparr>)
       (sy_world sy))"
| power: "reads sy rd \<Longrightarrow> was sy so_machines i m \<Longrightarrow>
     reconcile_into (ct_stores c) (po_transform (ct_po c)) NewPowerOperation (env\<lparr>clock := ck\<rparr>) rd m (so_po (sy_now sy)) (sy_world sy) = (t, w') \<Longrightarrow>
     system_step c env sy (advance sy ((sy_now sy)\<lparr>so_po := t\<rparr>) w')"
| reboot: "reads sy rd \<Longrightarrow> was sy so_machines i m \<Longrightarrow>
     reconcile_into (ct_stores c) (rs_transform (ct_rs c)) NewRebootStatus (env\<lparr>clock := ck\<rparr>) rd m (so_rs (sy_now sy)) (sy_world sy) = (t, w') \<Longrightarrow>
     system_step c env sy (advance sy ((sy_now sy)\<lparr>so_rs := t\<rparr>) w')"
| removal: "reads sy rd \<Longrightarrow> was sy so_machines i m \<Longrightarrow>
     rs_finalizerRemoval (ct_rs c) (env\<lparr>clock := ck\<rparr>) rd m (sy_world sy) = (r, w') \<Longrightarrow>
     system_step c env sy (advance sy (sy_now sy) w')"
| wipe: "reads sy rd \<Longrightarrow> was sy so_machines i m \<Longrightarrow>
     reconcile_into (ct_stores c) (wsc_transform (ct_agent c)) NewWipeStatus (env\<lparr>clock := ck\<rparr>) rd m (so_ws (sy_now sy)) (sy_world sy) = (t, w') \<Longrightarrow>
     system_step c env sy (advance sy ((sy_now sy)\<lparr>so_ws := t\<rparr>) w')"
| configure: "reads sy rd \<Longrightarrow> was sy so_machines i m \<Longrightarrow>
     reconcile_into (ct_stores c) (bcc_transform (ct_bcc c)) NewBMCConfiguration (env\<lparr>clock := ck\<rparr>) rd m (so_bmc (sy_now sy)) (sy_world sy) = (t, w') \<Longrightarrow>
     system_step c env sy (advance sy ((sy_now sy)\<lparr>so_bmc := t\<rparr>) w')"
| report: "reads sy rd \<Longrightarrow> was sy so_machines i m \<Longrightarrow>
     reconcile_into (ct_stores c) (ims_transform (ct_ims c)) (ct_report c) (env\<lparr>clock := ck\<rparr>) rd m (so_report (sy_now sy)) (sy_world sy) = (t, w') \<Longrightarrow>
     system_step c env sy (advance sy ((sy_now sy)\<lparr>so_report := t\<rparr>) w')"
| status: "event_reads sy ev \<Longrightarrow>
     ms_step (ct_redfish c) (env\<lparr>clock := ck\<rparr>) ev (so_ms (sy_now sy)) (sy_world sy) = ((r, t), w') \<Longrightarrow>
     system_step c env sy (advance sy ((sy_now sy)\<lparr>so_ms := t\<rparr>) w')"
| status_finalizer: "(\<And>j x. get j = Inr x \<Longrightarrow> was sy so_machines j x) \<Longrightarrow>
     ms_Reconcile (ct_ms_name c) (env\<lparr>clock := ck\<rparr>) get i (sy_world sy) = (r, w') \<Longrightarrow>
     system_step c env sy (advance sy (sy_now sy) w')"

abbreviation system_run :: "controllers \<Rightarrow> env \<Rightarrow> system \<Rightarrow> system \<Rightarrow> bool" where
  "system_run c env \<equiv> (system_step c env)\<^sup>*\<^sup>*"

section \<open>Time goes on\<close>

lemma seen_advance [simp]: "seen (advance sy s w) = insert s (seen sy)"
  by (auto simp: seen_def advance_def)

lemma advance_simps [simp]: "sy_now (advance sy s w) = s" "sy_world (advance sy s w) = w"
  by (simp_all add: advance_def)

lemma was_advance [simp]: "was (advance sy s w) table i x \<longleftrightarrow> table s i = Some x \<or> was sy table i x"
  by (auto simp: was_def)

lemma was_now: "table (sy_now sy) i = Some x \<Longrightarrow> was sy table i x"
  by (auto simp: was_def seen_def)

lemma reconcile_into_cases:
  assumes "reconcile_into stores_after tr fresh env rd m table w = (t, w')"
  obtains r out where "tr env rd m (case table (ID m) of None \<Rightarrow> fresh (ID m) | Some x \<Rightarrow> x) w = ((r, out), w')"
    "t = table \<or> t = table(ID m \<mapsto> out)" "r = None \<Longrightarrow> t = table(ID m \<mapsto> out)"
  using assms by (auto simp: reconcile_into_def split: prod.splits option.splits if_splits)

section \<open>What a step sends, and for whom\<close>

lemma quiet_only: "emits quiet_agent w w' \<Longrightarrow> emits (only_agent i) w w'"
  by (erule emits_mono) simp

lemma issued_only: "issued w w' cs \<Longrightarrow> emits (only_agent i) w w'"
  by (rule quiet_only[OF issued_quiet])

lemma LogClose_quiet: "emits quiet_agent w w' \<Longrightarrow> emits quiet_agent w (snd (LogCloseContext c env (x, w')))"
  using issued_quiet[OF sends_noneD[OF bmc.close_none]]
  by (auto simp: LogCloseContext_def split: prod.splits intro: emits_trans)

lemma po_only:
  assumes "po_transform h env rd m po w = ((r, po'), w')"
  shows "emits quiet_agent w w'"
  using assms
proof (cases rule: po_transform_cases)
  case stopped
  then show ?thesis by (simp add: issued_quiet)
next
  case (ran cfg ws rs c w1 w2)
  have "emits quiet_agent w1 w2"
    using ran(7)
  proof (cases rule: po_with_client_cases)
    case (on w3)
    from on(6) have "emits quiet_agent w3 w2" by (cases rule: po_power_on_cases) (auto intro: issued_quiet)
    then show ?thesis using issued_quiet[OF on(3)] by (blast intro: emits_trans)
  next
    case (off w3)
    from off(6) have "emits quiet_agent w3 w2" by (cases rule: po_power_off_cases) (auto intro: issued_quiet)
    then show ?thesis using issued_quiet[OF off(3)] by (blast intro: emits_trans)
  qed (simp add: issued_quiet)
  then have "emits quiet_agent w w2" using issued_quiet[OF ran(6)] by (blast intro: emits_trans)
  then show ?thesis using ran(8) by (simp add: LogClose_quiet)
qed

lemma rs_only:
  assumes "rs_transform h env rd m rs w = ((r, rs'), w')"
  shows "emits (only_agent (ID m)) w w'"
  using assms
proof (cases rule: rs_transform_outcome)
  case quiet
  then show ?thesis by (simp add: issued_only)
next
  case (rebooting cfg ms ws po w1 w2)
  have "emits (only_agent (ID m)) w1 w2"
    using rebooting(9)
  proof (cases rule: rebootOverAnyChannel_cases)
    case over_agent
    then show ?thesis by (simp add: emits_def)
  qed (simp_all add: issued_only)
  then show ?thesis
    using rebooting(8,10) by (auto intro: emits_trans[OF issued_only[OF emits_finalizer_issued]])
qed

lemma wsc_only: "wsc_transform opts env rd m ws w = ((r, ws'), w') \<Longrightarrow> emits (only_agent (ID m)) w w'"
  by (erule wsc_transform_cases) (auto simp: emits_def wipe_request_def)

lemma bcc_only:
  assumes "bcc_transform h env rd m bc w = ((r, bc'), w')"
  shows "emits (only_agent (ID m)) w w'"
  using assms
proof (cases rule: bcc_cases)
  case (agent ms)
  then show ?thesis
    by (auto simp: agent_GetPowerManagement_def ask_pm_def act_def bcc_from_agent_def ensurePowerManagementOnAgent_def
        agent_SetPowerManagement_def emits_def Let_def split: sum.splits prod.splits option.splits if_splits)
qed auto

text \<open>The attempt to reboot a machine that is being removed only goes over its BMC.\<close>

lemma removal_only:
  assumes "rs_finalizerRemoval h env rd m w = (r, w')"
  shows "emits quiet_agent w w'"
proof -
  have quiet_finalizer: "emits quiet_agent w1 w2" if "emits on_finalizer w1 w2" for w1 w2
    by (rule issued_quiet[OF emits_finalizer_issued[OF that]])
  have over_bmc: "emits quiet_agent w1 w2" if "rebootOverAnyChannel h env i (Some cfg) pxe False w1 = (x, w2)" for cfg i pxe w1 x w2
    using that by (cases rule: rebootOverAnyChannel_cases) (simp_all add: issued_quiet)
  have attempt: "emits quiet_agent w1 (attemptRebootOnRemoval h env ms bmc m w1)" for ms bmc w1
    using over_bmc by (auto simp: attemptRebootOnRemoval_def rs_reboot_def Let_def split: option.splits prod.splits)
  show ?thesis
    using assms
    by (auto simp: rs_finalizerRemoval_def Let_def split: sum.splits prod.splits option.splits
        intro: attempt emits_trans[OF attempt] emits_trans quiet_finalizer dest!: drop_finalizer_emits)
qed

lemma status_finalizer_only:
  "ms_Reconcile name env get i w = (r, w') \<Longrightarrow> emits quiet_agent w w'"
  by (auto simp: ms_Reconcile_def reconcileTearingDown_def reconcileRunning_def ms_remove_def act_def ask_flag_def emits_def
      split: sum.splits option.splits if_splits prod.splits)

lemma status_only: "ms_step rf env ev st w = ((r, st'), w') \<Longrightarrow> emits quiet_agent w w'"
  using ms_step_safe by (blast intro: emits_mono dest: no_command_def[THEN iffD1])

context gated_transform
begin

lemma reconcile_into_gated:
  assumes "validateInfraMachine m \<noteq> None" "reconcile_into stores_after transform fresh env rd m table w = (t, w')"
  shows "emits quiet w w' \<and> (t = table \<or> t = table(ID m \<mapsto> (case table (ID m) of None \<Rightarrow> fresh (ID m) | Some x \<Rightarrow> x)))"
  using assms(2)
proof (cases rule: reconcile_into_cases)
  case (1 r out)
  then show ?thesis using gated[OF _ 1(1)] assms(1) by auto
qed

lemma into_untouched:
  assumes "reconcile_into stores_after transform fresh env rd m table w = (t, w')"
    and "ID m = i \<Longrightarrow> validateInfraMachine m \<noteq> None" and "table i \<in> {None, Some (fresh i)}"
  shows "t i \<in> {None, Some (fresh i)} \<and> (ID m = i \<longrightarrow> emits quiet w w')"
proof (cases "ID m = i")
  case True
  then show ?thesis using reconcile_into_gated[OF assms(2)[OF True] assms(1)] assms(3) by (auto split: option.splits)
next
  case False
  from assms(1) show ?thesis using False assms(3) by (cases rule: reconcile_into_cases) auto
qed

end

section \<open>What holds in every run\<close>

lemma was_step: "system_step c env sy sy' \<Longrightarrow> was sy table i x \<Longrightarrow> was sy' table i x"
  by (induction rule: system_step.induct) simp_all

lemma run_was: "system_run c env sy sy' \<Longrightarrow> was sy table i x \<Longrightarrow> was sy' table i x"
  by (induction rule: rtranclp_induct) (auto intro: was_step)

lemma was_initial [simp]: "was (initial w) table i x \<longleftrightarrow> table empty_store i = Some x"
  by (auto simp: was_def seen_def initial_def)

lemma initial_simps [simp]: "sy_now (initial w) = empty_store" "sy_world (initial w) = w"
  by (simp_all add: initial_def)

lemma machines_keyed:
  assumes "system_run c env (initial w) sy" "was sy so_machines i m"
  shows "ID m = i"
  using assms
proof (induction arbitrary: m rule: rtranclp_induct)
  case base
  then show ?case by (simp add: empty_store_def)
next
  case (step sy sy')
  from step(2) show ?case
    using step(3)[of m] step(4) by (cases rule: system_step.cases) (auto dest: was_now)
qed

text \<open>Every step sends requests to at most one agent, that of the machine it runs for.\<close>

lemma into_emits:
  assumes "reconcile_into stores_after tr fresh env rd m table w = (t, w')"
    and "\<And>out r out' w2. tr env rd m out w = ((r, out'), w2) \<Longrightarrow> emits P w w2"
  shows "emits P w w'"
  using assms(1) by (cases rule: reconcile_into_cases) (rule assms(2))

text \<open>A machine that was never accepted: the resources the controllers keep of it are as they are created.\<close>

definition fresh_resources :: "controllers \<Rightarrow> system \<Rightarrow> resource_id \<Rightarrow> bool" where
  "fresh_resources c sy i \<longleftrightarrow>
     (\<forall>x. was sy so_bmc i x \<longrightarrow> x = NewBMCConfiguration i) \<and> (\<forall>x. was sy so_ws i x \<longrightarrow> x = NewWipeStatus i) \<and>
     (\<forall>x. was sy so_rs i x \<longrightarrow> x = NewRebootStatus i) \<and> (\<forall>x. was sy so_po i x \<longrightarrow> x = NewPowerOperation i) \<and>
     (\<forall>x. was sy so_report i x \<longrightarrow> x = ct_report c i)"

definition never_accepted :: "system \<Rightarrow> resource_id \<Rightarrow> bool" where
  "never_accepted sy i \<longleftrightarrow> (\<forall>m. was sy so_machines i m \<longrightarrow> AcceptanceStatus (Spec m) \<noteq> ACCEPTED)"

definition unasked :: "world \<Rightarrow> resource_id \<Rightarrow> bool" where
  "unasked w i \<longleftrightarrow> (\<forall>q \<in> set (requests w). agent_action q \<noteq> Some i)"

lemma unasked_emits:
  "unasked w i \<Longrightarrow> emits quiet_agent w w' \<Longrightarrow> unasked w' i"
  "unasked w i \<Longrightarrow> emits (only_agent j) w w' \<Longrightarrow> j \<noteq> i \<Longrightarrow> unasked w' i"
  by (force simp: unasked_def emits_def list_all_iff)+

lemma untouched_into:
  assumes "gated_transform tr quiet" and "reconcile_into stores_after tr fresh env rd m table w = (t, w')"
    and "\<And>out r out' w2. tr env rd m out w = ((r, out'), w2) \<Longrightarrow> emits (only_agent (ID m)) w w2"
    and "ID m = i \<Longrightarrow> validateInfraMachine m \<noteq> None" and "table i \<in> {None, Some (fresh i)}" and "unasked w i"
    and "\<And>q. quiet q \<Longrightarrow> quiet_agent q"
  shows "t i \<in> {None, Some (fresh i)} \<and> unasked w' i"
proof -
  note u = gated_transform.into_untouched[OF assms(1,2,4,5)]
  have "unasked w' i"
  proof (cases "ID m = i")
    case True
    then have "emits quiet_agent w w'" using u assms(7) by (auto intro: emits_mono)
    then show ?thesis by (rule unasked_emits(1)[OF assms(6)])
  next
    case False
    then show ?thesis using into_emits[OF assms(2,3)] by (intro unasked_emits(2)[OF assms(6)]) auto
  qed
  with u show ?thesis by simp
qed

lemma map_le_fresh: "t \<subseteq>\<^sub>m t' \<Longrightarrow> t' i \<in> {None, Some x} \<Longrightarrow> t i \<in> {None, Some x}"
  by (cases "t i") (auto simp: map_le_def dom_def)

lemma now_fresh: "(\<And>x. was sy table i x \<Longrightarrow> x = y) \<Longrightarrow> table (sy_now sy) i \<noteq> None \<Longrightarrow> table (sy_now sy) i = Some y"
  using was_now[of table sy i] by fastforce

lemma fresh_now:
  assumes "fresh_resources c sy i"
  shows "so_bmc (sy_now sy) i \<in> {None, Some (NewBMCConfiguration i)}" "so_ws (sy_now sy) i \<in> {None, Some (NewWipeStatus i)}"
    "so_rs (sy_now sy) i \<in> {None, Some (NewRebootStatus i)}" "so_po (sy_now sy) i \<in> {None, Some (NewPowerOperation i)}"
    "so_report (sy_now sy) i \<in> {None, Some (ct_report c i)}"
  using assms by (auto simp: fresh_resources_def intro!: now_fresh)

lemma fresh_advance:
  "fresh_resources c (advance sy s w) i \<longleftrightarrow> fresh_resources c sy i \<and>
     so_bmc s i \<in> {None, Some (NewBMCConfiguration i)} \<and> so_ws s i \<in> {None, Some (NewWipeStatus i)} \<and>
     so_rs s i \<in> {None, Some (NewRebootStatus i)} \<and> so_po s i \<in> {None, Some (NewPowerOperation i)} \<and>
     so_report s i \<in> {None, Some (ct_report c i)}"
proof -
  have o: "(\<forall>x. t = Some x \<or> P x \<longrightarrow> x = y) \<longleftrightarrow> (\<forall>x. P x \<longrightarrow> x = y) \<and> t \<in> {None, Some y}" for t :: "'z option" and P y
    by (cases t) auto
  show ?thesis by (simp only: fresh_resources_def was_advance o) blast
qed

lemma untouched_step:
  assumes "system_step c env sy sy'" and "\<And>j m. was sy so_machines j m \<Longrightarrow> ID m = j"
    and "never_accepted sy i" and "fresh_resources c sy i" and "unasked (sy_world sy) i"
  shows "fresh_resources c sy' i \<and> unasked (sy_world sy') i"
proof -
  note now = fresh_now[OF assms(4)]
  have gate: "validateInfraMachine m \<noteq> None" if "was sy so_machines j m" "ID m = i" for j m
    using that assms(2,3) by (auto simp: never_accepted_def validateInfraMachine_None)
  from assms(1) show ?thesis
  proof (cases rule: system_step.cases)
    case (omni ms bs)
    then show ?thesis using now assms(4,5) by (simp add: fresh_advance)
  next
    case (gone bmc ms ws rs po rep)
    have "bmc i \<in> {None, Some (NewBMCConfiguration i)}" "ws i \<in> {None, Some (NewWipeStatus i)}" "rs i \<in> {None, Some (NewRebootStatus i)}"
      "po i \<in> {None, Some (NewPowerOperation i)}" "rep i \<in> {None, Some (ct_report c i)}"
      using gone(2,4-7)[THEN map_le_fresh, of i] now by (simp_all add: disj_imp)
    then show ?thesis unfolding gone(1) using assms(4,5) by (simp add: fresh_advance)
  next
    case (power rd j m ck t w')
    have "t i \<in> {None, Some (NewPowerOperation i)} \<and> unasked w' i"
      by (rule untouched_into[OF po.gated_transform_axioms power(4)])
         (use power gate now assms(5) in \<open>auto intro: quiet_only po_only\<close>)
    then show ?thesis using power(1) now assms(4) by (simp add: fresh_advance)
  next
    case (reboot rd j m ck t w')
    have "t i \<in> {None, Some (NewRebootStatus i)} \<and> unasked w' i"
      by (rule untouched_into[OF rs.gated_transform_axioms reboot(4)])
         (use reboot gate now assms(5) in \<open>auto intro: rs_only not_to_agent_quiet dest: on_finalizer_silent\<close>)
    then show ?thesis using reboot(1) now assms(4) by (simp add: fresh_advance)
  next
    case (removal rd j m ck r w')
    then show ?thesis using now assms(4,5) unasked_emits(1)[OF _ removal_only] by (simp add: fresh_advance)
  next
    case (wipe rd j m ck t w')
    have "t i \<in> {None, Some (NewWipeStatus i)} \<and> unasked w' i"
      by (rule untouched_into[OF wsc.gated_transform_axioms wipe(4)])
         (use wipe gate now assms(5) in \<open>auto intro: wsc_only\<close>)
    then show ?thesis using wipe(1) now assms(4) by (simp add: fresh_advance)
  next
    case (configure rd j m ck t w')
    have "t i \<in> {None, Some (NewBMCConfiguration i)} \<and> unasked w' i"
      by (rule untouched_into[OF bcc.gated_transform_axioms configure(4)])
         (use configure gate now assms(5) in \<open>auto intro: bcc_only\<close>)
    then show ?thesis using configure(1) now assms(4) by (simp add: fresh_advance)
  next
    case (report rd j m ck t w')
    have "t i \<in> {None, Some (ct_report c i)} \<and> unasked w' i"
      by (rule untouched_into[OF ims.gated_transform_axioms report(4)])
         (use report gate now assms(5) in \<open>auto elim: ims_transform_cases\<close>)
    then show ?thesis using report(1) now assms(4) by (simp add: fresh_advance)
  next
    case (status ev ck r t w')
    then show ?thesis using now assms(4,5) unasked_emits(1)[OF _ status_only] by (simp add: fresh_advance)
  next
    case (status_finalizer get j ck r w')
    then show ?thesis using now assms(4,5) unasked_emits(1)[OF _ status_finalizer_only] by (simp add: fresh_advance)
  qed
qed

text \<open>Versions of machines are never forgotten, so a machine that was never accepted was not accepted at any earlier point.\<close>

lemma untouched_run:
  assumes "system_run c env (initial w0) sy" and "requests w0 = []" and "never_accepted sy i"
  shows "fresh_resources c sy i \<and> unasked (sy_world sy) i"
  using assms(1,3)
proof (induction rule: rtranclp_induct)
  case base
  then show ?case using assms(2) by (simp add: fresh_resources_def empty_store_def unasked_def)
next
  case (step sy sy')
  have "never_accepted sy i" using step.prems was_step[OF step.hyps(2), of so_machines i] unfolding never_accepted_def by blast
  then show ?case using step.IH untouched_step[OF step.hyps(2) machines_keyed[OF step.hyps(1)]] by blast
qed

lemma fresh_no_client:
  assumes "fresh_resources c sy i" "was sy so_bmc i b"
  shows "GetClient opts env (Some b) w = (Inl (Plain ''invalid BMC config: IPMI, API and manual fields are all nil''), w)"
proof -
  have "b = NewBMCConfiguration i" using assms by (auto simp: fresh_resources_def)
  then show ?thesis by (simp add: GetClient_invalid NewBMCConfiguration_def new_resource_def)
qed

text \<open>A step only adds requests, and to the agent of at most one machine.\<close>

lemma step_one_agent:
  assumes "system_step c env sy sy'"
  shows "\<exists>i. emits (only_agent i) (sy_world sy) (sy_world sy')"
  using assms
proof (cases rule: system_step.cases)
  case (power rd i m ck t w')
  have "emits quiet_agent (sy_world sy) w'" by (rule into_emits[OF power(4)]) (rule po_only)
  then show ?thesis using power(1) by (auto intro: quiet_only)
next
  case (reboot rd i m ck t w')
  have "emits (only_agent (ID m)) (sy_world sy) w'" by (rule into_emits[OF reboot(4)]) (rule rs_only)
  then show ?thesis using reboot(1) by auto
next
  case (removal rd i m ck r w')
  then show ?thesis by (auto intro: quiet_only removal_only)
next
  case (wipe rd i m ck t w')
  have "emits (only_agent (ID m)) (sy_world sy) w'" by (rule into_emits[OF wipe(4)]) (rule wsc_only)
  then show ?thesis using wipe(1) by auto
next
  case (configure rd i m ck t w')
  have "emits (only_agent (ID m)) (sy_world sy) w'" by (rule into_emits[OF configure(4)]) (rule bcc_only)
  then show ?thesis using configure(1) by auto
next
  case (report rd i m ck t w')
  have "emits quiet_agent (sy_world sy) w'" by (rule into_emits[OF report(4)]) (erule ims_transform_cases; simp)
  then show ?thesis using report(1) by (auto intro: quiet_only)
next
  case (status ev ck r t w')
  then show ?thesis by (auto intro: quiet_only status_only)
next
  case (status_finalizer get i ck r w')
  then show ?thesis by (auto intro: quiet_only status_finalizer_only)
qed simp_all

lemma step_extends: "system_step c env sy sy' \<Longrightarrow> \<exists>qs. requests (sy_world sy') = requests (sy_world sy) @ qs"
  using step_one_agent by (fastforce simp: emits_def)

text \<open>
  The evidence behind a clean wipe status: the wipe request to the agent of the machine is in the log of requests and was
  confirmed, for a version of the machine that was accepted, not cordoned and asked for this wipe ID, and after its status
  had said that the agent is reachable.
\<close>

definition wipe_confirmed :: "agent_options \<Rightarrow> env \<Rightarrow> system \<Rightarrow> resource_id \<Rightarrow> string \<Rightarrow> bool" where
  "wipe_confirmed opts env sy i wid \<longleftrightarrow>
     (\<exists>m ms qs rest. was sy so_machines i m \<and> WipeId (Spec m) = wid \<and> AcceptanceStatus (Spec m) = ACCEPTED \<and> \<not> Cordoned (Spec m) \<and>
        was sy so_ms i ms \<and> AgentAccessible (Spec ms) \<and>
        requests (sy_world sy) = qs @ [wipe_request opts i] @ rest \<and> answer_act env qs (wipe_request opts i) = None)"

lemma wipe_confirmed_step:
  assumes "system_step c env sy sy'" "wipe_confirmed opts e sy i wid"
  shows "wipe_confirmed opts e sy' i wid"
proof -
  obtain qs where "requests (sy_world sy') = requests (sy_world sy) @ qs" using step_extends[OF assms(1)] by blast
  then show ?thesis
    using assms(2) was_step[OF assms(1)] unfolding wipe_confirmed_def by (metis append.assoc)
qed

definition clean_confirmed :: "agent_options \<Rightarrow> env \<Rightarrow> system \<Rightarrow> bool" where
  "clean_confirmed opts env sy \<longleftrightarrow>
     (\<forall>i ws. was sy so_ws i ws \<longrightarrow> InitialWipeDone (Spec ws) \<longrightarrow> wipe_confirmed opts env sy i (LastWipeId (Spec ws)))"

lemma clean_confirmed_old:
  assumes "system_step c env sy sy'" "clean_confirmed opts e sy" "\<And>i ws. was sy' so_ws i ws \<Longrightarrow> was sy so_ws i ws"
  shows "clean_confirmed opts e sy'"
  using assms wipe_confirmed_step by (fastforce simp: clean_confirmed_def)

lemma wipe_step_confirms:
  assumes "reads sy rd" "was sy so_machines i m" "ID m = i"
    and "wsc_transform opts (env\<lparr>clock := ck\<rparr>) rd m ws (sy_world sy) = ((r, ws'), w')" and "ws' \<noteq> ws"
  shows "wipe_confirmed opts env (advance sy s w') i (LastWipeId (Spec ws'))"
  using assms(4)
proof (cases rule: wsc_transform_cases)
  case (wiped ms)
  then have "r = None" using assms(5) by auto
  moreover have "rd_machine_status rd i = Inr ms"
    using wiped(2) assms(3) by (auto simp: get_or_nil_def split: sum.splits if_splits)
  then have "was sy so_ms i ms" using assms(1) by (auto simp: reads_def)
  ultimately show ?thesis
    using wiped assms(2,3) unfolding wipe_confirmed_def
    by (intro exI[of _ m] exI[of _ ms] exI[of _ "requests (sy_world sy)"] exI[of _ "[]"])
       (simp add: wiped_now_def validateInfraMachine_None)
qed (use assms(5) in simp)

lemma clean_confirmed_step:
  assumes "system_step c env sy sy'" and "\<And>j m. was sy so_machines j m \<Longrightarrow> ID m = j" and "clean_confirmed (ct_agent c) env sy"
  shows "clean_confirmed (ct_agent c) env sy'"
  using assms(1)
proof (cases rule: system_step.cases)
  case (gone bmc ms ws rs po rep)
  have "ws i = Some x \<Longrightarrow> so_ws (sy_now sy) i = Some x" for i x
    using gone(4) by (metis domI map_le_def)
  then show ?thesis
    using gone(1) by (intro clean_confirmed_old[OF assms(1,3)]) (auto dest: was_now)
next
  case (wipe rd i m ck t w')
  have i: "ID m = i" using assms(2) wipe(3) .
  have new: "wipe_confirmed (ct_agent c) env sy' j (LastWipeId (Spec x))"
    if "t j = Some x" "InitialWipeDone (Spec x)" "\<not> was sy so_ws j x" for j x
    using wipe(4)
  proof (cases rule: reconcile_into_cases)
    case (1 r out)
    let ?ws = "case so_ws (sy_now sy) (ID m) of None \<Rightarrow> NewWipeStatus (ID m) | Some x \<Rightarrow> x"
    have "so_ws (sy_now sy) j \<noteq> Some x" using that(3) was_now[of so_ws sy j x] by auto
    then have j: "j = i" "x = out" using that(1) 1(2) i by (auto split: if_splits)
    have "out \<noteq> ?ws"
    proof (cases "so_ws (sy_now sy) (ID m)")
      case None
      then show ?thesis using that(2) j(2) by (auto simp: NewWipeStatus_def new_resource_def)
    next
      case (Some y)
      then show ?thesis using that(3) j i was_now[of so_ws sy i y] by auto
    qed
    from wipe_step_confirms[OF wipe(2,3) i 1(1) this] show ?thesis using wipe(1) j by simp
  qed
  show ?thesis
    unfolding clean_confirmed_def
  proof (intro allI impI)
    fix j x assume "was sy' so_ws j x" and wiped: "InitialWipeDone (Spec x)"
    then consider "was sy so_ws j x" | "t j = Some x" "\<not> was sy so_ws j x" using wipe(1) by auto
    then show "wipe_confirmed (ct_agent c) env sy' j (LastWipeId (Spec x))"
    proof cases
      case 1
      then show ?thesis using assms(3) wiped wipe_confirmed_step[OF assms(1)] by (auto simp: clean_confirmed_def)
    next
      case 2
      then show ?thesis using new wiped by blast
    qed
  qed
qed (intro clean_confirmed_old[OF assms(1,3)]; auto dest: was_now)+

lemma clean_confirmed_run: "system_run c env (initial w) sy \<Longrightarrow> clean_confirmed (ct_agent c) env sy"
proof (induction rule: rtranclp_induct)
  case base
  then show ?case by (simp add: clean_confirmed_def empty_store_def)
next
  case (step sy sy')
  then show ?case by (intro clean_confirmed_step[OF step(2) machines_keyed[OF step(1)]])
qed

section \<open>A sample\<close>

definition sample_env :: env where
  "sample_env = (ok_env True 1)\<lparr>answer_pm := (\<lambda>qs q. Inr \<lparr>pm_Api = True, pm_Ipmi = None\<rparr>)\<rparr>"

definition sample_controllers :: controllers where
  "sample_controllers = \<lparr>ct_po = po_h1, ct_rs = rs_h1, ct_agent = wsc_opts, ct_bcc = bcc_h1, ct_ims = ims_h1,
     ct_redfish = default_redfish, ct_ms_name = ''machine-status'', ct_stores = (\<lambda>e. True), ct_report = (\<lambda>i. ims_s1)\<rparr>"

definition m1_connected :: machine_status where
  "m1_connected = (NewMachineStatus ''m1'')\<lparr>Spec := (Spec (NewMachineStatus ''m1''))\<lparr>AgentAccessible := True\<rparr>\<rparr>"

end
