(* ===== verification/Registration.thy ===== *)
theory Registration
  imports Startup
begin

text \<open>
  What the controllers register with the runtime: which resource each one owns, and whose changes wake it. The runtime runs a
  controller's transform for a machine when the machine or one of the mapped inputs changed; the library's mapper
  \<open>qtransform.MapperSameID\<close> leads from a resource to the machine of the same ID.
\<close>

section \<open>Resources by kind\<close>

datatype managed = OmniMachine | OmniMachineStatus | OmniBMCConfig | Managed provider_kind

record pointer =
  ptr_kind :: managed
  ptr_id :: resource_id

definition pointer_of :: "managed \<Rightarrow> 's resource \<Rightarrow> pointer" where
  "pointer_of k r = \<lparr>ptr_kind = k, ptr_id = ID r\<rparr>"

definition MapperSameID :: "pointer \<Rightarrow> pointer list" where
  "MapperSameID p = [\<lparr>ptr_kind = OmniMachine, ptr_id = ptr_id p\<rparr>]"

section \<open>The settings of the transforming controllers\<close>

text \<open>
  \<open>qtransform.Settings\<close> and its options: the name, the resource a machine is transformed into and back, the transform, what runs
  when a machine is removed, the mapped inputs, the number of machines worked on at a time, and whether a machine
  that is torn down is kept until the other controllers are done with it.
\<close>

record 'o qsettings =
  qs_Name :: string
  qs_MapMetadataFunc :: "infra_machine \<Rightarrow> pointer"
  qs_UnmapMetadataFunc :: "'o \<Rightarrow> pointer"
  qs_Transform :: "'o transform"
  qs_FinalizerRemoval :: "(env \<Rightarrow> reader \<Rightarrow> infra_machine \<Rightarrow> world \<Rightarrow> err option \<times> world) option"
  qs_ExtraMappedInputs :: "(managed \<times> (pointer \<Rightarrow> pointer list)) list"
  qs_Concurrency :: nat
  qs_IgnoreTeardownUntil :: bool

definition PowerOperationController_settings :: "string \<Rightarrow> po_helper \<Rightarrow> power_operation qsettings" where
  "PowerOperationController_settings providerID helper =
     \<lparr>qs_Name = providerID @ ''.PowerOperationController'',
      qs_MapMetadataFunc = (\<lambda>infraMachine. pointer_of (Managed KPowerOperation) (NewPowerOperation (ID infraMachine))),
      qs_UnmapMetadataFunc = (\<lambda>powerOperation. pointer_of OmniMachine (NewMachine (ID powerOperation))),
      qs_Transform = po_transform helper,
      qs_FinalizerRemoval = None,
      qs_ExtraMappedInputs =
        [(Managed KBMCConfiguration, MapperSameID),
         (Managed KWipeStatus, MapperSameID),
         (Managed KRebootStatus, MapperSameID),
         (Managed KMachineStatus, MapperSameID)],
      qs_Concurrency = 4,
      qs_IgnoreTeardownUntil = False\<rparr>"

definition RebootStatusController_settings :: "rs_helper \<Rightarrow> reboot_status qsettings" where
  "RebootStatusController_settings helper =
     \<lparr>qs_Name = rs_controllerName helper,
      qs_MapMetadataFunc = (\<lambda>infraMachine. pointer_of (Managed KRebootStatus) (NewRebootStatus (ID infraMachine))),
      qs_UnmapMetadataFunc = (\<lambda>rebootStatus. pointer_of OmniMachine (NewMachine (ID rebootStatus))),
      qs_Transform = rs_transform helper,
      qs_FinalizerRemoval = Some (rs_finalizerRemoval helper),
      qs_ExtraMappedInputs =
        [(Managed KMachineStatus, MapperSameID),
         (Managed KBMCConfiguration, MapperSameID),
         (Managed KWipeStatus, MapperSameID),
         (Managed KPowerOperation, MapperSameID)],
      qs_Concurrency = 4,
      qs_IgnoreTeardownUntil = False\<rparr>"

definition WipeStatusController_settings :: "string \<Rightarrow> agent_options \<Rightarrow> wipe_status qsettings" where
  "WipeStatusController_settings providerID agentClient =
     \<lparr>qs_Name = providerID @ ''.WipeStatusController'',
      qs_MapMetadataFunc = (\<lambda>infraMachine. pointer_of (Managed KWipeStatus) (NewWipeStatus (ID infraMachine))),
      qs_UnmapMetadataFunc = (\<lambda>wipeStatus. pointer_of OmniMachine (NewMachine (ID wipeStatus))),
      qs_Transform = wsc_transform agentClient,
      qs_FinalizerRemoval = None,
      qs_ExtraMappedInputs = [(Managed KMachineStatus, MapperSameID)],
      qs_Concurrency = 4,
      qs_IgnoreTeardownUntil = False\<rparr>"

text \<open>\<open>infra.NewMachineStatus\<close>, Omni's constructor of its machine status, is only used for the ID here.\<close>

definition InfraMachineStatusController_settings :: "string \<Rightarrow> ims_helper \<Rightarrow> infra_machine_status qsettings" where
  "InfraMachineStatusController_settings providerID helper =
     \<lparr>qs_Name = providerID @ ''.InfraMachineStatusController'',
      qs_MapMetadataFunc = (\<lambda>infraMachine. \<lparr>ptr_kind = OmniMachineStatus, ptr_id = ID infraMachine\<rparr>),
      qs_UnmapMetadataFunc = (\<lambda>infraMachineStatus. pointer_of OmniMachine (NewMachine (ID infraMachineStatus))),
      qs_Transform = ims_transform helper,
      qs_FinalizerRemoval = None,
      qs_ExtraMappedInputs =
        [(Managed KMachineStatus, MapperSameID),
         (Managed KRebootStatus, MapperSameID),
         (Managed KWipeStatus, MapperSameID),
         (Managed KBMCConfiguration, MapperSameID),
         (Managed KPowerOperation, MapperSameID)],
      qs_Concurrency = 4,
      qs_IgnoreTeardownUntil = False\<rparr>"

definition BMCConfigurationController_settings :: "string \<Rightarrow> bcc_helper \<Rightarrow> bmc_configuration qsettings" where
  "BMCConfigurationController_settings providerID helper =
     \<lparr>qs_Name = providerID @ ''.BMCConfigurationController'',
      qs_MapMetadataFunc = (\<lambda>infraMachine. pointer_of (Managed KBMCConfiguration) (NewBMCConfiguration (ID infraMachine))),
      qs_UnmapMetadataFunc = (\<lambda>bmcConfiguration. pointer_of OmniMachine (NewMachine (ID bmcConfiguration))),
      qs_Transform = bcc_transform helper,
      qs_FinalizerRemoval = None,
      qs_ExtraMappedInputs =
        [(Managed KMachineStatus, MapperSameID),
         (OmniBMCConfig, MapperSameID)],
      qs_Concurrency = 4,
      qs_IgnoreTeardownUntil = True\<rparr>"

section \<open>Who is woken\<close>

text \<open>The machines a changed resource wakes a controller for.\<close>

definition woken :: "'o qsettings \<Rightarrow> pointer \<Rightarrow> resource_id list" where
  "woken s p =
     (if ptr_kind p = OmniMachine then [ptr_id p] else []) @
     concat (map (\<lambda>(k, mapper). if k = ptr_kind p then map ptr_id (mapper p) else []) (qs_ExtraMappedInputs s))"

text \<open>
  The resources in which what a transform can read has changed between two readers, errors included. No transform reads
  Omni's machine status or the TLS configuration.
\<close>

definition differs :: "reader \<Rightarrow> reader \<Rightarrow> pointer \<Rightarrow> bool" where
  "differs rd rd' p =
     (let i = ptr_id p
      in case ptr_kind p of
           OmniMachine \<Rightarrow> rd_infra_machine rd i \<noteq> rd_infra_machine rd' i
         | OmniMachineStatus \<Rightarrow> False
         | OmniBMCConfig \<Rightarrow> rd_bmc_config rd i \<noteq> rd_bmc_config rd' i
         | Managed KBMCConfiguration \<Rightarrow> rd_bmc_configuration rd i \<noteq> rd_bmc_configuration rd' i
         | Managed KMachineStatus \<Rightarrow> rd_machine_status rd i \<noteq> rd_machine_status rd' i
         | Managed KPowerOperation \<Rightarrow> rd_power_operation rd i \<noteq> rd_power_operation rd' i
         | Managed KRebootStatus \<Rightarrow> rd_reboot_status rd i \<noteq> rd_reboot_status rd' i
         | Managed KTLSConfig \<Rightarrow> False
         | Managed KWipeStatus \<Rightarrow> rd_wipe_status rd i \<noteq> rd_wipe_status rd' i)"

definition nothing_new :: "'o qsettings \<Rightarrow> resource_id \<Rightarrow> reader \<Rightarrow> reader \<Rightarrow> bool" where
  "nothing_new s i rd rd' \<longleftrightarrow> (\<forall>p. differs rd rd' p \<longrightarrow> i \<notin> set (woken s p))"

lemma nothing_newD:
  "nothing_new s i rd rd' \<Longrightarrow>
   \<forall>x \<in> set (qs_ExtraMappedInputs s). snd x = MapperSameID \<longrightarrow> \<not> differs rd rd' \<lparr>ptr_kind = fst x, ptr_id = i\<rparr>"
  by (fastforce simp: nothing_new_def woken_def MapperSameID_def)

lemma not_differs [simp]:
  "\<not> differs rd rd' \<lparr>ptr_kind = OmniBMCConfig, ptr_id = i\<rparr> \<longleftrightarrow> rd_bmc_config rd i = rd_bmc_config rd' i"
  "\<not> differs rd rd' \<lparr>ptr_kind = Managed KBMCConfiguration, ptr_id = i\<rparr> \<longleftrightarrow> rd_bmc_configuration rd i = rd_bmc_configuration rd' i"
  "\<not> differs rd rd' \<lparr>ptr_kind = Managed KMachineStatus, ptr_id = i\<rparr> \<longleftrightarrow> rd_machine_status rd i = rd_machine_status rd' i"
  "\<not> differs rd rd' \<lparr>ptr_kind = Managed KPowerOperation, ptr_id = i\<rparr> \<longleftrightarrow> rd_power_operation rd i = rd_power_operation rd' i"
  "\<not> differs rd rd' \<lparr>ptr_kind = Managed KRebootStatus, ptr_id = i\<rparr> \<longleftrightarrow> rd_reboot_status rd i = rd_reboot_status rd' i"
  "\<not> differs rd rd' \<lparr>ptr_kind = Managed KWipeStatus, ptr_id = i\<rparr> \<longleftrightarrow> rd_wipe_status rd i = rd_wipe_status rd' i"
  by (simp_all add: differs_def)

definition wakes_for :: "'o qsettings \<Rightarrow> resource_id \<Rightarrow> reader \<Rightarrow> reader \<Rightarrow> bool" where
  "wakes_for s i rd rd' \<longleftrightarrow> (\<exists>p. differs rd rd' p \<and> i \<in> set (woken s p))"

text \<open>Whatever changed for a controller, in its transform or in what it does when a machine is removed, wakes it for this machine.\<close>

definition inputs_complete :: "'o qsettings \<Rightarrow> bool" where
  "inputs_complete s \<longleftrightarrow>
     (\<forall>env rd rd' m w.
        (\<forall>x. qs_Transform s env rd m x w \<noteq> qs_Transform s env rd' m x w \<longrightarrow> wakes_for s (ID m) rd rd') \<and>
        (\<forall>f. qs_FinalizerRemoval s = Some f \<longrightarrow> f env rd m w \<noteq> f env rd' m w \<longrightarrow> wakes_for s (ID m) rd rd'))"

text \<open>
  The contract of a controller with the runtime: the resource it owns and the machine have the same ID both ways, and its
  transform depends on nothing but the resources that wake it.
\<close>

locale qcontroller_contract =
  fixes s :: "('s resource) qsettings"
  assumes owns: "ptr_id (qs_MapMetadataFunc s m) = ID m" "qs_UnmapMetadataFunc s x = \<lparr>ptr_kind = OmniMachine, ptr_id = ID x\<rparr>"
    and transform: "nothing_new s (ID m) rd rd' \<Longrightarrow> qs_Transform s env rd m x w = qs_Transform s env rd' m x w"
    and removal: "nothing_new s (ID m) rd rd' \<Longrightarrow> qs_FinalizerRemoval s = Some f \<Longrightarrow> f env rd m w = f env rd' m w"
begin

lemma complete: "inputs_complete s"
proof -
  have "nothing_new s i rd rd' \<or> wakes_for s i rd rd'" for i rd rd'
    by (auto simp: nothing_new_def wakes_for_def)
  then show ?thesis using transform removal unfolding inputs_complete_def by blast
qed

text \<open>The machine a controller is run for when the resource it owns changed is the machine the resource was made for.\<close>

lemma maps_back: "ID x = ptr_id (qs_MapMetadataFunc s m) \<Longrightarrow> qs_UnmapMetadataFunc s x = \<lparr>ptr_kind = OmniMachine, ptr_id = ID m\<rparr>"
  by (simp add: owns)

end

lemmas settings_defs =
  PowerOperationController_settings_def RebootStatusController_settings_def WipeStatusController_settings_def
  InfraMachineStatusController_settings_def BMCConfigurationController_settings_def pointer_of_def new_resource_defs

text \<open>The lookups are rewritten inside the branches too.\<close>

lemmas case_congs = sum.case_cong prod.case_cong option.case_cong

interpretation power_operation_q: qcontroller_contract "PowerOperationController_settings providerID po"
  by standard (auto simp: settings_defs po_transform_def dest!: nothing_newD cong: case_congs)

interpretation reboot_status_q: qcontroller_contract "RebootStatusController_settings rs"
  by standard (auto simp: settings_defs rs_transform_def rs_finalizerRemoval_def dest!: nothing_newD cong: case_congs)

interpretation wipe_status_q: qcontroller_contract "WipeStatusController_settings providerID agentClient"
  by standard (auto simp: settings_defs wsc_transform_def dest!: nothing_newD cong: case_congs)

interpretation infra_machine_status_q: qcontroller_contract "InfraMachineStatusController_settings providerID ims"
  by standard (auto simp: settings_defs ims_transform_def dest!: nothing_newD cong: case_congs)

interpretation bmc_configuration_q: qcontroller_contract "BMCConfigurationController_settings providerID bcc"
  by standard (auto simp: settings_defs bcc_transform_def dest!: nothing_newD cong: case_congs)

text \<open>
  C38. No wake-up is missed. For each of the five controllers that transform machines: if its transform, or what it does when a machine is
  removed, would now do something else than with the resources it read before, for any machine, at any time, then one of the
  resources that changed is among the inputs it registered, and the change wakes it for exactly this machine.
\<close>

theorem no_missed_wakeup:
  "inputs_complete (PowerOperationController_settings providerID po) \<and>
   inputs_complete (RebootStatusController_settings rs) \<and>
   inputs_complete (WipeStatusController_settings providerID agentClient) \<and>
   inputs_complete (InfraMachineStatusController_settings providerID ims) \<and>
   inputs_complete (BMCConfigurationController_settings providerID bcc)"
  by (intro conjI power_operation_q.complete reboot_status_q.complete wipe_status_q.complete infra_machine_status_q.complete
      bmc_configuration_q.complete)

text \<open>It is not for want of changes: an agent that appears changes what the wipe controller does, and wakes it.\<close>

lemma agent_wakes_wipe:
  "wakes_for (WipeStatusController_settings providerID opts) ''m1''
     (reader_of None None None None None None None) (reader_of None None (Some (m1_agent True)) None None None None)"
  unfolding wakes_for_def
  by (rule exI[of _ "\<lparr>ptr_kind = Managed KMachineStatus, ptr_id = ''m1''\<rparr>"])
     (simp add: differs_def woken_def settings_defs MapperSameID_def found_def)

section \<open>The machine status controller\<close>

datatype input_kind = InputQPrimary | InputQMapped
datatype output_kind = OutputExclusive

record ms_settings =
  mst_Inputs :: "(string \<times> string \<times> input_kind) list"
  mst_Outputs :: "(string \<times> output_kind) list"

definition MachineStatusController_Settings :: "omni_names \<Rightarrow> string \<Rightarrow> ms_settings" where
  "MachineStatusController_Settings omni providerID =
     \<lparr>mst_Inputs =
        [(on_InfraProviderNamespace omni, on_InfraMachineType omni, InputQPrimary),
         (Namespace omni providerID, BMCConfigurationType omni providerID, InputQMapped)],
      mst_Outputs = [(MachineStatusType omni providerID, OutputExclusive)]\<rparr>"

text \<open>Every input the controller registered is one its \<open>MapInput\<close> knows, and leads to the machine of the same ID.\<close>

lemma ms_inputs_mapped:
  "(ns, typ, k) \<in> set (mst_Inputs (MachineStatusController_Settings omni p)) \<Longrightarrow>
   ms_MapInput (BMCConfigurationType omni p) (on_InfraMachineType omni) typ i = Inr [i]"
  by (auto simp: MachineStatusController_Settings_def ms_MapInput_def new_resource_defs)

section \<open>The controllers of a provider\<close>

text \<open>The name a controller registers under, and the kind of the resource it owns.\<close>

fun qcontroller_Name :: "string \<Rightarrow> qcontroller \<Rightarrow> string" where
  "qcontroller_Name p (MachineStatusController redfish agent interval) = p @ ''.MachineStatusController''"
| "qcontroller_Name p (InfraMachineStatusController h) = qs_Name (InfraMachineStatusController_settings p h)"
| "qcontroller_Name p (BMCConfigurationController h) = qs_Name (BMCConfigurationController_settings p h)"
| "qcontroller_Name p (PowerOperationController h) = qs_Name (PowerOperationController_settings p h)"
| "qcontroller_Name p (RebootStatusController h agent) = qs_Name (RebootStatusController_settings h)"
| "qcontroller_Name p (WipeStatusController agent) = qs_Name (WipeStatusController_settings p agent)"

fun qcontroller_Output :: "string \<Rightarrow> qcontroller \<Rightarrow> managed" where
  "qcontroller_Output p (MachineStatusController redfish agent interval) = Managed KMachineStatus"
| "qcontroller_Output p (InfraMachineStatusController h) =
     ptr_kind (qs_MapMetadataFunc (InfraMachineStatusController_settings p h) (NewMachine []))"
| "qcontroller_Output p (BMCConfigurationController h) =
     ptr_kind (qs_MapMetadataFunc (BMCConfigurationController_settings p h) (NewMachine []))"
| "qcontroller_Output p (PowerOperationController h) =
     ptr_kind (qs_MapMetadataFunc (PowerOperationController_settings p h) (NewMachine []))"
| "qcontroller_Output p (RebootStatusController h agent) =
     ptr_kind (qs_MapMetadataFunc (RebootStatusController_settings h) (NewMachine []))"
| "qcontroller_Output p (WipeStatusController agent) =
     ptr_kind (qs_MapMetadataFunc (WipeStatusController_settings p agent) (NewMachine []))"

text \<open>
  Two controllers of a provider never share a name, which are also the names of their finalizers, or a resource they write. Between them
  they own every resource of the provider but the TLS configuration, and Omni's machine status.
\<close>

lemma controllers_apart:
  assumes "provider_Run env options s = (Inr w, s')"
  shows "distinct (map (qcontroller_Name (re_ProviderID env)) (w_controllers w))"
    and "distinct (map (qcontroller_Output (re_ProviderID env)) (w_controllers w))"
    and "set (map (qcontroller_Output (re_ProviderID env)) (w_controllers w)) =
      insert OmniMachineStatus (Managed ` (UNIV - {KTLSConfig}))"
proof -
  have kinds: "Managed ` (UNIV - {KTLSConfig}) =
      {Managed KBMCConfiguration, Managed KMachineStatus, Managed KPowerOperation, Managed KRebootStatus, Managed KWipeStatus}"
    by (auto simp: image_iff) (metis provider_kind.exhaust)+
  obtain m a certs where "wire env options m a certs = Inr w" using assms by (rule provider_Run_Inr)
  then obtain labels where w: "w_controllers w = wire_controllers env options m \<lparr>AlwaysNetboot = opt_AlwaysNetboot options\<rparr> labels"
    by (rule wireE)
  show "distinct (map (qcontroller_Name (re_ProviderID env)) (w_controllers w))"
    and "distinct (map (qcontroller_Output (re_ProviderID env)) (w_controllers w))"
    and "set (map (qcontroller_Output (re_ProviderID env)) (w_controllers w)) =
      insert OmniMachineStatus (Managed ` (UNIV - {KTLSConfig}))"
    by (auto simp: w kinds wire_controllers_def settings_defs NewMachineStatusController_def NewInfraMachineStatusController_def
        NewBMCConfigurationController_def NewPowerOperationController_def NewRebootStatusController_def NewWipeStatusController_def
        split: prod.splits)
qed

end
