(* ===== verification/Runtime.thy ===== *)
theory Runtime
  imports System Registration
begin

text \<open>
  The controllers as the runtime runs them. Every controller has a queue of machines. A change of a resource adds the machines it
  wakes the controller for; a run takes a machine of the queue, reads what is stored, and leaves it in the queue when it failed or
  asked to be run again. So the runs of the theory System are restricted to those a queue asks for, and what can be said is no
  longer only that nothing wrong is done, but that what has to be done is done: when nothing is left in the queues, every
  controller has acted on the present state. A run here reads what is stored at its start, and no lookup fails: a later change
  wakes the controller again, and a failed lookup only leaves the machine in the queue, which the system without queues covers.
\<close>

datatype ctl = CPower | CReboot | CWipe | CReport | CConfigure

record runtime =
  rt_sys :: system
  rt_queue :: "ctl \<Rightarrow> resource_id set"

definition reader_now :: "store \<Rightarrow> reader" where
  "reader_now s =
     \<lparr>rd_infra_machine = (\<lambda>i. found (so_machines s i)), rd_bmc_configuration = (\<lambda>i. found (so_bmc s i)),
      rd_machine_status = (\<lambda>i. found (so_ms s i)), rd_wipe_status = (\<lambda>i. found (so_ws s i)),
      rd_reboot_status = (\<lambda>i. found (so_rs s i)), rd_power_operation = (\<lambda>i. found (so_po s i)),
      rd_bmc_config = (\<lambda>i. found (so_bmc_configs s i))\<rparr>"

lemma reader_now_simps [simp]:
  "rd_infra_machine (reader_now s) i = found (so_machines s i)"
  "rd_bmc_configuration (reader_now s) i = found (so_bmc s i)"
  "rd_machine_status (reader_now s) i = found (so_ms s i)"
  "rd_wipe_status (reader_now s) i = found (so_ws s i)"
  "rd_reboot_status (reader_now s) i = found (so_rs s i)"
  "rd_power_operation (reader_now s) i = found (so_po s i)"
  "rd_bmc_config (reader_now s) i = found (so_bmc_configs s i)"
  by (simp_all add: reader_now_def)

lemma found_eq [simp]: "found x = Inr r \<longleftrightarrow> x = Some r" "found x = found y \<longleftrightarrow> x = y"
  by (auto simp: found_def split: option.splits)

text \<open>What the library takes for the end of a run: no error, or one that says that there is nothing to do.\<close>

fun is_skip :: "err \<Rightarrow> bool" where
  "is_skip (SkipReconcile s) = True"
| "is_skip (Wrapped s e) = is_skip e"
| "is_skip _ = False"

definition finished :: "err option \<Rightarrow> bool" where
  "finished r = (case r of None \<Rightarrow> True | Some e \<Rightarrow> is_skip e)"

lemma finished_simps [simp]: "finished None" "finished (Some e) = is_skip e"
  by (simp_all add: finished_def)

definition run_once ::
  "(err \<Rightarrow> bool) \<Rightarrow> 'o qsettings \<Rightarrow> (resource_id \<Rightarrow> 'o) \<Rightarrow>
      env \<Rightarrow> store \<Rightarrow> infra_machine \<Rightarrow> (resource_id \<rightharpoonup> 'o) \<Rightarrow> world \<Rightarrow>
   bool \<times> (resource_id \<rightharpoonup> 'o) \<times> world" where
  "run_once stores_after s fresh env st m table w =
     (case qs_Transform s env (reader_now st) m (case table (ID m) of None \<Rightarrow> fresh (ID m) | Some x \<Rightarrow> x) w of
        ((r, out), w') \<Rightarrow> (finished r, reconcile_into stores_after (qs_Transform s) fresh env (reader_now st) m table w))"

section \<open>The steps\<close>

abbreviation power_q :: "string \<Rightarrow> controllers \<Rightarrow> power_operation qsettings" where
  "power_q pid c \<equiv> PowerOperationController_settings pid (ct_po c)"

abbreviation reboot_q :: "controllers \<Rightarrow> reboot_status qsettings" where
  "reboot_q c \<equiv> RebootStatusController_settings (ct_rs c)"

abbreviation wipe_q :: "string \<Rightarrow> controllers \<Rightarrow> wipe_status qsettings" where
  "wipe_q pid c \<equiv> WipeStatusController_settings pid (ct_agent c)"

abbreviation report_q :: "string \<Rightarrow> controllers \<Rightarrow> infra_machine_status qsettings" where
  "report_q pid c \<equiv> InfraMachineStatusController_settings pid (ct_ims c)"

abbreviation configure_q :: "string \<Rightarrow> controllers \<Rightarrow> bmc_configuration qsettings" where
  "configure_q pid c \<equiv> BMCConfigurationController_settings pid (ct_bcc c)"

fun wakes_ctl :: "string \<Rightarrow> controllers \<Rightarrow> ctl \<Rightarrow> resource_id \<Rightarrow>
    reader \<Rightarrow> reader \<Rightarrow> bool" where
  "wakes_ctl pid c CPower i rd rd' = wakes_for (power_q pid c) i rd rd'"
| "wakes_ctl pid c CReboot i rd rd' = wakes_for (reboot_q c) i rd rd'"
| "wakes_ctl pid c CWipe i rd rd' = wakes_for (wipe_q pid c) i rd rd'"
| "wakes_ctl pid c CReport i rd rd' = wakes_for (report_q pid c) i rd rd'"
| "wakes_ctl pid c CConfigure i rd rd' = wakes_for (configure_q pid c) i rd rd'"

text \<open>The store becomes \<open>s\<close>: what is \<open>out\<close> of a queue leaves it, and what the changes wake joins it.\<close>

definition changed_to ::
  "string \<Rightarrow> controllers \<Rightarrow> runtime \<Rightarrow> (ctl \<Rightarrow>
      resource_id set) \<Rightarrow> store \<Rightarrow> world \<Rightarrow> runtime" where
  "changed_to pid c r out s w =
     \<lparr>rt_sys = advance (rt_sys r) s w,
      rt_queue = (\<lambda>q. (rt_queue r q - out q) \<union> {i. wakes_ctl pid c q i (reader_now (sy_now (rt_sys r)))
          (reader_now s)})\<rparr>"

abbreviation now :: "runtime \<Rightarrow> store" where "now r \<equiv> sy_now (rt_sys r)"
abbreviation world_of :: "runtime \<Rightarrow> world" where "world_of r \<equiv> sy_world (rt_sys r)"

definition only :: "ctl \<Rightarrow> resource_id \<Rightarrow> bool \<Rightarrow> ctl \<Rightarrow> resource_id set" where
  "only q i fin = (\<lambda>q'. if q' = q \<and> fin then {i} else {})"

definition running :: "store \<Rightarrow> resource_id \<Rightarrow> bool" where
  "running s i \<longleftrightarrow> (\<exists>m. so_machines s i = Some m \<and> Phase m = PhaseRunning)"

text \<open>A controller works on a machine of its queue that exists and is not torn down, unless it asked to go on till the end.\<close>

definition due :: "runtime \<Rightarrow> ctl \<Rightarrow> 'o qsettings \<Rightarrow> resource_id \<Rightarrow>
    infra_machine \<Rightarrow> bool" where
  "due r q s i m \<longleftrightarrow>
     i \<in> rt_queue r q \<and> so_machines (now r) i = Some m \<and> (Phase m = PhaseRunning \<or> qs_IgnoreTeardownUntil s)"

text \<open>
  The resources of a machine that is gone or torn down may go, and it may leave the queues. The status of a machine changes
  as before: by a poll, which may read an older version, or by an event.
\<close>

inductive rt_step :: "string \<Rightarrow> controllers \<Rightarrow> env \<Rightarrow> runtime \<Rightarrow>
    runtime \<Rightarrow> bool" for pid c env where
  omni: "(\<And>i m. ms i = Some m \<Longrightarrow> ID m = i) \<Longrightarrow>
     rt_step pid c env r (changed_to pid c r (\<lambda>q. {}) ((now r)\<lparr>so_machines := ms, so_bmc_configs :=
         bs\<rparr>) (world_of r))"
| gone: "bmc \<subseteq>\<^sub>m so_bmc (now r) \<Longrightarrow> ms \<subseteq>\<^sub>m so_ms (now r) \<Longrightarrow>
    ws \<subseteq>\<^sub>m so_ws (now r) \<Longrightarrow> rs \<subseteq>\<^sub>m so_rs (now r) \<Longrightarrow>
     po \<subseteq>\<^sub>m so_po (now r) \<Longrightarrow> rep \<subseteq>\<^sub>m so_report (now r) \<Longrightarrow>
     (\<And>i. running (now r) i \<Longrightarrow> bmc i = so_bmc (now r) i \<and> ms i = so_ms (now r) i \<and> ws i =
         so_ws (now r) i \<and>
        rs i = so_rs (now r) i \<and> po i = so_po (now r) i \<and> rep i = so_report (now r) i) \<Longrightarrow>
     (\<And>q i. i \<in> out q \<Longrightarrow> \<not> running (now r) i) \<Longrightarrow>
     rt_step pid c env r (changed_to pid c r out
       ((now r)\<lparr>so_bmc := bmc, so_ms := ms, so_ws := ws, so_rs := rs, so_po := po, so_report := rep\<rparr>) (world_of r))"
| power: "due r CPower (power_q pid c) i m \<Longrightarrow>
     run_once (ct_stores c) (power_q pid c) NewPowerOperation (env\<lparr>clock := ck\<rparr>) (now r) m (so_po (now r))
         (world_of r) = (fin, t, w') \<Longrightarrow>
     rt_step pid c env r (changed_to pid c r (only CPower i fin) ((now r)\<lparr>so_po := t\<rparr>) w')"
| reboot: "due r CReboot (reboot_q c) i m \<Longrightarrow>
     run_once (ct_stores c) (reboot_q c) NewRebootStatus (env\<lparr>clock := ck\<rparr>) (now r) m (so_rs (now r))
         (world_of r) = (fin, t, w') \<Longrightarrow>
     rt_step pid c env r (changed_to pid c r (only CReboot i fin) ((now r)\<lparr>so_rs := t\<rparr>) w')"
| removal: "i \<in> rt_queue r CReboot \<Longrightarrow> so_machines (now r) i = Some m \<Longrightarrow> Phase m =
    PhaseTearingDown \<Longrightarrow>
     rs_finalizerRemoval (ct_rs c) (env\<lparr>clock := ck\<rparr>) (reader_now (now r)) m (world_of r) = (x, w') \<Longrightarrow>
     rt_step pid c env r (changed_to pid c r (only CReboot i (x = None)) (now r) w')"
| wipe: "due r CWipe (wipe_q pid c) i m \<Longrightarrow>
     run_once (ct_stores c) (wipe_q pid c) NewWipeStatus (env\<lparr>clock := ck\<rparr>) (now r) m (so_ws (now r))
         (world_of r) = (fin, t, w') \<Longrightarrow>
     rt_step pid c env r (changed_to pid c r (only CWipe i fin) ((now r)\<lparr>so_ws := t\<rparr>) w')"
| report: "due r CReport (report_q pid c) i m \<Longrightarrow>
     run_once (ct_stores c) (report_q pid c) (ct_report c) (env\<lparr>clock := ck\<rparr>) (now r) m
         (so_report (now r)) (world_of r) = (fin, t, w') \<Longrightarrow>
     rt_step pid c env r (changed_to pid c r (only CReport i fin) ((now r)\<lparr>so_report := t\<rparr>) w')"
| configure: "due r CConfigure (configure_q pid c) i m \<Longrightarrow>
     run_once (ct_stores c) (configure_q pid c) NewBMCConfiguration (env\<lparr>clock := ck\<rparr>) (now r) m
         (so_bmc (now r)) (world_of r) = (fin, t, w') \<Longrightarrow>
     rt_step pid c env r (changed_to pid c r (only CConfigure i fin) ((now r)\<lparr>so_bmc := t\<rparr>) w')"
| status: "event_reads (rt_sys r) ev \<Longrightarrow>
     ms_step (ct_redfish c) (env\<lparr>clock := ck\<rparr>) ev (so_ms (now r)) (world_of r) = ((x, t), w') \<Longrightarrow>
     rt_step pid c env r (changed_to pid c r (\<lambda>q. {}) ((now r)\<lparr>so_ms := t\<rparr>) w')"
| status_finalizer: "(\<And>j x. get j = Inr x \<Longrightarrow> was (rt_sys r) so_machines j x) \<Longrightarrow>
     ms_Reconcile (ct_ms_name c) (env\<lparr>clock := ck\<rparr>) get i (world_of r) = (x, w') \<Longrightarrow>
     rt_step pid c env r (changed_to pid c r (\<lambda>q. {}) (now r) w')"

abbreviation rt_run :: "string \<Rightarrow> controllers \<Rightarrow> env \<Rightarrow> runtime \<Rightarrow>
    runtime \<Rightarrow> bool" where
  "rt_run pid c env \<equiv> (rt_step pid c env)\<^sup>*\<^sup>*"

definition rt_initial :: "world \<Rightarrow> runtime" where
  "rt_initial w = \<lparr>rt_sys = initial w, rt_queue = (\<lambda>q. {})\<rparr>"

lemma changed_to_simps [simp]:
  "rt_sys (changed_to pid c r out s w) = advance (rt_sys r) s w"
  "rt_queue (changed_to pid c r out s w) q =
     (rt_queue r q - out q) \<union> {i. wakes_ctl pid c q i (reader_now (sy_now (rt_sys r))) (reader_now s)}"
  by (simp_all add: changed_to_def)

section \<open>Every run of the runtime is a run of the system\<close>

lemma reads_now: "reads sy (reader_now (sy_now sy))"
  by (auto simp: reads_def intro: was_now)

lemma run_once_into:
  "run_once stores_after s fresh env st m table w = (fin, t, w') \<Longrightarrow>
   reconcile_into stores_after (qs_Transform s) fresh env (reader_now st) m table w = (t, w')"
  by (auto simp: run_once_def split: prod.splits)

lemma due_was: "due r q s i m \<Longrightarrow> was (rt_sys r) so_machines i m"
  by (simp add: due_def was_now)

lemma settings_transform [simp]:
  "qs_Transform (power_q pid c) = po_transform (ct_po c)"
  "qs_Transform (reboot_q c) = rs_transform (ct_rs c)"
  "qs_Transform (wipe_q pid c) = wsc_transform (ct_agent c)"
  "qs_Transform (report_q pid c) = ims_transform (ct_ims c)"
  "qs_Transform (configure_q pid c) = bcc_transform (ct_bcc c)"
  by (simp_all add: settings_defs)

lemma rt_step_system: "rt_step pid c env r r' \<Longrightarrow> system_step c env (rt_sys r) (rt_sys r')"
proof (induction rule: rt_step.induct)
  case (omni ms r bs)
  then show ?case by (simp add: system_step.omni)
next
  case (gone bmc r ms ws rs po rep out)
  then show ?case by (simp add: system_step.gone)
next
  case (power r i m ck fin t w')
  then show ?case using run_once_into[OF power(2)] by (auto intro: system_step.power[OF reads_now due_was])
next
  case (reboot r i m ck fin t w')
  then show ?case using run_once_into[OF reboot(2)] by (auto intro: system_step.reboot[OF reads_now due_was])
next
  case (removal i r m ck x w')
  then show ?case by (auto intro: system_step.removal[OF reads_now was_now])
next
  case (wipe r i m ck fin t w')
  then show ?case using run_once_into[OF wipe(2)] by (auto intro: system_step.wipe[OF reads_now due_was])
next
  case (report r i m ck fin t w')
  then show ?case using run_once_into[OF report(2)] by (auto intro: system_step.report[OF reads_now due_was])
next
  case (configure r i m ck fin t w')
  then show ?case using run_once_into[OF configure(2)] by (auto intro: system_step.configure[OF reads_now due_was])
next
  case (status r ev ck x t w')
  then show ?case by (auto intro: system_step.status)
next
  case (status_finalizer get r ck i x w')
  then show ?case by (auto intro: system_step.status_finalizer)
qed

lemma rt_run_system: "rt_run pid c env (rt_initial w) r \<Longrightarrow> system_run c env (initial w) (rt_sys r)"
proof (induction rule: rtranclp_induct)
  case base
  then show ?case by (simp add: rt_initial_def)
next
  case (step r r')
  then show ?case by (meson rt_step_system rtranclp.rtrancl_into_rtrancl)
qed

section \<open>Acting on the present\<close>

text \<open>
  A controller has settled a machine if a run that reads what is stored now ended without a failure, and what it owns of the
  machine is what this run left; a run that had nothing to do may have left what was there, or nothing.
\<close>

definition settled :: "env \<Rightarrow> 'o qsettings \<Rightarrow> (resource_id \<Rightarrow> 'o) \<Rightarrow>
    (resource_id \<rightharpoonup> 'o) \<Rightarrow> reader \<Rightarrow> infra_machine \<Rightarrow> bool" where
  "settled env s fresh table rd m \<longleftrightarrow>
     (\<exists>ck x w e out w'. qs_Transform s (env\<lparr>clock := ck\<rparr>) rd m x w = ((e, out), w') \<and> finished e \<and>
        (table (ID m) = Some out \<or>
         e \<noteq> None \<and> (table (ID m) = Some x \<or> table (ID m) = None \<and> x = fresh (ID m))))"

definition up_to_date ::
  "env \<Rightarrow> 'o qsettings \<Rightarrow> (resource_id \<Rightarrow> 'o) \<Rightarrow> (store \<Rightarrow>
      resource_id \<rightharpoonup> 'o) \<Rightarrow> resource_id set \<Rightarrow> store \<Rightarrow> bool" where
  "up_to_date env s fresh table queue st \<longleftrightarrow>
     (\<forall>i m. so_machines st i = Some m \<longrightarrow> Phase m =
         PhaseRunning \<longrightarrow> i \<notin> queue \<longrightarrow> settled env s fresh (table st) (reader_now st) m)"

lemma run_once_settled:
  assumes "run_once stores_after s fresh (env\<lparr>clock := ck\<rparr>) st m table w = (True, t, w')"
  shows "settled env s fresh t (reader_now st) m"
proof -
  let ?x = "case table (ID m) of None \<Rightarrow> fresh (ID m) | Some x \<Rightarrow> x"
  obtain r out w1 where tr: "qs_Transform s (env\<lparr>clock := ck\<rparr>) (reader_now st) m ?x w = ((r, out), w1)" by (metis surj_pair)
  with assms have fin: "finished r"
    and t: "t = (case r of None \<Rightarrow> table(ID m \<mapsto> out) | Some e \<Rightarrow>
        if stores_after e then table(ID m \<mapsto> out) else table)"
    by (auto simp: run_once_def reconcile_into_def split: option.splits if_splits)
  have "t (ID m) = Some out \<or> r \<noteq> None \<and> (t (ID m) = Some ?x \<or> t (ID m) = None \<and> ?x = fresh (ID m))"
    using t by (auto split: option.splits)
  with tr fin show ?thesis unfolding settled_def by blast
qed

text \<open>A run only changes the resource of its own machine.\<close>

lemma run_once_other:
  assumes "run_once stores_after s fresh (env\<lparr>clock := ck\<rparr>) st m table w = (fin, t, w')" and "i \<noteq> ID m"
  shows "t i = table i"
  using run_once_into[OF assms(1)] assms(2) by (auto simp: reconcile_into_def split: prod.splits option.splits if_splits)

lemma machine_wakes: "so_machines st i \<noteq> so_machines st' i \<Longrightarrow> wakes_for s i (reader_now st) (reader_now st')"
  unfolding wakes_for_def by (rule exI[of _ "\<lparr>ptr_kind = OmniMachine, ptr_id = i\<rparr>"]) (simp add: differs_def woken_def)

context qcontroller_contract
begin

lemma settled_still:
  assumes "settled env s fresh table rd m" and "\<not> wakes_for s (ID m) rd rd'"
  shows "settled env s fresh table rd' m"
proof -
  have "nothing_new s (ID m) rd rd'" using assms(2) by (auto simp: nothing_new_def wakes_for_def)
  from transform[OF this] show ?thesis using assms(1) by (simp add: settled_def)
qed

text \<open>
  Whatever not is in the queue stays settled: by any step that takes out of the queue only what it settled, and changes what
  the controller owns only of machines it took out, or that are not running.
\<close>

lemma up_to_date_step:
  assumes "up_to_date env s fresh table queue st" and "\<And>i m. so_machines st i = Some m \<Longrightarrow> ID m = i"
    and "\<And>i. running st i \<Longrightarrow> i \<notin> out \<Longrightarrow> i \<notin> queue \<Longrightarrow>
        table st' i = table st i"
    and "\<And>i m. i \<in> out \<Longrightarrow> so_machines st i = Some m \<Longrightarrow> Phase m =
        PhaseRunning \<Longrightarrow> settled env s fresh (table st') (reader_now st) m"
  shows "up_to_date env s fresh table ((queue - out) \<union> {i. wakes_for s i (reader_now st) (reader_now st')}) st'"
  unfolding up_to_date_def
proof (intro allI impI)
  fix i m
  assume m: "so_machines st' i = Some m" "Phase m = PhaseRunning"
    and i: "i \<notin> (queue - out) \<union> {i. wakes_for s i (reader_now st) (reader_now st')}"
  then have same: "so_machines st i = Some m" "ID m = i" using machine_wakes[of st i st' s] assms(2) by auto
  have "settled env s fresh (table st') (reader_now st) m"
  proof (cases "i \<in> out")
    case True
    then show ?thesis using assms(4) same m(2) by blast
  next
    case False
    then have "table st' i = table st i" "settled env s fresh (table st) (reader_now st) m"
      using assms(1,3) i same m(2) by (auto simp: up_to_date_def running_def)
    then show ?thesis using same(2) by (simp add: settled_def)
  qed
  then show "settled env s fresh (table st') (reader_now st') m" using settled_still i same(2) by simp
qed

lemma up_to_date_other:
  assumes "up_to_date env s fresh table queue st" and "\<And>i m. so_machines st i = Some m \<Longrightarrow> ID m = i"
    and "\<And>i. running st i \<Longrightarrow> table st' i = table st i"
  shows "up_to_date env s fresh table (queue \<union> {i. wakes_for s i (reader_now st) (reader_now st')}) st'"
  using up_to_date_step[OF assms(1,2), where out = "{}"] assms(3) by simp

lemma up_to_date_run:
  assumes "up_to_date env s fresh table queue st" and "\<And>i m. so_machines st i = Some m \<Longrightarrow> ID m = i"
    and "run_once stores_after s fresh (env\<lparr>clock := ck\<rparr>) st m (table st) w = (fin, t, w')" and "table st' = t"
    and "i \<in> queue" "so_machines st i = Some m"
  shows "up_to_date env s fresh table ((queue - (if fin then {i} else {})) \<union> {i. wakes_for s i (reader_now st)
      (reader_now st')}) st'"
proof (rule up_to_date_step[OF assms(1,2)])
  have i: "ID m = i" using assms(2,6) by blast
  show "table st' j = table st j" if "running st j" "j \<notin> (if fin then {i} else {})" "j \<notin> queue" for j
    using run_once_other[OF assms(3), of j] that(3) assms(4,5) i by auto
  show "settled env s fresh (table st') (reader_now st) m'"
    if "j \<in> (if fin then {i} else {})" "so_machines st j = Some m'" "Phase m' = PhaseRunning" for j m'
  proof -
    from that(1) have fin: fin and j: "j = i" by (auto split: if_splits)
    from that(2) j assms(6) have "m' = m" by simp
    from run_once_settled[where fresh = fresh] assms(3) fin have "settled env s fresh t (reader_now st) m" by simp
    then show ?thesis using \<open>m' = m\<close> assms(4) by simp
  qed
qed

end

text \<open>All controllers act on the present, as far as their queues are empty.\<close>

definition all_up_to_date :: "string \<Rightarrow> controllers \<Rightarrow> env \<Rightarrow> runtime \<Rightarrow> bool" where
  "all_up_to_date pid c env r \<longleftrightarrow>
     up_to_date env (power_q pid c) NewPowerOperation so_po (rt_queue r CPower) (now r) \<and>
     up_to_date env (reboot_q c) NewRebootStatus so_rs (rt_queue r CReboot) (now r) \<and>
     up_to_date env (wipe_q pid c) NewWipeStatus so_ws (rt_queue r CWipe) (now r) \<and>
     up_to_date env (report_q pid c) (ct_report c) so_report (rt_queue r CReport) (now r) \<and>
     up_to_date env (configure_q pid c) NewBMCConfiguration so_bmc (rt_queue r CConfigure) (now r)"

lemma all_up_to_date_quiet:
  assumes "all_up_to_date pid c env r" and keyed: "\<And>i m. so_machines (now r) i = Some m \<Longrightarrow> ID m = i"
    and same: "\<And>i. running (now r) i \<Longrightarrow> so_po st i = so_po (now r) i \<and> so_rs st i =
        so_rs (now r) i \<and> so_ws st i = so_ws (now r) i \<and>
      so_report st i = so_report (now r) i \<and> so_bmc st i = so_bmc (now r) i"
    and out: "\<And>q i. i \<in> out q \<Longrightarrow> \<not> running (now r) i"
  shows "all_up_to_date pid c env (changed_to pid c r out st w)"
proof -
  have out: "i \<in> out q \<Longrightarrow> so_machines (now r) i = Some m \<Longrightarrow> Phase m =
      PhaseRunning \<Longrightarrow> P" for q i m P
    using out[of i q] by (auto simp: running_def)
  show ?thesis
    using assms(1) same unfolding all_up_to_date_def changed_to_simps wakes_ctl.simps advance_simps
    by (auto intro!: power_operation_q.up_to_date_step[OF _ keyed] reboot_status_q.up_to_date_step[OF _ keyed]
        wipe_status_q.up_to_date_step[OF _ keyed] infra_machine_status_q.up_to_date_step[OF _ keyed]
        bmc_configuration_q.up_to_date_step[OF _ keyed] elim: out)
qed

lemma only_simps [simp]: "only q i fin q = (if fin then {i} else {})" "q' \<noteq> q \<Longrightarrow> only q i fin q' = {}"
  by (simp_all add: only_def)

lemma dueD: "due r q s i m \<Longrightarrow> i \<in> rt_queue r q" "due r q s i m \<Longrightarrow> so_machines (now r) i = Some m"
  by (simp_all add: due_def)

lemma all_up_to_date_step:
  assumes "rt_step pid c env r r'" and "all_up_to_date pid c env r" and keyed: "\<And>i m. so_machines (now r) i =
      Some m \<Longrightarrow> ID m = i"
  shows "all_up_to_date pid c env r'"
proof -
  note others = power_operation_q.up_to_date_other[OF _ keyed] reboot_status_q.up_to_date_other[OF _ keyed]
    wipe_status_q.up_to_date_other[OF _ keyed] infra_machine_status_q.up_to_date_other[OF _ keyed]
    bmc_configuration_q.up_to_date_other[OF _ keyed]
  note old = assms(2)[unfolded all_up_to_date_def]
  note goal = all_up_to_date_def changed_to_simps wakes_ctl.simps advance_simps
  from assms(1) show ?thesis
  proof (cases rule: rt_step.cases)
    case (power i m ck fin t w')
    from power_operation_q.up_to_date_run[where table = so_po and st' = "(now r)\<lparr>so_po := t\<rparr>",
        OF _ keyed power(3) _ dueD[OF power(2)]] old
    show ?thesis unfolding power(1) goal by (auto intro!: others)
  next
    case (reboot i m ck fin t w')
    from reboot_status_q.up_to_date_run[where table = so_rs and st' = "(now r)\<lparr>so_rs := t\<rparr>",
        OF _ keyed reboot(3) _ dueD[OF reboot(2)]] old
    show ?thesis unfolding reboot(1) goal by (auto intro!: others)
  next
    case (wipe i m ck fin t w')
    from wipe_status_q.up_to_date_run[where table = so_ws and st' = "(now r)\<lparr>so_ws := t\<rparr>",
        OF _ keyed wipe(3) _ dueD[OF wipe(2)]] old
    show ?thesis unfolding wipe(1) goal by (auto intro!: others)
  next
    case (report i m ck fin t w')
    from infra_machine_status_q.up_to_date_run[where table = so_report and st' = "(now r)\<lparr>so_report :=
        t\<rparr>", OF _ keyed report(3) _ dueD[OF report(2)]] old
    show ?thesis unfolding report(1) goal by (auto intro!: others)
  next
    case (configure i m ck fin t w')
    from bmc_configuration_q.up_to_date_run[where table = so_bmc and st' = "(now r)\<lparr>so_bmc := t\<rparr>",
        OF _ keyed configure(3) _ dueD[OF configure(2)]] old
    show ?thesis unfolding configure(1) goal by (auto intro!: others)
  next
    case (removal i m ck x w')
    then show ?thesis
      by (auto simp: running_def only_def split: if_splits intro!: all_up_to_date_quiet[OF assms(2) keyed])
  qed (auto intro!: all_up_to_date_quiet[OF assms(2) keyed])
qed

lemma all_up_to_date_run: "rt_run pid c env (rt_initial w) r \<Longrightarrow> all_up_to_date pid c env r"
proof (induction rule: rtranclp_induct)
  case base
  then show ?case by (simp add: all_up_to_date_def up_to_date_def rt_initial_def empty_store_def)
next
  case (step r r')
  have "ID m = i" if "so_machines (now r) i = Some m" for i m
    using machines_keyed[OF rt_run_system[OF step(1)] was_now] that by blast
  then show ?case using all_up_to_date_step[OF step(2,3)] by blast
qed

section \<open>What has to be done is done\<close>

text \<open>
  The tag that says that there is nothing to do is the provider's own: no library puts it on its errors.
\<close>

definition no_foreign_skips :: "bcc_helper \<Rightarrow> env \<Rightarrow> bool" where
  "no_foreign_skips h env \<longleftrightarrow>
     (\<forall>qs q e. answer_act env qs q = Some e \<longrightarrow> \<not> is_skip e) \<and>
     (\<forall>qs q e. answer_pm env qs q = Inl e \<longrightarrow> \<not> is_skip e) \<and>
     (\<forall>i e. ReadManagementAddressOf h i = Inl e \<longrightarrow> \<not> is_skip e) \<and>
     (\<forall>i n e. random h i n = Inl e \<longrightarrow> \<not> is_skip e)"

lemma generate_runes_no_skip:
  "generate_runes rand i n = Inl e \<Longrightarrow> (\<And>i n e. rand i n = Inl e \<Longrightarrow> \<not> is_skip e)
      \<Longrightarrow> \<not> is_skip e"
  by (induction n arbitrary: i) (auto split: sum.splits)

lemma wsc_finished:
  assumes "wsc_transform opts (env\<lparr>clock := ck\<rparr>) rd m x w = ((e, out), w')" and "finished e" and "no_foreign_skips h env"
    and "validateInfraMachine m = None" "rd_machine_status rd (ID m) = Inr ms" "AgentAccessible (Spec ms)"
  shows "wiped_for m out \<and> (e \<noteq> None \<longrightarrow> out = x)"
  using assms
  by (auto simp: wsc_transform_def finished_def no_foreign_skips_def agent_WipeDisks_def act_def Let_def RequiresWipe_iff wiped_for_def
      split: if_splits option.splits)

lemma bcc_from_agent_no_skip:
  assumes "bcc_from_agent h (env\<lparr>clock := ck\<rparr>) i pm x w = ((Some e, out), w')" and "no_foreign_skips h env"
  shows "\<not> is_skip e"
proof -
  have "generateIPMIPassword (random h) = Inl e' \<Longrightarrow> \<not> is_skip e'" for e'
    using assms(2) generate_runes_no_skip[of "random h"] by (auto simp: no_foreign_skips_def generateIPMIPassword_def)
  with assms show ?thesis
    by (auto simp: no_foreign_skips_def bcc_from_agent_def ensurePowerManagementOnAgent_def agent_SetPowerManagement_def act_def Let_def
        split: option.splits sum.splits if_splits prod.splits)
qed

text \<open>A run of the BMC configuration controller that ends without an error, or with nothing to do,
    had something stored or stores it.\<close>

lemma bcc_finished:
  assumes "bcc_transform h (env\<lparr>clock := ck\<rparr>) rd m x w = ((Some e, out), w')" and "is_skip e" and "no_foreign_skips h env"
    and "validateInfraMachine m = None" "rd_machine_status rd (ID m) = Inr ms" "AgentAccessible (Spec ms)"
    and "get_or_nil (rd_bmc_config rd (ID m)) = Inr u"
  shows "out = x \<and> alreadyInitialized x"
proof -
  have "answer_pm env qs q = Inl e' \<Longrightarrow> \<not> is_skip e'" for qs q e' using assms(3) by (simp add: no_foreign_skips_def)
  then show ?thesis
    using assms bcc_from_agent_no_skip[OF _ assms(3), where e = e]
    by (auto simp: bcc_transform_def storeUserProvidedBMCConfig_def Let_def agent_GetPowerManagement_def ask_pm_def
        split: option.splits sum.splits if_splits)
qed

definition bmc_usable :: "bmc_configuration \<Rightarrow> bool" where
  "bmc_usable bmc \<longleftrightarrow> Ipmi (Spec bmc) \<noteq> None \<or> Api (Spec bmc) \<noteq> None \<or> Manual
      (Spec bmc) \<noteq> None"

text \<open>A configuration the operator gave names a way to reach the BMC, if there is one.\<close>

definition operator_names_bmc :: "store \<Rightarrow> resource_id \<Rightarrow> bool" where
  "operator_names_bmc s i \<longleftrightarrow>
     (\<forall>u k. so_bmc_configs s i = Some u \<longrightarrow> Config (Spec u) =
         Some k \<longrightarrow> UserIpmi k \<noteq> None \<or> UserApi k \<noteq> None)"

lemma settled_wiped:
  assumes "settled env (wipe_q pid c) NewWipeStatus (so_ws st) (reader_now st) m" and "no_foreign_skips h env"
    and "validateInfraMachine m = None" "so_ms st (ID m) = Some ms" "AgentAccessible (Spec ms)"
  obtains ws where "so_ws st (ID m) = Some ws" "wiped_for m ws"
proof -
  from assms(1) obtain ck x w e out w' where t: "wsc_transform (ct_agent c) (env\<lparr>clock :=
      ck\<rparr>) (reader_now st) m x w = ((e, out), w')"
    and e: "finished e" and s: "so_ws st (ID m) = Some out \<or>
         e \<noteq> None \<and> (so_ws st (ID m) = Some x \<or> so_ws st (ID m) = None \<and> x = NewWipeStatus (ID m))"
    by (auto simp: settled_def)
  have "rd_machine_status (reader_now st) (ID m) = Inr ms" using assms(4) by simp
  from wsc_finished[OF t e assms(2,3) this assms(5)] have o: "wiped_for m out" "e \<noteq> None \<Longrightarrow> out = x" by auto
  then have "\<not> wiped_for m (NewWipeStatus (ID m))" by (simp add: wiped_for_def NewWipeStatus_def new_resource_def)
  with s o that show ?thesis by blast
qed

lemma settled_configured:
  assumes "settled env (configure_q pid c) NewBMCConfiguration (so_bmc st) (reader_now st) m" and "no_foreign_skips (ct_bcc c) env"
    and "validateInfraMachine m = None" "so_ms st (ID m) = Some ms" "AgentAccessible (Spec ms)"
  obtains bmc where "so_bmc st (ID m) = Some bmc" "operator_names_bmc st (ID m) \<Longrightarrow> bmc_usable bmc"
proof -
  from assms(1) obtain ck x w e out w' where t: "bcc_transform (ct_bcc c) (env\<lparr>clock :=
      ck\<rparr>) (reader_now st) m x w = ((e, out), w')"
    and e: "finished e" and s: "so_bmc st (ID m) = Some out \<or>
         e \<noteq> None \<and> (so_bmc st (ID m) = Some x \<or> so_bmc st (ID m) = None \<and> x = NewBMCConfiguration (ID m))"
    by (auto simp: settled_def)
  have rd: "rd_machine_status (reader_now st) (ID m) = Inr ms" using assms(4) by simp
  have u: "get_or_nil (rd_bmc_config (reader_now st) (ID m)) = Inr (so_bmc_configs st (ID m))" by simp
  show ?thesis
  proof (cases e)
    case None
    then have "operator_names_bmc st (ID m) \<Longrightarrow> bmc_usable out"
      using bcc_success_entry[of "ct_bcc c"] t by (simp add: operator_names_bmc_def bmc_usable_def)
    then show ?thesis using that s None by auto
  next
    case (Some y)
    with e have "is_skip y" by (simp add: finished_def)
    from bcc_finished[OF t[unfolded Some] this assms(2,3) rd assms(5) u] have o: "out = x" "alreadyInitialized x" by auto
    moreover have "\<not> alreadyInitialized (NewBMCConfiguration (ID m))"
      by (simp add: alreadyInitialized_def NewBMCConfiguration_def new_resource_def)
    ultimately have "so_bmc st (ID m) = Some x" using s by auto
    then show ?thesis using that o(2) by (auto simp: alreadyInitialized_def bmc_usable_def)
  qed
qed

lemma settled_reported:
  assumes "settled env (report_q pid c) fresh (so_report st) (reader_now st) m" and "validateInfraMachine m = None"
  obtains rep sp where "so_report st (ID m) = Some rep"
    "Spec rep = ims_spec m (so_ms st (ID m)) (so_rs st (ID m)) (so_ws st (ID m)) (so_bmc st (ID m)) (so_po st (ID m)) sp"
proof -
  from assms obtain x where "so_report st (ID m) = Some (x
      \<lparr>Labels := ims_labels (ct_ims c) m (Labels x),
       Spec := ims_spec m (so_ms st (ID m)) (so_rs st (ID m)) (so_ws st (ID m)) (so_bmc st (ID m)) (so_po st (ID m)) (Spec x)\<rparr>)"
    by (auto simp: settled_def ims_transform_def)
  then show ?thesis by (rule that[where sp = "Spec x"]) simp
qed

text \<open>
  A machine is ready: it is wiped for its current lifecycle, which its agent confirmed, it has a BMC configuration, one that can be used
  unless the operator gave one that names no BMC, Omni is told that it is ready to use and whether it is installed, and if it
  is allocated to a cluster it is no longer sent to the agent when it boots.
\<close>

definition machine_ready :: "controllers \<Rightarrow> env \<Rightarrow> boot_options \<Rightarrow>
    runtime \<Rightarrow> infra_machine \<Rightarrow> bool" where
  "machine_ready c env opts r m \<longleftrightarrow>
     (\<exists>ws bmc rep. so_ws (now r) (ID m) = Some ws \<and> wiped_for m ws \<and>
        wipe_confirmed (ct_agent c) env (rt_sys r) (ID m) (WipeId (Spec m)) \<and>
        so_bmc (now r) (ID m) = Some bmc \<and> (operator_names_bmc (now r) (ID m) \<longrightarrow> bmc_usable bmc) \<and>
        so_report (now r) (ID m) = Some rep \<and> ims_ReadyToUse (Spec rep) \<and>
        ims_Installed (Spec rep) = IsInstalled (Some m) (Some ws) \<and>
        (ClusterTalosVersion (Spec m) \<noteq> [] \<longrightarrow> RequiredBootMode (Some m) (Some bmc)
            (Some ws) opts \<noteq> BootModeAgentPXE))"

lemma idle_ready:
  assumes "rt_run pid c env (rt_initial w) r" and "no_foreign_skips (ct_bcc c) env"
    and "i \<notin> rt_queue r CConfigure" "i \<notin> rt_queue r CWipe" "i \<notin> rt_queue r CReport"
    and "so_machines (now r) i = Some m" "Phase m = PhaseRunning" "AcceptanceStatus (Spec m) = ACCEPTED" "\<not> Cordoned (Spec m)"
    and "so_ms (now r) i = Some ms" "AgentAccessible (Spec ms)"
  shows "machine_ready c env opts r m"
proof -
  note sys = rt_run_system[OF assms(1)]
  have i: "ID m = i" using machines_keyed[OF sys was_now[where table = so_machines, OF assms(6)]] .
  have v: "validateInfraMachine m = None" using assms(8,9) by (simp add: validateInfraMachine_None)
  note settled = all_up_to_date_run[OF assms(1), unfolded all_up_to_date_def up_to_date_def]
  have ms: "so_ms (now r) (ID m) = Some ms" using assms(10) i by simp
  from settled assms have wipe: "settled env (wipe_q pid c) NewWipeStatus (so_ws (now r)) (reader_now (now r)) m"
    and conf: "settled env (configure_q pid c) NewBMCConfiguration (so_bmc (now r)) (reader_now (now r)) m"
    and rep: "settled env (report_q pid c) (ct_report c) (so_report (now r)) (reader_now (now r)) m" by blast+
  obtain ws where ws: "so_ws (now r) i = Some ws" "wiped_for m ws"
    using settled_wiped[OF wipe assms(2) v ms assms(11)] i by metis
  obtain bmc where bmc: "so_bmc (now r) i = Some bmc" "operator_names_bmc (now r) i \<Longrightarrow> bmc_usable bmc"
    using settled_configured[OF conf assms(2) v ms assms(11)] i by metis
  obtain re sp where re: "so_report (now r) i = Some re"
    "Spec re = ims_spec m (so_ms (now r) i) (so_rs (now r) i) (so_ws (now r) i) (so_bmc (now r) i) (so_po (now r) i) sp"
    using settled_reported[OF rep v] i by metis
  have "wipe_confirmed (ct_agent c) env (rt_sys r) i (LastWipeId (Spec ws))"
    using clean_confirmed_run[OF sys] was_now[where table = so_ws, OF ws(1)] ws(2) unfolding clean_confirmed_def wiped_for_def by blast
  then have "wipe_confirmed (ct_agent c) env (rt_sys r) i (WipeId (Spec m))" using ws(2) by (simp add: wiped_for_def)
  moreover have "ClusterTalosVersion (Spec m) \<noteq> [] \<longrightarrow> RequiredBootMode (Some m) (Some bmc)
      (Some ws) opts \<noteq> BootModeAgentPXE"
    using ws(2) assms(7,8) by (auto simp: RequiredBootMode_AgentPXE_iff handover_ready_def)
  moreover have "\<not> RequiresWipe (Some m) (Some ws)" using ws(2) by (simp add: RequiresWipe_iff)
  ultimately show ?thesis unfolding machine_ready_def using ws bmc re i by auto
qed

text \<open>
  C3. Nothing is left undone. Take any run of the runtime, with all controllers, Omni,
      the operator and the agents interleaved at will. Whenever
  the queues of the BMC configuration, the wipe and the report controller hold nothing for a machine that is accepted, not cordoned,
  not torn down, and whose agent is reachable, then the machine is ready.
\<close>

theorem idle_machine_is_ready:
  assumes "rt_run pid c env (rt_initial w) r" and "no_foreign_skips (ct_bcc c) env"
    and "i \<notin> rt_queue r CConfigure" "i \<notin> rt_queue r CWipe" "i \<notin> rt_queue r CReport"
    and "so_machines (now r) i = Some m" "Phase m = PhaseRunning" "AcceptanceStatus (Spec m) = ACCEPTED" "\<not> Cordoned (Spec m)"
    and "so_ms (now r) i = Some ms" "AgentAccessible (Spec ms)"
  shows "machine_ready c env opts r m"
  using assms by (rule idle_ready)

section \<open>It comes to that\<close>

text \<open>The runs of these three controllers that end.\<close>

inductive onboards :: "string \<Rightarrow> controllers \<Rightarrow> env \<Rightarrow> resource_id \<Rightarrow>
    runtime \<Rightarrow> runtime \<Rightarrow> bool" for pid c env i r where
  wiping: "due r CWipe (wipe_q pid c) i m \<Longrightarrow>
     run_once (ct_stores c) (wipe_q pid c) NewWipeStatus (env\<lparr>clock := ck\<rparr>) (now r) m (so_ws (now r))
         (world_of r) = (True, t, w') \<Longrightarrow>
     onboards pid c env i r (changed_to pid c r (only CWipe i True) ((now r)\<lparr>so_ws := t\<rparr>) w')"
| reporting: "due r CReport (report_q pid c) i m \<Longrightarrow>
     run_once (ct_stores c) (report_q pid c) (ct_report c) (env\<lparr>clock := ck\<rparr>) (now r) m
         (so_report (now r)) (world_of r) = (True, t, w') \<Longrightarrow>
     onboards pid c env i r (changed_to pid c r (only CReport i True) ((now r)\<lparr>so_report := t\<rparr>) w')"
| configuring: "due r CConfigure (configure_q pid c) i m \<Longrightarrow>
     run_once (ct_stores c) (configure_q pid c) NewBMCConfiguration (env\<lparr>clock := ck\<rparr>) (now r) m
         (so_bmc (now r)) (world_of r) = (True, t, w') \<Longrightarrow>
     onboards pid c env i r (changed_to pid c r (only CConfigure i True) ((now r)\<lparr>so_bmc := t\<rparr>) w')"

lemma onboards_step: "onboards pid c env i r r' \<Longrightarrow> rt_step pid c env r r'"
  by (induction rule: onboards.induct) (rule rt_step.wipe rt_step.report rt_step.configure; assumption)+

definition load :: "runtime \<Rightarrow> nat" where
  "load r = 2 * (card (rt_queue r CConfigure) + card (rt_queue r CWipe)) + card (rt_queue r CReport)"

definition finite_queues :: "runtime \<Rightarrow> bool" where
  "finite_queues r \<longleftrightarrow> finite (rt_queue r CConfigure) \<and> finite (rt_queue r CWipe) \<and> finite (rt_queue r CReport)"

text \<open>What a change of one resource wakes.\<close>

lemma differs_now:
  assumes "differs (reader_now s) (reader_now s') p"
  obtains "so_machines s \<noteq> so_machines s'" | "so_bmc_configs s \<noteq> so_bmc_configs s'"
    | "ptr_kind p = Managed KBMCConfiguration" "so_bmc s (ptr_id p) \<noteq> so_bmc s' (ptr_id p)"
    | "so_ms s \<noteq> so_ms s'" | "so_po s \<noteq> so_po s'" | "so_rs s \<noteq> so_rs s'"
    | "ptr_kind p = Managed KWipeStatus" "so_ws s (ptr_id p) \<noteq> so_ws s' (ptr_id p)"
  using assms by (auto simp: differs_def Let_def split: managed.splits provider_kind.splits) metis+

lemma wakes_wiped [simp]:
  "\<not> wakes_for (wipe_q pid c) j (reader_now s) (reader_now (s\<lparr>so_ws := t\<rparr>))"
  "\<not> wakes_for (configure_q pid c) j (reader_now s) (reader_now (s\<lparr>so_ws := t\<rparr>))"
  "wakes_for (report_q pid c) j (reader_now s) (reader_now (s\<lparr>so_ws := t\<rparr>)) \<Longrightarrow> t j \<noteq> so_ws s j"
  by (auto simp: wakes_for_def woken_def settings_defs MapperSameID_def elim!: differs_now split: if_splits)

lemma wakes_configured [simp]:
  "\<not> wakes_for (wipe_q pid c) j (reader_now s) (reader_now (s\<lparr>so_bmc := t\<rparr>))"
  "\<not> wakes_for (configure_q pid c) j (reader_now s) (reader_now (s\<lparr>so_bmc := t\<rparr>))"
  "wakes_for (report_q pid c) j (reader_now s) (reader_now (s\<lparr>so_bmc := t\<rparr>)) \<Longrightarrow> t j \<noteq> so_bmc s j"
  by (auto simp: wakes_for_def woken_def settings_defs MapperSameID_def elim!: differs_now split: if_splits)

lemma wakes_reported [simp]: "\<not> wakes_for q j (reader_now s) (reader_now (s\<lparr>so_report := t\<rparr>))"
  by (auto simp: wakes_for_def elim!: differs_now)

text \<open>Every run that ends lightens the load, though a wipe and a BMC configuration wake the report.\<close>

lemma onboards_load:
  assumes "onboards pid c env i r r'" and "finite_queues r" and keyed: "\<And>i m. so_machines (now r) i =
      Some m \<Longrightarrow> ID m = i"
  shows "finite_queues r' \<and> load r' < load r"
proof -
  have less: "finite Q \<Longrightarrow> j \<in> Q \<Longrightarrow> card (Q - {j}) < card Q" for Q ::
      "resource_id set" and j by (rule card_Diff1_less)
  have one_more: "finite Q \<Longrightarrow> W \<subseteq> {j} \<Longrightarrow> finite (Q \<union> W) \<and>
      card (Q \<union> W) \<le> Suc (card Q)" for Q W :: "resource_id set" and j
    by (auto dest!: subset_singletonD simp: card_insert_if)
  from assms(1) show ?thesis
  proof (cases rule: onboards.cases)
    case (wiping m ck t w')
    have "ID m = i" using keyed dueD(2)[OF wiping(2)] by blast
    then have "{j. wakes_for (report_q pid c) j (reader_now (now r)) (reader_now (now r\<lparr>so_ws := t\<rparr>))} \<subseteq> {i}"
      using wakes_wiped(3) run_once_other[OF wiping(3)] by fastforce
    from one_more[OF _ this, of "rt_queue r CReport"] show ?thesis
      using assms(2) less[OF _ dueD(1)[OF wiping(2)]] unfolding wiping(1) by (auto simp: finite_queues_def load_def)
  next
    case (configuring m ck t w')
    have "ID m = i" using keyed dueD(2)[OF configuring(2)] by blast
    then have "{j. wakes_for (report_q pid c) j (reader_now (now r)) (reader_now (now r\<lparr>so_bmc := t\<rparr>))} \<subseteq> {i}"
      using wakes_configured(3) run_once_other[OF configuring(3)] by fastforce
    from one_more[OF _ this, of "rt_queue r CReport"] show ?thesis
      using assms(2) less[OF _ dueD(1)[OF configuring(2)]] unfolding configuring(1) by (auto simp: finite_queues_def load_def)
  next
    case (reporting m ck t w')
    then show ?thesis
      using assms(2) less[OF _ dueD(1)[OF reporting(2)]] by (auto simp: finite_queues_def load_def)
  qed
qed

text \<open>
  The agent of a machine does what it is asked, reports how the machine is powered, unless machines without a BMC are allowed; the
  operator's configuration, if there is one, is not empty; random numbers and the addresses of power APIs can be read.
\<close>

definition helped :: "bcc_helper \<Rightarrow> env \<Rightarrow> store \<Rightarrow> resource_id \<Rightarrow> bool" where
  "helped h env s i \<longleftrightarrow>
     (\<forall>qs z t. answer_act env qs (AgentWipeDisks i z t) = None) \<and>
     (\<forall>qs req. answer_act env qs (AgentSetPowerManagement i req) = None) \<and>
     (\<forall>qs. \<exists>pm. answer_pm env qs (AgentGetPowerManagement i) = Inr pm \<and>
        (pm_Api pm \<or> pm_Ipmi pm \<noteq> None \<or> AllowMachinesWithoutBMC h)) \<and>
     (\<forall>j. \<exists>a. ReadManagementAddressOf h j = Inr a) \<and> (\<forall>j n. \<exists>k. random h j n = Inr k) \<and>
     (\<forall>u. so_bmc_configs s i = Some u \<longrightarrow> Config (Spec u) \<noteq> None)"

lemma generate_runes_Inr: "(\<And>j n. \<exists>k. rand j n = Inr k) \<Longrightarrow> \<exists>p. generate_runes rand i n = Inr p"
proof (induction n arbitrary: i)
  case (Suc n)
  then obtain k p where "rand i (length runes) = Inr k" "generate_runes rand (Suc i) n = Inr p" by metis
  then show ?case by simp
qed simp

lemma wsc_ends:
  assumes "helped h env st (ID m)"
  shows "finished (fst (fst (wsc_transform opts (env\<lparr>clock := ck\<rparr>) (reader_now st) m x w))) \<or>
      validateInfraMachine m \<noteq> None"
  using assms
  by (auto simp: wsc_transform_def helped_def agent_WipeDisks_def act_def Let_def finished_def split: option.splits)

lemma ims_ends: "validateInfraMachine m = None \<Longrightarrow> finished (fst (fst (ims_transform h env (reader_now st) m x w)))"
  by (simp add: ims_transform_def finished_def)

lemma bcc_ends:
  assumes "helped h env st (ID m)" and "validateInfraMachine m = None"
  shows "finished (fst (fst (bcc_transform h (env\<lparr>clock := ck\<rparr>) (reader_now st) m x w)))"
proof -
  have "\<exists>p. generateIPMIPassword (random h) = Inr p"
    unfolding generateIPMIPassword_def by (rule generate_runes_Inr) (use assms(1) in \<open>simp add: helped_def\<close>)
  then obtain pw where pw: "generateIPMIPassword (random h) = Inr pw" by blast
  have from_agent: "finished (fst (fst (bcc_from_agent h (env\<lparr>clock := ck\<rparr>) (ID m) pm x w1)))"
    if "pm_Api pm \<or> pm_Ipmi pm \<noteq> None \<or> AllowMachinesWithoutBMC h" for pm w1
  proof -
    obtain a where "ReadManagementAddressOf h (ID m) = Inr a" using assms(1) unfolding helped_def by blast
    then show ?thesis
      using that assms(1) pw
      by (auto simp: helped_def bcc_from_agent_def hasNoBMC_def ensurePowerManagementOnAgent_def agent_SetPowerManagement_def
          act_def Let_def finished_def split: option.splits)
  qed
  obtain pm where "answer_pm env (requests w) (AgentGetPowerManagement (ID m)) = Inr pm"
    "pm_Api pm \<or> pm_Ipmi pm \<noteq> None \<or> AllowMachinesWithoutBMC h" using assms(1) unfolding helped_def by blast
  then show ?thesis
    using assms from_agent
    by (auto simp: bcc_transform_def helped_def storeUserProvidedBMCConfig_def agent_GetPowerManagement_def ask_pm_def Let_def
        split: option.splits)
qed

lemma run_once_ends:
  assumes "finished (fst (fst (qs_Transform s env (reader_now st) m (case table (ID m) of None \<Rightarrow>
      fresh (ID m) | Some x \<Rightarrow> x) w)))"
  shows "\<exists>t w'. run_once stores_after s fresh env st m table w = (True, t, w')"
  using assms by (auto simp: run_once_def split: prod.splits)

text \<open>A run that is due can be made, and ends.\<close>

lemma onboards_enabled:
  assumes "i \<in> rt_queue r CConfigure \<or> i \<in> rt_queue r CWipe \<or> i \<in> rt_queue r CReport"
    and "so_machines (now r) i = Some m" "Phase m = PhaseRunning" "ID m = i" "validateInfraMachine m = None"
    and "helped (ct_bcc c) env (now r) i"
  shows "\<exists>r'. onboards pid c env i r r'"
proof -
  note helps = assms(6)[folded assms(4)]
  consider "due r CConfigure (configure_q pid c) i m" | "due r CWipe (wipe_q pid c) i m" | "due r CReport (report_q pid c) i m"
    using assms(1-3) by (auto simp: due_def)
  then show ?thesis
  proof cases
    case 1
    moreover obtain t w' where "run_once (ct_stores c) (configure_q pid c) NewBMCConfiguration (env\<lparr>clock :=
        undefined\<rparr>) (now r) m
        (so_bmc (now r)) (world_of r) = (True, t, w')"
      using run_once_ends bcc_ends[OF helps assms(5)] by (metis settings_transform(5))
    ultimately show ?thesis by (blast intro: onboards.configuring)
  next
    case 2
    moreover obtain t w' where "run_once (ct_stores c) (wipe_q pid c) NewWipeStatus (env\<lparr>clock := undefined\<rparr>) (now r) m
        (so_ws (now r)) (world_of r) = (True, t, w')"
      using run_once_ends wsc_ends[OF helps] assms(5) by (metis settings_transform(3))
    ultimately show ?thesis by (blast intro: onboards.wiping)
  next
    case 3
    moreover obtain t w' where "run_once (ct_stores c) (report_q pid c) (ct_report c) (env\<lparr>clock := undefined\<rparr>) (now r) m
        (so_report (now r)) (world_of r) = (True, t, w')"
      using run_once_ends ims_ends[OF assms(5)] by (metis settings_transform(4))
    ultimately show ?thesis by (blast intro: onboards.reporting)
  qed
qed

lemma onboards_keeps:
  "onboards pid c env i r r' \<Longrightarrow>
     so_machines (now r') = so_machines (now r) \<and> so_ms (now r') = so_ms (now r) \<and> so_bmc_configs (now r') =
         so_bmc_configs (now r)"
  by (induction rule: onboards.induct) simp_all

lemma onboarding_chain:
  assumes "((\<lambda>r r'. \<exists>i. onboards pid c env i r r') ^^ n) r r'" and "rt_run pid c env (rt_initial w) r" and "finite_queues r"
  shows "rt_run pid c env (rt_initial w) r' \<and> finite_queues r' \<and> load r' + n \<le> load r \<and>
    so_machines (now r') = so_machines (now r) \<and> so_ms (now r') = so_ms (now r) \<and> so_bmc_configs (now r') =
        so_bmc_configs (now r)"
  using assms(1)
proof (induction n arbitrary: r')
  case 0
  then show ?case using assms by simp
next
  case (Suc n)
  then obtain r1 i where r1: "((\<lambda>r r'. \<exists>i. onboards pid c env i r r') ^^ n) r r1" and o:
      "onboards pid c env i r1 r'" by auto
  note IH = Suc.IH[OF r1]
  have "ID m = j" if "so_machines (now r1) j = Some m" for j m
    using machines_keyed[OF rt_run_system was_now[where table = so_machines]] IH that by blast
  moreover have "rt_run pid c env (rt_initial w) r'"
    using IH onboards_step[OF o] by (meson rtranclp.rtrancl_into_rtrancl)
  ultimately show ?case using onboards_load[OF o] onboards_keeps[OF o] IH by auto
qed

lemma onboarding_ends:
  assumes "rt_run pid c env (rt_initial w) r" and "finite_queues r"
  shows "\<exists>n r'. ((\<lambda>r r'. \<exists>j. onboards pid c env j r r') ^^ n) r r' \<and>
      (\<nexists>i r''. onboards pid c env i r' r'')"
  using assms
proof (induction "load r" arbitrary: r rule: less_induct)
  case less
  show ?case
  proof (cases "\<exists>i r1. onboards pid c env i r r1")
    case False
    then show ?thesis by (intro exI[of _ 0] exI[of _ r]) auto
  next
    case True
    then obtain i r1 where o: "onboards pid c env i r r1" by blast
    then have one: "((\<lambda>r r'. \<exists>j. onboards pid c env j r r') ^^ 1) r r1" by auto
    from onboarding_chain[OF one less.prems] have "rt_run pid c env (rt_initial w) r1" "finite_queues r1" "load r1 < load r" by auto
    from less.hyps[OF this(3,1,2)] obtain n r' where
      "((\<lambda>r r'. \<exists>j. onboards pid c env j r r') ^^ n) r1 r'" "\<nexists>i r''. onboards pid c env i r' r''" by blast
    note rest = this
    have "((\<lambda>r r'. \<exists>j. onboards pid c env j r r') ^^ Suc n) r r'" by (rule relpowp_Suc_I2[OF _ rest(1)]) (use o in blast)
    then show ?thesis using rest(2) by blast
  qed
qed

text \<open>
  C4. It comes to that. From any reachable state with finite queues, the runs of the three controllers that end are at most as many
  as the queues hold, a wipe and a BMC configuration counted twice, in any order and for whatever machines. And if a machine is
  accepted, not cordoned, not torn down, its agent reachable and helping,
      then as long as it is not ready such a run is possible for it. So the
  controllers cannot keep each other busy, and every way of running what is due, until nothing is due, onboards the machine.
\<close>

theorem onboarding_completes:
  assumes "rt_run pid c env (rt_initial w) r" and "finite_queues r" and "no_foreign_skips (ct_bcc c) env"
    and "((\<lambda>r r'. \<exists>j. onboards pid c env j r r') ^^ n) r r'"
    and "so_machines (now r) i = Some m" "Phase m = PhaseRunning" "AcceptanceStatus (Spec m) = ACCEPTED" "\<not> Cordoned (Spec m)"
    and "so_ms (now r) i = Some ms" "AgentAccessible (Spec ms)" and "helped (ct_bcc c) env (now r) i"
  shows "n \<le> load r \<and> (machine_ready c env opts r' m \<or> (\<exists>r''. onboards pid c env i r' r''))"
proof -
  note chain = onboarding_chain[OF assms(4,1,2)]
  have m: "so_machines (now r') i = Some m" "so_ms (now r') i = Some ms" using chain assms(5,9) by auto
  have h: "helped (ct_bcc c) env (now r') i" using assms(11) chain by (simp add: helped_def)
  have i: "ID m = i" using machines_keyed[OF rt_run_system was_now[where table = so_machines]] chain m(1) by blast
  have v: "validateInfraMachine m = None" using assms(7,8) by (simp add: validateInfraMachine_None)
  have "machine_ready c env opts r' m" if "\<nexists>r''. onboards pid c env i r' r''"
    using idle_ready[OF _ assms(3) _ _ _ m(1) assms(6-8) m(2) assms(10)] chain
      onboards_enabled[OF _ m(1) assms(6) i v h] that by blast
  then show ?thesis using chain by auto
qed

section \<open>A sample\<close>

text \<open>The sample's machine is accepted and its agent connects.\<close>

definition accepted_rt :: runtime where
  "accepted_rt = changed_to ''p'' sample_controllers (rt_initial empty_world) (\<lambda>q. {})
     (empty_store\<lparr>so_machines := [''m1'' \<mapsto> m1], so_bmc_configs := Map.empty\<rparr>) empty_world"

definition connected_rt :: runtime where
  "connected_rt = changed_to ''p'' sample_controllers accepted_rt (\<lambda>q. {})
     ((now accepted_rt)\<lparr>so_ms := [''m1'' \<mapsto> m1_connected]\<rparr>) empty_world"

lemma connected_run: "rt_run ''p'' sample_controllers sample_env (rt_initial empty_world) connected_rt"
proof -
  have id: "ID m1 = ''m1''" by (simp add: m1_def new_resource_def)
  have keyed: "ID x = i" if "[''m1'' \<mapsto> m1] i = Some x" for i x using that id by (simp split: if_splits)
  have "rt_step ''p'' sample_controllers sample_env (rt_initial empty_world) accepted_rt"
    using rt_step.omni[where r = "rt_initial empty_world" and ms = "[''m1'' \<mapsto> m1]" and bs = Map.empty, OF keyed]
    by (simp add: accepted_rt_def rt_initial_def)
  moreover have "ms_step (ct_redfish sample_controllers) (sample_env\<lparr>clock := \<lambda>qs. 1\<rparr>)
      (AgentConnection \<lparr>ev_MachineID = ''m1'', ev_Connected = True\<rparr>) (so_ms (now accepted_rt)) (world_of accepted_rt) =
      ((None, [''m1'' \<mapsto> m1_connected]), empty_world)"
    by (simp add: accepted_rt_def ms_step_def handleAgentConnectionEvent_def WriterModify_def empty_store_def sample_env_def
        ok_env_def m1_connected_def NewMachineStatus_def new_resource_def Let_def)
  from rt_step.status[OF _ this] have "rt_step ''p'' sample_controllers sample_env accepted_rt connected_rt"
    unfolding connected_rt_def by simp
  ultimately show ?thesis by (meson r_into_rtranclp rtranclp.rtrancl_into_rtrancl)
qed

lemma wakes_same_id:
  assumes "wakes_for s i (reader_now st) (reader_now st')" and "\<forall>x \<in> set (qs_ExtraMappedInputs s). snd x = MapperSameID"
  shows "\<exists>p. differs (reader_now st) (reader_now st') p \<and> ptr_id p = i"
  using assms by (fastforce simp: wakes_for_def woken_def MapperSameID_def split: if_splits)

lemma settings_same_id:
  "\<forall>x \<in> set (qs_ExtraMappedInputs (wipe_q pid c)). snd x = MapperSameID"
  "\<forall>x \<in> set (qs_ExtraMappedInputs (report_q pid c)). snd x = MapperSameID"
  "\<forall>x \<in> set (qs_ExtraMappedInputs (configure_q pid c)). snd x = MapperSameID"
  by (simp_all add: settings_defs)

lemma wakes_only:
  assumes "\<And>p. differs (reader_now (now r)) (reader_now st) p \<Longrightarrow> ptr_id p = i" and "q \<in> {CWipe,
      CReport, CConfigure}"
  shows "rt_queue (changed_to pid c r out st w) q \<subseteq> rt_queue r q \<union> {i}"
proof -
  have "j = i" if "wakes_for s j (reader_now (now r)) (reader_now st)" "\<forall>x \<in> set (qs_ExtraMappedInputs s). snd x = MapperSameID"
    for j and s :: "'o qsettings" using wakes_same_id[OF that] assms(1) by blast
  note one = this[OF _ settings_same_id(1)]
  have "j = i" if "wakes_for s j (reader_now (now r)) (reader_now st)" "\<forall>x \<in> set (qs_ExtraMappedInputs s). snd x = MapperSameID"
    for j and s :: "'o qsettings" using wakes_same_id[OF that] assms(1) by blast
  note two = this[OF _ settings_same_id(2)] this[OF _ settings_same_id(3)]
  show ?thesis using assms(2) by (auto dest: one two)
qed

lemma connected_finite: "finite_queues connected_rt"
proof -
  have queues: "rt_queue connected_rt q \<subseteq> {''m1''}" if "q \<in> {CWipe, CReport, CConfigure}" for q
  proof -
    have "rt_queue accepted_rt q \<subseteq> rt_queue (rt_initial empty_world) q \<union> {''m1''}" unfolding accepted_rt_def
      by (rule wakes_only[OF _ that])
        (auto simp: differs_def rt_initial_def empty_store_def Let_def split: managed.splits provider_kind.splits if_splits)
    moreover have "rt_queue connected_rt q \<subseteq> rt_queue accepted_rt q \<union> {''m1''}" unfolding connected_rt_def
      by (rule wakes_only[OF _ that])
        (auto simp: differs_def accepted_rt_def empty_store_def Let_def split: managed.splits provider_kind.splits if_splits)
    ultimately show ?thesis by (auto simp: rt_initial_def)
  qed
  then show ?thesis unfolding finite_queues_def by (meson finite.simps finite_subset insert_iff)
qed

lemma sample_helped: "no_foreign_skips bcc_h1 sample_env" "helped bcc_h1 sample_env (now connected_rt) ''m1''"
  by (auto simp: no_foreign_skips_def helped_def sample_env_def ok_env_def bcc_h1_def connected_rt_def accepted_rt_def)

lemma sample_machine:
  "so_machines (now connected_rt) ''m1'' = Some m1" "so_ms (now connected_rt) ''m1'' = Some m1_connected"
  "Phase m1 = PhaseRunning" "AcceptanceStatus (Spec m1) = ACCEPTED" "\<not> Cordoned (Spec m1)" "AgentAccessible (Spec m1_connected)"
  by (simp_all add: connected_rt_def accepted_rt_def m1_def m1_connected_def m1_spec_def new_resource_def)

text \<open>The runs that are due, one after the other, until there are none.\<close>

lemma sample_onboarding:
  obtains n r where "((\<lambda>r r'. \<exists>j. onboards ''p'' sample_controllers sample_env j r r') ^^ n) connected_rt r"
    "rt_run ''p'' sample_controllers sample_env (rt_initial empty_world) r"
        "\<nexists>i r''. onboards ''p'' sample_controllers sample_env i r r''"
    "so_machines (now r) ''m1'' = Some m1" "so_ms (now r) ''m1'' = Some m1_connected"
    "so_bmc_configs (now r) = so_bmc_configs (now connected_rt)"
proof -
  obtain n r where r: "((\<lambda>r r'. \<exists>j. onboards ''p'' sample_controllers sample_env j r r') ^^ n) connected_rt r"
    "\<nexists>i r''. onboards ''p'' sample_controllers sample_env i r r''"
    using onboarding_ends[OF connected_run connected_finite] by blast
  from onboarding_chain[OF r(1) connected_run connected_finite] show ?thesis using sample_machine(1,2) by (intro that[OF r(1) _ r(2)]) auto
qed

lemma sample_controllers_bcc: "ct_bcc sample_controllers = bcc_h1"
  by (simp add: sample_controllers_def)

theorem idle_machine_is_ready_witness:
  "\<exists>r. rt_run ''p'' sample_controllers sample_env (rt_initial empty_world) r \<and> so_machines (now r) ''m1'' = Some m1 \<and>
     machine_ready sample_controllers sample_env \<lparr>AlwaysNetboot = False\<rparr> r m1"
proof -
  obtain n r where r: "rt_run ''p'' sample_controllers sample_env (rt_initial empty_world) r"
    and idle: "\<nexists>i r''. onboards ''p'' sample_controllers sample_env i r r''"
    and m: "so_machines (now r) ''m1'' = Some m1" "so_ms (now r) ''m1'' = Some m1_connected"
    and u: "so_bmc_configs (now r) = so_bmc_configs (now connected_rt)" by (rule sample_onboarding)
  have i: "ID m1 = ''m1''" and v: "validateInfraMachine m1 = None"
    using sample_machine(4,5) by (simp_all add: validateInfraMachine_None m1_def new_resource_def)
  have h: "helped (ct_bcc sample_controllers) sample_env (now r) ''m1''"
    using sample_helped(2) u by (simp add: helped_def sample_controllers_bcc)
  have q: "''m1'' \<notin> rt_queue r CConfigure" "''m1'' \<notin> rt_queue r CWipe" "''m1'' \<notin> rt_queue r CReport"
    using idle onboards_enabled[OF _ m(1) sample_machine(3) i v h] by blast+
  have "machine_ready sample_controllers sample_env \<lparr>AlwaysNetboot = False\<rparr> r m1"
    by (rule idle_machine_is_ready[OF r _ q m(1) sample_machine(3-5) m(2) sample_machine(6)])
      (simp add: sample_controllers_bcc sample_helped(1))
  then show ?thesis using r m(1) by blast
qed

theorem onboarding_completes_witness:
  "\<exists>n r. ((\<lambda>r r'. \<exists>j. onboards ''p'' sample_controllers sample_env j r r') ^^ n) connected_rt r
      \<and> n \<le> load connected_rt \<and>
     machine_ready sample_controllers sample_env \<lparr>AlwaysNetboot = False\<rparr> r m1"
proof -
  obtain n r where r: "((\<lambda>r r'. \<exists>j. onboards ''p'' sample_controllers sample_env j r r') ^^ n) connected_rt r"
    and idle: "\<nexists>i r''. onboards ''p'' sample_controllers sample_env i r r''" by (rule sample_onboarding)
  from onboarding_completes[OF connected_run connected_finite _ r sample_machine(1,3-5,2,6)] sample_helped idle
  show ?thesis using r unfolding sample_controllers_bcc by blast
qed

end
