(* ===== verification/Wire.thy ===== *)
theory Wire
  imports Resources
begin

unbundle bit_operations_syntax

text \<open>
  The parts the marshalling code of \<open>api/specs/specs_vtproto.pb.go\<close> is made of: writing a field backwards into a buffer,
  reading one forwards, and the loop over the fields of a message. The helpers of the vtprotobuf library, and its timestamps,
  are parameters. A message is written into a buffer from its end: the writer's state is the number of bytes still free
  before what was written, and what was written. Writing where nothing is free is Go's panic.
\<close>

section \<open>Writing\<close>

type_synonym wbuf = "nat \<times> byte list"

text \<open>
  \<open>EncodeVarint\<close> gives the bytes written before the offset, \<open>Skip\<close> the length of the field a slice starts with.
\<close>

record wire_lib =
  wl_EncodeVarint :: "64 word \<Rightarrow> byte list"
  wl_SizeOfVarint :: "64 word \<Rightarrow> nat"
  wl_Skip :: "byte list \<Rightarrow> err + int"
  ts_SizeVT :: "timestamp \<Rightarrow> nat"
  ts_MarshalToSizedBufferVT :: "timestamp \<Rightarrow> wbuf \<Rightarrow> err + wbuf"
  ts_UnmarshalVT :: "timestamp \<Rightarrow> byte list \<Rightarrow> err + timestamp"
  ts_EqualVT :: "timestamp option \<Rightarrow> timestamp option \<Rightarrow> bool"

definition out_of_range :: err where "out_of_range = Plain ''runtime error: slice bounds out of range''"

definition put :: "byte list \<Rightarrow> wbuf \<Rightarrow> err + wbuf" where
  "put bs b = (case b of (i, out) \<Rightarrow> if length bs \<le> i then Inr (i - length bs, bs @ out) else Inl out_of_range)"

fun writes :: "(wbuf \<Rightarrow> err + wbuf) list \<Rightarrow> wbuf \<Rightarrow> err + wbuf" where
  "writes [] b = Inr b"
| "writes (f # fs) b = (case f b of Inl e \<Rightarrow> Inl e | Inr b' \<Rightarrow> writes fs b')"

definition put_string :: "wire_lib \<Rightarrow> byte \<Rightarrow> string \<Rightarrow> wbuf \<Rightarrow> err + wbuf" where
  "put_string lib tag s =
     (if length s > 0
      then writes [put (bytes_of s), put (wl_EncodeVarint lib (of_nat (length s))), put [tag]]
      else writes [])"

definition put_varint :: "wire_lib \<Rightarrow> byte \<Rightarrow> 64 word \<Rightarrow> wbuf \<Rightarrow> err + wbuf" where
  "put_varint lib tag v = (if v \<noteq> 0 then writes [put (wl_EncodeVarint lib v), put [tag]] else writes [])"

definition put_bool :: "byte \<Rightarrow> bool \<Rightarrow> wbuf \<Rightarrow> err + wbuf" where
  "put_bool tag v = (if v then writes [put [if v then 1 else 0], put [tag]] else writes [])"

text \<open>A nested message is written into the part of the buffer that is free, and its size before it.\<close>

definition put_message :: "wire_lib \<Rightarrow> byte \<Rightarrow> ('m \<Rightarrow> wbuf \<Rightarrow> err +
    wbuf) \<Rightarrow> 'm option \<Rightarrow> wbuf \<Rightarrow> err + wbuf" where
  "put_message lib tag marshal x b =
     (case x of
        None \<Rightarrow> Inr b
      | Some m \<Rightarrow>
          (case marshal m b of
             Inl e \<Rightarrow> Inl e
           | Inr b' \<Rightarrow> writes [put (wl_EncodeVarint lib (of_nat (fst b - fst b'))), put [tag]] b'))"

definition size_string :: "wire_lib \<Rightarrow> string \<Rightarrow> nat" where
  "size_string lib s = (let l = length s in if l > 0 then 1 + l + wl_SizeOfVarint lib (of_nat l) else 0)"

definition size_varint :: "wire_lib \<Rightarrow> 64 word \<Rightarrow> nat" where
  "size_varint lib v = (if v \<noteq> 0 then 1 + wl_SizeOfVarint lib v else 0)"

definition size_bool :: "bool \<Rightarrow> nat" where
  "size_bool v = (if v then 2 else 0)"

definition size_message :: "wire_lib \<Rightarrow> ('m \<Rightarrow> nat) \<Rightarrow> 'm option \<Rightarrow> nat" where
  "size_message lib sizeVT x = (case x of None \<Rightarrow> 0 | Some m \<Rightarrow> (let l = sizeVT m in 1 + l +
      wl_SizeOfVarint lib (of_nat l)))"

text \<open>
  \<open>MarshalVT\<close>: the buffer has the computed size, and its first \<open>n\<close> bytes are returned,
      for the \<open>n\<close> bytes written at its end.
  \<open>MarshalToVT\<close> writes into the first bytes of a given buffer.
\<close>

definition MarshalVT :: "('m \<Rightarrow> nat) \<Rightarrow> ('m \<Rightarrow> wbuf \<Rightarrow> err +
    wbuf) \<Rightarrow> 'm option \<Rightarrow> err + byte list" where
  "MarshalVT sizeVT marshal x =
     (case x of
        None \<Rightarrow> Inr []
      | Some m \<Rightarrow>
          (case marshal m (sizeVT m, []) of
             Inl e \<Rightarrow> Inl e
           | Inr (i, out) \<Rightarrow> Inr (take (length out) (replicate i 0 @ out))))"

definition MarshalToVT :: "('m \<Rightarrow> nat) \<Rightarrow> ('m \<Rightarrow> wbuf \<Rightarrow> err +
    wbuf) \<Rightarrow> 'm \<Rightarrow> byte list \<Rightarrow> err + nat \<times> byte list" where
  "MarshalToVT sizeVT marshal m buf =
     (if sizeVT m > length buf then Inl out_of_range
      else (case marshal m (sizeVT m, []) of
              Inl e \<Rightarrow> Inl e
            | Inr (i, out) \<Rightarrow> Inr (length out, take i buf @ out @ drop (sizeVT m) buf)))"

section \<open>Reading\<close>

definition ErrIntOverflow :: err where "ErrIntOverflow = Plain ''proto: integer overflow''"
definition ErrInvalidLength :: err where "ErrInvalidLength = Plain ''proto: negative length found during unmarshaling''"
definition ErrUnexpectedEOF :: err where "ErrUnexpectedEOF = Plain ''unexpected EOF''"

text \<open>The loop that reads a varint into an integer of any width: seven bits of every byte, more than 64 are an error.\<close>

fun read_varint :: "nat \<Rightarrow> 'a::len word \<Rightarrow> byte list \<Rightarrow> err + 'a word \<times> byte list" where
  "read_varint shift acc bs =
     (if shift \<ge> 64 then Inl ErrIntOverflow
      else (case bs of
              [] \<Rightarrow> Inl ErrUnexpectedEOF
            | b # rest \<Rightarrow>
                (let acc' = acc OR push_bit shift (ucast (b AND 0x7F))
                 in if b < 0x80 then Inr (acc', rest) else read_varint (shift + 7) acc' rest)))"

declare read_varint.simps [simp del]

text \<open>
  What the code does with a field: it is not one it knows, it is refused, a nested message is read for ever, or the message is
  changed and the bytes after the field are left.
\<close>

datatype 'm field_read = Unknown | Failed err | Diverges | Read 'm "byte list"

definition wrong_wireType :: "nat \<Rightarrow> string \<Rightarrow> err" where
  "wrong_wireType wireType field = Plain (''proto: wrong wireType = '' @ itoa (int wireType) @ '' for field '' @ field)"

definition read_number :: "string \<Rightarrow> nat \<Rightarrow> byte list \<Rightarrow> ('a::len word \<Rightarrow>
    'm) \<Rightarrow> 'm field_read" where
  "read_number field wireType bs upd =
     (if wireType \<noteq> 0 then Failed (wrong_wireType wireType field)
      else (case read_varint 0 0 bs of Inl e \<Rightarrow> Failed e | Inr (v, rest) \<Rightarrow> Read (upd v) rest))"

definition read_bool :: "string \<Rightarrow> nat \<Rightarrow> byte list \<Rightarrow> (bool \<Rightarrow>
    'm) \<Rightarrow> 'm field_read" where
  "read_bool field wireType bs upd = read_number field wireType bs (\<lambda>v :: 64 word. upd (v \<noteq> 0))"

text \<open>
  A length and the bytes it counts, of a slice of length \<open>l\<close> of which \<open>bs\<close> is left. The length
      is read as an unsigned
  number and converted to \<open>int\<close>; the end of the field is computed in wrapping arithmetic.
\<close>

definition read_counted :: "nat \<Rightarrow> byte list \<Rightarrow> err + byte list \<times> byte list" where
  "read_counted l bs =
     (case read_varint 0 (0 :: 64 word) bs of
        Inl e \<Rightarrow> Inl e
      | Inr (v, rest) \<Rightarrow>
          (let n = sint v; iNdEx = int l - int (length rest); postIndex = int64_wrap (iNdEx + n)
           in if n < 0 then Inl ErrInvalidLength
              else if postIndex < 0 then Inl ErrInvalidLength
              else if postIndex > int l then Inl ErrUnexpectedEOF
              else Inr (take (nat (postIndex - iNdEx)) rest, drop (nat (postIndex - iNdEx)) rest)))"

definition read_string :: "nat \<Rightarrow> string \<Rightarrow> nat \<Rightarrow> byte list \<Rightarrow>
    (string \<Rightarrow> 'm) \<Rightarrow> 'm field_read" where
  "read_string l field wireType bs upd =
     (if wireType \<noteq> 2 then Failed (wrong_wireType wireType field)
      else (case read_counted l bs of Inl e \<Rightarrow> Failed e | Inr (s, rest) \<Rightarrow> Read (upd (string_of s)) rest))"

text \<open>A nested message is merged into the one that is there, or into a fresh one.\<close>

definition read_message ::
  "nat \<Rightarrow> string \<Rightarrow> nat \<Rightarrow> byte list \<Rightarrow> 'n \<Rightarrow>
      'n option \<Rightarrow> ('n \<Rightarrow> byte list \<Rightarrow> (err + 'n) option) \<Rightarrow>
      ('n option \<Rightarrow> 'm) \<Rightarrow> 'm field_read" where
  "read_message l field wireType bs fresh old unmarshal upd =
     (if wireType \<noteq> 2 then Failed (wrong_wireType wireType field)
      else (case read_counted l bs of
              Inl e \<Rightarrow> Failed e
            | Inr (s, rest) \<Rightarrow>
                (case unmarshal (case old of None \<Rightarrow> fresh | Some x \<Rightarrow> x) s of
                   None \<Rightarrow> Diverges
                 | Some (Inl e) \<Rightarrow> Failed e
                 | Some (Inr x) \<Rightarrow> Read (upd (Some x)) rest)))"

text \<open>The tag in front of a field: its number, an \<open>int32\<close>, and its wire type.\<close>

definition read_tag :: "byte list \<Rightarrow> err + (int \<times> nat) \<times> byte list" where
  "read_tag bs =
     (case read_varint 0 (0 :: 64 word) bs of
        Inl e \<Rightarrow> Inl e
      | Inr (wire, rest) \<Rightarrow> Inr ((sint (ucast (drop_bit 3 wire) :: 32 word), unat (wire AND 7)), rest))"

text \<open>
  The loop over the fields of a message. \<open>known\<close> handles the fields the message has,
      \<open>keep\<close> appends the bytes of a field it
  does not have to the unknown ones. A library whose \<open>Skip\<close> does not advance keeps it from returning: the value is then None.
\<close>

partial_function (option) unmarshal ::
  "wire_lib \<Rightarrow> string \<Rightarrow> (nat \<Rightarrow> int \<Rightarrow> nat \<Rightarrow> 'm \<Rightarrow>
      byte list \<Rightarrow> 'm field_read) \<Rightarrow> (byte list \<Rightarrow> 'm \<Rightarrow> 'm) \<Rightarrow>
      nat \<Rightarrow> 'm \<Rightarrow> byte list \<Rightarrow>
   (err + 'm) option" where
  "unmarshal lib name known keep l m bs =
     (if bs = [] then Some (Inr m)
      else (case read_tag bs of
              Inl e \<Rightarrow> Some (Inl e)
            | Inr ((fieldNum, wireType), rest) \<Rightarrow>
                if wireType = 4 then Some (Inl (Plain (''proto: '' @ name @ '': wiretype end group for non-group'')))
                else if fieldNum \<le> 0
                then Some (Inl (Plain (''proto: '' @ name @ '': illegal tag '' @ itoa fieldNum)))
                else (case known l fieldNum wireType m rest of
                        Failed e \<Rightarrow> Some (Inl e)
                      | Diverges \<Rightarrow> None
                      | Read m' rest' \<Rightarrow> unmarshal lib name known keep l m' rest'
                      | Unknown \<Rightarrow>
                          (case wl_Skip lib bs of
                             Inl e \<Rightarrow> Some (Inl e)
                           | Inr skippy \<Rightarrow>
                               (let iNdEx = int l - int (length bs)
                                in if skippy < 0 \<or> int64_wrap (iNdEx + skippy) < 0 then Some (Inl ErrInvalidLength)
                                   else if int64_wrap (iNdEx + skippy) > int l then Some (Inl ErrUnexpectedEOF)
                                   else unmarshal lib name known keep l (keep (take (nat skippy) bs) m) (drop (nat skippy) bs))))))"

section \<open>The wire format\<close>

text \<open>Protobuf's base-128 varint, and a field of each kind, as the format's documentation has them.\<close>

fun varint :: "nat \<Rightarrow> byte list" where
  "varint n = (if n < 128 then [of_nat n] else of_nat (128 + n mod 128) # varint (n div 128))"

declare varint.simps [simp del]

definition string_field :: "byte \<Rightarrow> string \<Rightarrow> byte list" where
  "string_field tag s = (if s = [] then [] else tag # varint (length s) @ bytes_of s)"

definition varint_field :: "byte \<Rightarrow> 64 word \<Rightarrow> byte list" where
  "varint_field tag v = (if v = 0 then [] else tag # varint (unat v))"

definition bool_field :: "byte \<Rightarrow> bool \<Rightarrow> byte list" where
  "bool_field tag v = (if v then [tag, 1] else [])"

definition message_field :: "byte \<Rightarrow> ('m \<Rightarrow> byte list) \<Rightarrow> 'm option \<Rightarrow> byte list" where
  "message_field tag bytes x = (case x of None \<Rightarrow> [] | Some m \<Rightarrow> tag # varint (length (bytes m)) @ bytes m)"

lemma varint_ne [simp]: "varint n \<noteq> []"
  by (subst varint.simps) simp

lemma word_split_7: "(of_nat n :: 'a::len word) = of_nat (n mod 128) OR push_bit 7 (of_nat (n div 128))"
proof -
  have "take_bit 7 n OR push_bit 7 (drop_bit 7 n) = n"
  proof (rule bit_eqI)
    fix k show "bit (take_bit 7 n OR push_bit 7 (drop_bit 7 n)) k \<longleftrightarrow> bit n k"
      by (cases "k < 7") (auto simp: bit_or_iff bit_take_bit_iff bit_push_bit_iff bit_drop_bit_eq)
  qed
  then have "n = (n mod 128) OR push_bit 7 (n div 128)" by (simp add: take_bit_eq_mod drop_bit_eq_div)
  then have "(of_nat n :: 'a word) = of_nat ((n mod 128) OR push_bit 7 (n div 128))" by simp
  then show ?thesis by (simp add: of_nat_or_eq push_bit_of_nat)
qed

lemma byte_low7:
  "n < 128 \<Longrightarrow> ((of_nat n :: byte) AND 0x7F) = of_nat n" "n < 128 \<Longrightarrow> (of_nat n :: byte) < 0x80"
  "((of_nat (128 + n mod 128) :: byte) AND 0x7F) = of_nat (n mod 128)" "\<not> (of_nat (128 + n mod 128) :: byte) < 0x80"
proof -
  have and127: "m AND 127 = m mod 128" for m :: nat
    using take_bit_eq_mask[of 7 m] by (simp add: take_bit_eq_mod mask_eq_exp_minus_1)
  show "n < 128 \<Longrightarrow> ((of_nat n :: byte) AND 0x7F) = of_nat n"
    by (simp add: word_unat_eq_iff unsigned_and_eq unat_of_nat and127)
  show "n < 128 \<Longrightarrow> (of_nat n :: byte) < 0x80" by (simp add: word_less_nat_alt unat_of_nat)
  have "(128 + n mod 128) mod 256 = 128 + n mod 128" by simp
  then have u: "unat (of_nat (128 + n mod 128) :: byte) = 128 + n mod 128" by (simp add: unat_of_nat del: of_nat_add)
  show "((of_nat (128 + n mod 128) :: byte) AND 0x7F) = of_nat (n mod 128)"
    by (simp only: word_unat_eq_iff unsigned_and_eq u) (simp add: and127 unat_of_nat mod_add_left_eq)
  show "\<not> (of_nat (128 + n mod 128) :: byte) < 0x80" by (simp only: word_less_nat_alt u) simp
qed

lemma ucast_low7: "n < 128 \<Longrightarrow> (ucast (of_nat n :: byte) :: 'a::len word) = of_nat n"
  by (simp add: unsigned_of_nat take_bit_eq_mod)

text \<open>Reading what is written, whatever follows it, into an integer of any width.\<close>

lemma read_varint_varint:
  "shift < 64 \<Longrightarrow> n < 2 ^ (64 - shift) \<Longrightarrow>
     read_varint shift acc (varint n @ rest) = Inr (acc OR push_bit shift (of_nat n), rest)"
proof (induction n arbitrary: shift acc rule: varint.induct)
  case (1 n)
  show ?case
  proof (cases "n < 128")
    case True
    then show ?thesis
      using 1(2) by (subst varint.simps, subst read_varint.simps) (simp add: byte_low7 ucast_low7)
  next
    case False
    have s: "shift + 7 < 64"
    proof -
      have "(2 ^ 7 :: nat) < 2 ^ (64 - shift)" using 1(3) False by simp
      then show ?thesis using power_less_imp_less_exp[of "2 :: nat" 7 "64 - shift"] by simp
    qed
    have "n div 128 < 2 ^ (64 - (shift + 7))"
    proof -
      have "(2 :: nat) ^ (64 - shift) = 2 ^ (64 - (shift + 7)) * 128" using s power_add[of "2 :: nat" "64 - (shift + 7)" 7] by simp
      then show ?thesis using 1(3) by (simp add: less_mult_imp_div_less)
    qed
    from 1(1)[OF False s this] have r: "read_varint (shift + 7) acc' (varint (n div 128) @ rest) =
        Inr (acc' OR push_bit (shift + 7) (of_nat (n div 128)), rest)" for acc' :: "'a word" .
    have "acc OR push_bit shift (of_nat n) =
        (acc OR push_bit shift (of_nat (n mod 128))) OR push_bit (shift + 7) (of_nat (n div 128))"
      by (subst word_split_7) (simp add: push_bit_or or.assoc add.commute)
    then show ?thesis
      using 1(2) False
      by (subst varint.simps, subst read_varint.simps) (simp add: Let_def byte_low7(3,4) ucast_low7 r del: of_nat_add)
  qed
qed

section \<open>What the library promises\<close>

definition writes_exactly :: "(wbuf \<Rightarrow> err + wbuf) \<Rightarrow> byte list \<Rightarrow> bool" where
  "writes_exactly f bs \<longleftrightarrow>
     (\<forall>i out. f (i, out) = (if length bs \<le> i then Inr (i - length bs, bs @ out) else Inl out_of_range))"

definition ts_ok :: "timestamp \<Rightarrow> bool" where
  "ts_ok t \<longleftrightarrow> - (2 ^ 63) \<le> ts_seconds t \<and> ts_seconds t < 2 ^ 63 \<and>
      - (2 ^ 31) \<le> ts_nanos t \<and> ts_nanos t < 2 ^ 31"

definition ts_zero :: timestamp where "ts_zero = \<lparr>ts_seconds = 0, ts_nanos = 0\<rparr>"

text \<open>The varints are the documented ones, a field that is skipped has at least its tag, and timestamps are messages too.\<close>

definition wire_lib_ok :: "wire_lib \<Rightarrow> bool" where
  "wire_lib_ok lib \<longleftrightarrow>
     (\<forall>v. wl_EncodeVarint lib v = varint (unat v)) \<and> (\<forall>v. wl_SizeOfVarint lib v = length (varint (unat v))) \<and>
     (\<forall>bs k. wl_Skip lib bs = Inr k \<longrightarrow> 0 < k) \<and>
         (\<forall>a b. ts_EqualVT lib a b \<longleftrightarrow> a = b) \<and>
     (\<forall>t. ts_ok t \<longrightarrow> (\<exists>bs. writes_exactly (ts_MarshalToSizedBufferVT lib t) bs \<and>
         ts_SizeVT lib t = length bs \<and>
        ts_UnmarshalVT lib ts_zero bs = Inr t))"

lemma lib_laws:
  assumes "wire_lib_ok lib"
  shows "wl_EncodeVarint lib v = varint (unat v)" "wl_SizeOfVarint lib v = length (varint (unat v))"
    "wl_Skip lib bs = Inr k \<Longrightarrow> 0 < k" "ts_EqualVT lib a b \<longleftrightarrow> a = b"
  using assms by (simp_all add: wire_lib_ok_def)

section \<open>Writing is exact\<close>

declare writes.simps [simp del]

named_theorems exact_intros \<open>what the writers write\<close>

lemma exact_put [exact_intros]: "writes_exactly (put bs) bs"
  by (simp add: writes_exactly_def put_def)

lemma exact_Nil: "writes_exactly (writes []) []"
  by (simp add: writes_exactly_def writes.simps)

lemma exact_Cons: "writes_exactly f a \<Longrightarrow> writes_exactly (writes fs) b \<Longrightarrow> writes_exactly
    (writes (f # fs)) (b @ a)"
  by (auto simp: writes_exactly_def writes.simps)

lemma exact_writes: "list_all2 writes_exactly fs bss \<Longrightarrow> writes_exactly (writes fs) (concat (rev bss))"
  by (induction fs bss rule: list_all2_induct) (simp_all add: exact_Nil exact_Cons)

lemma unat_of_length [simp]: "n < 2 ^ 63 \<Longrightarrow> unat (of_nat n :: 64 word) = n"
  by (simp add: unat_of_nat)

lemma exact_string [exact_intros]:
  "wire_lib_ok lib \<Longrightarrow> length s < 2 ^ 63 \<Longrightarrow> writes_exactly (put_string lib tag s) (string_field tag s)"
  using exact_writes[of "[put (bytes_of s), put (varint (length s)), put [tag]]" "[bytes_of s, varint (length s), [tag]]"] exact_Nil
  by (simp add: put_string_def string_field_def lib_laws exact_put)

lemma exact_varint [exact_intros]: "wire_lib_ok lib \<Longrightarrow> writes_exactly (put_varint lib tag v) (varint_field tag v)"
  using exact_writes[of "[put (varint (unat v)), put [tag]]" "[varint (unat v), [tag]]"] exact_Nil
  by (simp add: put_varint_def varint_field_def lib_laws exact_put)

lemma exact_bool [exact_intros]: "writes_exactly (put_bool tag v) (bool_field tag v)"
  using exact_writes[of "[put [1], put [tag]]" "[[1], [tag]]"] exact_Nil
  by (simp add: put_bool_def bool_field_def exact_put)

lemma size_string_exact: "wire_lib_ok lib \<Longrightarrow> length s < 2 ^ 63 \<Longrightarrow> size_string lib s =
    length (string_field tag s)"
  by (simp add: size_string_def string_field_def lib_laws Let_def)

lemma size_varint_exact: "wire_lib_ok lib \<Longrightarrow> size_varint lib v = length (varint_field tag v)"
  by (simp add: size_varint_def varint_field_def lib_laws)

lemma size_bool_exact: "size_bool b = length (bool_field tag b)"
  by (simp add: size_bool_def bool_field_def)

lemma string_field_longer: "length s \<le> length (string_field tag s)"
  by (simp add: string_field_def)

section \<open>Reading what was written\<close>

lemma read_varint_shorter: "read_varint shift acc bs = Inr (v, rest) \<Longrightarrow> length rest < length bs"
proof (induction bs arbitrary: shift acc)
  case Nil
  then show ?case by (subst (asm) read_varint.simps) (simp split: if_splits)
next
  case (Cons b bs)
  then show ?case by (subst (asm) read_varint.simps) (force simp: Let_def split: if_splits)
qed

lemma sint_small: "unat w < 2 ^ (LENGTH('a) - 1) \<Longrightarrow> sint (w :: 'a::len word) = int (unat w)"
proof -
  assume "unat w < 2 ^ (LENGTH('a) - 1)"
  then have "int (unat w) < 2 ^ (LENGTH('a) - 1)" by (metis of_nat_less_iff of_nat_numeral of_nat_power)
  then have "uint w < 2 ^ (LENGTH('a) - 1)" by simp
  moreover have "- (2 ^ (LENGTH('a) - 1)) \<le> uint w" by (rule order_trans[of _ 0]) simp_all
  ultimately show ?thesis by (simp add: sint_uint signed_take_bit_int_eq_self)
qed

lemma read_tag_byte:
  assumes "tag < 0x80"
  shows "read_tag (tag # rest) = Inr ((int (unat tag div 8), unat tag mod 8), rest)"
proof -
  define n where "n = unat tag"
  have n: "n < 128" using assms by (simp add: n_def word_less_nat_alt)
  have "varint n = [tag]" using n by (subst varint.simps) (simp add: n_def)
  then have r: "read_varint 0 (0 :: 64 word) (tag # rest) = Inr (of_nat n, rest)"
    using read_varint_varint[of 0 n "0 :: 64 word" rest] n by simp
  have "unat (drop_bit 3 (of_nat n :: 64 word)) = n div 8" using n by (simp only: unat_drop_bit_eq) (simp add: unat_of_nat drop_bit_eq_div)
  then have "unat (ucast (drop_bit 3 (of_nat n :: 64 word)) :: 32 word) = n div 8" using n
      by (simp add: unsigned_ucast_eq take_bit_nat_eq_self)
  then have "sint (ucast (drop_bit 3 (of_nat n :: 64 word)) :: 32 word) = int (n div 8)" using n by (subst sint_small) simp_all
  moreover have "unat ((of_nat n :: 64 word) AND 7) = n mod 8"
    using take_bit_eq_mask[of 3 n] n by (simp add: unsigned_and_eq unat_of_nat take_bit_eq_mod mask_eq_exp_minus_1)
  ultimately show ?thesis by (simp add: read_tag_def r n_def)
qed

lemma read_counted_ok:
  assumes "l < 2 ^ 63" and "length c + length rest \<le> l"
  shows "read_counted l (varint (length c) @ c @ rest) = Inr (c, rest)"
proof -
  have c: "length c < 2 ^ 63" using assms by simp
  have r: "read_varint 0 (0 :: 64 word) (varint (length c) @ c @ rest) = Inr (of_nat (length c), c @ rest)"
    using read_varint_varint[of 0 "length c" "0 :: 64 word" "c @ rest"] c by simp
  have "sint (of_nat (length c) :: 64 word) = int (length c)" using c by (subst sint_small) simp_all
  moreover have "int64_wrap (int l - int (length (c @ rest)) + int (length c)) = int l - int (length rest)"
    using assms by (simp add: int64_wrap_id)
  ultimately show ?thesis using assms by (simp add: read_counted_def r Let_def)
qed

lemma unmarshal_Nil [simp]: "unmarshal lib name known keep l m [] = Some (Inr m)"
  by (subst unmarshal.simps) simp

lemma unmarshal_Read:
  assumes "read_tag bs = Inr ((n, wt), rest)" "wt \<noteq> 4" "0 < n" "known l n wt m rest = Read m' rest'"
  shows "unmarshal lib name known keep l m bs = unmarshal lib name known keep l m' rest'"
proof -
  have "bs \<noteq> []" using assms(1) by (auto simp: read_tag_def read_varint.simps)
  then show ?thesis using assms by (subst unmarshal.simps) simp
qed

text \<open>A field at a time; a field left out is one the message does not have yet.\<close>

lemma unmarshal_string:
  assumes "\<And>bs. known l n 2 m bs = read_string l name' 2 bs upd"
    and "tag < 0x80" "unat tag mod 8 = 2" "n = int (unat tag div 8)" "8 \<le> unat tag" "l < 2 ^ 63"
    and "length (string_field tag s @ rest) \<le> l" "upd [] = m"
  shows "unmarshal lib name known keep l m (string_field tag s @ rest) = unmarshal lib name known keep l (upd s) rest"
proof (cases "s = []")
  case False
  have c: "read_counted l (varint (length s) @ bytes_of s @ rest) = Inr (bytes_of s, rest)"
    using read_counted_ok[of l "bytes_of s" rest] assms(6,7) False by (simp add: string_field_def)
  show ?thesis
    using False assms(5) unmarshal_Read[where bs = "string_field tag s @ rest" and n = "int (unat tag div 8)" and wt = 2 and known = known]
    by (simp add: string_field_def read_tag_byte[OF assms(2)] assms(3) assms(1)[unfolded assms(4)] read_string_def c)
qed (simp add: string_field_def assms(8))

lemma unmarshal_number:
  assumes "\<And>bs. known l n 0 m bs = read_number name' 0 bs (upd :: 'a::len word \<Rightarrow> 'm)"
    and "tag < 0x80" "unat tag mod 8 = 0" "n = int (unat tag div 8)" "8 \<le> unat tag" "upd 0 = m"
  shows "unmarshal lib name known keep l m (varint_field tag v @ rest) = unmarshal lib name known keep l (upd (ucast v)) rest"
proof (cases "v = 0")
  case False
  have r: "read_varint 0 (0 :: 'a word) (varint (unat v) @ rest) = Inr (ucast v, rest)"
    using read_varint_varint[of 0 "unat v" "0 :: 'a word" rest] unsigned_less[of v] by simp
  show ?thesis
    using False assms(5) unmarshal_Read[where bs = "varint_field tag v @ rest" and n = "int (unat tag div 8)" and wt = 0 and known = known]
    by (simp add: varint_field_def read_tag_byte[OF assms(2)] assms(3) assms(1)[unfolded assms(4)] read_number_def r)
qed (simp add: varint_field_def assms(6))

lemma unmarshal_bool:
  assumes "\<And>bs. known l n 0 m bs = read_bool name' 0 bs upd"
    and "tag < 0x80" "unat tag mod 8 = 0" "n = int (unat tag div 8)" "8 \<le> unat tag" "upd False = m"
  shows "unmarshal lib name known keep l m (bool_field tag v @ rest) = unmarshal lib name known keep l (upd v) rest"
proof -
  have "bool_field tag v = varint_field tag (if v then 1 else 0)"
    by (simp add: bool_field_def varint_field_def varint.simps)
  then show ?thesis
    using unmarshal_number[where known = known and upd = "\<lambda>v :: 64 word. upd (v \<noteq> 0)" and v =
        "if v then 1 else 0", OF assms(1)[unfolded read_bool_def] assms(2-5)] assms(6)
    by (cases v) simp_all
qed

section \<open>Unknown fields\<close>

text \<open>
  Bytes the loop keeps as they are: a sequence of fields the message does not have, each of which \<open>Skip\<close> finds the end of.
\<close>

inductive unknown_fields :: "wire_lib \<Rightarrow> (int \<Rightarrow> bool) \<Rightarrow> byte list \<Rightarrow> bool" for lib has where
  no_field: "unknown_fields lib has []"
| a_field: "read_tag (f @ u) = Inr ((n, wt), rest) \<Longrightarrow> wt \<noteq> 4 \<Longrightarrow> 0 < n
    \<Longrightarrow> \<not> has n \<Longrightarrow>
     wl_Skip lib (f @ u) = Inr (int (length f)) \<Longrightarrow> unknown_fields lib has u \<Longrightarrow> unknown_fields lib has (f @ u)"

lemma unmarshal_unknown:
  assumes "unknown_fields lib has u" and "\<And>n wt m bs. \<not> has n \<Longrightarrow> known l n wt m bs = Unknown"
    and "\<And>a b m. keep b (keep a m) = keep (a @ b) m" and "\<And>m. keep [] m = m" and "length u \<le> l" "l < 2 ^ 63"
  shows "unmarshal lib name known keep l m u = Some (Inr (keep u m))"
  using assms(1,5)
proof (induction arbitrary: m)
  case no_field
  then show ?case by (simp add: assms(4))
next
  case (a_field f u n wt rest)
  have "f @ u \<noteq> []" using a_field.hyps(1) by (auto simp: read_tag_def read_varint.simps)
  moreover have "int64_wrap (int l - int (length (f @ u)) + int (length f)) = int l - int (length u)"
    using a_field.prems assms(6) by (simp add: int64_wrap_id)
  ultimately have "unmarshal lib name known keep l m (f @ u) = unmarshal lib name known keep l (keep f m) u"
    using a_field.hyps a_field.prems by (subst unmarshal.simps) (simp add: assms(2,4) Let_def)
  also have "\<dots> = Some (Inr (keep u (keep f m)))" using a_field.prems by (intro a_field.IH) simp
  finally show ?case by (simp add: assms(3))
qed

text \<open>The loop returns, whatever the bytes, since every field it reads has at least one.\<close>

lemma read_tag_shorter: "read_tag bs = Inr (x, rest) \<Longrightarrow> length rest < length bs"
  by (auto simp: read_tag_def dest: read_varint_shorter split: sum.splits)

lemma unmarshal_returns:
  assumes "wire_lib_ok lib" and "\<And>n wt m bs. known l n wt m bs \<noteq> Diverges"
    and "\<And>n wt m bs m' rest. known l n wt m bs = Read m' rest \<Longrightarrow> length rest \<le> length bs"
  shows "unmarshal lib name known keep l m bs \<noteq> None"
proof (induction "length bs" arbitrary: m bs rule: less_induct)
  case less
  show ?case
  proof (cases "read_tag bs")
    case (Inl e)
    then show ?thesis by (subst unmarshal.simps) simp
  next
    case (Inr x)
    then obtain n wt rest where tag: "read_tag bs = Inr ((n, wt), rest)" by (metis surj_pair)
    have ne: "bs \<noteq> []" using tag by (auto simp: read_tag_def read_varint.simps)
    have skip: "unmarshal lib name known keep l m' (drop (nat k) bs) \<noteq> None" if "wl_Skip lib bs = Inr k" for k m'
      using lib_laws(3)[OF assms(1) that] ne by (intro less) simp
    have read: "unmarshal lib name known keep l m' rest' \<noteq> None" if "known l n wt m rest = Read m' rest'" for m' rest'
      using assms(3)[OF that] read_tag_shorter[OF tag] by (intro less) simp
    show ?thesis
      using tag ne assms(2)[of n wt m rest] skip read
      by (subst unmarshal.simps) (auto simp: Let_def split: field_read.split sum.split)
  qed
qed

lemma read_counted_shorter: "read_counted l bs = Inr (s, rest) \<Longrightarrow> length rest \<le> length bs"
  by (auto simp: read_counted_def Let_def dest!: read_varint_shorter split: sum.splits if_splits)

lemma reads_no_divergence [simp]:
  "read_number field wt bs upd1 \<noteq> Diverges" "read_bool field wt bs upd2 \<noteq> Diverges" "read_string l field
      wt bs upd3 \<noteq> Diverges"
  by (auto simp: read_number_def read_bool_def read_string_def split: sum.splits prod.splits)

lemma reads_shorter:
  "read_number field wt bs upd1 = Read m rest \<Longrightarrow> length rest \<le> length bs"
  "read_bool field wt bs upd2 = Read m rest \<Longrightarrow> length rest \<le> length bs"
  "read_string l field wt bs upd3 = Read m rest \<Longrightarrow> length rest \<le> length bs"
  "read_message l field wt bs fresh old f upd4 = Read m rest \<Longrightarrow> length rest \<le> length bs"
  by (auto simp: read_number_def read_bool_def read_string_def read_message_def
      dest!: read_varint_shorter read_counted_shorter split: sum.splits option.splits if_splits)

section \<open>The contract of a message\<close>

text \<open>
  What a message promises to the code that marshals it, and to a message that contains it: its size is exact, it is written
  as its format says, it is read back, and reading returns for any bytes. \<open>fits\<close> are the messages for which this holds.
\<close>

locale wire_message =
  fixes sizeVT :: "wire_lib \<Rightarrow> 'm \<Rightarrow> nat" and marshal :: "wire_lib \<Rightarrow> 'm \<Rightarrow>
      wbuf \<Rightarrow> err + wbuf"
    and unmarshalVT :: "wire_lib \<Rightarrow> 'm \<Rightarrow> byte list \<Rightarrow> (err + 'm) option"
    and fresh :: 'm and fits :: "wire_lib \<Rightarrow> 'm \<Rightarrow> bool" and bytes :: "wire_lib \<Rightarrow>
        'm \<Rightarrow> byte list"
  assumes bounded: "wire_lib_ok lib \<Longrightarrow> fits lib m \<Longrightarrow> length (bytes lib m) < 2 ^ 63"
    and size_exact: "wire_lib_ok lib \<Longrightarrow> fits lib m \<Longrightarrow> sizeVT lib m = length (bytes lib m)"
    and marshal_exact: "wire_lib_ok lib \<Longrightarrow> fits lib m \<Longrightarrow> writes_exactly (marshal lib m) (bytes lib m)"
    and reads_back: "wire_lib_ok lib \<Longrightarrow> fits lib m \<Longrightarrow> unmarshalVT lib fresh (bytes lib m) = Some (Inr m)"
    and returns: "wire_lib_ok lib \<Longrightarrow> unmarshalVT lib m bs \<noteq> None"
begin

lemma MarshalVT_bytes:
  "wire_lib_ok lib \<Longrightarrow> fits lib m \<Longrightarrow> MarshalVT (sizeVT lib) (marshal lib) (Some m) = Inr (bytes lib m)"
  using marshal_exact[of lib m] by (simp add: MarshalVT_def size_exact writes_exactly_def)

lemma MarshalToVT_bytes:
  "wire_lib_ok lib \<Longrightarrow> fits lib m \<Longrightarrow> MarshalToVT (sizeVT lib) (marshal lib) m buf =
     (if length (bytes lib m) > length buf then Inl out_of_range
      else Inr (length (bytes lib m), bytes lib m @ drop (length (bytes lib m)) buf))"
  using marshal_exact[of lib m] by (simp add: MarshalToVT_def size_exact writes_exactly_def)

lemma round_trip:
  "wire_lib_ok lib \<Longrightarrow> fits lib m \<Longrightarrow> \<exists>bs. MarshalVT (sizeVT lib) (marshal lib)
      (Some m) = Inr bs \<and> length bs = sizeVT lib m \<and>
     unmarshalVT lib fresh bs = Some (Inr m)"
  by (simp add: MarshalVT_bytes reads_back size_exact)

lemma put_field:
  assumes "wire_lib_ok lib" "\<And>m. x = Some m \<Longrightarrow> fits lib m"
  shows "writes_exactly (put_message lib tag (marshal lib) x) (message_field tag (bytes lib) x)"
proof (cases x)
  case None
  then show ?thesis by (simp add: writes_exactly_def put_message_def message_field_def)
next
  case (Some m)
  then have f: "fits lib m" using assms(2) by simp
  have w: "writes_exactly (writes [put (varint (length (bytes lib m))), put [tag]]) (tag # varint (length (bytes lib m)))"
    using exact_writes[of "[put (varint (length (bytes lib m))), put [tag]]" "[varint (length (bytes lib m)), [tag]]"]
    by (simp add: exact_put)
  show ?thesis
    using marshal_exact[OF assms(1) f] w bounded[OF assms(1) f] Some
    by (auto simp: writes_exactly_def put_message_def message_field_def lib_laws[OF assms(1)])
qed

lemma size_field:
  assumes "wire_lib_ok lib" "\<And>m. x = Some m \<Longrightarrow> fits lib m"
  shows "size_message lib (sizeVT lib) x = length (message_field tag (bytes lib) x)"
  using assms bounded[OF assms(1)]
  by (cases x) (simp_all add: size_message_def message_field_def size_exact lib_laws Let_def)

lemma unmarshal_field:
  assumes "\<And>bs. known l n 2 m bs = read_message l name' 2 bs fresh old (unmarshalVT lib) upd"
    and "old = None" "wire_lib_ok lib" "\<And>m. x = Some m \<Longrightarrow> fits lib m"
    and "tag < 0x80" "unat tag mod 8 = 2" "n = int (unat tag div 8)" "8 \<le> unat tag" "l < 2 ^ 63"
    and "length (message_field tag (bytes lib) x @ rest) \<le> l" "upd None = m"
  shows "unmarshal lib name known keep l m (message_field tag (bytes lib) x @ rest) =
    unmarshal lib name known keep l (upd x) rest"
proof (cases x)
  case None
  then show ?thesis by (simp add: message_field_def assms(11))
next
  case (Some y)
  let ?b = "bytes lib y"
  have c: "read_counted l (varint (length ?b) @ ?b @ rest) = Inr (?b, rest)"
    using read_counted_ok[of l ?b rest] assms(9,10) Some by (simp add: message_field_def)
  have "unmarshalVT lib fresh ?b = Some (Inr y)" using reads_back assms(3,4) Some by simp
  then show ?thesis
    using Some assms(8) unmarshal_Read[where bs = "message_field tag (bytes lib) x @ rest" and n =
        "int (unat tag div 8)" and wt = 2 and known = known]
    by (simp add: message_field_def read_tag_byte[OF assms(5)] assms(6) assms(1)[unfolded assms(7)] assms(2) read_message_def c)
qed

lemma read_field_returns: "wire_lib_ok lib \<Longrightarrow> read_message l field wt bs fresh old (unmarshalVT lib) upd \<noteq> Diverges"
  by (auto simp: read_message_def returns simp del: not_None_eq split: sum.splits option.splits)

end

text \<open>The library's timestamps keep the contract.\<close>

definition ts_bytes :: "wire_lib \<Rightarrow> timestamp \<Rightarrow> byte list" where
  "ts_bytes lib t = (case ts_MarshalToSizedBufferVT lib t (ts_SizeVT lib t, []) of Inl e \<Rightarrow> [] | Inr (i, out) \<Rightarrow> out)"

lemma ts_bytes:
  assumes "wire_lib_ok lib" "ts_ok t"
  shows "writes_exactly (ts_MarshalToSizedBufferVT lib t) (ts_bytes lib t) \<and> ts_SizeVT lib t = length (ts_bytes lib t) \<and>
    ts_UnmarshalVT lib ts_zero (ts_bytes lib t) = Inr t"
proof -
  obtain bs where b: "writes_exactly (ts_MarshalToSizedBufferVT lib t) bs" "ts_SizeVT lib t = length bs"
    "ts_UnmarshalVT lib ts_zero bs = Inr t" using assms by (auto simp: wire_lib_ok_def)
  moreover have "ts_bytes lib t = bs" using b(1,2) by (simp add: ts_bytes_def writes_exactly_def)
  ultimately show ?thesis by simp
qed

interpretation ts: wire_message ts_SizeVT ts_MarshalToSizedBufferVT "\<lambda>lib t bs. Some (ts_UnmarshalVT lib t bs)" ts_zero
  "\<lambda>lib t. ts_ok t \<and> length (ts_bytes lib t) < 2 ^ 63" ts_bytes
  by unfold_locales (simp_all add: ts_bytes)

end
