(* ===== verification/Messages.thy ===== *)
theory Messages
  imports Wire
begin

text \<open>
  The messages of \<open>api/specs/specs_vtproto.pb.go\<close>: how each is sized, written, read and compared, and that what is written is
  read back. Messages are values here, so \<open>CloneVT\<close> is the identity and not modelled; nil is None.
\<close>

section \<open>Power states on the wire\<close>

definition power_code :: "power_state \<Rightarrow> 32 word" where
  "power_code p =
     (case p of POWER_STATE_UNKNOWN \<Rightarrow> 0 | POWER_STATE_OFF \<Rightarrow> 1 | POWER_STATE_ON \<Rightarrow>
         2 | POWER_STATE_OTHER n \<Rightarrow> n)"

definition power_state_of :: "32 word \<Rightarrow> power_state" where
  "power_state_of n =
     (if n = 0 then POWER_STATE_UNKNOWN else if n = 1 then POWER_STATE_OFF else if n = 2 then POWER_STATE_ON
      else POWER_STATE_OTHER n)"

text \<open>The model has one value per number.\<close>

definition power_ok :: "power_state \<Rightarrow> bool" where
  "power_ok p \<longleftrightarrow> power_state_of (power_code p) = p"

lemma power_state_of_0 [simp]: "power_state_of 0 = POWER_STATE_UNKNOWN"
  by (simp add: power_state_of_def)

lemma power_state_of_code [simp]: "power_ok p \<Longrightarrow> power_state_of (power_code p) = p"
  by (simp add: power_ok_def)

lemma power_ok_simps [simp]: "power_ok POWER_STATE_UNKNOWN" "power_ok POWER_STATE_OFF" "power_ok POWER_STATE_ON"
  by (simp_all add: power_ok_def power_state_of_def power_code_def)

lemma down_up [simp]:
  "(ucast (ucast (n :: 32 word) :: 64 word) :: 32 word) = n" "(ucast (scast (n :: 32 word) :: 64 word) :: 32 word) = n"
  by (rule bit_word_eqI; auto simp: bit_simps)+

section \<open>BMCConfigurationSpec_IPMI\<close>

definition BMCConfigurationSpec_IPMI_new :: bmc_ipmi where
  "BMCConfigurationSpec_IPMI_new = \<lparr>Ipmi_Address = [], Ipmi_Port = 0, Ipmi_Username = [], Ipmi_Password = [],
      ipmi_unknownFields = []\<rparr>"

definition BMCConfigurationSpec_IPMI_SizeVT :: "wire_lib \<Rightarrow> bmc_ipmi \<Rightarrow> nat" where
  "BMCConfigurationSpec_IPMI_SizeVT lib m =
     size_string lib (Ipmi_Address m) + size_varint lib (ucast (Ipmi_Port m)) + size_string lib (Ipmi_Username m) +
         size_string lib (Ipmi_Password m) + length (ipmi_unknownFields m)"

definition BMCConfigurationSpec_IPMI_MarshalToSizedBufferVT :: "wire_lib \<Rightarrow> bmc_ipmi \<Rightarrow>
    wbuf \<Rightarrow> err + wbuf" where
  "BMCConfigurationSpec_IPMI_MarshalToSizedBufferVT lib m =
     writes
       [put (ipmi_unknownFields m),
        put_string lib 0x22 (Ipmi_Password m),
        put_string lib 0x1a (Ipmi_Username m),
        put_varint lib 0x10 (ucast (Ipmi_Port m)),
        put_string lib 0x0a (Ipmi_Address m)]"

definition BMCConfigurationSpec_IPMI_field :: "wire_lib \<Rightarrow> nat \<Rightarrow> int \<Rightarrow>
    nat \<Rightarrow> bmc_ipmi \<Rightarrow> byte list \<Rightarrow> bmc_ipmi field_read" where
  "BMCConfigurationSpec_IPMI_field lib l fieldNum wireType m bs =
     (if fieldNum = 1
      then read_string l ''Address'' wireType bs (\<lambda>v. m\<lparr>Ipmi_Address := v\<rparr>)
      else if fieldNum = 2
      then read_number ''Port'' wireType bs (\<lambda>v. m\<lparr>Ipmi_Port := v\<rparr>)
      else if fieldNum = 3
      then read_string l ''Username'' wireType bs (\<lambda>v. m\<lparr>Ipmi_Username := v\<rparr>)
      else if fieldNum = 4
      then read_string l ''Password'' wireType bs (\<lambda>v. m\<lparr>Ipmi_Password := v\<rparr>)
      else Unknown)"

definition BMCConfigurationSpec_IPMI_UnmarshalVT :: "wire_lib \<Rightarrow> bmc_ipmi \<Rightarrow>
    byte list \<Rightarrow> (err + bmc_ipmi) option" where
  "BMCConfigurationSpec_IPMI_UnmarshalVT lib m dAtA =
     unmarshal lib ''BMCConfigurationSpec_IPMI'' (BMCConfigurationSpec_IPMI_field lib)
         (\<lambda>u m. m\<lparr>ipmi_unknownFields := ipmi_unknownFields m @ u\<rparr>) (length dAtA) m dAtA"

definition BMCConfigurationSpec_IPMI_EqualVT :: "wire_lib \<Rightarrow> bmc_ipmi option \<Rightarrow>
    bmc_ipmi option \<Rightarrow> bool" where
  "BMCConfigurationSpec_IPMI_EqualVT lib this that =
     (case (this, that) of
        (None, None) \<Rightarrow> True
      | (Some a, Some b) \<Rightarrow> Ipmi_Address a = Ipmi_Address b \<and> Ipmi_Port a = Ipmi_Port b \<and>
          Ipmi_Username a = Ipmi_Username b \<and> Ipmi_Password a = Ipmi_Password b \<and> ipmi_unknownFields a = ipmi_unknownFields b
      | _ \<Rightarrow> False)"

definition BMCConfigurationSpec_IPMI_bytes :: "wire_lib \<Rightarrow> bmc_ipmi \<Rightarrow> byte list" where
  "BMCConfigurationSpec_IPMI_bytes lib m =
     string_field 0x0a (Ipmi_Address m) @ varint_field 0x10 (ucast (Ipmi_Port m)) @
         string_field 0x1a (Ipmi_Username m) @ string_field 0x22 (Ipmi_Password m) @ ipmi_unknownFields m"

definition BMCConfigurationSpec_IPMI_fits :: "wire_lib \<Rightarrow> bmc_ipmi \<Rightarrow> bool" where
  "BMCConfigurationSpec_IPMI_fits lib m \<longleftrightarrow>
     unknown_fields lib (\<lambda>n. n \<in> {1, 2, 3, 4}) (ipmi_unknownFields m) \<and>
     length (BMCConfigurationSpec_IPMI_bytes lib m) < 2 ^ 63"

lemma BMCConfigurationSpec_IPMI_fields:
  "BMCConfigurationSpec_IPMI_field lib l 1 wireType m bs = read_string l ''Address'' wireType bs
      (\<lambda>v. m\<lparr>Ipmi_Address := v\<rparr>)"
  "BMCConfigurationSpec_IPMI_field lib l 2 wireType m bs = read_number ''Port'' wireType bs (\<lambda>v. m\<lparr>Ipmi_Port := v\<rparr>)"
  "BMCConfigurationSpec_IPMI_field lib l 3 wireType m bs = read_string l ''Username'' wireType bs
      (\<lambda>v. m\<lparr>Ipmi_Username := v\<rparr>)"
  "BMCConfigurationSpec_IPMI_field lib l 4 wireType m bs = read_string l ''Password'' wireType bs
      (\<lambda>v. m\<lparr>Ipmi_Password := v\<rparr>)"
  "n \<notin> {1, 2, 3, 4} \<Longrightarrow> BMCConfigurationSpec_IPMI_field lib l n wireType m bs = Unknown"
  by (simp_all add: BMCConfigurationSpec_IPMI_field_def)

lemma BMCConfigurationSpec_IPMI_Equal [simp]: "wire_lib_ok lib \<Longrightarrow> BMCConfigurationSpec_IPMI_EqualVT lib a
    b \<longleftrightarrow> a = b"
  by (auto simp: BMCConfigurationSpec_IPMI_EqualVT_def lib_laws intro: bmc_ipmi.equality split: option.split)

interpretation ipmi_msg: wire_message BMCConfigurationSpec_IPMI_SizeVT BMCConfigurationSpec_IPMI_MarshalToSizedBufferVT
    BMCConfigurationSpec_IPMI_UnmarshalVT BMCConfigurationSpec_IPMI_new
  BMCConfigurationSpec_IPMI_fits BMCConfigurationSpec_IPMI_bytes
proof
  fix lib :: wire_lib and m assume lib: "wire_lib_ok lib" and fits: "BMCConfigurationSpec_IPMI_fits lib m"
  show len: "length (BMCConfigurationSpec_IPMI_bytes lib m) < 2 ^ 63" using fits by (simp add: BMCConfigurationSpec_IPMI_fits_def)
  have strings: "length (Ipmi_Address m) < 2 ^ 63" "length (Ipmi_Username m) < 2 ^ 63" "length (Ipmi_Password m) < 2 ^ 63"
    using len string_field_longer[of "Ipmi_Address m" "0x0a"] string_field_longer[of "Ipmi_Username m" "0x1a"]
        string_field_longer[of "Ipmi_Password m" "0x22"] by (simp_all add: BMCConfigurationSpec_IPMI_bytes_def)
  show "BMCConfigurationSpec_IPMI_SizeVT lib m = length (BMCConfigurationSpec_IPMI_bytes lib m)"
    using lib fits strings by (simp add: BMCConfigurationSpec_IPMI_SizeVT_def BMCConfigurationSpec_IPMI_bytes_def
        BMCConfigurationSpec_IPMI_fits_def  size_string_exact[where tag = "0x0a" and s = "Ipmi_Address m"]
        size_varint_exact[where tag = "0x10" and v = "ucast (Ipmi_Port m)"] size_string_exact[where tag = "0x1a" and s =
        "Ipmi_Username m"] size_string_exact[where tag = "0x22" and s = "Ipmi_Password m"])
  show "writes_exactly (BMCConfigurationSpec_IPMI_MarshalToSizedBufferVT lib m) (BMCConfigurationSpec_IPMI_bytes lib m)"
    using lib fits strings
      exact_writes[of "[put (ipmi_unknownFields m), put_string lib 0x22 (Ipmi_Password m),
          put_string lib 0x1a (Ipmi_Username m), put_varint lib 0x10 (ucast (Ipmi_Port m)), put_string lib 0x0a (Ipmi_Address m)]"
        "[ipmi_unknownFields m, string_field 0x22 (Ipmi_Password m), string_field 0x1a (Ipmi_Username m),
            varint_field 0x10 (ucast (Ipmi_Port m)), string_field 0x0a (Ipmi_Address m)]"]
    by (simp add: BMCConfigurationSpec_IPMI_MarshalToSizedBufferVT_def BMCConfigurationSpec_IPMI_bytes_def
        BMCConfigurationSpec_IPMI_fits_def exact_intros )
  have unknown: "unmarshal lib name (BMCConfigurationSpec_IPMI_field lib) (\<lambda>u m. m\<lparr>ipmi_unknownFields :=
      ipmi_unknownFields m @ u\<rparr>) l x (ipmi_unknownFields m) =
      Some (Inr (x\<lparr>ipmi_unknownFields := ipmi_unknownFields x @ ipmi_unknownFields m\<rparr>))" if "length
          (ipmi_unknownFields m) \<le> l" "l < 2 ^ 63" for name l x
    using fits that
    by (intro unmarshal_unknown[where has = "\<lambda>n. n \<in> {1, 2, 3,
        4}"]) (simp_all add: BMCConfigurationSpec_IPMI_fits_def BMCConfigurationSpec_IPMI_field_def)
  show "BMCConfigurationSpec_IPMI_UnmarshalVT lib BMCConfigurationSpec_IPMI_new (BMCConfigurationSpec_IPMI_bytes lib m) = Some (Inr m)"
    using lib fits len strings
    by (auto simp: BMCConfigurationSpec_IPMI_UnmarshalVT_def BMCConfigurationSpec_IPMI_bytes_def
        BMCConfigurationSpec_IPMI_new_def BMCConfigurationSpec_IPMI_fits_def unknown
        unmarshal_string[where known = "BMCConfigurationSpec_IPMI_field lib", OF BMCConfigurationSpec_IPMI_fields(1)]
            unmarshal_number[where known = "BMCConfigurationSpec_IPMI_field lib",
            OF BMCConfigurationSpec_IPMI_fields(2)] unmarshal_string[where known =
            "BMCConfigurationSpec_IPMI_field lib", OF BMCConfigurationSpec_IPMI_fields(3)]
            unmarshal_string[where known = "BMCConfigurationSpec_IPMI_field lib", OF BMCConfigurationSpec_IPMI_fields(4)]
        intro!: bmc_ipmi.equality)
next
  fix lib :: wire_lib and m bs assume lib: "wire_lib_ok lib"
  show "BMCConfigurationSpec_IPMI_UnmarshalVT lib m bs \<noteq> None"
    unfolding BMCConfigurationSpec_IPMI_UnmarshalVT_def
    by (rule unmarshal_returns[OF lib])
       (auto simp: BMCConfigurationSpec_IPMI_field_def  lib dest: reads_shorter split: if_splits)
qed

section \<open>BMCConfigurationSpec_API\<close>

definition BMCConfigurationSpec_API_new :: bmc_api where
  "BMCConfigurationSpec_API_new = \<lparr>Api_Address = [], api_unknownFields = []\<rparr>"

definition BMCConfigurationSpec_API_SizeVT :: "wire_lib \<Rightarrow> bmc_api \<Rightarrow> nat" where
  "BMCConfigurationSpec_API_SizeVT lib m =
     size_string lib (Api_Address m) + length (api_unknownFields m)"

definition BMCConfigurationSpec_API_MarshalToSizedBufferVT :: "wire_lib \<Rightarrow> bmc_api \<Rightarrow>
    wbuf \<Rightarrow> err + wbuf" where
  "BMCConfigurationSpec_API_MarshalToSizedBufferVT lib m =
     writes
       [put (api_unknownFields m),
        put_string lib 0x0a (Api_Address m)]"

definition BMCConfigurationSpec_API_field :: "wire_lib \<Rightarrow> nat \<Rightarrow> int \<Rightarrow>
    nat \<Rightarrow> bmc_api \<Rightarrow> byte list \<Rightarrow> bmc_api field_read" where
  "BMCConfigurationSpec_API_field lib l fieldNum wireType m bs =
     (if fieldNum = 1
      then read_string l ''Address'' wireType bs (\<lambda>v. m\<lparr>Api_Address := v\<rparr>)
      else Unknown)"

definition BMCConfigurationSpec_API_UnmarshalVT :: "wire_lib \<Rightarrow> bmc_api \<Rightarrow> byte list \<Rightarrow>
    (err + bmc_api) option" where
  "BMCConfigurationSpec_API_UnmarshalVT lib m dAtA =
     unmarshal lib ''BMCConfigurationSpec_API'' (BMCConfigurationSpec_API_field lib)
         (\<lambda>u m. m\<lparr>api_unknownFields := api_unknownFields m @ u\<rparr>) (length dAtA) m dAtA"

definition BMCConfigurationSpec_API_EqualVT :: "wire_lib \<Rightarrow> bmc_api option \<Rightarrow> bmc_api option \<Rightarrow> bool" where
  "BMCConfigurationSpec_API_EqualVT lib this that =
     (case (this, that) of
        (None, None) \<Rightarrow> True
      | (Some a, Some b) \<Rightarrow> Api_Address a = Api_Address b \<and> api_unknownFields a = api_unknownFields b
      | _ \<Rightarrow> False)"

definition BMCConfigurationSpec_API_bytes :: "wire_lib \<Rightarrow> bmc_api \<Rightarrow> byte list" where
  "BMCConfigurationSpec_API_bytes lib m =
     string_field 0x0a (Api_Address m) @ api_unknownFields m"

definition BMCConfigurationSpec_API_fits :: "wire_lib \<Rightarrow> bmc_api \<Rightarrow> bool" where
  "BMCConfigurationSpec_API_fits lib m \<longleftrightarrow>
     unknown_fields lib (\<lambda>n. n \<in> {1}) (api_unknownFields m) \<and>
     length (BMCConfigurationSpec_API_bytes lib m) < 2 ^ 63"

lemma BMCConfigurationSpec_API_fields:
  "BMCConfigurationSpec_API_field lib l 1 wireType m bs = read_string l ''Address'' wireType bs
      (\<lambda>v. m\<lparr>Api_Address := v\<rparr>)"
  "n \<notin> {1} \<Longrightarrow> BMCConfigurationSpec_API_field lib l n wireType m bs = Unknown"
  by (simp_all add: BMCConfigurationSpec_API_field_def)

lemma BMCConfigurationSpec_API_Equal [simp]: "wire_lib_ok lib \<Longrightarrow> BMCConfigurationSpec_API_EqualVT lib a b
    \<longleftrightarrow> a = b"
  by (auto simp: BMCConfigurationSpec_API_EqualVT_def lib_laws intro: bmc_api.equality split: option.split)

interpretation api_msg: wire_message BMCConfigurationSpec_API_SizeVT BMCConfigurationSpec_API_MarshalToSizedBufferVT
    BMCConfigurationSpec_API_UnmarshalVT BMCConfigurationSpec_API_new
  BMCConfigurationSpec_API_fits BMCConfigurationSpec_API_bytes
proof
  fix lib :: wire_lib and m assume lib: "wire_lib_ok lib" and fits: "BMCConfigurationSpec_API_fits lib m"
  show len: "length (BMCConfigurationSpec_API_bytes lib m) < 2 ^ 63" using fits by (simp add: BMCConfigurationSpec_API_fits_def)
  have strings: "length (Api_Address m) < 2 ^ 63"
    using len string_field_longer[of "Api_Address m" "0x0a"] by (simp_all add: BMCConfigurationSpec_API_bytes_def)
  show "BMCConfigurationSpec_API_SizeVT lib m = length (BMCConfigurationSpec_API_bytes lib m)"
    using lib fits strings by (simp add: BMCConfigurationSpec_API_SizeVT_def BMCConfigurationSpec_API_bytes_def
        BMCConfigurationSpec_API_fits_def  size_string_exact[where tag = "0x0a" and s = "Api_Address m"])
  show "writes_exactly (BMCConfigurationSpec_API_MarshalToSizedBufferVT lib m) (BMCConfigurationSpec_API_bytes lib m)"
    using lib fits strings
      exact_writes[of "[put (api_unknownFields m), put_string lib 0x0a (Api_Address m)]"
        "[api_unknownFields m, string_field 0x0a (Api_Address m)]"]
    by (simp add: BMCConfigurationSpec_API_MarshalToSizedBufferVT_def BMCConfigurationSpec_API_bytes_def
        BMCConfigurationSpec_API_fits_def exact_intros )
  have unknown: "unmarshal lib name (BMCConfigurationSpec_API_field lib) (\<lambda>u m. m\<lparr>api_unknownFields :=
      api_unknownFields m @ u\<rparr>) l x (api_unknownFields m) =
      Some (Inr (x\<lparr>api_unknownFields := api_unknownFields x @ api_unknownFields m\<rparr>))" if "length
          (api_unknownFields m) \<le> l" "l < 2 ^ 63" for name l x
    using fits that
    by (intro unmarshal_unknown[where has = "\<lambda>n. n \<in> {1}"]) (simp_all add: BMCConfigurationSpec_API_fits_def
        BMCConfigurationSpec_API_field_def)
  show "BMCConfigurationSpec_API_UnmarshalVT lib BMCConfigurationSpec_API_new (BMCConfigurationSpec_API_bytes lib m) = Some (Inr m)"
    using lib fits len strings
    by (auto simp: BMCConfigurationSpec_API_UnmarshalVT_def BMCConfigurationSpec_API_bytes_def
        BMCConfigurationSpec_API_new_def BMCConfigurationSpec_API_fits_def unknown
        unmarshal_string[where known = "BMCConfigurationSpec_API_field lib", OF BMCConfigurationSpec_API_fields(1)]
        intro!: bmc_api.equality)
next
  fix lib :: wire_lib and m bs assume lib: "wire_lib_ok lib"
  show "BMCConfigurationSpec_API_UnmarshalVT lib m bs \<noteq> None"
    unfolding BMCConfigurationSpec_API_UnmarshalVT_def
    by (rule unmarshal_returns[OF lib])
       (auto simp: BMCConfigurationSpec_API_field_def  lib dest: reads_shorter split: if_splits)
qed

section \<open>BMCConfigurationSpec_Manual\<close>

definition BMCConfigurationSpec_Manual_new :: bmc_manual where
  "BMCConfigurationSpec_Manual_new = \<lparr>manual_unknownFields = []\<rparr>"

definition BMCConfigurationSpec_Manual_SizeVT :: "wire_lib \<Rightarrow> bmc_manual \<Rightarrow> nat" where
  "BMCConfigurationSpec_Manual_SizeVT lib m =
     length (manual_unknownFields m)"

definition BMCConfigurationSpec_Manual_MarshalToSizedBufferVT :: "wire_lib \<Rightarrow> bmc_manual \<Rightarrow>
    wbuf \<Rightarrow> err + wbuf" where
  "BMCConfigurationSpec_Manual_MarshalToSizedBufferVT lib m =
     writes
       [put (manual_unknownFields m)]"

definition BMCConfigurationSpec_Manual_field :: "wire_lib \<Rightarrow> nat \<Rightarrow> int \<Rightarrow>
    nat \<Rightarrow> bmc_manual \<Rightarrow> byte list \<Rightarrow> bmc_manual field_read" where
  "BMCConfigurationSpec_Manual_field lib l fieldNum wireType m bs =
     Unknown"

definition BMCConfigurationSpec_Manual_UnmarshalVT :: "wire_lib \<Rightarrow> bmc_manual \<Rightarrow>
    byte list \<Rightarrow> (err + bmc_manual) option" where
  "BMCConfigurationSpec_Manual_UnmarshalVT lib m dAtA =
     unmarshal lib ''BMCConfigurationSpec_Manual'' (BMCConfigurationSpec_Manual_field lib)
         (\<lambda>u m. m\<lparr>manual_unknownFields := manual_unknownFields m @ u\<rparr>) (length dAtA) m dAtA"

definition BMCConfigurationSpec_Manual_EqualVT :: "wire_lib \<Rightarrow> bmc_manual option \<Rightarrow>
    bmc_manual option \<Rightarrow> bool" where
  "BMCConfigurationSpec_Manual_EqualVT lib this that =
     (case (this, that) of
        (None, None) \<Rightarrow> True
      | (Some a, Some b) \<Rightarrow> manual_unknownFields a = manual_unknownFields b
      | _ \<Rightarrow> False)"

definition BMCConfigurationSpec_Manual_bytes :: "wire_lib \<Rightarrow> bmc_manual \<Rightarrow> byte list" where
  "BMCConfigurationSpec_Manual_bytes lib m =
     manual_unknownFields m"

definition BMCConfigurationSpec_Manual_fits :: "wire_lib \<Rightarrow> bmc_manual \<Rightarrow> bool" where
  "BMCConfigurationSpec_Manual_fits lib m \<longleftrightarrow>
     unknown_fields lib (\<lambda>n. n \<in> {}) (manual_unknownFields m) \<and>
     length (BMCConfigurationSpec_Manual_bytes lib m) < 2 ^ 63"

lemma BMCConfigurationSpec_Manual_Equal [simp]: "wire_lib_ok lib \<Longrightarrow> BMCConfigurationSpec_Manual_EqualVT
    lib a b \<longleftrightarrow> a = b"
  by (auto simp: BMCConfigurationSpec_Manual_EqualVT_def lib_laws intro: bmc_manual.equality split: option.split)

interpretation manual_msg: wire_message BMCConfigurationSpec_Manual_SizeVT
    BMCConfigurationSpec_Manual_MarshalToSizedBufferVT BMCConfigurationSpec_Manual_UnmarshalVT BMCConfigurationSpec_Manual_new
  BMCConfigurationSpec_Manual_fits BMCConfigurationSpec_Manual_bytes
proof
  fix lib :: wire_lib and m assume lib: "wire_lib_ok lib" and fits: "BMCConfigurationSpec_Manual_fits lib m"
  show len: "length (BMCConfigurationSpec_Manual_bytes lib m) < 2 ^ 63" using fits by (simp add: BMCConfigurationSpec_Manual_fits_def)
  show "BMCConfigurationSpec_Manual_SizeVT lib m = length (BMCConfigurationSpec_Manual_bytes lib m)"
    using lib fits by (simp add: BMCConfigurationSpec_Manual_SizeVT_def BMCConfigurationSpec_Manual_bytes_def
        BMCConfigurationSpec_Manual_fits_def  )
  show "writes_exactly (BMCConfigurationSpec_Manual_MarshalToSizedBufferVT lib m) (BMCConfigurationSpec_Manual_bytes lib m)"
    using lib fits
      exact_writes[of "[put (manual_unknownFields m)]"
        "[manual_unknownFields m]"]
    by (simp add: BMCConfigurationSpec_Manual_MarshalToSizedBufferVT_def BMCConfigurationSpec_Manual_bytes_def
        BMCConfigurationSpec_Manual_fits_def exact_intros )
  have unknown: "unmarshal lib name (BMCConfigurationSpec_Manual_field lib) (\<lambda>u m. m\<lparr>manual_unknownFields
      := manual_unknownFields m @ u\<rparr>) l x (manual_unknownFields m) =
      Some (Inr (x\<lparr>manual_unknownFields := manual_unknownFields x @ manual_unknownFields m\<rparr>))" if "length
          (manual_unknownFields m) \<le> l" "l < 2 ^ 63" for name l x
    using fits that
    by (intro unmarshal_unknown[where has = "\<lambda>n. n \<in> {}"])
        (simp_all add: BMCConfigurationSpec_Manual_fits_def BMCConfigurationSpec_Manual_field_def)
  show "BMCConfigurationSpec_Manual_UnmarshalVT lib BMCConfigurationSpec_Manual_new (BMCConfigurationSpec_Manual_bytes
      lib m) = Some (Inr m)"
    using lib fits len
    by (auto simp: BMCConfigurationSpec_Manual_UnmarshalVT_def BMCConfigurationSpec_Manual_bytes_def
        BMCConfigurationSpec_Manual_new_def BMCConfigurationSpec_Manual_fits_def unknown
        
        intro!: bmc_manual.equality)
next
  fix lib :: wire_lib and m bs assume lib: "wire_lib_ok lib"
  show "BMCConfigurationSpec_Manual_UnmarshalVT lib m bs \<noteq> None"
    unfolding BMCConfigurationSpec_Manual_UnmarshalVT_def
    by (rule unmarshal_returns[OF lib])
       (auto simp: BMCConfigurationSpec_Manual_field_def  lib dest: reads_shorter split: if_splits)
qed

section \<open>BMCConfigurationSpec\<close>

definition BMCConfigurationSpec_new :: bmc_configuration_spec where
  "BMCConfigurationSpec_new = \<lparr>Ipmi = None, Api = None, ManuallyConfigured = False, Manual = None, bc_unknownFields = []\<rparr>"

definition BMCConfigurationSpec_SizeVT :: "wire_lib \<Rightarrow> bmc_configuration_spec \<Rightarrow> nat" where
  "BMCConfigurationSpec_SizeVT lib m =
     size_message lib (BMCConfigurationSpec_IPMI_SizeVT lib) (Ipmi m) +
         size_message lib (BMCConfigurationSpec_API_SizeVT lib) (Api m) + size_bool (ManuallyConfigured m) +
         size_message lib (BMCConfigurationSpec_Manual_SizeVT lib) (Manual m) + length (bc_unknownFields m)"

definition BMCConfigurationSpec_MarshalToSizedBufferVT :: "wire_lib \<Rightarrow> bmc_configuration_spec \<Rightarrow>
    wbuf \<Rightarrow> err + wbuf" where
  "BMCConfigurationSpec_MarshalToSizedBufferVT lib m =
     writes
       [put (bc_unknownFields m),
        put_message lib 0x22 (BMCConfigurationSpec_Manual_MarshalToSizedBufferVT lib) (Manual m),
        put_bool 0x18 (ManuallyConfigured m),
        put_message lib 0x12 (BMCConfigurationSpec_API_MarshalToSizedBufferVT lib) (Api m),
        put_message lib 0x0a (BMCConfigurationSpec_IPMI_MarshalToSizedBufferVT lib) (Ipmi m)]"

definition BMCConfigurationSpec_field :: "wire_lib \<Rightarrow> nat \<Rightarrow> int \<Rightarrow> nat \<Rightarrow>
    bmc_configuration_spec \<Rightarrow> byte list \<Rightarrow> bmc_configuration_spec field_read" where
  "BMCConfigurationSpec_field lib l fieldNum wireType m bs =
     (if fieldNum = 1
      then read_message l ''Ipmi'' wireType bs BMCConfigurationSpec_IPMI_new (Ipmi m)
          (BMCConfigurationSpec_IPMI_UnmarshalVT lib) (\<lambda>v. m\<lparr>Ipmi := v\<rparr>)
      else if fieldNum = 2
      then read_message l ''Api'' wireType bs BMCConfigurationSpec_API_new (Api m) (BMCConfigurationSpec_API_UnmarshalVT
          lib) (\<lambda>v. m\<lparr>Api := v\<rparr>)
      else if fieldNum = 3
      then read_bool ''ManuallyConfigured'' wireType bs (\<lambda>v. m\<lparr>ManuallyConfigured := v\<rparr>)
      else if fieldNum = 4
      then read_message l ''Manual'' wireType bs BMCConfigurationSpec_Manual_new (Manual m)
          (BMCConfigurationSpec_Manual_UnmarshalVT lib) (\<lambda>v. m\<lparr>Manual := v\<rparr>)
      else Unknown)"

definition BMCConfigurationSpec_UnmarshalVT :: "wire_lib \<Rightarrow> bmc_configuration_spec \<Rightarrow>
    byte list \<Rightarrow> (err + bmc_configuration_spec) option" where
  "BMCConfigurationSpec_UnmarshalVT lib m dAtA =
     unmarshal lib ''BMCConfigurationSpec'' (BMCConfigurationSpec_field lib) (\<lambda>u m. m\<lparr>bc_unknownFields :=
         bc_unknownFields m @ u\<rparr>) (length dAtA) m dAtA"

definition BMCConfigurationSpec_EqualVT :: "wire_lib \<Rightarrow> bmc_configuration_spec option \<Rightarrow>
    bmc_configuration_spec option \<Rightarrow> bool" where
  "BMCConfigurationSpec_EqualVT lib this that =
     (case (this, that) of
        (None, None) \<Rightarrow> True
      | (Some a, Some b) \<Rightarrow> BMCConfigurationSpec_IPMI_EqualVT lib (Ipmi a) (Ipmi b) \<and>
          BMCConfigurationSpec_API_EqualVT lib (Api a) (Api b) \<and> ManuallyConfigured a = ManuallyConfigured b \<and>
          BMCConfigurationSpec_Manual_EqualVT lib (Manual a) (Manual b) \<and> bc_unknownFields a = bc_unknownFields b
      | _ \<Rightarrow> False)"

definition BMCConfigurationSpec_bytes :: "wire_lib \<Rightarrow> bmc_configuration_spec \<Rightarrow> byte list" where
  "BMCConfigurationSpec_bytes lib m =
     message_field 0x0a (BMCConfigurationSpec_IPMI_bytes lib) (Ipmi m) @
         message_field 0x12 (BMCConfigurationSpec_API_bytes lib) (Api m) @ bool_field 0x18 (ManuallyConfigured m) @
         message_field 0x22 (BMCConfigurationSpec_Manual_bytes lib) (Manual m) @ bc_unknownFields m"

definition BMCConfigurationSpec_fits :: "wire_lib \<Rightarrow> bmc_configuration_spec \<Rightarrow> bool" where
  "BMCConfigurationSpec_fits lib m \<longleftrightarrow>
     (\<forall>x. Manual m = Some x \<longrightarrow> BMCConfigurationSpec_Manual_fits lib x) \<and>
     (\<forall>x. Api m = Some x \<longrightarrow> BMCConfigurationSpec_API_fits lib x) \<and>
     (\<forall>x. Ipmi m = Some x \<longrightarrow> BMCConfigurationSpec_IPMI_fits lib x) \<and>
     unknown_fields lib (\<lambda>n. n \<in> {1, 2, 3, 4}) (bc_unknownFields m) \<and>
     length (BMCConfigurationSpec_bytes lib m) < 2 ^ 63"

lemma BMCConfigurationSpec_fields:
  "BMCConfigurationSpec_field lib l 1 wireType m bs = read_message l ''Ipmi'' wireType bs BMCConfigurationSpec_IPMI_new
      (Ipmi m) (BMCConfigurationSpec_IPMI_UnmarshalVT lib) (\<lambda>v. m\<lparr>Ipmi := v\<rparr>)"
  "BMCConfigurationSpec_field lib l 2 wireType m bs = read_message l ''Api'' wireType bs BMCConfigurationSpec_API_new
      (Api m) (BMCConfigurationSpec_API_UnmarshalVT lib) (\<lambda>v. m\<lparr>Api := v\<rparr>)"
  "BMCConfigurationSpec_field lib l 3 wireType m bs = read_bool ''ManuallyConfigured'' wireType bs
      (\<lambda>v. m\<lparr>ManuallyConfigured := v\<rparr>)"
  "BMCConfigurationSpec_field lib l 4 wireType m bs =
      read_message l ''Manual'' wireType bs BMCConfigurationSpec_Manual_new (Manual m)
      (BMCConfigurationSpec_Manual_UnmarshalVT lib) (\<lambda>v. m\<lparr>Manual := v\<rparr>)"
  "n \<notin> {1, 2, 3, 4} \<Longrightarrow> BMCConfigurationSpec_field lib l n wireType m bs = Unknown"
  by (simp_all add: BMCConfigurationSpec_field_def)

lemma BMCConfigurationSpec_Equal [simp]: "wire_lib_ok lib \<Longrightarrow> BMCConfigurationSpec_EqualVT lib a b
    \<longleftrightarrow> a = b"
  by (auto simp: BMCConfigurationSpec_EqualVT_def lib_laws intro: bmc_configuration_spec.equality split: option.split)

interpretation bc_msg: wire_message BMCConfigurationSpec_SizeVT BMCConfigurationSpec_MarshalToSizedBufferVT
    BMCConfigurationSpec_UnmarshalVT BMCConfigurationSpec_new
  BMCConfigurationSpec_fits BMCConfigurationSpec_bytes
proof
  fix lib :: wire_lib and m assume lib: "wire_lib_ok lib" and fits: "BMCConfigurationSpec_fits lib m"
  show len: "length (BMCConfigurationSpec_bytes lib m) < 2 ^ 63" using fits by (simp add: BMCConfigurationSpec_fits_def)
  show "BMCConfigurationSpec_SizeVT lib m = length (BMCConfigurationSpec_bytes lib m)"
    using lib fits by (simp add: BMCConfigurationSpec_SizeVT_def BMCConfigurationSpec_bytes_def
        BMCConfigurationSpec_fits_def ipmi_msg.size_field[where tag = "0x0a" and x =
        "Ipmi m"] api_msg.size_field[where tag = "0x12" and x = "Api m"] manual_msg.size_field[where tag =
        "0x22" and x = "Manual m"] size_bool_exact[where tag = "0x18" and b = "ManuallyConfigured m"])
  show "writes_exactly (BMCConfigurationSpec_MarshalToSizedBufferVT lib m) (BMCConfigurationSpec_bytes lib m)"
    using lib fits
      exact_writes[of "[put (bc_unknownFields m),
          put_message lib 0x22 (BMCConfigurationSpec_Manual_MarshalToSizedBufferVT lib) (Manual m),
          put_bool 0x18 (ManuallyConfigured m), put_message lib 0x12 (BMCConfigurationSpec_API_MarshalToSizedBufferVT
          lib) (Api m), put_message lib 0x0a (BMCConfigurationSpec_IPMI_MarshalToSizedBufferVT lib) (Ipmi m)]"
        "[bc_unknownFields m, message_field 0x22 (BMCConfigurationSpec_Manual_bytes lib) (Manual m),
            bool_field 0x18 (ManuallyConfigured m), message_field 0x12 (BMCConfigurationSpec_API_bytes lib) (Api m),
            message_field 0x0a (BMCConfigurationSpec_IPMI_bytes lib) (Ipmi m)]"]
    by (simp add: BMCConfigurationSpec_MarshalToSizedBufferVT_def BMCConfigurationSpec_bytes_def
        BMCConfigurationSpec_fits_def exact_intros ipmi_msg.put_field api_msg.put_field manual_msg.put_field)
  have unknown: "unmarshal lib name (BMCConfigurationSpec_field lib) (\<lambda>u m. m\<lparr>bc_unknownFields :=
      bc_unknownFields m @ u\<rparr>) l x (bc_unknownFields m) =
      Some (Inr (x\<lparr>bc_unknownFields := bc_unknownFields x @ bc_unknownFields m\<rparr>))" if "length
          (bc_unknownFields m) \<le> l" "l < 2 ^ 63" for name l x
    using fits that
    by (intro unmarshal_unknown[where has = "\<lambda>n. n \<in> {1, 2, 3,
        4}"]) (simp_all add: BMCConfigurationSpec_fits_def BMCConfigurationSpec_field_def)
  show "BMCConfigurationSpec_UnmarshalVT lib BMCConfigurationSpec_new (BMCConfigurationSpec_bytes lib m) = Some (Inr m)"
    using lib fits len
    by (auto simp: BMCConfigurationSpec_UnmarshalVT_def BMCConfigurationSpec_bytes_def BMCConfigurationSpec_new_def
        BMCConfigurationSpec_fits_def unknown
        ipmi_msg.unmarshal_field[where known = "BMCConfigurationSpec_field lib",
            OF BMCConfigurationSpec_fields(1)] api_msg.unmarshal_field[where known = "BMCConfigurationSpec_field lib",
            OF BMCConfigurationSpec_fields(2)] unmarshal_bool[where known = "BMCConfigurationSpec_field lib",
            OF BMCConfigurationSpec_fields(3)] manual_msg.unmarshal_field[where known =
            "BMCConfigurationSpec_field lib", OF BMCConfigurationSpec_fields(4)]
        intro!: bmc_configuration_spec.equality)
next
  fix lib :: wire_lib and m bs assume lib: "wire_lib_ok lib"
  show "BMCConfigurationSpec_UnmarshalVT lib m bs \<noteq> None"
    unfolding BMCConfigurationSpec_UnmarshalVT_def
    by (rule unmarshal_returns[OF lib])
       (auto simp: BMCConfigurationSpec_field_def api_msg.read_field_returns ipmi_msg.read_field_returns
           manual_msg.read_field_returns lib dest: reads_shorter split: if_splits)
qed

section \<open>PowerOperationSpec\<close>

definition PowerOperationSpec_new :: power_operation_spec where
  "PowerOperationSpec_new = \<lparr>LastPowerOperation = POWER_STATE_UNKNOWN, LastPowerOnTimestamp = None,
      LastPowerOffId = [], WipeIdAtPowerOff = [], po_unknownFields = []\<rparr>"

definition PowerOperationSpec_SizeVT :: "wire_lib \<Rightarrow> power_operation_spec \<Rightarrow> nat" where
  "PowerOperationSpec_SizeVT lib m =
     size_varint lib (scast (power_code (LastPowerOperation m))) + size_message lib (ts_SizeVT lib)
         (LastPowerOnTimestamp m) + size_string lib (LastPowerOffId m) + size_string lib (WipeIdAtPowerOff m) + length (po_unknownFields m)"

definition PowerOperationSpec_MarshalToSizedBufferVT :: "wire_lib \<Rightarrow> power_operation_spec \<Rightarrow>
    wbuf \<Rightarrow> err + wbuf" where
  "PowerOperationSpec_MarshalToSizedBufferVT lib m =
     writes
       [put (po_unknownFields m),
        put_string lib 0x22 (WipeIdAtPowerOff m),
        put_string lib 0x1a (LastPowerOffId m),
        put_message lib 0x12 (ts_MarshalToSizedBufferVT lib) (LastPowerOnTimestamp m),
        put_varint lib 0x08 (scast (power_code (LastPowerOperation m)))]"

definition PowerOperationSpec_field :: "wire_lib \<Rightarrow> nat \<Rightarrow> int \<Rightarrow> nat \<Rightarrow>
    power_operation_spec \<Rightarrow> byte list \<Rightarrow> power_operation_spec field_read" where
  "PowerOperationSpec_field lib l fieldNum wireType m bs =
     (if fieldNum = 1
      then read_number ''LastPowerOperation'' wireType bs (\<lambda>v. m\<lparr>LastPowerOperation := power_state_of v\<rparr>)
      else if fieldNum = 2
      then read_message l ''LastPowerOnTimestamp'' wireType bs ts_zero (LastPowerOnTimestamp m) (\<lambda>t b. Some
          (ts_UnmarshalVT lib t b)) (\<lambda>v. m\<lparr>LastPowerOnTimestamp := v\<rparr>)
      else if fieldNum = 3
      then read_string l ''LastPowerOffId'' wireType bs (\<lambda>v. m\<lparr>LastPowerOffId := v\<rparr>)
      else if fieldNum = 4
      then read_string l ''WipeIdAtPowerOff'' wireType bs (\<lambda>v. m\<lparr>WipeIdAtPowerOff := v\<rparr>)
      else Unknown)"

definition PowerOperationSpec_UnmarshalVT :: "wire_lib \<Rightarrow> power_operation_spec \<Rightarrow>
    byte list \<Rightarrow> (err + power_operation_spec) option" where
  "PowerOperationSpec_UnmarshalVT lib m dAtA =
     unmarshal lib ''PowerOperationSpec'' (PowerOperationSpec_field lib) (\<lambda>u m. m\<lparr>po_unknownFields :=
         po_unknownFields m @ u\<rparr>) (length dAtA) m dAtA"

definition PowerOperationSpec_EqualVT :: "wire_lib \<Rightarrow> power_operation_spec option \<Rightarrow>
    power_operation_spec option \<Rightarrow> bool" where
  "PowerOperationSpec_EqualVT lib this that =
     (case (this, that) of
        (None, None) \<Rightarrow> True
      | (Some a, Some b) \<Rightarrow> LastPowerOperation a = LastPowerOperation b \<and>
          ts_EqualVT lib (LastPowerOnTimestamp a) (LastPowerOnTimestamp b) \<and> LastPowerOffId a =
          LastPowerOffId b \<and> WipeIdAtPowerOff a = WipeIdAtPowerOff b \<and> po_unknownFields a = po_unknownFields b
      | _ \<Rightarrow> False)"

definition PowerOperationSpec_bytes :: "wire_lib \<Rightarrow> power_operation_spec \<Rightarrow> byte list" where
  "PowerOperationSpec_bytes lib m =
     varint_field 0x08 (scast (power_code (LastPowerOperation m))) @ message_field 0x12 (ts_bytes lib)
         (LastPowerOnTimestamp m) @ string_field 0x1a (LastPowerOffId m) @ string_field 0x22 (WipeIdAtPowerOff m) @ po_unknownFields m"

definition PowerOperationSpec_fits :: "wire_lib \<Rightarrow> power_operation_spec \<Rightarrow> bool" where
  "PowerOperationSpec_fits lib m \<longleftrightarrow>
     (\<forall>t. LastPowerOnTimestamp m = Some t \<longrightarrow> ts_ok t \<and> length (ts_bytes lib t) < 2 ^ 63) \<and>
     power_ok (LastPowerOperation m) \<and>
     unknown_fields lib (\<lambda>n. n \<in> {1, 2, 3, 4}) (po_unknownFields m) \<and>
     length (PowerOperationSpec_bytes lib m) < 2 ^ 63"

lemma PowerOperationSpec_fields:
  "PowerOperationSpec_field lib l 1 wireType m bs = read_number ''LastPowerOperation'' wireType bs
      (\<lambda>v. m\<lparr>LastPowerOperation := power_state_of v\<rparr>)"
  "PowerOperationSpec_field lib l 2 wireType m bs = read_message l ''LastPowerOnTimestamp'' wireType bs ts_zero
      (LastPowerOnTimestamp m) (\<lambda>t b. Some (ts_UnmarshalVT lib t b)) (\<lambda>v. m\<lparr>LastPowerOnTimestamp := v\<rparr>)"
  "PowerOperationSpec_field lib l 3 wireType m bs = read_string l ''LastPowerOffId'' wireType bs
      (\<lambda>v. m\<lparr>LastPowerOffId := v\<rparr>)"
  "PowerOperationSpec_field lib l 4 wireType m bs = read_string l ''WipeIdAtPowerOff'' wireType bs
      (\<lambda>v. m\<lparr>WipeIdAtPowerOff := v\<rparr>)"
  "n \<notin> {1, 2, 3, 4} \<Longrightarrow> PowerOperationSpec_field lib l n wireType m bs = Unknown"
  by (simp_all add: PowerOperationSpec_field_def)

lemma PowerOperationSpec_Equal [simp]: "wire_lib_ok lib \<Longrightarrow> PowerOperationSpec_EqualVT lib a b \<longleftrightarrow> a = b"
  by (auto simp: PowerOperationSpec_EqualVT_def lib_laws intro: power_operation_spec.equality split: option.split)

interpretation po_msg: wire_message PowerOperationSpec_SizeVT PowerOperationSpec_MarshalToSizedBufferVT
    PowerOperationSpec_UnmarshalVT PowerOperationSpec_new
  PowerOperationSpec_fits PowerOperationSpec_bytes
proof
  fix lib :: wire_lib and m assume lib: "wire_lib_ok lib" and fits: "PowerOperationSpec_fits lib m"
  show len: "length (PowerOperationSpec_bytes lib m) < 2 ^ 63" using fits by (simp add: PowerOperationSpec_fits_def)
  have strings: "length (LastPowerOffId m) < 2 ^ 63" "length (WipeIdAtPowerOff m) < 2 ^ 63"
    using len string_field_longer[of "LastPowerOffId m" "0x1a"] string_field_longer[of "WipeIdAtPowerOff m" "0x22"]
        by (simp_all add: PowerOperationSpec_bytes_def)
  show "PowerOperationSpec_SizeVT lib m = length (PowerOperationSpec_bytes lib m)"
    using lib fits strings by (simp add: PowerOperationSpec_SizeVT_def PowerOperationSpec_bytes_def
        PowerOperationSpec_fits_def ts.size_field[where tag = "0x12" and x = "LastPowerOnTimestamp m"]
        size_varint_exact[where tag = "0x08" and v = "scast (power_code (LastPowerOperation m))"]
        size_string_exact[where tag = "0x1a" and s = "LastPowerOffId m"] size_string_exact[where tag = "0x22" and s = "WipeIdAtPowerOff m"])
  show "writes_exactly (PowerOperationSpec_MarshalToSizedBufferVT lib m) (PowerOperationSpec_bytes lib m)"
    using lib fits strings
      exact_writes[of "[put (po_unknownFields m), put_string lib 0x22 (WipeIdAtPowerOff m),
          put_string lib 0x1a (LastPowerOffId m), put_message lib 0x12 (ts_MarshalToSizedBufferVT lib)
          (LastPowerOnTimestamp m), put_varint lib 0x08 (scast (power_code (LastPowerOperation m)))]"
        "[po_unknownFields m, string_field 0x22 (WipeIdAtPowerOff m), string_field 0x1a (LastPowerOffId m),
            message_field 0x12 (ts_bytes lib) (LastPowerOnTimestamp m), varint_field 0x08 (scast (power_code (LastPowerOperation m)))]"]
    by (simp add: PowerOperationSpec_MarshalToSizedBufferVT_def PowerOperationSpec_bytes_def PowerOperationSpec_fits_def
        exact_intros ts.put_field)
  have unknown: "unmarshal lib name (PowerOperationSpec_field lib) (\<lambda>u m. m\<lparr>po_unknownFields :=
      po_unknownFields m @ u\<rparr>) l x (po_unknownFields m) =
      Some (Inr (x\<lparr>po_unknownFields := po_unknownFields x @ po_unknownFields m\<rparr>))" if "length
          (po_unknownFields m) \<le> l" "l < 2 ^ 63" for name l x
    using fits that
    by (intro unmarshal_unknown[where has = "\<lambda>n. n \<in> {1, 2, 3,
        4}"]) (simp_all add: PowerOperationSpec_fits_def PowerOperationSpec_field_def)
  show "PowerOperationSpec_UnmarshalVT lib PowerOperationSpec_new (PowerOperationSpec_bytes lib m) = Some (Inr m)"
    using lib fits len strings
    by (auto simp: PowerOperationSpec_UnmarshalVT_def PowerOperationSpec_bytes_def PowerOperationSpec_new_def
        PowerOperationSpec_fits_def unknown
        unmarshal_number[where known = "PowerOperationSpec_field lib",
            OF PowerOperationSpec_fields(1)] ts.unmarshal_field[where known = "PowerOperationSpec_field lib",
            OF PowerOperationSpec_fields(2)] unmarshal_string[where known = "PowerOperationSpec_field lib",
            OF PowerOperationSpec_fields(3)] unmarshal_string[where known = "PowerOperationSpec_field lib", OF PowerOperationSpec_fields(4)]
        intro!: power_operation_spec.equality)
next
  fix lib :: wire_lib and m bs assume lib: "wire_lib_ok lib"
  show "PowerOperationSpec_UnmarshalVT lib m bs \<noteq> None"
    unfolding PowerOperationSpec_UnmarshalVT_def
    by (rule unmarshal_returns[OF lib])
       (auto simp: PowerOperationSpec_field_def ts.read_field_returns lib dest: reads_shorter split: if_splits)
qed

section \<open>MachineStatusSpec\<close>

definition MachineStatusSpec_new :: machine_status_spec where
  "MachineStatusSpec_new = \<lparr>AgentAccessible = False, PowerState = POWER_STATE_UNKNOWN, Initialized = False,
      ms_unknownFields = []\<rparr>"

definition MachineStatusSpec_SizeVT :: "wire_lib \<Rightarrow> machine_status_spec \<Rightarrow> nat" where
  "MachineStatusSpec_SizeVT lib m =
     size_bool (AgentAccessible m) + size_varint lib (scast (power_code (PowerState m))) + size_bool (Initialized m) +
         length (ms_unknownFields m)"

definition MachineStatusSpec_MarshalToSizedBufferVT :: "wire_lib \<Rightarrow> machine_status_spec \<Rightarrow>
    wbuf \<Rightarrow> err + wbuf" where
  "MachineStatusSpec_MarshalToSizedBufferVT lib m =
     writes
       [put (ms_unknownFields m),
        put_bool 0x20 (Initialized m),
        put_varint lib 0x10 (scast (power_code (PowerState m))),
        put_bool 0x08 (AgentAccessible m)]"

definition MachineStatusSpec_field :: "wire_lib \<Rightarrow> nat \<Rightarrow> int \<Rightarrow> nat \<Rightarrow>
    machine_status_spec \<Rightarrow> byte list \<Rightarrow> machine_status_spec field_read" where
  "MachineStatusSpec_field lib l fieldNum wireType m bs =
     (if fieldNum = 1
      then read_bool ''AgentAccessible'' wireType bs (\<lambda>v. m\<lparr>AgentAccessible := v\<rparr>)
      else if fieldNum = 2
      then read_number ''PowerState'' wireType bs (\<lambda>v. m\<lparr>PowerState := power_state_of v\<rparr>)
      else if fieldNum = 4
      then read_bool ''Initialized'' wireType bs (\<lambda>v. m\<lparr>Initialized := v\<rparr>)
      else Unknown)"

definition MachineStatusSpec_UnmarshalVT :: "wire_lib \<Rightarrow> machine_status_spec \<Rightarrow>
    byte list \<Rightarrow> (err + machine_status_spec) option" where
  "MachineStatusSpec_UnmarshalVT lib m dAtA =
     unmarshal lib ''MachineStatusSpec'' (MachineStatusSpec_field lib) (\<lambda>u m. m\<lparr>ms_unknownFields :=
         ms_unknownFields m @ u\<rparr>) (length dAtA) m dAtA"

definition MachineStatusSpec_EqualVT :: "wire_lib \<Rightarrow> machine_status_spec option \<Rightarrow>
    machine_status_spec option \<Rightarrow> bool" where
  "MachineStatusSpec_EqualVT lib this that =
     (case (this, that) of
        (None, None) \<Rightarrow> True
      | (Some a, Some b) \<Rightarrow> AgentAccessible a = AgentAccessible b \<and> PowerState a = PowerState b \<and>
          Initialized a = Initialized b \<and> ms_unknownFields a = ms_unknownFields b
      | _ \<Rightarrow> False)"

definition MachineStatusSpec_bytes :: "wire_lib \<Rightarrow> machine_status_spec \<Rightarrow> byte list" where
  "MachineStatusSpec_bytes lib m =
     bool_field 0x08 (AgentAccessible m) @ varint_field 0x10 (scast (power_code (PowerState m))) @
         bool_field 0x20 (Initialized m) @ ms_unknownFields m"

definition MachineStatusSpec_fits :: "wire_lib \<Rightarrow> machine_status_spec \<Rightarrow> bool" where
  "MachineStatusSpec_fits lib m \<longleftrightarrow>
     power_ok (PowerState m) \<and>
     unknown_fields lib (\<lambda>n. n \<in> {1, 2, 4}) (ms_unknownFields m) \<and>
     length (MachineStatusSpec_bytes lib m) < 2 ^ 63"

lemma MachineStatusSpec_fields:
  "MachineStatusSpec_field lib l 1 wireType m bs = read_bool ''AgentAccessible'' wireType bs
      (\<lambda>v. m\<lparr>AgentAccessible := v\<rparr>)"
  "MachineStatusSpec_field lib l 2 wireType m bs = read_number ''PowerState'' wireType bs
      (\<lambda>v. m\<lparr>PowerState := power_state_of v\<rparr>)"
  "MachineStatusSpec_field lib l 4 wireType m bs = read_bool ''Initialized'' wireType bs (\<lambda>v. m\<lparr>Initialized := v\<rparr>)"
  "n \<notin> {1, 2, 4} \<Longrightarrow> MachineStatusSpec_field lib l n wireType m bs = Unknown"
  by (simp_all add: MachineStatusSpec_field_def)

lemma MachineStatusSpec_Equal [simp]: "wire_lib_ok lib \<Longrightarrow> MachineStatusSpec_EqualVT lib a b \<longleftrightarrow> a = b"
  by (auto simp: MachineStatusSpec_EqualVT_def lib_laws intro: machine_status_spec.equality split: option.split)

interpretation ms_msg: wire_message MachineStatusSpec_SizeVT MachineStatusSpec_MarshalToSizedBufferVT
    MachineStatusSpec_UnmarshalVT MachineStatusSpec_new
  MachineStatusSpec_fits MachineStatusSpec_bytes
proof
  fix lib :: wire_lib and m assume lib: "wire_lib_ok lib" and fits: "MachineStatusSpec_fits lib m"
  show len: "length (MachineStatusSpec_bytes lib m) < 2 ^ 63" using fits by (simp add: MachineStatusSpec_fits_def)
  show "MachineStatusSpec_SizeVT lib m = length (MachineStatusSpec_bytes lib m)"
    using lib fits by (simp add: MachineStatusSpec_SizeVT_def MachineStatusSpec_bytes_def MachineStatusSpec_fits_def
        size_bool_exact[where tag = "0x08" and b = "AgentAccessible m"] size_varint_exact[where tag = "0x10" and v =
        "scast (power_code (PowerState m))"] size_bool_exact[where tag = "0x20" and b = "Initialized m"])
  show "writes_exactly (MachineStatusSpec_MarshalToSizedBufferVT lib m) (MachineStatusSpec_bytes lib m)"
    using lib fits
      exact_writes[of "[put (ms_unknownFields m), put_bool 0x20 (Initialized m),
          put_varint lib 0x10 (scast (power_code (PowerState m))), put_bool 0x08 (AgentAccessible m)]"
        "[ms_unknownFields m, bool_field 0x20 (Initialized m), varint_field 0x10 (scast (power_code (PowerState m))),
            bool_field 0x08 (AgentAccessible m)]"]
    by (simp add: MachineStatusSpec_MarshalToSizedBufferVT_def MachineStatusSpec_bytes_def MachineStatusSpec_fits_def exact_intros )
  have unknown: "unmarshal lib name (MachineStatusSpec_field lib) (\<lambda>u m. m\<lparr>ms_unknownFields :=
      ms_unknownFields m @ u\<rparr>) l x (ms_unknownFields m) =
      Some (Inr (x\<lparr>ms_unknownFields := ms_unknownFields x @ ms_unknownFields m\<rparr>))" if "length
          (ms_unknownFields m) \<le> l" "l < 2 ^ 63" for name l x
    using fits that
    by (intro unmarshal_unknown[where has = "\<lambda>n. n \<in> {1, 2, 4}"]) (simp_all add: MachineStatusSpec_fits_def
        MachineStatusSpec_field_def)
  show "MachineStatusSpec_UnmarshalVT lib MachineStatusSpec_new (MachineStatusSpec_bytes lib m) = Some (Inr m)"
    using lib fits len
    by (auto simp: MachineStatusSpec_UnmarshalVT_def MachineStatusSpec_bytes_def MachineStatusSpec_new_def
        MachineStatusSpec_fits_def unknown
        unmarshal_bool[where known = "MachineStatusSpec_field lib", OF MachineStatusSpec_fields(1)]
            unmarshal_number[where known = "MachineStatusSpec_field lib", OF MachineStatusSpec_fields(2)]
            unmarshal_bool[where known = "MachineStatusSpec_field lib", OF MachineStatusSpec_fields(3)]
        intro!: machine_status_spec.equality)
next
  fix lib :: wire_lib and m bs assume lib: "wire_lib_ok lib"
  show "MachineStatusSpec_UnmarshalVT lib m bs \<noteq> None"
    unfolding MachineStatusSpec_UnmarshalVT_def
    by (rule unmarshal_returns[OF lib])
       (auto simp: MachineStatusSpec_field_def  lib dest: reads_shorter split: if_splits)
qed

section \<open>WipeStatusSpec\<close>

definition WipeStatusSpec_new :: wipe_status_spec where
  "WipeStatusSpec_new = \<lparr>LastWipeId = [], LastWipeInstallEventId = 0, InitialWipeDone = False,
      WipedNodeUniqueToken = [], ws_unknownFields = []\<rparr>"

definition WipeStatusSpec_SizeVT :: "wire_lib \<Rightarrow> wipe_status_spec \<Rightarrow> nat" where
  "WipeStatusSpec_SizeVT lib m =
     size_string lib (LastWipeId m) + size_varint lib (LastWipeInstallEventId m) + size_bool (InitialWipeDone m) +
         size_string lib (WipedNodeUniqueToken m) + length (ws_unknownFields m)"

definition WipeStatusSpec_MarshalToSizedBufferVT :: "wire_lib \<Rightarrow> wipe_status_spec \<Rightarrow>
    wbuf \<Rightarrow> err + wbuf" where
  "WipeStatusSpec_MarshalToSizedBufferVT lib m =
     writes
       [put (ws_unknownFields m),
        put_string lib 0x22 (WipedNodeUniqueToken m),
        put_bool 0x18 (InitialWipeDone m),
        put_varint lib 0x10 (LastWipeInstallEventId m),
        put_string lib 0x0a (LastWipeId m)]"

definition WipeStatusSpec_field :: "wire_lib \<Rightarrow> nat \<Rightarrow> int \<Rightarrow> nat \<Rightarrow>
    wipe_status_spec \<Rightarrow> byte list \<Rightarrow> wipe_status_spec field_read" where
  "WipeStatusSpec_field lib l fieldNum wireType m bs =
     (if fieldNum = 1
      then read_string l ''LastWipeId'' wireType bs (\<lambda>v. m\<lparr>LastWipeId := v\<rparr>)
      else if fieldNum = 2
      then read_number ''LastWipeInstallEventId'' wireType bs (\<lambda>v. m\<lparr>LastWipeInstallEventId := v\<rparr>)
      else if fieldNum = 3
      then read_bool ''InitialWipeDone'' wireType bs (\<lambda>v. m\<lparr>InitialWipeDone := v\<rparr>)
      else if fieldNum = 4
      then read_string l ''WipedNodeUniqueToken'' wireType bs (\<lambda>v. m\<lparr>WipedNodeUniqueToken := v\<rparr>)
      else Unknown)"

definition WipeStatusSpec_UnmarshalVT :: "wire_lib \<Rightarrow> wipe_status_spec \<Rightarrow> byte list \<Rightarrow>
    (err + wipe_status_spec) option" where
  "WipeStatusSpec_UnmarshalVT lib m dAtA =
     unmarshal lib ''WipeStatusSpec'' (WipeStatusSpec_field lib) (\<lambda>u m. m\<lparr>ws_unknownFields :=
         ws_unknownFields m @ u\<rparr>) (length dAtA) m dAtA"

definition WipeStatusSpec_EqualVT :: "wire_lib \<Rightarrow> wipe_status_spec option \<Rightarrow>
    wipe_status_spec option \<Rightarrow> bool" where
  "WipeStatusSpec_EqualVT lib this that =
     (case (this, that) of
        (None, None) \<Rightarrow> True
      | (Some a, Some b) \<Rightarrow> LastWipeId a = LastWipeId b \<and> LastWipeInstallEventId a =
          LastWipeInstallEventId b \<and> InitialWipeDone a = InitialWipeDone b \<and> WipedNodeUniqueToken a =
          WipedNodeUniqueToken b \<and> ws_unknownFields a = ws_unknownFields b
      | _ \<Rightarrow> False)"

definition WipeStatusSpec_bytes :: "wire_lib \<Rightarrow> wipe_status_spec \<Rightarrow> byte list" where
  "WipeStatusSpec_bytes lib m =
     string_field 0x0a (LastWipeId m) @ varint_field 0x10 (LastWipeInstallEventId m) @
         bool_field 0x18 (InitialWipeDone m) @ string_field 0x22 (WipedNodeUniqueToken m) @ ws_unknownFields m"

definition WipeStatusSpec_fits :: "wire_lib \<Rightarrow> wipe_status_spec \<Rightarrow> bool" where
  "WipeStatusSpec_fits lib m \<longleftrightarrow>
     unknown_fields lib (\<lambda>n. n \<in> {1, 2, 3, 4}) (ws_unknownFields m) \<and>
     length (WipeStatusSpec_bytes lib m) < 2 ^ 63"

lemma WipeStatusSpec_fields:
  "WipeStatusSpec_field lib l 1 wireType m bs = read_string l ''LastWipeId'' wireType bs (\<lambda>v. m\<lparr>LastWipeId := v\<rparr>)"
  "WipeStatusSpec_field lib l 2 wireType m bs = read_number ''LastWipeInstallEventId'' wireType bs
      (\<lambda>v. m\<lparr>LastWipeInstallEventId := v\<rparr>)"
  "WipeStatusSpec_field lib l 3 wireType m bs = read_bool ''InitialWipeDone'' wireType bs
      (\<lambda>v. m\<lparr>InitialWipeDone := v\<rparr>)"
  "WipeStatusSpec_field lib l 4 wireType m bs = read_string l ''WipedNodeUniqueToken'' wireType bs
      (\<lambda>v. m\<lparr>WipedNodeUniqueToken := v\<rparr>)"
  "n \<notin> {1, 2, 3, 4} \<Longrightarrow> WipeStatusSpec_field lib l n wireType m bs = Unknown"
  by (simp_all add: WipeStatusSpec_field_def)

lemma WipeStatusSpec_Equal [simp]: "wire_lib_ok lib \<Longrightarrow> WipeStatusSpec_EqualVT lib a b \<longleftrightarrow> a = b"
  by (auto simp: WipeStatusSpec_EqualVT_def lib_laws intro: wipe_status_spec.equality split: option.split)

interpretation ws_msg: wire_message WipeStatusSpec_SizeVT WipeStatusSpec_MarshalToSizedBufferVT
    WipeStatusSpec_UnmarshalVT WipeStatusSpec_new
  WipeStatusSpec_fits WipeStatusSpec_bytes
proof
  fix lib :: wire_lib and m assume lib: "wire_lib_ok lib" and fits: "WipeStatusSpec_fits lib m"
  show len: "length (WipeStatusSpec_bytes lib m) < 2 ^ 63" using fits by (simp add: WipeStatusSpec_fits_def)
  have strings: "length (LastWipeId m) < 2 ^ 63" "length (WipedNodeUniqueToken m) < 2 ^ 63"
    using len string_field_longer[of "LastWipeId m" "0x0a"] string_field_longer[of "WipedNodeUniqueToken m" "0x22"]
        by (simp_all add: WipeStatusSpec_bytes_def)
  show "WipeStatusSpec_SizeVT lib m = length (WipeStatusSpec_bytes lib m)"
    using lib fits strings by (simp add: WipeStatusSpec_SizeVT_def WipeStatusSpec_bytes_def WipeStatusSpec_fits_def
        size_string_exact[where tag = "0x0a" and s = "LastWipeId m"] size_varint_exact[where tag = "0x10" and v =
        "LastWipeInstallEventId m"] size_bool_exact[where tag = "0x18" and b = "InitialWipeDone m"]
        size_string_exact[where tag = "0x22" and s = "WipedNodeUniqueToken m"])
  show "writes_exactly (WipeStatusSpec_MarshalToSizedBufferVT lib m) (WipeStatusSpec_bytes lib m)"
    using lib fits strings
      exact_writes[of "[put (ws_unknownFields m), put_string lib 0x22 (WipedNodeUniqueToken m),
          put_bool 0x18 (InitialWipeDone m), put_varint lib 0x10 (LastWipeInstallEventId m), put_string lib 0x0a (LastWipeId m)]"
        "[ws_unknownFields m, string_field 0x22 (WipedNodeUniqueToken m), bool_field 0x18 (InitialWipeDone m),
            varint_field 0x10 (LastWipeInstallEventId m), string_field 0x0a (LastWipeId m)]"]
    by (simp add: WipeStatusSpec_MarshalToSizedBufferVT_def WipeStatusSpec_bytes_def WipeStatusSpec_fits_def exact_intros )
  have unknown: "unmarshal lib name (WipeStatusSpec_field lib) (\<lambda>u m. m\<lparr>ws_unknownFields :=
      ws_unknownFields m @ u\<rparr>) l x (ws_unknownFields m) =
      Some (Inr (x\<lparr>ws_unknownFields := ws_unknownFields x @ ws_unknownFields m\<rparr>))" if "length
          (ws_unknownFields m) \<le> l" "l < 2 ^ 63" for name l x
    using fits that
    by (intro unmarshal_unknown[where has = "\<lambda>n. n \<in> {1, 2, 3, 4}"]) (simp_all add: WipeStatusSpec_fits_def
        WipeStatusSpec_field_def)
  show "WipeStatusSpec_UnmarshalVT lib WipeStatusSpec_new (WipeStatusSpec_bytes lib m) = Some (Inr m)"
    using lib fits len strings
    by (auto simp: WipeStatusSpec_UnmarshalVT_def WipeStatusSpec_bytes_def WipeStatusSpec_new_def WipeStatusSpec_fits_def unknown
        unmarshal_string[where known = "WipeStatusSpec_field lib", OF WipeStatusSpec_fields(1)]
            unmarshal_number[where known = "WipeStatusSpec_field lib", OF WipeStatusSpec_fields(2)]
            unmarshal_bool[where known = "WipeStatusSpec_field lib", OF WipeStatusSpec_fields(3)]
            unmarshal_string[where known = "WipeStatusSpec_field lib", OF WipeStatusSpec_fields(4)]
        intro!: wipe_status_spec.equality)
next
  fix lib :: wire_lib and m bs assume lib: "wire_lib_ok lib"
  show "WipeStatusSpec_UnmarshalVT lib m bs \<noteq> None"
    unfolding WipeStatusSpec_UnmarshalVT_def
    by (rule unmarshal_returns[OF lib])
       (auto simp: WipeStatusSpec_field_def  lib dest: reads_shorter split: if_splits)
qed

section \<open>RebootStatusSpec\<close>

definition RebootStatusSpec_new :: reboot_status_spec where
  "RebootStatusSpec_new = \<lparr>LastRebootId = [], LastRebootTimestamp = None, rs_unknownFields = []\<rparr>"

definition RebootStatusSpec_SizeVT :: "wire_lib \<Rightarrow> reboot_status_spec \<Rightarrow> nat" where
  "RebootStatusSpec_SizeVT lib m =
     size_string lib (LastRebootId m) + size_message lib (ts_SizeVT lib) (LastRebootTimestamp m) + length (rs_unknownFields m)"

definition RebootStatusSpec_MarshalToSizedBufferVT :: "wire_lib \<Rightarrow> reboot_status_spec \<Rightarrow>
    wbuf \<Rightarrow> err + wbuf" where
  "RebootStatusSpec_MarshalToSizedBufferVT lib m =
     writes
       [put (rs_unknownFields m),
        put_message lib 0x12 (ts_MarshalToSizedBufferVT lib) (LastRebootTimestamp m),
        put_string lib 0x0a (LastRebootId m)]"

definition RebootStatusSpec_field :: "wire_lib \<Rightarrow> nat \<Rightarrow> int \<Rightarrow> nat \<Rightarrow>
    reboot_status_spec \<Rightarrow> byte list \<Rightarrow> reboot_status_spec field_read" where
  "RebootStatusSpec_field lib l fieldNum wireType m bs =
     (if fieldNum = 1
      then read_string l ''LastRebootId'' wireType bs (\<lambda>v. m\<lparr>LastRebootId := v\<rparr>)
      else if fieldNum = 2
      then read_message l ''LastRebootTimestamp'' wireType bs ts_zero (LastRebootTimestamp m) (\<lambda>t b. Some
          (ts_UnmarshalVT lib t b)) (\<lambda>v. m\<lparr>LastRebootTimestamp := v\<rparr>)
      else Unknown)"

definition RebootStatusSpec_UnmarshalVT :: "wire_lib \<Rightarrow> reboot_status_spec \<Rightarrow>
    byte list \<Rightarrow> (err + reboot_status_spec) option" where
  "RebootStatusSpec_UnmarshalVT lib m dAtA =
     unmarshal lib ''RebootStatusSpec'' (RebootStatusSpec_field lib) (\<lambda>u m. m\<lparr>rs_unknownFields :=
         rs_unknownFields m @ u\<rparr>) (length dAtA) m dAtA"

definition RebootStatusSpec_EqualVT :: "wire_lib \<Rightarrow> reboot_status_spec option \<Rightarrow>
    reboot_status_spec option \<Rightarrow> bool" where
  "RebootStatusSpec_EqualVT lib this that =
     (case (this, that) of
        (None, None) \<Rightarrow> True
      | (Some a, Some b) \<Rightarrow> LastRebootId a = LastRebootId b \<and> ts_EqualVT lib (LastRebootTimestamp a)
          (LastRebootTimestamp b) \<and> rs_unknownFields a = rs_unknownFields b
      | _ \<Rightarrow> False)"

definition RebootStatusSpec_bytes :: "wire_lib \<Rightarrow> reboot_status_spec \<Rightarrow> byte list" where
  "RebootStatusSpec_bytes lib m =
     string_field 0x0a (LastRebootId m) @ message_field 0x12 (ts_bytes lib) (LastRebootTimestamp m) @ rs_unknownFields m"

definition RebootStatusSpec_fits :: "wire_lib \<Rightarrow> reboot_status_spec \<Rightarrow> bool" where
  "RebootStatusSpec_fits lib m \<longleftrightarrow>
     (\<forall>t. LastRebootTimestamp m = Some t \<longrightarrow> ts_ok t \<and> length (ts_bytes lib t) < 2 ^ 63) \<and>
     unknown_fields lib (\<lambda>n. n \<in> {1, 2}) (rs_unknownFields m) \<and>
     length (RebootStatusSpec_bytes lib m) < 2 ^ 63"

lemma RebootStatusSpec_fields:
  "RebootStatusSpec_field lib l 1 wireType m bs = read_string l ''LastRebootId'' wireType bs
      (\<lambda>v. m\<lparr>LastRebootId := v\<rparr>)"
  "RebootStatusSpec_field lib l 2 wireType m bs = read_message l ''LastRebootTimestamp'' wireType bs ts_zero
      (LastRebootTimestamp m) (\<lambda>t b. Some (ts_UnmarshalVT lib t b)) (\<lambda>v. m\<lparr>LastRebootTimestamp := v\<rparr>)"
  "n \<notin> {1, 2} \<Longrightarrow> RebootStatusSpec_field lib l n wireType m bs = Unknown"
  by (simp_all add: RebootStatusSpec_field_def)

lemma RebootStatusSpec_Equal [simp]: "wire_lib_ok lib \<Longrightarrow> RebootStatusSpec_EqualVT lib a b \<longleftrightarrow> a = b"
  by (auto simp: RebootStatusSpec_EqualVT_def lib_laws intro: reboot_status_spec.equality split: option.split)

interpretation rs_msg: wire_message RebootStatusSpec_SizeVT RebootStatusSpec_MarshalToSizedBufferVT
    RebootStatusSpec_UnmarshalVT RebootStatusSpec_new
  RebootStatusSpec_fits RebootStatusSpec_bytes
proof
  fix lib :: wire_lib and m assume lib: "wire_lib_ok lib" and fits: "RebootStatusSpec_fits lib m"
  show len: "length (RebootStatusSpec_bytes lib m) < 2 ^ 63" using fits by (simp add: RebootStatusSpec_fits_def)
  have strings: "length (LastRebootId m) < 2 ^ 63"
    using len string_field_longer[of "LastRebootId m" "0x0a"] by (simp_all add: RebootStatusSpec_bytes_def)
  show "RebootStatusSpec_SizeVT lib m = length (RebootStatusSpec_bytes lib m)"
    using lib fits strings by (simp add: RebootStatusSpec_SizeVT_def RebootStatusSpec_bytes_def
        RebootStatusSpec_fits_def ts.size_field[where tag = "0x12" and x = "LastRebootTimestamp m"]
        size_string_exact[where tag = "0x0a" and s = "LastRebootId m"])
  show "writes_exactly (RebootStatusSpec_MarshalToSizedBufferVT lib m) (RebootStatusSpec_bytes lib m)"
    using lib fits strings
      exact_writes[of "[put (rs_unknownFields m), put_message lib 0x12 (ts_MarshalToSizedBufferVT lib)
          (LastRebootTimestamp m), put_string lib 0x0a (LastRebootId m)]"
        "[rs_unknownFields m, message_field 0x12 (ts_bytes lib) (LastRebootTimestamp m), string_field 0x0a (LastRebootId m)]"]
    by (simp add: RebootStatusSpec_MarshalToSizedBufferVT_def RebootStatusSpec_bytes_def RebootStatusSpec_fits_def
        exact_intros ts.put_field)
  have unknown: "unmarshal lib name (RebootStatusSpec_field lib) (\<lambda>u m. m\<lparr>rs_unknownFields :=
      rs_unknownFields m @ u\<rparr>) l x (rs_unknownFields m) =
      Some (Inr (x\<lparr>rs_unknownFields := rs_unknownFields x @ rs_unknownFields m\<rparr>))" if "length
          (rs_unknownFields m) \<le> l" "l < 2 ^ 63" for name l x
    using fits that
    by (intro unmarshal_unknown[where has = "\<lambda>n. n \<in> {1, 2}"]) (simp_all add: RebootStatusSpec_fits_def
        RebootStatusSpec_field_def)
  show "RebootStatusSpec_UnmarshalVT lib RebootStatusSpec_new (RebootStatusSpec_bytes lib m) = Some (Inr m)"
    using lib fits len strings
    by (auto simp: RebootStatusSpec_UnmarshalVT_def RebootStatusSpec_bytes_def RebootStatusSpec_new_def RebootStatusSpec_fits_def unknown
        unmarshal_string[where known = "RebootStatusSpec_field lib",
            OF RebootStatusSpec_fields(1)] ts.unmarshal_field[where known = "RebootStatusSpec_field lib", OF RebootStatusSpec_fields(2)]
        intro!: reboot_status_spec.equality)
next
  fix lib :: wire_lib and m bs assume lib: "wire_lib_ok lib"
  show "RebootStatusSpec_UnmarshalVT lib m bs \<noteq> None"
    unfolding RebootStatusSpec_UnmarshalVT_def
    by (rule unmarshal_returns[OF lib])
       (auto simp: RebootStatusSpec_field_def ts.read_field_returns lib dest: reads_shorter split: if_splits)
qed

section \<open>TLSConfigSpec\<close>

definition TLSConfigSpec_new :: tls_config_spec where
  "TLSConfigSpec_new = \<lparr>CaCert = [], CaKey = [], tls_unknownFields = []\<rparr>"

definition TLSConfigSpec_SizeVT :: "wire_lib \<Rightarrow> tls_config_spec \<Rightarrow> nat" where
  "TLSConfigSpec_SizeVT lib m =
     size_string lib (CaCert m) + size_string lib (CaKey m) + length (tls_unknownFields m)"

definition TLSConfigSpec_MarshalToSizedBufferVT :: "wire_lib \<Rightarrow> tls_config_spec \<Rightarrow>
    wbuf \<Rightarrow> err + wbuf" where
  "TLSConfigSpec_MarshalToSizedBufferVT lib m =
     writes
       [put (tls_unknownFields m),
        put_string lib 0x12 (CaKey m),
        put_string lib 0x0a (CaCert m)]"

definition TLSConfigSpec_field :: "wire_lib \<Rightarrow> nat \<Rightarrow> int \<Rightarrow> nat \<Rightarrow>
    tls_config_spec \<Rightarrow> byte list \<Rightarrow> tls_config_spec field_read" where
  "TLSConfigSpec_field lib l fieldNum wireType m bs =
     (if fieldNum = 1
      then read_string l ''CaCert'' wireType bs (\<lambda>v. m\<lparr>CaCert := v\<rparr>)
      else if fieldNum = 2
      then read_string l ''CaKey'' wireType bs (\<lambda>v. m\<lparr>CaKey := v\<rparr>)
      else Unknown)"

definition TLSConfigSpec_UnmarshalVT :: "wire_lib \<Rightarrow> tls_config_spec \<Rightarrow> byte list \<Rightarrow>
    (err + tls_config_spec) option" where
  "TLSConfigSpec_UnmarshalVT lib m dAtA =
     unmarshal lib ''TLSConfigSpec'' (TLSConfigSpec_field lib) (\<lambda>u m. m\<lparr>tls_unknownFields :=
         tls_unknownFields m @ u\<rparr>) (length dAtA) m dAtA"

definition TLSConfigSpec_EqualVT :: "wire_lib \<Rightarrow> tls_config_spec option \<Rightarrow>
    tls_config_spec option \<Rightarrow> bool" where
  "TLSConfigSpec_EqualVT lib this that =
     (case (this, that) of
        (None, None) \<Rightarrow> True
      | (Some a, Some b) \<Rightarrow> CaCert a = CaCert b \<and> CaKey a = CaKey b \<and> tls_unknownFields a = tls_unknownFields b
      | _ \<Rightarrow> False)"

definition TLSConfigSpec_bytes :: "wire_lib \<Rightarrow> tls_config_spec \<Rightarrow> byte list" where
  "TLSConfigSpec_bytes lib m =
     string_field 0x0a (CaCert m) @ string_field 0x12 (CaKey m) @ tls_unknownFields m"

definition TLSConfigSpec_fits :: "wire_lib \<Rightarrow> tls_config_spec \<Rightarrow> bool" where
  "TLSConfigSpec_fits lib m \<longleftrightarrow>
     unknown_fields lib (\<lambda>n. n \<in> {1, 2}) (tls_unknownFields m) \<and>
     length (TLSConfigSpec_bytes lib m) < 2 ^ 63"

lemma TLSConfigSpec_fields:
  "TLSConfigSpec_field lib l 1 wireType m bs = read_string l ''CaCert'' wireType bs (\<lambda>v. m\<lparr>CaCert := v\<rparr>)"
  "TLSConfigSpec_field lib l 2 wireType m bs = read_string l ''CaKey'' wireType bs (\<lambda>v. m\<lparr>CaKey := v\<rparr>)"
  "n \<notin> {1, 2} \<Longrightarrow> TLSConfigSpec_field lib l n wireType m bs = Unknown"
  by (simp_all add: TLSConfigSpec_field_def)

lemma TLSConfigSpec_Equal [simp]: "wire_lib_ok lib \<Longrightarrow> TLSConfigSpec_EqualVT lib a b \<longleftrightarrow> a = b"
  by (auto simp: TLSConfigSpec_EqualVT_def lib_laws intro: tls_config_spec.equality split: option.split)

interpretation tls_msg: wire_message TLSConfigSpec_SizeVT TLSConfigSpec_MarshalToSizedBufferVT TLSConfigSpec_UnmarshalVT TLSConfigSpec_new
  TLSConfigSpec_fits TLSConfigSpec_bytes
proof
  fix lib :: wire_lib and m assume lib: "wire_lib_ok lib" and fits: "TLSConfigSpec_fits lib m"
  show len: "length (TLSConfigSpec_bytes lib m) < 2 ^ 63" using fits by (simp add: TLSConfigSpec_fits_def)
  have strings: "length (CaCert m) < 2 ^ 63" "length (CaKey m) < 2 ^ 63"
    using len string_field_longer[of "CaCert m" "0x0a"] string_field_longer[of "CaKey m" "0x12"] by (simp_all add: TLSConfigSpec_bytes_def)
  show "TLSConfigSpec_SizeVT lib m = length (TLSConfigSpec_bytes lib m)"
    using lib fits strings by (simp add: TLSConfigSpec_SizeVT_def TLSConfigSpec_bytes_def TLSConfigSpec_fits_def
        size_string_exact[where tag = "0x0a" and s = "CaCert m"] size_string_exact[where tag = "0x12" and s = "CaKey m"])
  show "writes_exactly (TLSConfigSpec_MarshalToSizedBufferVT lib m) (TLSConfigSpec_bytes lib m)"
    using lib fits strings
      exact_writes[of "[put (tls_unknownFields m), put_string lib 0x12 (CaKey m), put_string lib 0x0a (CaCert m)]"
        "[tls_unknownFields m, string_field 0x12 (CaKey m), string_field 0x0a (CaCert m)]"]
    by (simp add: TLSConfigSpec_MarshalToSizedBufferVT_def TLSConfigSpec_bytes_def TLSConfigSpec_fits_def exact_intros )
  have unknown: "unmarshal lib name (TLSConfigSpec_field lib) (\<lambda>u m. m\<lparr>tls_unknownFields :=
      tls_unknownFields m @ u\<rparr>) l x (tls_unknownFields m) =
      Some (Inr (x\<lparr>tls_unknownFields := tls_unknownFields x @ tls_unknownFields m\<rparr>))" if "length
          (tls_unknownFields m) \<le> l" "l < 2 ^ 63" for name l x
    using fits that
    by (intro unmarshal_unknown[where has = "\<lambda>n. n \<in> {1, 2}"]) (simp_all add: TLSConfigSpec_fits_def TLSConfigSpec_field_def)
  show "TLSConfigSpec_UnmarshalVT lib TLSConfigSpec_new (TLSConfigSpec_bytes lib m) = Some (Inr m)"
    using lib fits len strings
    by (auto simp: TLSConfigSpec_UnmarshalVT_def TLSConfigSpec_bytes_def TLSConfigSpec_new_def TLSConfigSpec_fits_def unknown
        unmarshal_string[where known = "TLSConfigSpec_field lib", OF TLSConfigSpec_fields(1)]
            unmarshal_string[where known = "TLSConfigSpec_field lib", OF TLSConfigSpec_fields(2)]
        intro!: tls_config_spec.equality)
next
  fix lib :: wire_lib and m bs assume lib: "wire_lib_ok lib"
  show "TLSConfigSpec_UnmarshalVT lib m bs \<noteq> None"
    unfolding TLSConfigSpec_UnmarshalVT_def
    by (rule unmarshal_returns[OF lib])
       (auto simp: TLSConfigSpec_field_def  lib dest: reads_shorter split: if_splits)
qed

section \<open>A library for the witnesses\<close>

text \<open>Its timestamps are two varints; it skips whatever is left.\<close>

definition sample_ts :: "timestamp \<Rightarrow> byte list" where
  "sample_ts t = varint (unat (word_of_int (ts_seconds t) :: 64 word)) @ varint (unat (word_of_int (ts_nanos t) :: 32 word))"

definition sample_ts_read :: "byte list \<Rightarrow> err + timestamp" where
  "sample_ts_read bs =
     (case read_varint 0 (0 :: 64 word) bs of
        Inl e \<Rightarrow> Inl e
      | Inr (s, rest) \<Rightarrow>
          (case read_varint 0 (0 :: 32 word) rest of Inl e \<Rightarrow> Inl e | Inr (n, _) \<Rightarrow>
              Inr \<lparr>ts_seconds = sint s, ts_nanos = sint n\<rparr>))"

definition sample_wire_lib :: wire_lib where
  "sample_wire_lib =
     \<lparr>wl_EncodeVarint = (\<lambda>v. varint (unat v)), wl_SizeOfVarint = (\<lambda>v. length (varint (unat v))),
      wl_Skip = (\<lambda>bs. if bs = [] then Inl ErrUnexpectedEOF else Inr (int (length bs))),
      ts_SizeVT = (\<lambda>t. length (sample_ts t)), ts_MarshalToSizedBufferVT = (\<lambda>t. put (sample_ts t)),
      ts_UnmarshalVT = (\<lambda>t bs. sample_ts_read bs), ts_EqualVT = (=)\<rparr>"

lemma sint_word_of_int:
  "- (2 ^ (LENGTH('a) - 1)) \<le> x \<Longrightarrow> x < 2 ^ (LENGTH('a) - 1) \<Longrightarrow> sint (word_of_int x :: 'a::len word) = x"
  by (simp add: signed_of_int signed_take_bit_int_eq_self)

lemma sample_ts_reads:
  assumes "ts_ok t"
  shows "sample_ts_read (sample_ts t) = Inr t"
proof -
  let ?s = "word_of_int (ts_seconds t) :: 64 word" and ?n = "word_of_int (ts_nanos t) :: 32 word"
  have "unat ?s < 2 ^ LENGTH(64)" "unat ?n < 2 ^ LENGTH(32)" by (rule unsigned_less)+
  then have s: "unat ?s < 2 ^ 64" and n: "unat ?n < 2 ^ 64" by simp_all
  have "read_varint 0 (0 :: 64 word) (sample_ts t) = Inr (?s, varint (unat ?n))"
    using read_varint_varint[of 0 "unat ?s" "0 :: 64 word"] s by (simp add: sample_ts_def)
  moreover have "read_varint 0 (0 :: 32 word) (varint (unat ?n)) = Inr (?n, [])"
    using read_varint_varint[of 0 "unat ?n" "0 :: 32 word" "[]"] n by simp
  ultimately show ?thesis using assms by (simp add: sample_ts_read_def ts_ok_def sint_word_of_int)
qed

lemma sample_wire_lib_ok: "wire_lib_ok sample_wire_lib"
  by (auto simp: wire_lib_ok_def sample_wire_lib_def sample_ts_reads intro: exact_put split: if_splits)

lemma sample_ts_bytes: "ts_bytes sample_wire_lib t = sample_ts t"
  by (simp add: ts_bytes_def sample_wire_lib_def put_def)

section \<open>Properties\<close>

definition round_trips ::
  "('m \<Rightarrow> nat) \<Rightarrow> ('m \<Rightarrow> wbuf \<Rightarrow> err + wbuf) \<Rightarrow>
      (byte list \<Rightarrow> (err + 'm) option) \<Rightarrow> 'm \<Rightarrow> bool" where
  "round_trips sizeVT marshal unmarshalVT m \<longleftrightarrow>
     (\<exists>bs. MarshalVT sizeVT marshal (Some m) = Inr bs \<and> length bs = sizeVT m \<and> unmarshalVT bs = Some (Inr m))"

text \<open>
  C25. What the provider stores of a machine comes back as it was. Each of the six messages it keeps in Omni's state is
  marshalled without a panic into exactly as many bytes as were allocated for it, and reading these bytes gives the
  same message, with its nested messages, its timestamps, every power state, and the fields of newer versions it does not know.
\<close>

theorem stored_messages_round_trip:
  assumes "wire_lib_ok lib"
  shows "(\<forall>m. BMCConfigurationSpec_fits lib m \<longrightarrow> round_trips (BMCConfigurationSpec_SizeVT lib)
      (BMCConfigurationSpec_MarshalToSizedBufferVT lib) (BMCConfigurationSpec_UnmarshalVT lib BMCConfigurationSpec_new) m) \<and>
    (\<forall>m. PowerOperationSpec_fits lib m \<longrightarrow> round_trips (PowerOperationSpec_SizeVT lib)
        (PowerOperationSpec_MarshalToSizedBufferVT lib) (PowerOperationSpec_UnmarshalVT lib PowerOperationSpec_new) m) \<and>
    (\<forall>m. MachineStatusSpec_fits lib m \<longrightarrow> round_trips (MachineStatusSpec_SizeVT lib)
        (MachineStatusSpec_MarshalToSizedBufferVT lib) (MachineStatusSpec_UnmarshalVT lib MachineStatusSpec_new) m) \<and>
    (\<forall>m. WipeStatusSpec_fits lib m \<longrightarrow> round_trips (WipeStatusSpec_SizeVT lib)
        (WipeStatusSpec_MarshalToSizedBufferVT lib) (WipeStatusSpec_UnmarshalVT lib WipeStatusSpec_new) m) \<and>
    (\<forall>m. RebootStatusSpec_fits lib m \<longrightarrow> round_trips (RebootStatusSpec_SizeVT lib)
        (RebootStatusSpec_MarshalToSizedBufferVT lib) (RebootStatusSpec_UnmarshalVT lib RebootStatusSpec_new) m) \<and>
    (\<forall>m. TLSConfigSpec_fits lib m \<longrightarrow> round_trips (TLSConfigSpec_SizeVT lib)
        (TLSConfigSpec_MarshalToSizedBufferVT lib) (TLSConfigSpec_UnmarshalVT lib TLSConfigSpec_new) m)"
  using bc_msg.round_trip[OF assms] po_msg.round_trip[OF assms] ms_msg.round_trip[OF assms] ws_msg.round_trip[OF assms]
      rs_msg.round_trip[OF assms] tls_msg.round_trip[OF assms]
  unfolding round_trips_def by (intro conjI allI impI) simp_all

definition sample_operation :: power_operation_spec where
  "sample_operation = \<lparr>LastPowerOperation = POWER_STATE_ON, LastPowerOnTimestamp = Some \<lparr>ts_seconds = 300,
      ts_nanos = 5\<rparr>,
     LastPowerOffId = ''off-1'', WipeIdAtPowerOff = [], po_unknownFields = [0x28, 0x01]\<rparr>"

lemma sample_operation_bytes:
  "PowerOperationSpec_bytes sample_wire_lib sample_operation =
    [0x08, 0x02, 0x12, 0x03, 0xac, 0x02, 0x05, 0x1a, 0x05] @ bytes_of ''off-1'' @ [0x28, 0x01]"
  by (simp add: PowerOperationSpec_bytes_def sample_operation_def string_field_def varint_field_def
      message_field_def varint.simps power_code_def sample_ts_bytes sample_ts_def)

lemma sample_operation_fits: "PowerOperationSpec_fits sample_wire_lib sample_operation"
proof -
  have "unknown_fields sample_wire_lib (\<lambda>n. n \<in> {1, 2, 3, 4}) ([0x28, 0x01] @ [])"
    by (rule a_field[where n = 5 and wt = 0 and rest = "[1]", OF _ _ _ _ _ no_field])
      (simp_all add: read_tag_byte sample_wire_lib_def)
  then show ?thesis
    by (simp add: PowerOperationSpec_fits_def sample_operation_bytes)
      (simp add: sample_operation_def ts_ok_def sample_ts_bytes sample_ts_def varint.simps)
qed

theorem stored_messages_round_trip_witness:
  "\<exists>bs. MarshalVT (PowerOperationSpec_SizeVT sample_wire_lib) (PowerOperationSpec_MarshalToSizedBufferVT sample_wire_lib)
       (Some sample_operation) = Inr bs \<and>
     PowerOperationSpec_UnmarshalVT sample_wire_lib PowerOperationSpec_new bs = Some (Inr sample_operation)"
  using stored_messages_round_trip[OF sample_wire_lib_ok] sample_operation_fits unfolding round_trips_def by blast

text \<open>
  C26. Reading returns for any bytes whatsoever, a truncated or damaged message included, into any message that is there
  already: with the message, or with an error. The library only has to skip at least one byte for a field.
\<close>

theorem reading_returns:
  assumes "wire_lib_ok lib"
  shows "BMCConfigurationSpec_UnmarshalVT lib bc bs \<noteq> None \<and>
    PowerOperationSpec_UnmarshalVT lib po bs \<noteq> None \<and>
    MachineStatusSpec_UnmarshalVT lib ms bs \<noteq> None \<and>
    WipeStatusSpec_UnmarshalVT lib ws bs \<noteq> None \<and>
    RebootStatusSpec_UnmarshalVT lib rs bs \<noteq> None \<and>
    TLSConfigSpec_UnmarshalVT lib tls bs \<noteq> None"
  using bc_msg.returns[OF assms] po_msg.returns[OF assms] ms_msg.returns[OF assms] ws_msg.returns[OF assms]
      rs_msg.returns[OF assms] tls_msg.returns[OF assms] by simp

theorem reading_returns_witness:
  "\<exists>r. WipeStatusSpec_UnmarshalVT sample_wire_lib WipeStatusSpec_new [0x0a, 0xff, 0xff, 0xff, 0xff, 0xff, 0xff,
      0xff, 0xff, 0xff, 0x01] = Some r"
  using reading_returns[OF sample_wire_lib_ok] by blast

end
