(* ===== verification/MessageMethods.thy ===== *)
theory MessageMethods
  imports Messages
begin

text \<open>
  The other methods of every message: writing it into a buffer of its own or a given one, copies,
      comparisons and getters (\<open>api/specs/specs_vtproto.pb.go\<close>, \<open>api/specs/specs.pb.go\<close>). The
      state store hands out
  copies, so that a controller that changes what it reads changes nothing that is stored; what is read of a copy, compared with it, or
  written of it is what the original says. A nil pointer is \<open>None\<close>; its getters say what a fresh message
      says. How a timestamp is
  copied is the library's.
\<close>

type_synonym ts_clone = "timestamp option \<Rightarrow> timestamp option"

definition clones_timestamps :: "ts_clone \<Rightarrow> bool" where
  "clones_timestamps clone_ts \<longleftrightarrow> (\<forall>t. clone_ts t = t)"

definition copy_bytes :: "byte list \<Rightarrow> byte list" where
  "copy_bytes u = (if 0 < length u then u else [])"

lemma copy_bytes [simp]: "copy_bytes u = u"
  by (simp add: copy_bytes_def)

text \<open>A message of any of the types, as the interface of the library has it.\<close>

datatype any_message =
  BMCConfigurationSpec_IPMI_message "bmc_ipmi option"
| BMCConfigurationSpec_API_message "bmc_api option"
| BMCConfigurationSpec_Manual_message "bmc_manual option"
| BMCConfigurationSpec_message "bmc_configuration_spec option"
| PowerOperationSpec_message "power_operation_spec option"
| MachineStatusSpec_message "machine_status_spec option"
| WipeStatusSpec_message "wipe_status_spec option"
| RebootStatusSpec_message "reboot_status_spec option"
| TLSConfigSpec_message "tls_config_spec option"
| Other_message

section \<open>What a copy promises\<close>

locale copied_message =
  fixes CloneVT :: "ts_clone \<Rightarrow> 'm option \<Rightarrow> 'm option" and EqualVT :: "wire_lib \<Rightarrow>
      'm option \<Rightarrow> 'm option \<Rightarrow> bool"
    and CloneMessageVT :: "ts_clone \<Rightarrow> 'm option \<Rightarrow> any_message" and EqualMessageVT ::
        "wire_lib \<Rightarrow> 'm option \<Rightarrow> any_message \<Rightarrow> bool"
    and message :: "'m option \<Rightarrow> any_message"
  assumes CloneVT: "clones_timestamps c \<Longrightarrow> CloneVT c m = m"
    and EqualVT: "wire_lib_ok lib \<Longrightarrow> EqualVT lib a b \<longleftrightarrow> a = b"
    and CloneMessageVT: "CloneMessageVT c m = message (CloneVT c m)"
    and EqualMessageVT: "EqualMessageVT lib m any \<longleftrightarrow> (\<exists>m'. any = message m' \<and> EqualVT lib m m')"
    and inj_message: "message a = message b \<longleftrightarrow> a = b"
begin

text \<open>A message equals its copy, and nothing that its copy does not equal.\<close>

lemma copy_alike:
  assumes "clones_timestamps c" "wire_lib_ok lib"
  shows "EqualMessageVT lib m any \<longleftrightarrow> any = CloneMessageVT c m"
  using assms by (auto simp: EqualMessageVT CloneMessageVT CloneVT EqualVT)

lemma equal_sym: "wire_lib_ok lib \<Longrightarrow> EqualMessageVT lib a (message b) \<longleftrightarrow> EqualMessageVT lib b (message a)"
  by (auto simp: EqualMessageVT EqualVT inj_message)

end

section \<open>BMCConfigurationSpec_IPMI\<close>

definition BMCConfigurationSpec_IPMI_CloneVT :: "ts_clone \<Rightarrow> bmc_ipmi option \<Rightarrow> bmc_ipmi option" where
  "BMCConfigurationSpec_IPMI_CloneVT clone_ts m =
     (case m of
        None \<Rightarrow> None
      | Some m \<Rightarrow> Some
          \<lparr>Ipmi_Address = Ipmi_Address m,
           Ipmi_Port = Ipmi_Port m,
           Ipmi_Username = Ipmi_Username m,
           Ipmi_Password = Ipmi_Password m,
           ipmi_unknownFields = copy_bytes (ipmi_unknownFields m)\<rparr>)"

definition BMCConfigurationSpec_IPMI_CloneMessageVT :: "ts_clone \<Rightarrow> bmc_ipmi option \<Rightarrow> any_message" where
  "BMCConfigurationSpec_IPMI_CloneMessageVT clone_ts m = BMCConfigurationSpec_IPMI_message (BMCConfigurationSpec_IPMI_CloneVT clone_ts m)"

definition BMCConfigurationSpec_IPMI_EqualMessageVT :: "wire_lib \<Rightarrow> bmc_ipmi option \<Rightarrow>
    any_message \<Rightarrow> bool" where
  "BMCConfigurationSpec_IPMI_EqualMessageVT lib this thatMsg =
     (case thatMsg of BMCConfigurationSpec_IPMI_message that \<Rightarrow>
         BMCConfigurationSpec_IPMI_EqualVT lib this that | _ \<Rightarrow> False)"

definition BMCConfigurationSpec_IPMI_GetAddress :: "bmc_ipmi option \<Rightarrow> string" where
  "BMCConfigurationSpec_IPMI_GetAddress x = (case x of Some x \<Rightarrow> Ipmi_Address x | None \<Rightarrow> [])"

definition BMCConfigurationSpec_IPMI_GetPort :: "bmc_ipmi option \<Rightarrow> 32 word" where
  "BMCConfigurationSpec_IPMI_GetPort x = (case x of Some x \<Rightarrow> Ipmi_Port x | None \<Rightarrow> 0)"

definition BMCConfigurationSpec_IPMI_GetUsername :: "bmc_ipmi option \<Rightarrow> string" where
  "BMCConfigurationSpec_IPMI_GetUsername x = (case x of Some x \<Rightarrow> Ipmi_Username x | None \<Rightarrow> [])"

definition BMCConfigurationSpec_IPMI_GetPassword :: "bmc_ipmi option \<Rightarrow> string" where
  "BMCConfigurationSpec_IPMI_GetPassword x = (case x of Some x \<Rightarrow> Ipmi_Password x | None \<Rightarrow> [])"

interpretation ipmi_copy: copied_message BMCConfigurationSpec_IPMI_CloneVT BMCConfigurationSpec_IPMI_EqualVT
  BMCConfigurationSpec_IPMI_CloneMessageVT BMCConfigurationSpec_IPMI_EqualMessageVT BMCConfigurationSpec_IPMI_message
  by unfold_locales
    (auto simp: BMCConfigurationSpec_IPMI_CloneVT_def BMCConfigurationSpec_IPMI_CloneMessageVT_def
        BMCConfigurationSpec_IPMI_EqualMessageVT_def clones_timestamps_def
      split: option.splits any_message.splits)

definition BMCConfigurationSpec_IPMI_MarshalVT :: "wire_lib \<Rightarrow> bmc_ipmi option \<Rightarrow> err + byte list" where
  "BMCConfigurationSpec_IPMI_MarshalVT lib m = MarshalVT (BMCConfigurationSpec_IPMI_SizeVT lib)
      (BMCConfigurationSpec_IPMI_MarshalToSizedBufferVT lib) m"

definition BMCConfigurationSpec_IPMI_MarshalToVT :: "wire_lib \<Rightarrow> bmc_ipmi \<Rightarrow>
    byte list \<Rightarrow> err + nat \<times> byte list" where
  "BMCConfigurationSpec_IPMI_MarshalToVT lib m dAtA = MarshalToVT (BMCConfigurationSpec_IPMI_SizeVT lib)
      (BMCConfigurationSpec_IPMI_MarshalToSizedBufferVT lib) m dAtA"

lemma BMCConfigurationSpec_IPMI_written:
  assumes "wire_lib_ok lib" "clones_timestamps c" "BMCConfigurationSpec_IPMI_fits lib m"
  shows "BMCConfigurationSpec_IPMI_MarshalVT lib (BMCConfigurationSpec_IPMI_CloneVT c (Some m)) =
      Inr (BMCConfigurationSpec_IPMI_bytes lib m)"
    "length (BMCConfigurationSpec_IPMI_bytes lib m) \<le> length buf \<Longrightarrow>
       BMCConfigurationSpec_IPMI_MarshalToVT lib m buf = Inr (length (BMCConfigurationSpec_IPMI_bytes lib m),
           BMCConfigurationSpec_IPMI_bytes lib m @ drop (length (BMCConfigurationSpec_IPMI_bytes lib m)) buf)"
    "length buf < length (BMCConfigurationSpec_IPMI_bytes lib m) \<Longrightarrow> BMCConfigurationSpec_IPMI_MarshalToVT
        lib m buf = Inl out_of_range"
  using assms by (auto simp: BMCConfigurationSpec_IPMI_MarshalVT_def BMCConfigurationSpec_IPMI_MarshalToVT_def
      ipmi_msg.MarshalVT_bytes ipmi_msg.MarshalToVT_bytes ipmi_copy.CloneVT)

lemma BMCConfigurationSpec_IPMI_getters [simp]:
  "BMCConfigurationSpec_IPMI_GetAddress (Some m) = Ipmi_Address m" "BMCConfigurationSpec_IPMI_GetAddress None =
      Ipmi_Address BMCConfigurationSpec_IPMI_new"
  "BMCConfigurationSpec_IPMI_GetPort (Some m) = Ipmi_Port m" "BMCConfigurationSpec_IPMI_GetPort None =
      Ipmi_Port BMCConfigurationSpec_IPMI_new"
  "BMCConfigurationSpec_IPMI_GetUsername (Some m) = Ipmi_Username m" "BMCConfigurationSpec_IPMI_GetUsername None =
      Ipmi_Username BMCConfigurationSpec_IPMI_new"
  "BMCConfigurationSpec_IPMI_GetPassword (Some m) = Ipmi_Password m" "BMCConfigurationSpec_IPMI_GetPassword None =
      Ipmi_Password BMCConfigurationSpec_IPMI_new"
  by (simp_all add: BMCConfigurationSpec_IPMI_GetAddress_def BMCConfigurationSpec_IPMI_GetPort_def
      BMCConfigurationSpec_IPMI_GetUsername_def BMCConfigurationSpec_IPMI_GetPassword_def BMCConfigurationSpec_IPMI_new_def)

section \<open>BMCConfigurationSpec_API\<close>

definition BMCConfigurationSpec_API_CloneVT :: "ts_clone \<Rightarrow> bmc_api option \<Rightarrow> bmc_api option" where
  "BMCConfigurationSpec_API_CloneVT clone_ts m =
     (case m of
        None \<Rightarrow> None
      | Some m \<Rightarrow> Some
          \<lparr>Api_Address = Api_Address m,
           api_unknownFields = copy_bytes (api_unknownFields m)\<rparr>)"

definition BMCConfigurationSpec_API_CloneMessageVT :: "ts_clone \<Rightarrow> bmc_api option \<Rightarrow> any_message" where
  "BMCConfigurationSpec_API_CloneMessageVT clone_ts m = BMCConfigurationSpec_API_message (BMCConfigurationSpec_API_CloneVT clone_ts m)"

definition BMCConfigurationSpec_API_EqualMessageVT :: "wire_lib \<Rightarrow> bmc_api option \<Rightarrow>
    any_message \<Rightarrow> bool" where
  "BMCConfigurationSpec_API_EqualMessageVT lib this thatMsg =
     (case thatMsg of BMCConfigurationSpec_API_message that \<Rightarrow>
         BMCConfigurationSpec_API_EqualVT lib this that | _ \<Rightarrow> False)"

definition BMCConfigurationSpec_API_GetAddress :: "bmc_api option \<Rightarrow> string" where
  "BMCConfigurationSpec_API_GetAddress x = (case x of Some x \<Rightarrow> Api_Address x | None \<Rightarrow> [])"

interpretation api_copy: copied_message BMCConfigurationSpec_API_CloneVT BMCConfigurationSpec_API_EqualVT
  BMCConfigurationSpec_API_CloneMessageVT BMCConfigurationSpec_API_EqualMessageVT BMCConfigurationSpec_API_message
  by unfold_locales
    (auto simp: BMCConfigurationSpec_API_CloneVT_def BMCConfigurationSpec_API_CloneMessageVT_def
        BMCConfigurationSpec_API_EqualMessageVT_def clones_timestamps_def
      split: option.splits any_message.splits)

definition BMCConfigurationSpec_API_MarshalVT :: "wire_lib \<Rightarrow> bmc_api option \<Rightarrow> err + byte list" where
  "BMCConfigurationSpec_API_MarshalVT lib m = MarshalVT (BMCConfigurationSpec_API_SizeVT lib)
      (BMCConfigurationSpec_API_MarshalToSizedBufferVT lib) m"

definition BMCConfigurationSpec_API_MarshalToVT :: "wire_lib \<Rightarrow> bmc_api \<Rightarrow> byte list \<Rightarrow>
    err + nat \<times> byte list" where
  "BMCConfigurationSpec_API_MarshalToVT lib m dAtA = MarshalToVT (BMCConfigurationSpec_API_SizeVT lib)
      (BMCConfigurationSpec_API_MarshalToSizedBufferVT lib) m dAtA"

lemma BMCConfigurationSpec_API_written:
  assumes "wire_lib_ok lib" "clones_timestamps c" "BMCConfigurationSpec_API_fits lib m"
  shows "BMCConfigurationSpec_API_MarshalVT lib (BMCConfigurationSpec_API_CloneVT c (Some m)) = Inr (BMCConfigurationSpec_API_bytes lib m)"
    "length (BMCConfigurationSpec_API_bytes lib m) \<le> length buf \<Longrightarrow>
       BMCConfigurationSpec_API_MarshalToVT lib m buf = Inr (length (BMCConfigurationSpec_API_bytes lib m),
           BMCConfigurationSpec_API_bytes lib m @ drop (length (BMCConfigurationSpec_API_bytes lib m)) buf)"
    "length buf < length (BMCConfigurationSpec_API_bytes lib m) \<Longrightarrow> BMCConfigurationSpec_API_MarshalToVT
        lib m buf = Inl out_of_range"
  using assms by (auto simp: BMCConfigurationSpec_API_MarshalVT_def BMCConfigurationSpec_API_MarshalToVT_def
      api_msg.MarshalVT_bytes api_msg.MarshalToVT_bytes api_copy.CloneVT)

lemma BMCConfigurationSpec_API_getters [simp]:
  "BMCConfigurationSpec_API_GetAddress (Some m) = Api_Address m" "BMCConfigurationSpec_API_GetAddress None =
      Api_Address BMCConfigurationSpec_API_new"
  by (simp_all add: BMCConfigurationSpec_API_GetAddress_def BMCConfigurationSpec_API_new_def)

section \<open>BMCConfigurationSpec_Manual\<close>

definition BMCConfigurationSpec_Manual_CloneVT :: "ts_clone \<Rightarrow> bmc_manual option \<Rightarrow> bmc_manual option" where
  "BMCConfigurationSpec_Manual_CloneVT clone_ts m =
     (case m of
        None \<Rightarrow> None
      | Some m \<Rightarrow> Some
          \<lparr>manual_unknownFields = copy_bytes (manual_unknownFields m)\<rparr>)"

definition BMCConfigurationSpec_Manual_CloneMessageVT :: "ts_clone \<Rightarrow> bmc_manual option \<Rightarrow> any_message" where
  "BMCConfigurationSpec_Manual_CloneMessageVT clone_ts m = BMCConfigurationSpec_Manual_message
      (BMCConfigurationSpec_Manual_CloneVT clone_ts m)"

definition BMCConfigurationSpec_Manual_EqualMessageVT :: "wire_lib \<Rightarrow> bmc_manual option \<Rightarrow>
    any_message \<Rightarrow> bool" where
  "BMCConfigurationSpec_Manual_EqualMessageVT lib this thatMsg =
     (case thatMsg of BMCConfigurationSpec_Manual_message that \<Rightarrow>
         BMCConfigurationSpec_Manual_EqualVT lib this that | _ \<Rightarrow> False)"

interpretation manual_copy: copied_message BMCConfigurationSpec_Manual_CloneVT BMCConfigurationSpec_Manual_EqualVT
  BMCConfigurationSpec_Manual_CloneMessageVT BMCConfigurationSpec_Manual_EqualMessageVT BMCConfigurationSpec_Manual_message
  by unfold_locales
    (auto simp: BMCConfigurationSpec_Manual_CloneVT_def BMCConfigurationSpec_Manual_CloneMessageVT_def
        BMCConfigurationSpec_Manual_EqualMessageVT_def clones_timestamps_def
      split: option.splits any_message.splits)

definition BMCConfigurationSpec_Manual_MarshalVT :: "wire_lib \<Rightarrow> bmc_manual option \<Rightarrow> err + byte list" where
  "BMCConfigurationSpec_Manual_MarshalVT lib m = MarshalVT (BMCConfigurationSpec_Manual_SizeVT lib)
      (BMCConfigurationSpec_Manual_MarshalToSizedBufferVT lib) m"

definition BMCConfigurationSpec_Manual_MarshalToVT :: "wire_lib \<Rightarrow> bmc_manual \<Rightarrow>
    byte list \<Rightarrow> err + nat \<times> byte list" where
  "BMCConfigurationSpec_Manual_MarshalToVT lib m dAtA = MarshalToVT (BMCConfigurationSpec_Manual_SizeVT lib)
      (BMCConfigurationSpec_Manual_MarshalToSizedBufferVT lib) m dAtA"

lemma BMCConfigurationSpec_Manual_written:
  assumes "wire_lib_ok lib" "clones_timestamps c" "BMCConfigurationSpec_Manual_fits lib m"
  shows "BMCConfigurationSpec_Manual_MarshalVT lib (BMCConfigurationSpec_Manual_CloneVT c (Some m)) =
      Inr (BMCConfigurationSpec_Manual_bytes lib m)"
    "length (BMCConfigurationSpec_Manual_bytes lib m) \<le> length buf \<Longrightarrow>
       BMCConfigurationSpec_Manual_MarshalToVT lib m buf = Inr (length (BMCConfigurationSpec_Manual_bytes lib m),
           BMCConfigurationSpec_Manual_bytes lib m @ drop (length (BMCConfigurationSpec_Manual_bytes lib m)) buf)"
    "length buf < length (BMCConfigurationSpec_Manual_bytes lib m) \<Longrightarrow>
        BMCConfigurationSpec_Manual_MarshalToVT lib m buf = Inl out_of_range"
  using assms by (auto simp: BMCConfigurationSpec_Manual_MarshalVT_def BMCConfigurationSpec_Manual_MarshalToVT_def
      manual_msg.MarshalVT_bytes manual_msg.MarshalToVT_bytes manual_copy.CloneVT)

section \<open>BMCConfigurationSpec\<close>

definition BMCConfigurationSpec_CloneVT :: "ts_clone \<Rightarrow> bmc_configuration_spec option \<Rightarrow>
    bmc_configuration_spec option" where
  "BMCConfigurationSpec_CloneVT clone_ts m =
     (case m of
        None \<Rightarrow> None
      | Some m \<Rightarrow> Some
          \<lparr>Ipmi = BMCConfigurationSpec_IPMI_CloneVT clone_ts (Ipmi m),
           Api = BMCConfigurationSpec_API_CloneVT clone_ts (Api m),
           ManuallyConfigured = ManuallyConfigured m,
           Manual = BMCConfigurationSpec_Manual_CloneVT clone_ts (Manual m),
           bc_unknownFields = copy_bytes (bc_unknownFields m)\<rparr>)"

definition BMCConfigurationSpec_CloneMessageVT :: "ts_clone \<Rightarrow> bmc_configuration_spec option \<Rightarrow> any_message" where
  "BMCConfigurationSpec_CloneMessageVT clone_ts m = BMCConfigurationSpec_message (BMCConfigurationSpec_CloneVT clone_ts m)"

definition BMCConfigurationSpec_EqualMessageVT :: "wire_lib \<Rightarrow> bmc_configuration_spec option \<Rightarrow>
    any_message \<Rightarrow> bool" where
  "BMCConfigurationSpec_EqualMessageVT lib this thatMsg =
     (case thatMsg of BMCConfigurationSpec_message that \<Rightarrow> BMCConfigurationSpec_EqualVT lib this that | _ \<Rightarrow> False)"

definition BMCConfigurationSpec_GetIpmi :: "bmc_configuration_spec option \<Rightarrow> bmc_ipmi option" where
  "BMCConfigurationSpec_GetIpmi x = (case x of Some x \<Rightarrow> Ipmi x | None \<Rightarrow> None)"

definition BMCConfigurationSpec_GetApi :: "bmc_configuration_spec option \<Rightarrow> bmc_api option" where
  "BMCConfigurationSpec_GetApi x = (case x of Some x \<Rightarrow> Api x | None \<Rightarrow> None)"

definition BMCConfigurationSpec_GetManuallyConfigured :: "bmc_configuration_spec option \<Rightarrow> bool" where
  "BMCConfigurationSpec_GetManuallyConfigured x = (case x of Some x \<Rightarrow> ManuallyConfigured x | None \<Rightarrow> False)"

definition BMCConfigurationSpec_GetManual :: "bmc_configuration_spec option \<Rightarrow> bmc_manual option" where
  "BMCConfigurationSpec_GetManual x = (case x of Some x \<Rightarrow> Manual x | None \<Rightarrow> None)"

interpretation bc_copy: copied_message BMCConfigurationSpec_CloneVT BMCConfigurationSpec_EqualVT
  BMCConfigurationSpec_CloneMessageVT BMCConfigurationSpec_EqualMessageVT BMCConfigurationSpec_message
  by unfold_locales
    (auto simp: BMCConfigurationSpec_CloneVT_def BMCConfigurationSpec_CloneMessageVT_def
        BMCConfigurationSpec_EqualMessageVT_def clones_timestamps_def ipmi_copy.CloneVT api_copy.CloneVT manual_copy.CloneVT
      split: option.splits any_message.splits)

definition BMCConfigurationSpec_MarshalVT :: "wire_lib \<Rightarrow> bmc_configuration_spec option \<Rightarrow> err + byte list" where
  "BMCConfigurationSpec_MarshalVT lib m = MarshalVT (BMCConfigurationSpec_SizeVT lib) (BMCConfigurationSpec_MarshalToSizedBufferVT lib) m"

definition BMCConfigurationSpec_MarshalToVT :: "wire_lib \<Rightarrow> bmc_configuration_spec \<Rightarrow>
    byte list \<Rightarrow> err + nat \<times> byte list" where
  "BMCConfigurationSpec_MarshalToVT lib m dAtA = MarshalToVT (BMCConfigurationSpec_SizeVT lib)
      (BMCConfigurationSpec_MarshalToSizedBufferVT lib) m dAtA"

lemma BMCConfigurationSpec_written:
  assumes "wire_lib_ok lib" "clones_timestamps c" "BMCConfigurationSpec_fits lib m"
  shows "BMCConfigurationSpec_MarshalVT lib (BMCConfigurationSpec_CloneVT c (Some m)) = Inr (BMCConfigurationSpec_bytes lib m)"
    "length (BMCConfigurationSpec_bytes lib m) \<le> length buf \<Longrightarrow>
       BMCConfigurationSpec_MarshalToVT lib m buf = Inr (length (BMCConfigurationSpec_bytes lib m),
           BMCConfigurationSpec_bytes lib m @ drop (length (BMCConfigurationSpec_bytes lib m)) buf)"
    "length buf < length (BMCConfigurationSpec_bytes lib m) \<Longrightarrow> BMCConfigurationSpec_MarshalToVT lib m buf = Inl out_of_range"
  using assms by (auto simp: BMCConfigurationSpec_MarshalVT_def BMCConfigurationSpec_MarshalToVT_def
      bc_msg.MarshalVT_bytes bc_msg.MarshalToVT_bytes bc_copy.CloneVT)

lemma BMCConfigurationSpec_getters [simp]:
  "BMCConfigurationSpec_GetIpmi (Some m) = Ipmi m" "BMCConfigurationSpec_GetIpmi None = Ipmi BMCConfigurationSpec_new"
  "BMCConfigurationSpec_GetApi (Some m) = Api m" "BMCConfigurationSpec_GetApi None = Api BMCConfigurationSpec_new"
  "BMCConfigurationSpec_GetManuallyConfigured (Some m) =
      ManuallyConfigured m" "BMCConfigurationSpec_GetManuallyConfigured None = ManuallyConfigured BMCConfigurationSpec_new"
  "BMCConfigurationSpec_GetManual (Some m) = Manual m" "BMCConfigurationSpec_GetManual None = Manual BMCConfigurationSpec_new"
  by (simp_all add: BMCConfigurationSpec_GetIpmi_def BMCConfigurationSpec_GetApi_def
      BMCConfigurationSpec_GetManuallyConfigured_def BMCConfigurationSpec_GetManual_def BMCConfigurationSpec_new_def)

section \<open>PowerOperationSpec\<close>

definition PowerOperationSpec_CloneVT :: "ts_clone \<Rightarrow> power_operation_spec option \<Rightarrow>
    power_operation_spec option" where
  "PowerOperationSpec_CloneVT clone_ts m =
     (case m of
        None \<Rightarrow> None
      | Some m \<Rightarrow> Some
          \<lparr>LastPowerOperation = LastPowerOperation m,
           LastPowerOnTimestamp = clone_ts (LastPowerOnTimestamp m),
           LastPowerOffId = LastPowerOffId m,
           WipeIdAtPowerOff = WipeIdAtPowerOff m,
           po_unknownFields = copy_bytes (po_unknownFields m)\<rparr>)"

definition PowerOperationSpec_CloneMessageVT :: "ts_clone \<Rightarrow> power_operation_spec option \<Rightarrow> any_message" where
  "PowerOperationSpec_CloneMessageVT clone_ts m = PowerOperationSpec_message (PowerOperationSpec_CloneVT clone_ts m)"

definition PowerOperationSpec_EqualMessageVT :: "wire_lib \<Rightarrow> power_operation_spec option \<Rightarrow>
    any_message \<Rightarrow> bool" where
  "PowerOperationSpec_EqualMessageVT lib this thatMsg =
     (case thatMsg of PowerOperationSpec_message that \<Rightarrow> PowerOperationSpec_EqualVT lib this that | _ \<Rightarrow> False)"

definition PowerOperationSpec_GetLastPowerOperation :: "power_operation_spec option \<Rightarrow> power_state" where
  "PowerOperationSpec_GetLastPowerOperation x = (case x of Some x \<Rightarrow>
      LastPowerOperation x | None \<Rightarrow> POWER_STATE_UNKNOWN)"

definition PowerOperationSpec_GetLastPowerOnTimestamp :: "power_operation_spec option \<Rightarrow> timestamp option" where
  "PowerOperationSpec_GetLastPowerOnTimestamp x = (case x of Some x \<Rightarrow> LastPowerOnTimestamp x | None \<Rightarrow> None)"

definition PowerOperationSpec_GetLastPowerOffId :: "power_operation_spec option \<Rightarrow> string" where
  "PowerOperationSpec_GetLastPowerOffId x = (case x of Some x \<Rightarrow> LastPowerOffId x | None \<Rightarrow> [])"

definition PowerOperationSpec_GetWipeIdAtPowerOff :: "power_operation_spec option \<Rightarrow> string" where
  "PowerOperationSpec_GetWipeIdAtPowerOff x = (case x of Some x \<Rightarrow> WipeIdAtPowerOff x | None \<Rightarrow> [])"

interpretation po_copy: copied_message PowerOperationSpec_CloneVT PowerOperationSpec_EqualVT
  PowerOperationSpec_CloneMessageVT PowerOperationSpec_EqualMessageVT PowerOperationSpec_message
  by unfold_locales
    (auto simp: PowerOperationSpec_CloneVT_def PowerOperationSpec_CloneMessageVT_def
        PowerOperationSpec_EqualMessageVT_def clones_timestamps_def
      split: option.splits any_message.splits)

definition PowerOperationSpec_MarshalVT :: "wire_lib \<Rightarrow> power_operation_spec option \<Rightarrow> err + byte list" where
  "PowerOperationSpec_MarshalVT lib m = MarshalVT (PowerOperationSpec_SizeVT lib) (PowerOperationSpec_MarshalToSizedBufferVT lib) m"

definition PowerOperationSpec_MarshalToVT :: "wire_lib \<Rightarrow> power_operation_spec \<Rightarrow>
    byte list \<Rightarrow> err + nat \<times> byte list" where
  "PowerOperationSpec_MarshalToVT lib m dAtA = MarshalToVT (PowerOperationSpec_SizeVT lib)
      (PowerOperationSpec_MarshalToSizedBufferVT lib) m dAtA"

lemma PowerOperationSpec_written:
  assumes "wire_lib_ok lib" "clones_timestamps c" "PowerOperationSpec_fits lib m"
  shows "PowerOperationSpec_MarshalVT lib (PowerOperationSpec_CloneVT c (Some m)) = Inr (PowerOperationSpec_bytes lib m)"
    "length (PowerOperationSpec_bytes lib m) \<le> length buf \<Longrightarrow>
       PowerOperationSpec_MarshalToVT lib m buf = Inr (length (PowerOperationSpec_bytes lib m),
           PowerOperationSpec_bytes lib m @ drop (length (PowerOperationSpec_bytes lib m)) buf)"
    "length buf < length (PowerOperationSpec_bytes lib m) \<Longrightarrow> PowerOperationSpec_MarshalToVT lib m buf = Inl out_of_range"
  using assms by (auto simp: PowerOperationSpec_MarshalVT_def PowerOperationSpec_MarshalToVT_def po_msg.MarshalVT_bytes
      po_msg.MarshalToVT_bytes po_copy.CloneVT)

lemma PowerOperationSpec_getters [simp]:
  "PowerOperationSpec_GetLastPowerOperation (Some m) = LastPowerOperation m" "PowerOperationSpec_GetLastPowerOperation
      None = LastPowerOperation PowerOperationSpec_new"
  "PowerOperationSpec_GetLastPowerOnTimestamp (Some m) =
      LastPowerOnTimestamp m" "PowerOperationSpec_GetLastPowerOnTimestamp None = LastPowerOnTimestamp PowerOperationSpec_new"
  "PowerOperationSpec_GetLastPowerOffId (Some m) = LastPowerOffId m" "PowerOperationSpec_GetLastPowerOffId None =
      LastPowerOffId PowerOperationSpec_new"
  "PowerOperationSpec_GetWipeIdAtPowerOff (Some m) = WipeIdAtPowerOff m" "PowerOperationSpec_GetWipeIdAtPowerOff None =
      WipeIdAtPowerOff PowerOperationSpec_new"
  by (simp_all add: PowerOperationSpec_GetLastPowerOperation_def PowerOperationSpec_GetLastPowerOnTimestamp_def
      PowerOperationSpec_GetLastPowerOffId_def PowerOperationSpec_GetWipeIdAtPowerOff_def PowerOperationSpec_new_def)

section \<open>MachineStatusSpec\<close>

definition MachineStatusSpec_CloneVT :: "ts_clone \<Rightarrow> machine_status_spec option \<Rightarrow> machine_status_spec option" where
  "MachineStatusSpec_CloneVT clone_ts m =
     (case m of
        None \<Rightarrow> None
      | Some m \<Rightarrow> Some
          \<lparr>AgentAccessible = AgentAccessible m,
           PowerState = PowerState m,
           Initialized = Initialized m,
           ms_unknownFields = copy_bytes (ms_unknownFields m)\<rparr>)"

definition MachineStatusSpec_CloneMessageVT :: "ts_clone \<Rightarrow> machine_status_spec option \<Rightarrow> any_message" where
  "MachineStatusSpec_CloneMessageVT clone_ts m = MachineStatusSpec_message (MachineStatusSpec_CloneVT clone_ts m)"

definition MachineStatusSpec_EqualMessageVT :: "wire_lib \<Rightarrow> machine_status_spec option \<Rightarrow>
    any_message \<Rightarrow> bool" where
  "MachineStatusSpec_EqualMessageVT lib this thatMsg =
     (case thatMsg of MachineStatusSpec_message that \<Rightarrow> MachineStatusSpec_EqualVT lib this that | _ \<Rightarrow> False)"

definition MachineStatusSpec_GetAgentAccessible :: "machine_status_spec option \<Rightarrow> bool" where
  "MachineStatusSpec_GetAgentAccessible x = (case x of Some x \<Rightarrow> AgentAccessible x | None \<Rightarrow> False)"

definition MachineStatusSpec_GetPowerState :: "machine_status_spec option \<Rightarrow> power_state" where
  "MachineStatusSpec_GetPowerState x = (case x of Some x \<Rightarrow> PowerState x | None \<Rightarrow> POWER_STATE_UNKNOWN)"

definition MachineStatusSpec_GetInitialized :: "machine_status_spec option \<Rightarrow> bool" where
  "MachineStatusSpec_GetInitialized x = (case x of Some x \<Rightarrow> Initialized x | None \<Rightarrow> False)"

interpretation ms_copy: copied_message MachineStatusSpec_CloneVT MachineStatusSpec_EqualVT
  MachineStatusSpec_CloneMessageVT MachineStatusSpec_EqualMessageVT MachineStatusSpec_message
  by unfold_locales
    (auto simp: MachineStatusSpec_CloneVT_def MachineStatusSpec_CloneMessageVT_def MachineStatusSpec_EqualMessageVT_def
        clones_timestamps_def
      split: option.splits any_message.splits)

definition MachineStatusSpec_MarshalVT :: "wire_lib \<Rightarrow> machine_status_spec option \<Rightarrow> err + byte list" where
  "MachineStatusSpec_MarshalVT lib m = MarshalVT (MachineStatusSpec_SizeVT lib) (MachineStatusSpec_MarshalToSizedBufferVT lib) m"

definition MachineStatusSpec_MarshalToVT :: "wire_lib \<Rightarrow> machine_status_spec \<Rightarrow>
    byte list \<Rightarrow> err + nat \<times> byte list" where
  "MachineStatusSpec_MarshalToVT lib m dAtA = MarshalToVT (MachineStatusSpec_SizeVT lib)
      (MachineStatusSpec_MarshalToSizedBufferVT lib) m dAtA"

lemma MachineStatusSpec_written:
  assumes "wire_lib_ok lib" "clones_timestamps c" "MachineStatusSpec_fits lib m"
  shows "MachineStatusSpec_MarshalVT lib (MachineStatusSpec_CloneVT c (Some m)) = Inr (MachineStatusSpec_bytes lib m)"
    "length (MachineStatusSpec_bytes lib m) \<le> length buf \<Longrightarrow>
       MachineStatusSpec_MarshalToVT lib m buf = Inr (length (MachineStatusSpec_bytes lib m),
           MachineStatusSpec_bytes lib m @ drop (length (MachineStatusSpec_bytes lib m)) buf)"
    "length buf < length (MachineStatusSpec_bytes lib m) \<Longrightarrow> MachineStatusSpec_MarshalToVT lib m buf = Inl out_of_range"
  using assms by (auto simp: MachineStatusSpec_MarshalVT_def MachineStatusSpec_MarshalToVT_def ms_msg.MarshalVT_bytes
      ms_msg.MarshalToVT_bytes ms_copy.CloneVT)

lemma MachineStatusSpec_getters [simp]:
  "MachineStatusSpec_GetAgentAccessible (Some m) = AgentAccessible m" "MachineStatusSpec_GetAgentAccessible None =
      AgentAccessible MachineStatusSpec_new"
  "MachineStatusSpec_GetPowerState (Some m) = PowerState m" "MachineStatusSpec_GetPowerState None = PowerState MachineStatusSpec_new"
  "MachineStatusSpec_GetInitialized (Some m) = Initialized m" "MachineStatusSpec_GetInitialized None = Initialized MachineStatusSpec_new"
  by (simp_all add: MachineStatusSpec_GetAgentAccessible_def MachineStatusSpec_GetPowerState_def
      MachineStatusSpec_GetInitialized_def MachineStatusSpec_new_def)

section \<open>WipeStatusSpec\<close>

definition WipeStatusSpec_CloneVT :: "ts_clone \<Rightarrow> wipe_status_spec option \<Rightarrow> wipe_status_spec option" where
  "WipeStatusSpec_CloneVT clone_ts m =
     (case m of
        None \<Rightarrow> None
      | Some m \<Rightarrow> Some
          \<lparr>LastWipeId = LastWipeId m,
           LastWipeInstallEventId = LastWipeInstallEventId m,
           InitialWipeDone = InitialWipeDone m,
           WipedNodeUniqueToken = WipedNodeUniqueToken m,
           ws_unknownFields = copy_bytes (ws_unknownFields m)\<rparr>)"

definition WipeStatusSpec_CloneMessageVT :: "ts_clone \<Rightarrow> wipe_status_spec option \<Rightarrow> any_message" where
  "WipeStatusSpec_CloneMessageVT clone_ts m = WipeStatusSpec_message (WipeStatusSpec_CloneVT clone_ts m)"

definition WipeStatusSpec_EqualMessageVT :: "wire_lib \<Rightarrow> wipe_status_spec option \<Rightarrow>
    any_message \<Rightarrow> bool" where
  "WipeStatusSpec_EqualMessageVT lib this thatMsg =
     (case thatMsg of WipeStatusSpec_message that \<Rightarrow> WipeStatusSpec_EqualVT lib this that | _ \<Rightarrow> False)"

definition WipeStatusSpec_GetLastWipeId :: "wipe_status_spec option \<Rightarrow> string" where
  "WipeStatusSpec_GetLastWipeId x = (case x of Some x \<Rightarrow> LastWipeId x | None \<Rightarrow> [])"

definition WipeStatusSpec_GetLastWipeInstallEventId :: "wipe_status_spec option \<Rightarrow> 64 word" where
  "WipeStatusSpec_GetLastWipeInstallEventId x = (case x of Some x \<Rightarrow> LastWipeInstallEventId x | None \<Rightarrow> 0)"

definition WipeStatusSpec_GetInitialWipeDone :: "wipe_status_spec option \<Rightarrow> bool" where
  "WipeStatusSpec_GetInitialWipeDone x = (case x of Some x \<Rightarrow> InitialWipeDone x | None \<Rightarrow> False)"

definition WipeStatusSpec_GetWipedNodeUniqueToken :: "wipe_status_spec option \<Rightarrow> string" where
  "WipeStatusSpec_GetWipedNodeUniqueToken x = (case x of Some x \<Rightarrow> WipedNodeUniqueToken x | None \<Rightarrow> [])"

interpretation ws_copy: copied_message WipeStatusSpec_CloneVT WipeStatusSpec_EqualVT
  WipeStatusSpec_CloneMessageVT WipeStatusSpec_EqualMessageVT WipeStatusSpec_message
  by unfold_locales
    (auto simp: WipeStatusSpec_CloneVT_def WipeStatusSpec_CloneMessageVT_def WipeStatusSpec_EqualMessageVT_def clones_timestamps_def
      split: option.splits any_message.splits)

definition WipeStatusSpec_MarshalVT :: "wire_lib \<Rightarrow> wipe_status_spec option \<Rightarrow> err + byte list" where
  "WipeStatusSpec_MarshalVT lib m = MarshalVT (WipeStatusSpec_SizeVT lib) (WipeStatusSpec_MarshalToSizedBufferVT lib) m"

definition WipeStatusSpec_MarshalToVT :: "wire_lib \<Rightarrow> wipe_status_spec \<Rightarrow> byte list \<Rightarrow>
    err + nat \<times> byte list" where
  "WipeStatusSpec_MarshalToVT lib m dAtA = MarshalToVT (WipeStatusSpec_SizeVT lib) (WipeStatusSpec_MarshalToSizedBufferVT lib) m dAtA"

lemma WipeStatusSpec_written:
  assumes "wire_lib_ok lib" "clones_timestamps c" "WipeStatusSpec_fits lib m"
  shows "WipeStatusSpec_MarshalVT lib (WipeStatusSpec_CloneVT c (Some m)) = Inr (WipeStatusSpec_bytes lib m)"
    "length (WipeStatusSpec_bytes lib m) \<le> length buf \<Longrightarrow>
       WipeStatusSpec_MarshalToVT lib m buf = Inr (length (WipeStatusSpec_bytes lib m), WipeStatusSpec_bytes lib m @
           drop (length (WipeStatusSpec_bytes lib m)) buf)"
    "length buf < length (WipeStatusSpec_bytes lib m) \<Longrightarrow> WipeStatusSpec_MarshalToVT lib m buf = Inl out_of_range"
  using assms by (auto simp: WipeStatusSpec_MarshalVT_def WipeStatusSpec_MarshalToVT_def ws_msg.MarshalVT_bytes
      ws_msg.MarshalToVT_bytes ws_copy.CloneVT)

lemma WipeStatusSpec_getters [simp]:
  "WipeStatusSpec_GetLastWipeId (Some m) = LastWipeId m" "WipeStatusSpec_GetLastWipeId None = LastWipeId WipeStatusSpec_new"
  "WipeStatusSpec_GetLastWipeInstallEventId (Some m) =
      LastWipeInstallEventId m" "WipeStatusSpec_GetLastWipeInstallEventId None = LastWipeInstallEventId WipeStatusSpec_new"
  "WipeStatusSpec_GetInitialWipeDone (Some m) = InitialWipeDone m" "WipeStatusSpec_GetInitialWipeDone None =
      InitialWipeDone WipeStatusSpec_new"
  "WipeStatusSpec_GetWipedNodeUniqueToken (Some m) = WipedNodeUniqueToken m" "WipeStatusSpec_GetWipedNodeUniqueToken
      None = WipedNodeUniqueToken WipeStatusSpec_new"
  by (simp_all add: WipeStatusSpec_GetLastWipeId_def WipeStatusSpec_GetLastWipeInstallEventId_def
      WipeStatusSpec_GetInitialWipeDone_def WipeStatusSpec_GetWipedNodeUniqueToken_def WipeStatusSpec_new_def)

section \<open>RebootStatusSpec\<close>

definition RebootStatusSpec_CloneVT :: "ts_clone \<Rightarrow> reboot_status_spec option \<Rightarrow> reboot_status_spec option" where
  "RebootStatusSpec_CloneVT clone_ts m =
     (case m of
        None \<Rightarrow> None
      | Some m \<Rightarrow> Some
          \<lparr>LastRebootId = LastRebootId m,
           LastRebootTimestamp = clone_ts (LastRebootTimestamp m),
           rs_unknownFields = copy_bytes (rs_unknownFields m)\<rparr>)"

definition RebootStatusSpec_CloneMessageVT :: "ts_clone \<Rightarrow> reboot_status_spec option \<Rightarrow> any_message" where
  "RebootStatusSpec_CloneMessageVT clone_ts m = RebootStatusSpec_message (RebootStatusSpec_CloneVT clone_ts m)"

definition RebootStatusSpec_EqualMessageVT :: "wire_lib \<Rightarrow> reboot_status_spec option \<Rightarrow>
    any_message \<Rightarrow> bool" where
  "RebootStatusSpec_EqualMessageVT lib this thatMsg =
     (case thatMsg of RebootStatusSpec_message that \<Rightarrow> RebootStatusSpec_EqualVT lib this that | _ \<Rightarrow> False)"

definition RebootStatusSpec_GetLastRebootId :: "reboot_status_spec option \<Rightarrow> string" where
  "RebootStatusSpec_GetLastRebootId x = (case x of Some x \<Rightarrow> LastRebootId x | None \<Rightarrow> [])"

definition RebootStatusSpec_GetLastRebootTimestamp :: "reboot_status_spec option \<Rightarrow> timestamp option" where
  "RebootStatusSpec_GetLastRebootTimestamp x = (case x of Some x \<Rightarrow> LastRebootTimestamp x | None \<Rightarrow> None)"

interpretation rs_copy: copied_message RebootStatusSpec_CloneVT RebootStatusSpec_EqualVT
  RebootStatusSpec_CloneMessageVT RebootStatusSpec_EqualMessageVT RebootStatusSpec_message
  by unfold_locales
    (auto simp: RebootStatusSpec_CloneVT_def RebootStatusSpec_CloneMessageVT_def RebootStatusSpec_EqualMessageVT_def clones_timestamps_def
      split: option.splits any_message.splits)

definition RebootStatusSpec_MarshalVT :: "wire_lib \<Rightarrow> reboot_status_spec option \<Rightarrow> err + byte list" where
  "RebootStatusSpec_MarshalVT lib m = MarshalVT (RebootStatusSpec_SizeVT lib) (RebootStatusSpec_MarshalToSizedBufferVT lib) m"

definition RebootStatusSpec_MarshalToVT :: "wire_lib \<Rightarrow> reboot_status_spec \<Rightarrow>
    byte list \<Rightarrow> err + nat \<times> byte list" where
  "RebootStatusSpec_MarshalToVT lib m dAtA = MarshalToVT (RebootStatusSpec_SizeVT lib) (RebootStatusSpec_MarshalToSizedBufferVT lib) m dAtA"

lemma RebootStatusSpec_written:
  assumes "wire_lib_ok lib" "clones_timestamps c" "RebootStatusSpec_fits lib m"
  shows "RebootStatusSpec_MarshalVT lib (RebootStatusSpec_CloneVT c (Some m)) = Inr (RebootStatusSpec_bytes lib m)"
    "length (RebootStatusSpec_bytes lib m) \<le> length buf \<Longrightarrow>
       RebootStatusSpec_MarshalToVT lib m buf = Inr (length (RebootStatusSpec_bytes lib m),
           RebootStatusSpec_bytes lib m @ drop (length (RebootStatusSpec_bytes lib m)) buf)"
    "length buf < length (RebootStatusSpec_bytes lib m) \<Longrightarrow> RebootStatusSpec_MarshalToVT lib m buf = Inl out_of_range"
  using assms by (auto simp: RebootStatusSpec_MarshalVT_def RebootStatusSpec_MarshalToVT_def rs_msg.MarshalVT_bytes
      rs_msg.MarshalToVT_bytes rs_copy.CloneVT)

lemma RebootStatusSpec_getters [simp]:
  "RebootStatusSpec_GetLastRebootId (Some m) = LastRebootId m" "RebootStatusSpec_GetLastRebootId None = LastRebootId RebootStatusSpec_new"
  "RebootStatusSpec_GetLastRebootTimestamp (Some m) = LastRebootTimestamp m" "RebootStatusSpec_GetLastRebootTimestamp
      None = LastRebootTimestamp RebootStatusSpec_new"
  by (simp_all add: RebootStatusSpec_GetLastRebootId_def RebootStatusSpec_GetLastRebootTimestamp_def RebootStatusSpec_new_def)

section \<open>TLSConfigSpec\<close>

definition TLSConfigSpec_CloneVT :: "ts_clone \<Rightarrow> tls_config_spec option \<Rightarrow> tls_config_spec option" where
  "TLSConfigSpec_CloneVT clone_ts m =
     (case m of
        None \<Rightarrow> None
      | Some m \<Rightarrow> Some
          \<lparr>CaCert = CaCert m,
           CaKey = CaKey m,
           tls_unknownFields = copy_bytes (tls_unknownFields m)\<rparr>)"

definition TLSConfigSpec_CloneMessageVT :: "ts_clone \<Rightarrow> tls_config_spec option \<Rightarrow> any_message" where
  "TLSConfigSpec_CloneMessageVT clone_ts m = TLSConfigSpec_message (TLSConfigSpec_CloneVT clone_ts m)"

definition TLSConfigSpec_EqualMessageVT :: "wire_lib \<Rightarrow> tls_config_spec option \<Rightarrow>
    any_message \<Rightarrow> bool" where
  "TLSConfigSpec_EqualMessageVT lib this thatMsg =
     (case thatMsg of TLSConfigSpec_message that \<Rightarrow> TLSConfigSpec_EqualVT lib this that | _ \<Rightarrow> False)"

definition TLSConfigSpec_GetCaCert :: "tls_config_spec option \<Rightarrow> string" where
  "TLSConfigSpec_GetCaCert x = (case x of Some x \<Rightarrow> CaCert x | None \<Rightarrow> [])"

definition TLSConfigSpec_GetCaKey :: "tls_config_spec option \<Rightarrow> string" where
  "TLSConfigSpec_GetCaKey x = (case x of Some x \<Rightarrow> CaKey x | None \<Rightarrow> [])"

interpretation tls_copy: copied_message TLSConfigSpec_CloneVT TLSConfigSpec_EqualVT
  TLSConfigSpec_CloneMessageVT TLSConfigSpec_EqualMessageVT TLSConfigSpec_message
  by unfold_locales
    (auto simp: TLSConfigSpec_CloneVT_def TLSConfigSpec_CloneMessageVT_def TLSConfigSpec_EqualMessageVT_def clones_timestamps_def
      split: option.splits any_message.splits)

definition TLSConfigSpec_MarshalVT :: "wire_lib \<Rightarrow> tls_config_spec option \<Rightarrow> err + byte list" where
  "TLSConfigSpec_MarshalVT lib m = MarshalVT (TLSConfigSpec_SizeVT lib) (TLSConfigSpec_MarshalToSizedBufferVT lib) m"

definition TLSConfigSpec_MarshalToVT :: "wire_lib \<Rightarrow> tls_config_spec \<Rightarrow> byte list \<Rightarrow>
    err + nat \<times> byte list" where
  "TLSConfigSpec_MarshalToVT lib m dAtA = MarshalToVT (TLSConfigSpec_SizeVT lib) (TLSConfigSpec_MarshalToSizedBufferVT lib) m dAtA"

lemma TLSConfigSpec_written:
  assumes "wire_lib_ok lib" "clones_timestamps c" "TLSConfigSpec_fits lib m"
  shows "TLSConfigSpec_MarshalVT lib (TLSConfigSpec_CloneVT c (Some m)) = Inr (TLSConfigSpec_bytes lib m)"
    "length (TLSConfigSpec_bytes lib m) \<le> length buf \<Longrightarrow>
       TLSConfigSpec_MarshalToVT lib m buf = Inr (length (TLSConfigSpec_bytes lib m), TLSConfigSpec_bytes lib m @
           drop (length (TLSConfigSpec_bytes lib m)) buf)"
    "length buf < length (TLSConfigSpec_bytes lib m) \<Longrightarrow> TLSConfigSpec_MarshalToVT lib m buf = Inl out_of_range"
  using assms by (auto simp: TLSConfigSpec_MarshalVT_def TLSConfigSpec_MarshalToVT_def tls_msg.MarshalVT_bytes
      tls_msg.MarshalToVT_bytes tls_copy.CloneVT)

lemma TLSConfigSpec_getters [simp]:
  "TLSConfigSpec_GetCaCert (Some m) = CaCert m" "TLSConfigSpec_GetCaCert None = CaCert TLSConfigSpec_new"
  "TLSConfigSpec_GetCaKey (Some m) = CaKey m" "TLSConfigSpec_GetCaKey None = CaKey TLSConfigSpec_new"
  by (simp_all add: TLSConfigSpec_GetCaCert_def TLSConfigSpec_GetCaKey_def TLSConfigSpec_new_def)

section \<open>The names of a power state\<close>

definition PowerState_name :: "(32 word \<times> string) list" where
  "PowerState_name = [(0, ''POWER_STATE_UNKNOWN''), (1, ''POWER_STATE_OFF''), (2, ''POWER_STATE_ON'')]"

definition PowerState_value :: "(string \<times> 32 word) list" where
  "PowerState_value = [(''POWER_STATE_UNKNOWN'', 0), (''POWER_STATE_OFF'', 1), (''POWER_STATE_ON'', 2)]"

text \<open>The two tables are inverse to each other, and name exactly the states that the code names.\<close>

lemma power_state_names:
  "map_of PowerState_name c = Some n \<longleftrightarrow> map_of PowerState_value n = Some c"
  "map_of PowerState_name (power_code p) = None \<longleftrightarrow> (\<exists>c. power_state_of (power_code p) = POWER_STATE_OTHER c)"
  by (auto simp: PowerState_name_def PowerState_value_def power_state_of_def split: if_splits)

end
