(* ===== verification/Spec2Isabelle.thy ===== *)
theory Spec2Isabelle
  imports Cmd Listeners Runtime MessageMethods
begin

text \<open>
  A verification library of the Omni bare-metal infrastructure provider, written in Go: the service that discovers
  bare-metal machines, boots them over the network into an agent or into Talos, powers, reboots and wipes them, and reports
  them to Omni; and the tool that brings QEMU machines with emulated BMCs up for it.

  The parts and how they interact. Omni stores a machine and what it should be; the provider's controllers reconcile their
  own resources against it: the machine status (what is seen of a machine), the BMC configuration (how it is powered), the
  power operation, reboot status and wipe status (what was done to it), and the report to Omni. They act through a BMC client
  (HTTP API, IPMI, Redfish, or nothing for a machine powered by hand) and through the agent that runs on a machine. A machine
  that boots over the network is offered an iPXE binary by the DHCP proxy, fetches it from the TFTP or the HTTP server, asks
  the boot handler what to boot, and is given the machine configuration. \<open>Provider.Run\<close> wires all of it together.

  Theories, in the order of their imports, with the files below src/ they model (internal/provider/ unless a path says else):

    Prelude: Go's errors, the helpers of internal/util that close and log, int64 durations and clock,
        and the string functions of its standard library.
    Resources: api/specs/specs.pb.go and resources/: the messages, the resources and their constructors; Omni's resources
      as far as they are read.
    Wire, Messages: api/specs/specs_vtproto.pb.go: writing a message backwards into a buffer, reading it field by field; the
      locale wire_message is the contract of a message, which a message that contains another relies on. MessageMethods: their
      other methods, such as copies and comparisons, with the locale copied_message.
    Machine: machine/machine.go: what a machine is to boot, and whether it is to be on.
    World: the environment: every request to a BMC or an agent is a value of the type request, appended to a log, and is
      answered by a function of the log so far; so the order of effects and every failure are part of the model. The reader is
      what a controller reads of the state.
    Bmc, Redfish, BmcClient: bmc/: the four backends, the client that logs and dispatches, the factory and its cache.
    Net, Ip, Paths: net.JoinHostPort and its inverse, ip/ip.go, path.Clean and filepath.Join.
    Agent: agent/: the calls to the agent and the tunnel's bookkeeping.
    ControllersBase: controllers/controllers.go; one reconcile and a sequence of reconciles as the runtime runs them; the
      locale gated_transform, the contract that a machine that is not accepted, or is cordoned, is left alone, with an
      interpretation by each controller that keeps it.
    PowerOperation, RebootStatus, WipeStatus, InfraMachineStatus, BmcConfiguration, MachineStatus: the file of that name
      below controllers/. Each transform is one function over the environment, the reader, the machine, the owned resource and
      the request log, with Go's error as an optional value.
    AddressReader: bmc/api/manager.go.
    IpxePatch: ipxe/patch.go and the constants: the embedded script and the patching of the iPXE binaries.
    BootFiles: rpi/firmware.go, tftp/, server/server.go (routing and files), the merge of the boot files; the locale
      file_service with the TFTP server, the TFTP server under a rooted name, and the HTTP server as its interpretations.
    Dhcp: dhcp/proxy.go. ImageFactory: imagefactory/client.go, with the locale image_factory, the interface the handler uses.
    Tls: tls/tls.go. BootHandler: ipxe/handler.go and boot.go. MachineConfig: machineconfig/ and config/.
    RunGroup: Provider.runComponents and Server.Run as step relations over goroutines that return and contexts that are
      done; the locale stop_group is the contract both keep.
    Listeners: the goroutines of the TFTP server, the DHCP proxy and the emulated BMCs; the locale nested_group, groups that are
      members of a group, extends the contract to them.
    Provider, Startup: provider.go and options.go: the options, the labels, the state in Omni, and Run, whose result is what it
      wired together.
    ResourceTypes: resources/: the names, definitions and registration of the resource types. Registration: what every controller
      registers with the runtime: the resource it owns, and the inputs that wake it; the locale qcontroller_contract says
      that nothing else makes a difference to its transform, with an interpretation by each of the five controllers.
    VirtualBmc, Qemu: internal/qemu/. Cmd: cmd/provider/main.go and cmd/qemu-up/main.go.
    System: all controllers over one store, with Omni, the operator and the agents acting in between, as a step relation.
      A step is a reconcile of one controller, an event of the machine status controller, a change in Omni, or resources going
      away. Every lookup may fail or be stale; the resource a controller owns is current, since a conflicting write is refused.
    Runtime: the same controllers with a queue each, as the runtime runs them: a change adds the machines it wakes a controller
      for, a run takes a machine that is due and reads what is stored, and keeps it queued when it failed. Its runs are runs of
      System (rt_run_system), so every invariant of System holds of them; and since only what is queued is run, it can be said
      that what has to be done is done.
    Samples: one machine and its resources, used by the witnesses.

  What the lemmas show. For each controller, when it may act at all (po_power_on_allowed, rs_reboot_allowed, wsc_wipe_allowed
  and the like), that what it records is what it did, and what holds over any sequence of reconciles (no reboot loop, no second
  wipe, a standing power-off request honoured, credentials never rotated behind the provider's back). For the boot path, that
  the decision is exactly the documented one, that every file offered is served, that every URL handed out leads back to a
  handler. For the start, that a provider with unusable options touches nothing, that all parts of a running provider agree on
  how machines boot, that machines trust the certificates they are shown, that the components stop together. For the controllers
  together, invariants of every run: each step asks at most one agent, a clean wipe status is backed by a confirmed request, a
  machine that was never accepted is untouched. With the queues of Runtime, progress: what no queue holds is settled, by the
  contract qcontroller_contract of each controller's inputs, so a machine that waits for nothing is ready (idle_machine_is_ready); and
  the runs that onboard machines are bounded by what the queues hold (onboarding_completes). This theory holds the
      properties that span components: no Talos boot without a
  wipe, and nothing done to a machine that was not accepted.

  Libraries are parameters: the IPMI, Redfish, DHCP, TFTP, gRPC and tunnel libraries, X.509, the Talos configuration and
  machinery, the image factory, zbin and zstd, the state store, the file system, the QEMU provisioner. What the code relies on
  of them is a named hypothesis (dhcp_lib_ok, x509_reads_back, x509_honours_validity, waits_for_first), each with an instance
  for which it holds. What Go's runtime leaves open, as the order in which a map is visited, is a parameter too.

  Conventions. A resource is kept in memory by the transform and stored by the runtime when there is no error; what is stored
  beside an error is a parameter, and the theorems hold for both. Times are nanoseconds, durations wrap at 64 bits. Texts of
  errors are kept as far as the code looks at them, and shortened elsewhere; log lines are left out. Loops are structural
  recursions over lists, so no fuel is needed; the loop that replaces the root fingerprint is a function with a termination
  proof, and its equivalence with a left-to-right replacement is a theorem; the loop over the fields of a message is a partial function,
  which reading_returns shows to return on every input. A panic is an error value.

  Not modelled: the code of the COSI runtime (a sequence of reconciles is an arbitrary list of inputs, in System an arbitrary
  interleaving, and in Runtime one that the queues ask for, by its documented behaviour; a reconcile is one step, and how many of
  them run at a time is left open), contexts and deadlines other
  than as errors of calls, the protocols spoken on the sockets, the gRPC server, log lines, and the reflection of the generated messages
  (messages are values, so that a copy shares nothing with its original is not part of what can be said).
\<close>

section \<open>From the wipe to the boot\<close>

text \<open>
  No machine boots Talos over the network with another tenant's data on its disks. Whenever the boot handler asks the
  image factory for a Talos image, and the wipe status it read is what the wipe controller made of a fresh one by any sequence
  of reconciles of that machine, then a wipe request for this very machine was sent, for the wipe ID of its current lifecycle,
  after Omni had accepted it and its agent was reachable, and the agent confirmed it. The machine is not cordoned, pending,
  rejected or being torn down, has a BMC configuration, and gets the Talos version and the extensions of its cluster.
\<close>

theorem talos_boot_after_wipe:
  assumes "reconcile_all stores_after (wsc_transform opts) inputs (NewWipeStatus i) w = (ws, w')"
      and "\<forall>(env, rd, m0) \<in> set inputs. ID m0 = br_query req ''uuid''"
      and "rd_wipe_status reader (br_query req ''uuid'') = Inr ws"
      and "ServeHTTP url readFile reader writeOk handler req channel = (resp, calls, channel')"
      and "FactoryCall False v a ext k \<in> set calls"
  shows "\<exists>m env rd m0 qs rest.
    rd_infra_machine reader (br_query req ''uuid'') = Inr m \<and>
    \<not> Cordoned (Spec m) \<and> AcceptanceStatus (Spec m) \<noteq> PENDING \<and> AcceptanceStatus (Spec m) \<noteq> REJECTED \<and>
    Phase m \<noteq> PhaseTearingDown \<and> rd_bmc_configuration reader (br_query req ''uuid'') \<in> range Inr \<and>
    v = ClusterTalosVersion (Spec m) \<and> v \<noteq> [] \<and> ext = Extensions (Spec m) \<and>
    (env, rd, m0) \<in> set inputs \<and> WipeId (Spec m0) = WipeId (Spec m) \<and> AcceptanceStatus (Spec m0) = ACCEPTED \<and>
    (\<exists>ms. get_or_nil (rd_machine_status rd (ID m0)) = Inr (Some ms) \<and> AgentAccessible (Spec ms)) \<and>
    requests w' = qs @ [wipe_request opts (br_query req ''uuid'')] @ rest \<and>
    answer_act env qs (wipe_request opts (br_query req ''uuid'')) = None"
proof -
  let ?u = "br_query req ''uuid''"
  from ServeHTTP_talos_call[OF assms(4,5)] assms(3) obtain m b where
    m: "rd_infra_machine reader ?u = Inr m" "rd_bmc_configuration reader ?u = Inr b" "\<not> Cordoned (Spec m)"
      "AcceptanceStatus (Spec m) \<noteq> PENDING" "AcceptanceStatus (Spec m) \<noteq> REJECTED" "Phase m \<noteq> PhaseTearingDown"
      "v = ClusterTalosVersion (Spec m)" "v \<noteq> []" "ext = Extensions (Spec m)"
    and clean: "InitialWipeDone (Spec ws)" "LastWipeId (Spec ws) = WipeId (Spec m)" by auto
  have "ws \<noteq> NewWipeStatus i" using clean(1) by (auto simp: NewWipeStatus_def new_resource_def)
  then have "wipe_succeeded opts inputs (requests w') (WipeId (Spec m))"
    using wsc_history[OF assms(1)] clean(2) by auto
  then obtain env rd m0 ms qs rest where
    h: "(env, rd, m0) \<in> set inputs" "WipeId (Spec m0) = WipeId (Spec m)" "AcceptanceStatus (Spec m0) = ACCEPTED"
      "get_or_nil (rd_machine_status rd (ID m0)) = Inr (Some ms)" "AgentAccessible (Spec ms)"
      "requests w' = qs @ [wipe_request opts (ID m0)] @ rest" "answer_act env qs (wipe_request opts (ID m0)) = None"
    by (auto simp: wipe_succeeded_def)
  have "ID m0 = ?u" using h(1) assms(2) by auto
  with m h show ?thesis
    by (intro exI[of _ m] exI[of _ env] exI[of _ rd] exI[of _ m0] exI[of _ qs] exI[of _ rest]) auto
qed

text \<open>The machine of the samples: wiped in one reconcile, then served the Talos image of its cluster.\<close>

lemma sample_wiped:
  "\<exists>w'. reconcile_all (\<lambda>e. False) (wsc_transform wsc_opts) [(ok_env True 1, wsc_rd1,
      m1)] (NewWipeStatus ''m1'') empty_world = (m1_wiped, w')"
proof -
  obtain ws' w' where t: "wsc_transform wsc_opts (ok_env True 1) wsc_rd1 m1 (NewWipeStatus ''m1'') empty_world = ((None, ws'), w')"
    using wsc_run1 by (metis prod.collapse)
  from t have "ws' = m1_wiped"
    by (cases rule: wsc_transform_cases)
       (auto simp: wiped_now_def m1_def m1_spec_def m1_wiped_def NewWipeStatus_def new_resource_def)
  with t show ?thesis by (simp add: reconcile_def)
qed

theorem talos_boot_after_wipe_witness:
  "\<exists>w' m qs rest. reconcile_all (\<lambda>e. False) (wsc_transform wsc_opts) [(ok_env True 1, wsc_rd1,
      m1)] (NewWipeStatus ''m1'') empty_world = (m1_wiped, w') \<and>
     rd_infra_machine sample_reader ''m1'' = Inr m \<and> ClusterTalosVersion (Spec m) = ''v1.13.7'' \<and>
     requests w' = qs @ [wipe_request wsc_opts ''m1''] @ rest"
proof -
  obtain w' where r: "reconcile_all (\<lambda>e. False) (wsc_transform wsc_opts) [(ok_env True 1, wsc_rd1,
      m1)] (NewWipeStatus ''m1'') empty_world = (m1_wiped, w')"
    using sample_wiped by blast
  obtain resp where s: "ServeHTTP sample_url (\<lambda>p. Inr []) sample_reader True sample_handler sample_boot_request [] =
    (resp, [FactoryCall False ''v1.13.7'' ''amd64'' [] [''talos.config=c'', ''console=tty0'', ''console=ttyS0'']], [''m1''])"
    using sample_decision by blast
  have u: "br_query sample_boot_request ''uuid'' = ''m1''" by (simp add: sample_boot_request_def)
  have "\<forall>(env, rd, m0) \<in> set [(ok_env True 1, wsc_rd1, m1)]. ID m0 = br_query sample_boot_request ''uuid''"
    "rd_wipe_status sample_reader (br_query sample_boot_request ''uuid'') = Inr m1_wiped"
    by (simp_all add: u m1_def new_resource_def sample_reader_def reader_of_def found_def)
  from talos_boot_after_wipe[OF r this s, unfolded list.set, OF insertI1] show ?thesis using r unfolding u by metis
qed

section \<open>All controllers together\<close>

text \<open>
  A run of the samples' machine: Omni accepts it, its agent connects, its BMC is taken over, its disks are wiped. The cache
  knows the resources of one machine only.
\<close>

definition only_of :: "resource_id \<Rightarrow> reader \<Rightarrow> reader" where
  "only_of i rd =
      \<lparr>rd_infra_machine = (\<lambda>j. if j = i then rd_infra_machine rd j else Inl (NotFoundErr [])),
       rd_bmc_configuration = (\<lambda>j. if j = i then rd_bmc_configuration rd j else Inl (NotFoundErr [])),
       rd_machine_status = (\<lambda>j. if j = i then rd_machine_status rd j else Inl (NotFoundErr [])),
       rd_wipe_status = (\<lambda>j. if j = i then rd_wipe_status rd j else Inl (NotFoundErr [])),
       rd_reboot_status = (\<lambda>j. if j = i then rd_reboot_status rd j else Inl (NotFoundErr [])),
       rd_power_operation = (\<lambda>j. if j = i then rd_power_operation rd j else Inl (NotFoundErr [])),
       rd_bmc_config = (\<lambda>j. if j = i then rd_bmc_config rd j else Inl (NotFoundErr []))\<rparr>"

definition sample_cache :: "infra_machine \<Rightarrow> reader" where
  "sample_cache m = only_of ''m1'' (reader_of (Some m) None (Some m1_connected) None None None None)"

definition discovered_store :: "infra_machine \<Rightarrow> store" where
  "discovered_store m = empty_store\<lparr>so_machines := [''m1'' \<mapsto> m], so_bmc_configs := Map.empty\<rparr>"

definition discovered :: "infra_machine \<Rightarrow> system" where
  "discovered m = advance (advance (initial empty_world) (discovered_store m) empty_world)
     ((discovered_store m)\<lparr>so_ms := [''m1'' \<mapsto> m1_connected]\<rparr>) empty_world"

lemma discovered_run:
  assumes "ID m = ''m1''"
  shows "system_run sample_controllers sample_env (initial empty_world) (discovered m)"
proof -
  let ?s = "advance (initial empty_world) (discovered_store m) empty_world"
  have keyed: "ID x = i" if "[''m1'' \<mapsto> m] i = Some x" for i x using that assms by (simp split: if_splits)
  have "system_step sample_controllers sample_env (initial empty_world) ?s"
    using system_step.omni[of "[''m1'' \<mapsto> m]", of sample_controllers sample_env "initial empty_world" Map.empty, OF keyed]
    by (simp add: discovered_store_def)
  moreover have "system_step sample_controllers sample_env ?s (discovered m)"
    unfolding discovered_def
  proof (rule system_step.status[where sy = ?s and w' = empty_world and ck = "\<lambda>qs. 1", simplified])
    show "event_reads ?s (AgentConnection \<lparr>ev_MachineID = ''m1'', ev_Connected = True\<rparr>)" by simp
    show "ms_step (ct_redfish sample_controllers) (sample_env\<lparr>clock := \<lambda>qs. 1\<rparr>)
        (AgentConnection \<lparr>ev_MachineID = ''m1'', ev_Connected = True\<rparr>)
      (so_ms (discovered_store m)) empty_world = ((None, [''m1'' \<mapsto> m1_connected]), empty_world)"
      by (simp add: discovered_store_def ms_step_def handleAgentConnectionEvent_def WriterModify_def empty_store_def sample_env_def
          ok_env_def m1_connected_def NewMachineStatus_def new_resource_def Let_def)
  qed
  ultimately show ?thesis by (meson r_into_rtranclp rtranclp.rtrancl_into_rtrancl)
qed

lemma discovered_reads: "reads (discovered m) (sample_cache m)" "was (discovered m) so_machines ''m1'' m"
  by (auto simp: reads_def was_def seen_def discovered_def discovered_store_def advance_def sample_cache_def only_of_def found_def
      split: if_splits)

lemma sample_configured:
  "\<exists>w'. bcc_transform bcc_h1 (sample_env\<lparr>clock := ck\<rparr>) (sample_cache m1) m1
      (NewBMCConfiguration ''m1'') empty_world = ((None, m1_api), w')"
  by (simp add: bcc_transform_def sample_env_def sample_cache_def only_of_def found_def sample_defs m1_connected_def NewMachineStatus_def
      validateInfraMachine_def NewBMCConfiguration_def alreadyInitialized_def agent_GetPowerManagement_def ask_pm_def bcc_from_agent_def
      hasNoBMC_def bcc_h1_def ensurePowerManagementOnAgent_def agent_SetPowerManagement_def act_def Let_def get_or_nil_def)

lemma sample_wiped_now:
  "\<exists>w'. wsc_transform wsc_opts (sample_env\<lparr>clock := ck\<rparr>) (sample_cache m1) m1
      (NewWipeStatus ''m1'') w = ((None, m1_wiped), w')"
  by (simp add: wsc_transform_def sample_env_def sample_cache_def only_of_def found_def sample_defs m1_connected_def NewMachineStatus_def
      validateInfraMachine_def NewWipeStatus_def RequiresWipe_def agent_WipeDisks_def act_def Let_def get_or_nil_def)

lemma sample_system:
  "\<exists>sy. system_run sample_controllers sample_env (initial empty_world) sy \<and> reads sy (only_of ''m1'' sample_reader)"
proof -
  let ?d = "discovered m1" and ?e = "sample_env\<lparr>clock := \<lambda>qs. 1\<rparr>"
  have id: "ID m1 = ''m1''" by (simp add: m1_def new_resource_def)
  obtain w1 where w1: "bcc_transform bcc_h1 ?e (sample_cache m1) m1 (NewBMCConfiguration ''m1'') empty_world = ((None, m1_api), w1)"
    using sample_configured by blast
  define sy1 where "sy1 = advance ?d ((sy_now ?d)\<lparr>so_bmc := [''m1'' \<mapsto> m1_api]\<rparr>) w1"
  have 1: "system_step sample_controllers sample_env ?d sy1"
    unfolding sy1_def
    by (rule system_step.configure[where ck = "\<lambda>qs. 1", OF discovered_reads])
       (use w1 in \<open>simp add: reconcile_into_def id sample_controllers_def discovered_def discovered_store_def empty_store_def\<close>)
  have r1: "reads sy1 (sample_cache m1)" "was sy1 so_machines ''m1'' m1"
    using discovered_reads by (auto simp: sy1_def reads_def)
  obtain w2 where w2: "wsc_transform wsc_opts ?e (sample_cache m1) m1 (NewWipeStatus ''m1'') w1 = ((None, m1_wiped), w2)"
    using sample_wiped_now by blast
  define sy2 where "sy2 = advance sy1 ((sy_now sy1)\<lparr>so_ws := [''m1'' \<mapsto> m1_wiped]\<rparr>) w2"
  have 2: "system_step sample_controllers sample_env sy1 sy2"
    unfolding sy2_def
    by (rule system_step.wipe[where ck = "\<lambda>qs. 1", OF r1])
       (use w2 in \<open>simp add: reconcile_into_def id sample_controllers_def sy1_def discovered_def
           discovered_store_def empty_store_def\<close>)
  have "reads sy2 (only_of ''m1'' sample_reader)"
    using r1(2) by (auto simp: sy2_def sy1_def reads_def only_of_def sample_reader_def found_def split: if_splits)
  then show ?thesis using discovered_run[OF id] 1 2 by (meson rtranclp.rtrancl_into_rtrancl)
qed

text \<open>
  C1. No machine boots Talos over the network with another tenant's data on its disks, whatever the controllers, Omni and the
  boot requests are interleaved to. In every run of the whole system, in which caches may be stale and resources may go away and
  come back, whenever the boot handler asks the image factory for a Talos image, a wipe request was sent to the agent of this very
  machine and confirmed, for a version of the machine with the wipe ID it has now, that Omni had accepted, while the agent was
  reachable. The machine is not cordoned, pending, rejected or being torn down, and gets the Talos version and the extensions of
  its cluster.
\<close>

theorem system_talos_after_wipe:
  assumes "system_run c env (initial w0) sy" and "reads sy reader"
    and "ServeHTTP url readFile reader writeOk handler req channel = (resp, calls, channel')"
    and "FactoryCall False v a ext k \<in> set calls"
  shows "\<exists>m b. was sy so_machines (br_query req ''uuid'') m \<and> was sy so_bmc (br_query req ''uuid'') b \<and>
    rd_infra_machine reader (br_query req ''uuid'') = Inr m \<and> \<not> Cordoned (Spec m) \<and>
    AcceptanceStatus (Spec m) \<noteq> PENDING \<and> AcceptanceStatus (Spec m) \<noteq> REJECTED \<and>
        Phase m \<noteq> PhaseTearingDown \<and>
    v = ClusterTalosVersion (Spec m) \<and> v \<noteq> [] \<and> ext = Extensions (Spec m) \<and>
    wipe_confirmed (ct_agent c) env sy (br_query req ''uuid'') (WipeId (Spec m))"
  using ServeHTTP_talos_call[OF assms(3,4)] assms(2) clean_confirmed_run[OF assms(1)]
  unfolding reads_def clean_confirmed_def by metis

lemma sample_served:
  "\<exists>resp. ServeHTTP sample_url (\<lambda>p. Inr []) (only_of ''m1'' sample_reader) True sample_handler sample_boot_request [] =
    (resp, [FactoryCall False ''v1.13.7'' ''amd64'' [] [''talos.config=c'', ''console=tty0'', ''console=ttyS0'']], [''m1''])"
  by (simp add: ServeHTTP_def bootScriptName_def initScriptName_def makeBootDecision_def RequiredBootMode_def Let_def
      IsInstalled_def RequiresWipe_def boot_talos_def consoleKernelArgs_def buildarch_def archArm64_def archAmd64_def
      sample_defs decision_def StatusOK_def send_event_def pxeBootEventChBuffer_def sample_url_def sample_handler_def
      sample_reader_def sample_boot_request_def only_of_def)

theorem system_talos_after_wipe_witness:
  "\<exists>sy m. system_run sample_controllers sample_env (initial empty_world) sy \<and> was sy so_machines ''m1'' m \<and>
     ClusterTalosVersion (Spec m) = ''v1.13.7'' \<and> wipe_confirmed wsc_opts sample_env sy ''m1'' (WipeId (Spec m))"
proof -
  obtain sy where sy: "system_run sample_controllers sample_env (initial empty_world) sy" "reads sy (only_of ''m1'' sample_reader)"
    using sample_system by blast
  obtain resp where s: "ServeHTTP sample_url (\<lambda>p. Inr []) (only_of ''m1'' sample_reader) True sample_handler
      sample_boot_request [] =
    (resp, [FactoryCall False ''v1.13.7'' ''amd64'' [] [''talos.config=c'', ''console=tty0'', ''console=ttyS0'']], [''m1''])"
    using sample_served by blast
  have u: "br_query sample_boot_request ''uuid'' = ''m1''" by (simp add: sample_boot_request_def)
  have c: "ct_agent sample_controllers = wsc_opts" by (simp add: sample_controllers_def)
  from system_talos_after_wipe[OF sy s, unfolded list.set, OF insertI1, unfolded u c] show ?thesis using sy(1) by metis
qed

text \<open>
  C2. Machines are left alone until the operator accepts them. In every run of the whole system, as long as no version of a
  machine was accepted, no agent request that acts on it was sent, every resource the controllers keep of it is as it is created,
  whatever was read from stale caches meanwhile, and its BMC configuration gives no client, so no BMC command either. Only its
  machine status, which is what is seen of it, is not constrained.
\<close>

theorem untouched_until_accepted:
  assumes "system_run c env (initial w0) sy" and "requests w0 = []" and "never_accepted sy i"
  shows "unasked (sy_world sy) i \<and> fresh_resources c sy i \<and>
    (\<forall>b \<in> {b. was sy so_bmc i b}. \<forall>opts e w. GetClient opts e (Some b) w =
       (Inl (Plain ''invalid BMC config: IPMI, API and manual fields are all nil''), w))"
  using untouched_run[OF assms] fresh_no_client by blast

definition m1_pending :: infra_machine where
  "m1_pending = m1\<lparr>Spec := (Spec m1)\<lparr>AcceptanceStatus := PENDING\<rparr>\<rparr>"

theorem untouched_until_accepted_witness:
  "\<exists>sy. system_run sample_controllers sample_env (initial empty_world) sy \<and> was sy so_machines ''m1'' m1_pending \<and>
     was sy so_ms ''m1'' m1_connected \<and> so_ws (sy_now sy) ''m1'' = Some (NewWipeStatus ''m1'') \<and> unasked (sy_world sy) ''m1''"
proof -
  let ?d = "discovered m1_pending" and ?e = "sample_env\<lparr>clock := \<lambda>qs. 1\<rparr>"
  define sy where "sy = advance ?d ((sy_now ?d)\<lparr>so_ws := [''m1'' \<mapsto> NewWipeStatus ''m1'']\<rparr>) empty_world"
  have id: "ID m1_pending = ''m1''" by (simp add: m1_pending_def m1_def new_resource_def)
  have "reconcile_into (ct_stores sample_controllers) (wsc_transform (ct_agent sample_controllers)) NewWipeStatus ?e
      (sample_cache m1_pending) m1_pending (so_ws (sy_now ?d)) (sy_world ?d) = ([''m1'' \<mapsto> NewWipeStatus ''m1''], empty_world)"
    by (simp add: reconcile_into_def id sample_controllers_def discovered_def discovered_store_def empty_store_def wsc_transform_def
        sample_cache_def only_of_def found_def get_or_nil_def m1_pending_def m1_def m1_spec_def new_resource_def validateInfraMachine_def)
  then have "system_step sample_controllers sample_env ?d sy"
    unfolding sy_def by (rule system_step.wipe[where ck = "\<lambda>qs. 1", OF discovered_reads])
  with discovered_run[OF id] have run: "system_run sample_controllers sample_env (initial empty_world) sy"
    by (rule rtranclp.rtrancl_into_rtrancl)
  have "never_accepted sy ''m1''"
    by (auto simp: never_accepted_def sy_def discovered_def discovered_store_def empty_store_def m1_pending_def m1_def m1_spec_def
        new_resource_def)
  from untouched_until_accepted[OF run _ this] show ?thesis
    using run discovered_reads[of m1_pending]
    by (intro exI[of _ sy]) (auto simp: empty_world_def sy_def reads_def sample_cache_def only_of_def found_def)
qed

end
